(* ===== verification/Sdp_Prelude.thy ===== *)
theory Sdp_Prelude
  imports Main "HOL-Library.Word"
begin

text \<open>
  What every component shares: the machine integer types of the crate, Rust's \<open>Result\<close> as a sum
  (\<open>Inl\<close> for \<open>Err\<close>, \<open>Inr\<close> for \<open>Ok\<close>) with the operator \<open>?\<close>, the standard library's checked
  narrowing conversions and big-endian byte conversions, \<open>Iterator::find_map\<close>, \<open>Iterator::collect\<close>
  into a \<open>Result\<close>, \<open>slice::chunks_exact(2)\<close> and the decimal formatting of a \<open>usize\<close>.
  A \<open>usize\<close> is a \<open>nat\<close>: the lengths it holds here are lengths of buffers in memory.
\<close>

unbundle bit_operations_syntax

section \<open>Types\<close>

type_synonym u8 = "8 word"
type_synonym u16 = "16 word"
type_synonym u32 = "32 word"
type_synonym u128 = "128 word"
type_synonym bytes = "u8 list"

text \<open>A parser in the style of nom: the remaining input and a value, or an error.\<close>

type_synonym ('e, 'a) iresult = "'e + bytes \<times> 'a"
type_synonym ('e, 'a) parser = "bytes \<Rightarrow> ('e, 'a) iresult"

text \<open>Rules that decide framing questions: which bytes a parser takes and which it leaves.\<close>

named_theorems framing_simps

section \<open>Results\<close>

fun propagate :: "'e + 'a \<Rightarrow> ('a \<Rightarrow> 'e + 'b) \<Rightarrow> 'e + 'b" where
  "propagate (Inl e) f = Inl e"
| "propagate (Inr a) f = f a"

fun map_err :: "('e \<Rightarrow> 'f) \<Rightarrow> 'e + 'a \<Rightarrow> 'f + 'a" where
  "map_err g (Inl e) = Inl (g e)"
| "map_err g (Inr a) = Inr a"

lemma propagate_Inr_iff: "propagate m f = Inr b \<longleftrightarrow> (\<exists>a. m = Inr a \<and> f a = Inr b)"
  by (cases m) auto

lemma propagate_Inl_iff:
  "propagate m f = Inl e \<longleftrightarrow> m = Inl e \<or> (\<exists>a. m = Inr a \<and> f a = Inl e)"
  by (cases m) auto

lemma map_err_Inr_iff [simp]: "map_err g m = Inr a \<longleftrightarrow> m = Inr a"
  by (cases m) auto

lemma map_err_Inl_iff: "map_err g m = Inl e \<longleftrightarrow> (\<exists>d. m = Inl d \<and> e = g d)"
  by (cases m) auto

lemma isl_propagate: "isl (propagate m f) \<longleftrightarrow> isl m \<or> (\<exists>a. m = Inr a \<and> isl (f a))"
  by (cases m) auto

lemma isl_map_err [simp]: "isl (map_err g m) = isl m"
  by (cases m) auto

lemma not_isl_iff: "\<not> isl m \<longleftrightarrow> (\<exists>a. m = Inr a)"
  by (cases m) auto

lemma isl_iff: "isl m \<longleftrightarrow> (\<exists>e. m = Inl e)"
  by (cases m) auto

section \<open>Iterators\<close>

fun find_map :: "('a \<Rightarrow> 'b option) \<Rightarrow> 'a list \<Rightarrow> 'b option" where
  "find_map f [] = None"
| "find_map f (x # xs) = (case f x of None \<Rightarrow> find_map f xs | Some y \<Rightarrow> Some y)"

lemma find_map_None_iff: "find_map f xs = None \<longleftrightarrow> (\<forall>x \<in> set xs. f x = None)"
  by (induction xs) (auto split: option.splits)

lemma find_map_append:
  "find_map f (xs @ ys) = (case find_map f xs of None \<Rightarrow> find_map f ys | Some y \<Rightarrow> Some y)"
  by (induction xs) (auto split: option.splits)

lemma find_map_Some_iff:
  "find_map f xs = Some y \<longleftrightarrow>
     (\<exists>i < length xs. f (xs ! i) = Some y \<and> (\<forall>j < i. f (xs ! j) = None))"
proof (induction xs)
  case Nil
  then show ?case by simp
next
  case (Cons x xs)
  show ?case
  proof (cases "f x")
    case None
    with Cons show ?thesis
      by (simp add: Ex_less_Suc2 All_less_Suc2)
  next
    case (Some z)
    then show ?thesis
      by (auto simp: Ex_less_Suc2 All_less_Suc2)
  qed
qed

fun collect_results :: "('e + 'a) list \<Rightarrow> 'e + 'a list" where
  "collect_results [] = Inr []"
| "collect_results (r # rs) =
     propagate r (\<lambda>x. propagate (collect_results rs) (\<lambda>xs. Inr (x # xs)))"

lemma collect_results_Inr_iff: "collect_results rs = Inr xs \<longleftrightarrow> rs = map Inr xs"
  by (induction rs arbitrary: xs) (auto simp: propagate_Inr_iff Cons_eq_map_conv)

lemma isl_collect_results: "isl (collect_results rs) \<longleftrightarrow> (\<exists>r \<in> set rs. isl r)"
proof (induction rs)
  case (Cons r rs)
  then show ?case
    by (cases r) (auto simp: isl_propagate)
qed simp

fun chunks_exact2 :: "'a list \<Rightarrow> ('a \<times> 'a) list" where
  "chunks_exact2 (x # y # zs) = (x, y) # chunks_exact2 zs"
| "chunks_exact2 zs = []"

lemma chunks_exact2_concat: "chunks_exact2 (concat (map (\<lambda>(x, y). [x, y]) ps)) = ps"
  by (induction ps) auto

lemma concat_chunks_exact2:
  "even (length zs) \<Longrightarrow> concat (map (\<lambda>(x, y). [x, y]) (chunks_exact2 zs)) = zs"
  by (induction zs rule: chunks_exact2.induct) auto

lemma map_eq_map_Inr:
  assumes "\<And>x y. f x = Inr y \<longleftrightarrow> x = g y"
  shows "map f xs = map Inr ys \<longleftrightarrow> xs = map g ys"
  using assms by (induction xs arbitrary: ys) (auto simp: Cons_eq_map_conv)

section \<open>Conversions between widths\<close>

definition u8_try_from_usize :: "nat \<Rightarrow> u8 option" where
  "u8_try_from_usize n = (if n < 2 ^ 8 then Some (of_nat n) else None)"

definition u16_try_from_usize :: "nat \<Rightarrow> u16 option" where
  "u16_try_from_usize n = (if n < 2 ^ 16 then Some (of_nat n) else None)"

definition u8_try_from_u128 :: "u128 \<Rightarrow> u8 option" where
  "u8_try_from_u128 v = (if unat v < 2 ^ 8 then Some (ucast v) else None)"

definition u16_try_from_u128 :: "u128 \<Rightarrow> u16 option" where
  "u16_try_from_u128 v = (if unat v < 2 ^ 16 then Some (ucast v) else None)"

definition u16_from_be_bytes :: "u8 \<Rightarrow> u8 \<Rightarrow> u16" where
  "u16_from_be_bytes hi lo = push_bit 8 (ucast hi) OR ucast lo"

definition u32_from_be_bytes :: "u8 \<Rightarrow> u8 \<Rightarrow> u8 \<Rightarrow> u8 \<Rightarrow> u32" where
  "u32_from_be_bytes a b c d =
     push_bit 24 (ucast a) OR push_bit 16 (ucast b) OR push_bit 8 (ucast c) OR ucast d"

definition u16_to_be_bytes :: "u16 \<Rightarrow> bytes" where
  "u16_to_be_bytes w = [ucast (drop_bit 8 w), ucast w]"

definition u32_to_be_bytes :: "u32 \<Rightarrow> bytes" where
  "u32_to_be_bytes w =
     [ucast (drop_bit 24 w), ucast (drop_bit 16 w), ucast (drop_bit 8 w), ucast w]"

lemma bit_u8_beyond: "8 \<le> m \<Longrightarrow> bit (b :: u8) m \<longleftrightarrow> False"
  using bit_imp_le_length [of b m] by auto

lemma length_u16_to_be_bytes [simp]: "length (u16_to_be_bytes w) = 2"
  by (simp add: u16_to_be_bytes_def)

lemma length_u32_to_be_bytes [simp]: "length (u32_to_be_bytes w) = 4"
  by (simp add: u32_to_be_bytes_def)

lemma u16_from_to_be [simp]: "u16_from_be_bytes (ucast (drop_bit 8 w)) (ucast w) = w"
  unfolding u16_from_be_bytes_def
  by (rule bit_word_eqI)
    (auto simp: bit_simps)

lemma u32_from_to_be [simp]:
  "u32_from_be_bytes (ucast (drop_bit 24 (w :: u32))) (ucast (drop_bit 16 w)) (ucast (drop_bit 8 w))
     (ucast w) = w"
  unfolding u32_from_be_bytes_def
proof (rule bit_word_eqI)
  fix n :: nat
  assume "n < LENGTH(32)"
  then consider "n < 8" | "8 \<le> n" "n < 16" | "16 \<le> n" "n < 24" | "24 \<le> n" "n < 32"
    by fastforce
  then show "bit (push_bit 24 (ucast (ucast (drop_bit 24 (w :: u32)) :: u8)) OR
      push_bit 16 (ucast (ucast (drop_bit 16 w) :: u8)) OR
      push_bit 8 (ucast (ucast (drop_bit 8 w) :: u8)) OR ucast (ucast w :: u8) :: u32) n = bit w n"
    by cases (auto simp: bit_simps)
qed

lemma u16_to_from_be [simp]: "u16_to_be_bytes (u16_from_be_bytes a b) = [a, b]"
  unfolding u16_to_be_bytes_def u16_from_be_bytes_def
  by (auto intro!: bit_word_eqI simp: bit_simps bit_u8_beyond)

lemma u32_to_from_be [simp]: "u32_to_be_bytes (u32_from_be_bytes a b c d) = [a, b, c, d]"
  unfolding u32_to_be_bytes_def u32_from_be_bytes_def
  by (auto intro!: bit_word_eqI simp: bit_simps bit_u8_beyond)

lemma u16_to_be_bytes_inj [simp]: "u16_to_be_bytes v = u16_to_be_bytes w \<longleftrightarrow> v = w"
proof
  assume "u16_to_be_bytes v = u16_to_be_bytes w"
  then have "u16_from_be_bytes (hd (u16_to_be_bytes v)) (last (u16_to_be_bytes v)) =
      u16_from_be_bytes (hd (u16_to_be_bytes w)) (last (u16_to_be_bytes w))"
    by simp
  then show "v = w"
    by (simp add: u16_to_be_bytes_def)
qed simp

lemma u16_to_be_bytes_append [simp]:
  "u16_to_be_bytes v @ xs = u16_to_be_bytes w @ ys \<longleftrightarrow> v = w \<and> xs = ys"
  by (simp add: append_eq_append_conv)

lemma u16_to_be_bytes_append_Nil [simp]:
  "u16_to_be_bytes v = u16_to_be_bytes w @ ys \<longleftrightarrow> v = w \<and> ys = []"
  using u16_to_be_bytes_append [of v "[]" w ys] by auto

lemma u32_to_be_bytes_inj [simp]: "u32_to_be_bytes v = u32_to_be_bytes w \<longleftrightarrow> v = w"
proof
  assume "u32_to_be_bytes v = u32_to_be_bytes w"
  then have "u32_from_be_bytes (u32_to_be_bytes v ! 0) (u32_to_be_bytes v ! 1)
        (u32_to_be_bytes v ! 2) (u32_to_be_bytes v ! 3) =
      u32_from_be_bytes (u32_to_be_bytes w ! 0) (u32_to_be_bytes w ! 1)
        (u32_to_be_bytes w ! 2) (u32_to_be_bytes w ! 3)"
    by simp
  then show "v = w"
    by (simp add: u32_to_be_bytes_def)
qed simp

lemma u32_to_be_bytes_append [simp]:
  "u32_to_be_bytes v @ xs = u32_to_be_bytes w @ ys \<longleftrightarrow> v = w \<and> xs = ys"
  by (simp add: append_eq_append_conv)

lemma u32_to_be_bytes_append_Nil [simp]:
  "u32_to_be_bytes v = u32_to_be_bytes w @ ys \<longleftrightarrow> v = w \<and> ys = []"
  using u32_to_be_bytes_append [of v "[]" w ys] by auto

text \<open>
  The checks in the form in which they are evaluated: with words and integers compared as
  binary numbers, where a \<open>nat\<close> would be counted in unary.
\<close>

lemma u16_try_from_u128_code [code]:
  "u16_try_from_u128 v = (if v < 65536 then Some (ucast v) else None)"
  by (simp add: u16_try_from_u128_def word_less_nat_alt)

lemma u8_try_from_u128_code [code]:
  "u8_try_from_u128 v = (if v < 256 then Some (ucast v) else None)"
  by (simp add: u8_try_from_u128_def word_less_nat_alt)

lemma u16_try_from_usize_code [code]:
  "u16_try_from_usize n = (if int n < 65536 then Some (of_nat n) else None)"
  by (simp add: u16_try_from_usize_def)

lemma u8_try_from_usize_code [code]:
  "u8_try_from_usize n = (if int n < 256 then Some (of_nat n) else None)"
  by (simp add: u8_try_from_usize_def)

text \<open>The number that bytes denote, most significant first.\<close>

definition be_value :: "bytes \<Rightarrow> nat" where
  "be_value bs = foldl (\<lambda>v b. 256 * v + unat b) 0 bs"

lemma or_as_plus:
  fixes a b :: "'a::len word"
  assumes "\<And>n. bit a n \<Longrightarrow> \<not> bit b n"
  shows "a OR b = a + b"
  using assms by (subst disjunctive_add) auto

lemma unat_u8_less: "unat (b :: u8) < 256"
  using unsigned_less [where w = b, where ?'a = nat] by simp

lemma unat_u16_less: "unat (w :: u16) < 65536"
  using unsigned_less [where w = w, where ?'a = nat] by simp

lemma unat_u32_less: "unat (w :: u32) < 4294967296"
  using unsigned_less [where w = w, where ?'a = nat] by simp

lemma unat_ucast_u16_u128 [simp]: "unat (ucast (i :: u16) :: u128) = unat i"
  using order.strict_trans [OF unat_u16_less [of i], of "2 ^ 128"]
  by (simp add: unsigned_ucast_eq take_bit_nat_eq_self)

lemma unat_ucast_u32_u128 [simp]: "unat (ucast (i :: u32) :: u128) = unat i"
  using order.strict_trans [OF unat_u32_less [of i], of "2 ^ 128"]
  by (simp add: unsigned_ucast_eq take_bit_nat_eq_self)

lemma unat_ucast_u8_u128 [simp]: "unat (ucast (i :: u8) :: u128) = unat i"
  using order.strict_trans [OF unat_u8_less [of i], of "2 ^ 128"]
  by (simp add: unsigned_ucast_eq take_bit_nat_eq_self)

lemma unat_ucast_u128_u16: "unat (w :: u128) < 2 ^ 16 \<Longrightarrow> unat (ucast w :: u16) = unat w"
  by (simp add: unsigned_ucast_eq take_bit_nat_eq_self)

lemma unat_ucast_u128_u8: "unat (w :: u128) < 2 ^ 8 \<Longrightarrow> unat (ucast w :: u8) = unat w"
  by (simp add: unsigned_ucast_eq take_bit_nat_eq_self)

lemma ucast_u16_u128: "unat (w :: u128) < 2 ^ 16 \<Longrightarrow> w = ucast (i :: u16) \<longleftrightarrow> ucast w = i"
  by (simp add: word_unat_eq_iff unat_ucast_u128_u16)

lemma ucast_u8_u128: "unat (w :: u128) < 2 ^ 8 \<Longrightarrow> w = ucast (i :: u8) \<longleftrightarrow> ucast w = i"
  by (simp add: word_unat_eq_iff unat_ucast_u128_u8)

lemma unat_of_nat_u16: "n < 2 ^ 16 \<Longrightarrow> unat (of_nat n :: u16) = n"
  by (simp add: unat_of_nat take_bit_nat_eq_self)

lemma unat_of_nat_u8: "n < 2 ^ 8 \<Longrightarrow> unat (of_nat n :: u8) = n"
  by (simp add: unat_of_nat take_bit_nat_eq_self)

lemma unat_u16_from_be: "unat (u16_from_be_bytes a b) = 256 * unat a + unat b"
proof -
  have "u16_from_be_bytes a b = push_bit 8 (ucast a) + ucast b"
    unfolding u16_from_be_bytes_def
    by (rule or_as_plus) (auto simp: bit_simps bit_u8_beyond)
  then show ?thesis
    using unat_u8_less [of a] unat_u8_less [of b]
    by (simp add: unat_word_ariths push_bit_eq_mult unsigned_ucast_eq take_bit_nat_eq_self)
qed

lemma unat_u32_from_be:
  "unat (u32_from_be_bytes a b c d) =
     256 * (256 * (256 * unat a + unat b) + unat c) + unat d"
proof -
  have 1: "push_bit 24 (ucast a :: u32) OR push_bit 16 (ucast b) =
      push_bit 24 (ucast a) + push_bit 16 (ucast b)"
    by (rule or_as_plus) (auto simp: bit_simps bit_u8_beyond)
  have 2: "(push_bit 24 (ucast a :: u32) OR push_bit 16 (ucast b)) OR push_bit 8 (ucast c) =
      (push_bit 24 (ucast a :: u32) OR push_bit 16 (ucast b)) + push_bit 8 (ucast c)"
    by (rule or_as_plus) (auto simp: bit_simps bit_u8_beyond)
  have 3: "u32_from_be_bytes a b c d =
      ((push_bit 24 (ucast a :: u32) OR push_bit 16 (ucast b)) OR push_bit 8 (ucast c)) + ucast d"
    unfolding u32_from_be_bytes_def
    by (subst or_as_plus [symmetric]) (auto simp: bit_simps bit_u8_beyond or.assoc)
  show ?thesis
    unfolding 3 unfolding 2 unfolding 1
    using unat_u8_less [of a] unat_u8_less [of b] unat_u8_less [of c] unat_u8_less [of d]
    by (simp add: unat_word_ariths push_bit_eq_mult unsigned_ucast_eq take_bit_nat_eq_self)
qed

lemma be_value_Cons2: "be_value [a, b] = unat (u16_from_be_bytes a b)"
  by (simp add: be_value_def unat_u16_from_be)

lemma be_value_Cons4: "be_value [a, b, c, d] = unat (u32_from_be_bytes a b c d)"
  by (simp add: be_value_def unat_u32_from_be)

lemma be_value_u16: "be_value (u16_to_be_bytes w) = unat w"
  by (simp add: u16_to_be_bytes_def be_value_Cons2)

lemma be_value_u32: "be_value (u32_to_be_bytes w) = unat w"
  by (simp add: u32_to_be_bytes_def be_value_Cons4)

lemma two_bytesE:
  assumes "length bs = 2"
  obtains w where "bs = u16_to_be_bytes w"
proof -
  from assms obtain a b where "bs = [a, b]"
    by (auto simp: numeral_2_eq_2 length_Suc_conv)
  then have "bs = u16_to_be_bytes (u16_from_be_bytes a b)"
    by simp
  then show thesis
    by (rule that)
qed

lemma four_bytesE:
  assumes "length bs = 4"
  obtains w where "bs = u32_to_be_bytes w"
proof -
  from assms obtain a b c d where "bs = [a, b, c, d]"
    by (auto simp: numeral_eq_Suc length_Suc_conv)
  then have "bs = u32_to_be_bytes (u32_from_be_bytes a b c d)"
    by simp
  then show thesis
    by (rule that)
qed

lemma one_byteE:
  assumes "length bs = 1"
  obtains w where "bs = [w]"
  using assms by (auto simp: length_Suc_conv)

lemma be_value_single: "be_value [b] = unat b"
  by (simp add: be_value_def)

text \<open>
  \<open>to_string\<close> of a \<open>usize\<close> or a \<open>u32\<close>: its decimal digits, most significant first.
\<close>

fun decimal :: "nat \<Rightarrow> string" where
  "decimal n =
     (if n < 10 then [char_of (48 + n)] else decimal (n div 10) @ [char_of (48 + n mod 10)])"

declare decimal.simps [simp del]

text \<open>A value read back from its decimal digits, to say that \<open>decimal\<close> loses nothing.\<close>

definition decimal_value :: "string \<Rightarrow> nat" where
  "decimal_value s = foldl (\<lambda>v c. 10 * v + (of_char c - 48)) 0 s"

lemma decimal_value_snoc: "decimal_value (s @ [c]) = 10 * decimal_value s + (of_char c - 48)"
  by (simp add: decimal_value_def)

lemma decimal_value_decimal [simp]: "decimal_value (decimal n) = n"
proof (induction n rule: decimal.induct)
  case (1 n)
  show ?case
  proof (cases "n < 10")
    case True
    then show ?thesis
      by (subst decimal.simps) (simp add: decimal_value_def of_char_of)
  next
    case False
    with "1.IH" have "decimal_value (decimal (n div 10)) = n div 10"
      by simp
    with False show ?thesis
      by (subst decimal.simps) (simp add: decimal_value_snoc of_char_of)
  qed
qed

end
