(* ===== verification/Nom_Interface.thy ===== *)
theory Nom_Interface
  imports Sdp_Prelude
begin

text \<open>
  The third-party crate \<^verbatim>\<open>nom\<close>, which the codec builds its parsers from, is a parameter of the
  model: the record \<open>nom_lib\<close> holds the functions of it that \<^verbatim>\<open>src/codec\<close> calls, and the locale
  \<open>nom_contract\<close> states what their documentation promises. The type variables stand for
  \<^verbatim>\<open>nom::Err<Error<&[u8]>>\<close> and for its bit-level counterpart \<^verbatim>\<open>nom::Err<Error<(&[u8], usize)>>\<close>;
  nothing in the crate looks inside an error.

  \<open>nom_model\<close> is one concrete library that keeps the contract. It is what witnesses evaluate.
\<close>

section \<open>The functions the codec calls\<close>

text \<open>The input of a bit-level parser: bytes, and an offset in bits into the first of them.\<close>

type_synonym bit_input = "bytes \<times> nat"
type_synonym ('b, 'a) bit_parser = "bit_input \<Rightarrow> 'b + bit_input \<times> 'a"

record ('e, 'b) nom_lib =
  nom_be_u8 :: "('e, u8) parser"
  nom_be_u16 :: "('e, u16) parser"
  nom_be_u32 :: "('e, u32) parser"
  nom_take :: "nat \<Rightarrow> ('e, bytes) parser"
  nom_take_bits :: "nat \<Rightarrow> ('b, u8) bit_parser"
  nom_pair :: "('b, u8) bit_parser \<Rightarrow> ('b, u8) bit_parser \<Rightarrow> ('b, u8 \<times> u8) bit_parser"
  nom_bits :: "('b, u8 \<times> u8) bit_parser \<Rightarrow> ('e, u8 \<times> u8) parser"
  nom_verify_error :: "bytes \<Rightarrow> 'e"

text \<open>
  \<open>nom_be_u8\<close>, \<open>nom_be_u16\<close>, \<open>nom_be_u32\<close> and \<open>nom_take\<close> are those of
  \<^verbatim>\<open>nom::number::complete\<close> and \<^verbatim>\<open>nom::bytes::complete\<close>; \<open>nom_take_bits\<close>, \<open>nom_pair\<close> and \<open>nom_bits\<close>
  are \<^verbatim>\<open>nom::bits::complete::take\<close>, \<^verbatim>\<open>nom::sequence::pair\<close> and \<^verbatim>\<open>nom::bits::bits\<close>;
  \<open>nom_verify_error input\<close> is \<^verbatim>\<open>Err::Error(Error::from_error_kind(input, ErrorKind::Verify))\<close>.
\<close>

section \<open>The documented behaviour\<close>

text \<open>
  The complete (not streaming) parsers: an integer parser takes its width from the front of the
  input, big-endian, and is an error on a shorter input; \<open>take n\<close> splits the input after \<open>n\<close>
  bytes, and is an error on a shorter input. At bit level, taking \<open>c\<close> bits that lie within the
  first byte returns them as a number and advances the offset, moving to the next byte at its
  end. \<open>pair\<close> runs one parser after the other, and \<open>bits\<close> runs a bit-level parser from offset 0
  and throws the rest of a partly read byte away.
\<close>

locale nom_contract =
  fixes N :: "('e, 'b) nom_lib"
  assumes be_u8_Cons: "nom_be_u8 N (b # bs) = Inr (bs, b)"
    and be_u8_Nil: "isl (nom_be_u8 N [])"
    and be_u16_Cons: "nom_be_u16 N (b # c # bs) = Inr (bs, u16_from_be_bytes b c)"
    and be_u16_short: "length bs < 2 \<Longrightarrow> isl (nom_be_u16 N bs)"
    and be_u32_Cons:
      "nom_be_u32 N (b # c # d # f # bs) = Inr (bs, u32_from_be_bytes b c d f)"
    and be_u32_short: "length bs < 4 \<Longrightarrow> isl (nom_be_u32 N bs)"
    and take_ok: "n \<le> length bs \<Longrightarrow> nom_take N n bs = Inr (drop n bs, take n bs)"
    and take_short: "length bs < n \<Longrightarrow> isl (nom_take N n bs)"
    and take_bits_Cons:
      "0 < k \<Longrightarrow> off + k \<le> 8 \<Longrightarrow>
       nom_take_bits N k (b # bs, off) =
         Inr (if off + k = 8 then (bs, 0) else (b # bs, off + k),
              drop_bit (8 - k) (push_bit off b))"
    and take_bits_Nil: "0 < k \<Longrightarrow> isl (nom_take_bits N k ([], off))"
    and pair_eq:
      "nom_pair N p q i =
         propagate (p i) (\<lambda>(i', x). propagate (q i') (\<lambda>(i'', y). Inr (i'', (x, y))))"
    and bits_ok:
      "bp (bs, 0) = Inr ((rest, off), xy) \<Longrightarrow> off < 8 \<Longrightarrow>
       nom_bits N bp bs = Inr (if off = 0 then rest else drop 1 rest, xy)"
    and bits_error: "isl (bp (bs, 0)) \<Longrightarrow> isl (nom_bits N bp bs)"
begin

lemma be_u8_Inr_iff: "nom_be_u8 N bs = Inr (rest, v) \<longleftrightarrow> bs = v # rest"
  using be_u8_Nil by (cases bs) (auto simp: be_u8_Cons)

lemma be_u16_Inr_iff: "nom_be_u16 N bs = Inr (rest, v) \<longleftrightarrow> bs = u16_to_be_bytes v @ rest"
proof
  assume ok: "nom_be_u16 N bs = Inr (rest, v)"
  with be_u16_short [of bs] have "2 \<le> length bs"
    by (cases "2 \<le> length bs") auto
  then obtain a b cs where "bs = a # b # cs"
    by (auto simp: numeral_2_eq_2 Suc_le_length_iff)
  with ok show "bs = u16_to_be_bytes v @ rest"
    by (auto simp: be_u16_Cons)
next
  assume "bs = u16_to_be_bytes v @ rest"
  then show "nom_be_u16 N bs = Inr (rest, v)"
    by (simp add: u16_to_be_bytes_def be_u16_Cons)
qed

lemma be_u32_Inr_iff: "nom_be_u32 N bs = Inr (rest, v) \<longleftrightarrow> bs = u32_to_be_bytes v @ rest"
proof
  assume ok: "nom_be_u32 N bs = Inr (rest, v)"
  with be_u32_short [of bs] have "4 \<le> length bs"
    by (cases "4 \<le> length bs") auto
  then obtain a b c d cs where "bs = a # b # c # d # cs"
    by (auto simp: numeral_eq_Suc Suc_le_length_iff)
  with ok show "bs = u32_to_be_bytes v @ rest"
    by (auto simp: be_u32_Cons)
next
  assume "bs = u32_to_be_bytes v @ rest"
  then show "nom_be_u32 N bs = Inr (rest, v)"
    by (simp add: u32_to_be_bytes_def be_u32_Cons)
qed

lemma take_Inr_iff:
  "nom_take N n bs = Inr (rest, body) \<longleftrightarrow> bs = body @ rest \<and> length body = n"
proof (cases "n \<le> length bs")
  case True
  then show ?thesis
    by (auto simp: take_ok)
next
  case False
  then have "isl (nom_take N n bs)"
    by (simp add: take_short)
  with False show ?thesis
    by (auto simp: isl_iff)
qed

text \<open>The same facts as rewrite rules, for running a parser forward over known bytes.\<close>

lemma be_u8_fwd [framing_simps]: "nom_be_u8 N (b # bs) = Inr (bs, b)"
  by (rule be_u8_Cons)

lemma be_u16_fwd [framing_simps]: "nom_be_u16 N (u16_to_be_bytes w @ bs) = Inr (bs, w)"
  by (simp add: be_u16_Inr_iff)

lemma be_u32_fwd [framing_simps]: "nom_be_u32 N (u32_to_be_bytes w @ bs) = Inr (bs, w)"
  by (simp add: be_u32_Inr_iff)

lemma take_fwd [framing_simps]:
  "n = length xs \<Longrightarrow> nom_take N n (xs @ bs) = Inr (bs, xs)"
  by (simp add: take_Inr_iff)

lemma isl_be_u8_iff: "isl (nom_be_u8 N bs) \<longleftrightarrow> bs = []"
  using be_u8_Nil by (cases bs) (auto simp: be_u8_Cons)

lemma isl_take_iff: "isl (nom_take N n bs) \<longleftrightarrow> length bs < n"
  using take_short [of bs n] take_ok [of n bs] by (cases "n \<le> length bs") auto

lemmas nom_Inr_iffs = be_u8_Inr_iff be_u16_Inr_iff be_u32_Inr_iff take_Inr_iff

end

section \<open>A library that keeps the contract\<close>

datatype nom_error = EofError bytes | VerifyError bytes
datatype nom_bit_error = EofBitError bit_input

fun be_u8_model :: "(nom_error, u8) parser" where
  "be_u8_model (b # bs) = Inr (bs, b)"
| "be_u8_model bs = Inl (EofError bs)"

fun be_u16_model :: "(nom_error, u16) parser" where
  "be_u16_model (b # c # bs) = Inr (bs, u16_from_be_bytes b c)"
| "be_u16_model bs = Inl (EofError bs)"

fun be_u32_model :: "(nom_error, u32) parser" where
  "be_u32_model (b # c # d # f # bs) = Inr (bs, u32_from_be_bytes b c d f)"
| "be_u32_model bs = Inl (EofError bs)"

definition take_model :: "nat \<Rightarrow> (nom_error, bytes) parser" where
  "take_model n bs = (if n \<le> length bs then Inr (drop n bs, take n bs) else Inl (EofError bs))"

fun take_bits_model :: "nat \<Rightarrow> (nom_bit_error, u8) bit_parser" where
  "take_bits_model c ([], off) = Inl (EofBitError ([], off))"
| "take_bits_model c (b # bs, off) =
     (if off + c \<le> 8
      then Inr (if off + c = 8 then (bs, 0) else (b # bs, off + c),
                drop_bit (8 - c) (push_bit off b))
      else Inl (EofBitError (b # bs, off)))"

definition pair_model ::
    "(nom_bit_error, u8) bit_parser \<Rightarrow> (nom_bit_error, u8) bit_parser
     \<Rightarrow> (nom_bit_error, u8 \<times> u8) bit_parser" where
  "pair_model p q i =
     propagate (p i) (\<lambda>(i', x). propagate (q i') (\<lambda>(i'', y). Inr (i'', (x, y))))"

definition bits_model :: "(nom_bit_error, u8 \<times> u8) bit_parser \<Rightarrow> (nom_error, u8 \<times> u8) parser" where
  "bits_model p bs =
     (case p (bs, 0) of
        Inl _ \<Rightarrow> Inl (EofError bs)
      | Inr ((rest, off), x) \<Rightarrow> Inr (if off = 0 then rest else drop 1 rest, x))"

definition nom_model :: "(nom_error, nom_bit_error) nom_lib" where
  "nom_model =
     \<lparr>nom_be_u8 = be_u8_model, nom_be_u16 = be_u16_model, nom_be_u32 = be_u32_model,
      nom_take = take_model, nom_take_bits = take_bits_model, nom_pair = pair_model,
      nom_bits = bits_model, nom_verify_error = VerifyError\<rparr>"

lemma be_u16_model_short: "length bs < 2 \<Longrightarrow> isl (be_u16_model bs)"
  by (cases bs rule: be_u16_model.cases) auto

lemma be_u32_model_short: "length bs < 4 \<Longrightarrow> isl (be_u32_model bs)"
  by (cases bs rule: be_u32_model.cases) auto

interpretation nom_std: nom_contract nom_model
  by unfold_locales
    (auto simp: nom_model_def take_model_def pair_model_def bits_model_def isl_iff
       be_u16_model_short [unfolded isl_iff] be_u32_model_short [unfolded isl_iff])

end
