(* ===== verification/Pdu_Header.thy ===== *)
theory Pdu_Header
  imports Nom_Interface
begin

text \<open>
  \<^verbatim>\<open>src/codec/pdu_header.rs\<close>: the five bytes every SDP PDU starts with.
\<close>

record PduHeader =
  pdu_id :: u8
  transaction_id :: u16
  parameter_length :: u16

definition pdu_header :: "('e, 'b) nom_lib \<Rightarrow> ('e, PduHeader) parser" where
  "pdu_header N input =
     propagate (nom_be_u8 N input) (\<lambda>(rest, ident).
     propagate (nom_be_u16 N rest) (\<lambda>(rest, tid).
     propagate (nom_be_u16 N rest) (\<lambda>(rest, len).
       Inr (rest, \<lparr>pdu_id = ident, transaction_id = tid, parameter_length = len\<rparr>))))"

text \<open>The bytes of a header.\<close>

definition header_bytes :: "PduHeader \<Rightarrow> bytes" where
  "header_bytes h =
     pdu_id h # u16_to_be_bytes (transaction_id h) @ u16_to_be_bytes (parameter_length h)"

lemma length_header_bytes [simp]: "length (header_bytes h) = 5"
  by (simp add: header_bytes_def)

context nom_contract
begin

lemma pdu_header_iff: "pdu_header N bs = Inr (rest, h) \<longleftrightarrow> bs = header_bytes h @ rest"
  by (cases h) (auto simp: pdu_header_def propagate_Inr_iff nom_Inr_iffs header_bytes_def)

lemma pdu_header_fwd [framing_simps]: "pdu_header N (header_bytes h @ bs) = Inr (bs, h)"
  by (simp add: pdu_header_iff)

lemma isl_pdu_header_iff: "isl (pdu_header N bs) \<longleftrightarrow> length bs < 5"
proof (cases "length bs < 5")
  case True
  then have "pdu_header N bs \<noteq> Inr (rest, h)" for rest h
    by (auto simp: pdu_header_iff)
  with True show ?thesis
    by (cases "pdu_header N bs") auto
next
  case False
  then obtain a b c d f rest where "bs = a # b # c # d # f # rest"
    by (auto simp: not_less numeral_eq_Suc Suc_le_length_iff)
  then have "bs = header_bytes \<lparr>pdu_id = a, transaction_id = u16_from_be_bytes b c,
      parameter_length = u16_from_be_bytes d f\<rparr> @ rest"
    by (simp add: header_bytes_def)
  then have "\<exists>h. pdu_header N bs = Inr (rest, h)"
    by (auto simp: pdu_header_iff)
  with False show ?thesis
    by auto
qed

end

end
