(* ===== verification/Descriptor.thy ===== *)
theory Descriptor
  imports Nom_Interface
begin

text \<open>
  \<^verbatim>\<open>src/codec/descriptor.rs\<close>: the descriptor byte of a data element, five bits of type and three
  bits of size index, and the sizing rule that the index selects.
\<close>

unbundle bit_operations_syntax

section \<open>Data and operations\<close>

datatype ElementSize = Fixed u8 | VarLen8 | VarLen16 | VarLen32

record Descriptor =
  element_type :: u8
  element_size :: ElementSize

definition resolve_size :: "u8 \<Rightarrow> u8 \<Rightarrow> ElementSize" where
  "resolve_size ty size_index =
     (if size_index = 0 then Fixed (if ty \<noteq> 0 then 1 else 0)
      else if size_index = 1 then Fixed 2
      else if size_index = 2 then Fixed 4
      else if size_index = 3 then Fixed 8
      else if size_index = 4 then Fixed 16
      else if size_index = 5 then VarLen8
      else if size_index = 6 then VarLen16
      else VarLen32)"

definition descriptor :: "('e, 'b) nom_lib \<Rightarrow> ('e, Descriptor) parser" where
  "descriptor N input =
     (let bit_parser = nom_pair N (nom_take_bits N 5) (nom_take_bits N 3) in
      propagate (nom_bits N bit_parser input) (\<lambda>(rest, (ty, size_index)).
        let size = resolve_size ty size_index in
        Inr (rest, \<lparr>element_type = ty, element_size = size\<rparr>)))"

section \<open>The descriptor byte of a type and an index\<close>

text \<open>What a sender writes: the type in the five high bits, the size index in the three low.\<close>

definition descriptor_byte :: "u8 \<Rightarrow> u8 \<Rightarrow> u8" where
  "descriptor_byte t i = push_bit 3 t OR i"

definition of_descriptor_byte :: "u8 \<Rightarrow> Descriptor" where
  "of_descriptor_byte b =
     \<lparr>element_type = drop_bit 3 b, element_size = resolve_size (drop_bit 3 b) (b AND 7)\<rparr>"

lemma u8_small_bits:
  assumes "b < 2 ^ k" "k < 8"
  shows "bit (b :: u8) n \<longleftrightarrow> bit b n \<and> n < k"
proof -
  have "take_bit k b = b"
    using less_mask_eq [of b k] assms by (simp add: take_bit_eq_mask)
  then have "bit b n \<longleftrightarrow> bit (take_bit k b) n"
    by simp
  then show ?thesis
    by (auto simp: bit_take_bit_iff)
qed

lemma low_three_bits: "drop_bit 5 (push_bit 5 b) = (b :: u8) AND 7"
proof -
  have "b AND 7 = take_bit 3 b"
    by (simp add: take_bit_eq_mask mask_numeral)
  then show ?thesis
    by (auto intro!: bit_word_eqI simp: bit_simps bit_u8_beyond)
qed

lemma and_7_eq: "(b :: u8) AND 7 = take_bit 3 b"
  by (simp add: take_bit_eq_mask mask_numeral)

lemma descriptor_byte_type:
  assumes "t < 32" "i < 8"
  shows "drop_bit 3 (descriptor_byte t i) = t"
proof (rule bit_word_eqI)
  fix n :: nat
  assume "n < LENGTH(8)"
  show "bit (drop_bit 3 (descriptor_byte t i)) n = bit t n"
    using u8_small_bits [of t 5 n] u8_small_bits [of i 3 "3 + n"] assms
    by (auto simp: descriptor_byte_def bit_simps)
qed

lemma descriptor_byte_index:
  assumes "i < 8"
  shows "descriptor_byte t i AND 7 = i"
proof (rule bit_word_eqI)
  fix n :: nat
  assume "n < LENGTH(8)"
  show "bit (descriptor_byte t i AND 7) n = bit i n"
    using u8_small_bits [of i 3 n] assms
    by (auto simp: descriptor_byte_def and_7_eq bit_simps)
qed

lemma descriptor_byte_split: "descriptor_byte (drop_bit 3 b) (b AND 7) = b"
  by (rule bit_word_eqI) (auto simp: descriptor_byte_def and_7_eq bit_simps)

lemma drop_bit_3_less: "drop_bit 3 (b :: u8) < 32"
proof -
  have "unat b < 256"
    using unsigned_less [where w = b, where ?'a = nat] by simp
  then show ?thesis
    by (simp add: word_less_nat_alt unat_div drop_bit_eq_div less_mult_imp_div_less)
qed

lemma and_7_less: "(b :: u8) AND 7 < 8"
  using take_bit_nat_less_exp [of 3 "unat b"]
  by (simp add: and_7_eq word_less_nat_alt unsigned_take_bit_eq)

lemma of_descriptor_byte:
  assumes "t < 32" "i < 8"
  shows "of_descriptor_byte (descriptor_byte t i) =
    \<lparr>element_type = t, element_size = resolve_size t i\<rparr>"
  using assms by (simp add: of_descriptor_byte_def descriptor_byte_type descriptor_byte_index)

section \<open>The parser reads exactly the descriptor byte\<close>

context nom_contract
begin

lemma descriptor_Cons [simp]: "descriptor N (b # bs) = Inr (bs, of_descriptor_byte b)"
proof -
  let ?p = "nom_pair N (nom_take_bits N 5) (nom_take_bits N 3)"
  have "?p (b # bs, 0) = Inr ((bs, 0), (drop_bit 3 b, drop_bit 5 (push_bit 5 b)))"
    by (simp add: pair_eq take_bits_Cons)
  then have "nom_bits N ?p (b # bs) = Inr (bs, (drop_bit 3 b, b AND 7))"
    by (simp add: bits_ok low_three_bits)
  then show ?thesis
    by (simp add: descriptor_def of_descriptor_byte_def)
qed

lemma descriptor_Nil: "isl (descriptor N [])"
proof -
  let ?p = "nom_pair N (nom_take_bits N 5) (nom_take_bits N 3)"
  have "isl (?p ([], 0))"
    by (simp add: pair_eq isl_propagate take_bits_Nil)
  then have "isl (nom_bits N ?p [])"
    by (rule bits_error)
  then show ?thesis
    by (simp add: descriptor_def isl_propagate)
qed

lemma descriptor_Inr_iff:
  "descriptor N bs = Inr (rest, d) \<longleftrightarrow> (\<exists>b. bs = b # rest \<and> d = of_descriptor_byte b)"
  using descriptor_Nil by (cases bs) auto

end

end
