(* ===== verification/Element_Correct.thy ===== *)
theory Element_Correct
  imports Element
begin

text \<open>
  The decoder of \<^verbatim>\<open>src/codec/element.rs\<close> against the wire format: it accepts exactly the
  elements of the format, always returns, satisfies the equations of the Rust text, and inverts
  an encoder.
\<close>

section \<open>Fuel\<close>

lemma data_element_step_mono:
  assumes "\<And>body s. sq body = Some s \<Longrightarrow> sq' body = Some s"
    and "data_element_step N sq input = Some r"
  shows "data_element_step N sq' input = Some r"
  using assms by (auto simp: data_element_step_def split: sum.splits prod.splits if_splits)

lemma sequence_step_mono:
  assumes "\<And>bs s. de bs = Some s \<Longrightarrow> de' bs = Some s"
    and "\<And>bs acc s. nx bs acc = Some s \<Longrightarrow> nx' bs acc = Some s"
    and "sequence_step de nx remaining elements = Some r"
  shows "sequence_step de' nx' remaining elements = Some r"
  using assms
  by (cases "de remaining") (auto simp: sequence_step_def split: sum.splits prod.splits if_splits)

lemma fuel_mono_Suc:
  "(\<forall>bs r. data_element_fuel N f bs = Some r \<longrightarrow> data_element_fuel N (Suc f) bs = Some r) \<and>
   (\<forall>bs acc r. sequence_contents_fuel N f bs acc = Some r \<longrightarrow>
      sequence_contents_fuel N (Suc f) bs acc = Some r)"
proof (induction f)
  case 0
  then show ?case by simp
next
  case (Suc f)
  then have de: "\<And>bs r. data_element_fuel N f bs = Some r \<Longrightarrow> data_element_fuel N (Suc f) bs = Some r"
    and sq: "\<And>bs acc r. sequence_contents_fuel N f bs acc = Some r \<Longrightarrow>
      sequence_contents_fuel N (Suc f) bs acc = Some r"
    by blast+
  have "data_element_fuel N (Suc (Suc f)) bs = Some r" if "data_element_fuel N (Suc f) bs = Some r"
    for bs r
  proof -
    from that have "data_element_step N (\<lambda>body. sequence_contents_fuel N f body []) bs = Some r"
      by (simp add: fuel_steps)
    from data_element_step_mono [OF _ this, of "\<lambda>body. sequence_contents_fuel N (Suc f) body []"] sq
    show ?thesis
      by (subst data_element_fuel.simps(2)) blast
  qed
  moreover have "sequence_contents_fuel N (Suc (Suc f)) bs acc = Some r"
    if "sequence_contents_fuel N (Suc f) bs acc = Some r" for bs acc r
  proof -
    from that have
      "sequence_step (data_element_fuel N f) (sequence_contents_fuel N f) bs acc = Some r"
      by (simp add: fuel_steps)
    from sequence_step_mono [OF _ _ this,
        of "data_element_fuel N (Suc f)" "sequence_contents_fuel N (Suc f)"] de sq
    show ?thesis
      by (subst sequence_contents_fuel.simps(2)) blast
  qed
  ultimately show ?case
    by blast
qed

lemma data_element_fuel_mono:
  "data_element_fuel N f bs = Some r \<Longrightarrow> f \<le> g \<Longrightarrow> data_element_fuel N g bs = Some r"
  by (rule dec_induct [of f g]) (use fuel_mono_Suc in blast)+

lemma sequence_contents_fuel_mono:
  "sequence_contents_fuel N f bs acc = Some r \<Longrightarrow> f \<le> g \<Longrightarrow>
   sequence_contents_fuel N g bs acc = Some r"
  by (rule dec_induct [of f g]) (use fuel_mono_Suc in blast)+

section \<open>What the decoder accepts is in the wire format\<close>

lemma element_wire_nonempty: "element_wire p e \<Longrightarrow> p \<noteq> []"
  by (cases rule: element_wire.cases) (auto dest: header_wire_nonempty)

context nom_contract
begin

lemma data_element_step_sound:
  assumes "\<And>body rest es. sq body = Some (Inr (rest, es)) \<Longrightarrow> elements_wire body es"
    and "data_element_step N sq input = Some (Inr (rest, e))"
  shows "\<exists>p. input = p @ rest \<and> element_wire p e"
proof -
  from assms(2) obtain desc body where fr: "element_frame N input = Inr (desc, rest, body)"
    by (auto simp: data_element_step_def propagate_Inr_iff split: sum.splits if_splits)
  then obtain h where input: "input = (h @ body) @ rest"
    and hw: "header_wire (element_type desc) (element_size desc) (length body) h"
    by (auto simp: element_frame_iff)
  have "element_wire (h @ body) e"
    using assms fr hw
    by (auto simp: data_element_step_def propagate_Inr_iff uint_value_iff uuid16_value_iff type_codes
        simp del: insert_iff intro: element_wire_elements_wire.intros split: if_splits)
  with input show ?thesis by blast
qed

lemma fuel_sound:
  "(\<forall>bs rest e. data_element_fuel N f bs = Some (Inr (rest, e)) \<longrightarrow>
      (\<exists>p. bs = p @ rest \<and> element_wire p e)) \<and>
   (\<forall>bs acc rest es. sequence_contents_fuel N f bs acc = Some (Inr (rest, es)) \<longrightarrow>
      rest = [] \<and> (\<exists>es'. es = acc @ es' \<and> elements_wire bs es'))"
proof (induction f)
  case 0
  then show ?case by simp
next
  case (Suc f)
  then have de: "\<And>bs rest e. data_element_fuel N f bs = Some (Inr (rest, e)) \<Longrightarrow>
      \<exists>p. bs = p @ rest \<and> element_wire p e"
    and sq: "\<And>bs acc rest es. sequence_contents_fuel N f bs acc = Some (Inr (rest, es)) \<Longrightarrow>
      rest = [] \<and> (\<exists>es'. es = acc @ es' \<and> elements_wire bs es')"
    by blast+
  have "\<exists>p. bs = p @ rest \<and> element_wire p e"
    if "data_element_fuel N (Suc f) bs = Some (Inr (rest, e))" for bs rest e
    using data_element_step_sound [of "\<lambda>body. sequence_contents_fuel N f body []" bs rest e]
      that sq by (fastforce simp: fuel_steps)
  moreover have "rest = [] \<and> (\<exists>es'. es = acc @ es' \<and> elements_wire bs es')"
    if step: "sequence_contents_fuel N (Suc f) bs acc = Some (Inr (rest, es))" for bs acc rest es
  proof (cases "bs = []")
    case True
    with step show ?thesis
      by (simp add: fuel_steps sequence_step_def nil_wire)
  next
    case False
    with step obtain rest' el where el: "data_element_fuel N f bs = Some (Inr (rest', el))"
      and loop: "sequence_contents_fuel N f rest' (acc @ [el]) = Some (Inr (rest, es))"
      by (auto simp: fuel_steps sequence_step_def split: option.splits sum.splits)
    from de [OF el] obtain p where "bs = p @ rest'" "element_wire p el" by blast
    moreover from sq [OF loop] obtain es' where
      "rest = []" "es = acc @ [el] @ es'" "elements_wire rest' es'" by auto
    ultimately show ?thesis
      by (auto intro: cons_wire)
  qed
  ultimately show ?case by blast
qed

section \<open>Every element of the wire format is accepted\<close>

lemma element_frame_header:
  assumes "header_wire t sz (length body) h"
  shows "element_frame N (h @ body @ rest) =
    Inr (\<lparr>element_type = t, element_size = sz\<rparr>, rest, body)"
  using assms by (simp add: element_frame_iff)

lemma fuel_complete:
  "element_wire p e \<Longrightarrow> 2 * length p + 1 \<le> f \<Longrightarrow>
   data_element_fuel N f (p @ rest) = Some (Inr (rest, e))"
  "elements_wire q es \<Longrightarrow> 2 * length q + 2 \<le> f \<Longrightarrow>
   sequence_contents_fuel N f q acc = Some (Inr ([], acc @ es))"
proof (induction arbitrary: f rest and f acc rule: element_wire_elements_wire.inducts)
  case (uint_wire sz body h)
  then obtain g where "f = Suc g" by (cases f) auto
  with uint_wire.hyps show ?case
    by (auto simp: fuel_steps data_element_step_def element_frame_header [OF uint_wire.hyps(1)]
        uint_value_iff propagate_Inr_iff type_codes)
next
  case (uuid16_wire h body)
  then obtain g where "f = Suc g" by (cases f) auto
  moreover from uuid16_wire.hyps have "header_wire 3 (Fixed 2) (length body) h"
    by simp
  ultimately show ?case using uuid16_wire.hyps
    by (auto simp: fuel_steps data_element_step_def element_frame_header uuid16_value_iff propagate_Inr_iff
        type_codes)
next
  case (sequence_wire sz body h es)
  then obtain g where g: "f = Suc g" by (cases f) auto
  have "2 * length body + 2 \<le> g"
    using sequence_wire.prems g header_wire_nonempty [OF sequence_wire.hyps(1)]
    by (cases h) auto
  from sequence_wire.IH [OF this] show ?case
    by (simp add: g fuel_steps data_element_step_def element_frame_header [OF sequence_wire.hyps(1)]
        type_codes)
next
  case (unknown_wire t sz body h)
  then obtain g where "f = Suc g" by (cases f) auto
  with unknown_wire.hyps show ?case
    by (auto simp: fuel_steps data_element_step_def element_frame_header [OF unknown_wire.hyps(1)]
        type_codes)
next
  case nil_wire
  then obtain g where "f = Suc g" by (cases f) auto
  then show ?case by (simp add: fuel_steps sequence_step_def)
next
  case (cons_wire p e q es)
  then obtain g where g: "f = Suc g" by (cases f) auto
  have "p \<noteq> []" using cons_wire.hyps(1) by (rule element_wire_nonempty)
  then have "0 < length p" by simp
  moreover from cons_wire.prems g have "2 * length p + 2 * length q + 1 \<le> g"
    by simp
  ultimately have "2 * length p + 1 \<le> g" "2 * length q + 2 \<le> g"
    by linarith+
  with cons_wire.IH \<open>p \<noteq> []\<close> show ?case
    by (simp add: g fuel_steps sequence_step_def)
qed

section \<open>The decoder always returns\<close>

lemma data_element_step_total:
  assumes "\<And>body. length body < length input \<Longrightarrow> sq body \<noteq> None"
  shows "data_element_step N sq input \<noteq> None"
proof (cases "element_frame N input")
  case (Inr a)
  obtain desc rest body where a: "a = (desc, rest, body)"
    by (cases a)
  with Inr obtain h where "input = h @ body @ rest" "h \<noteq> []"
    by (auto simp: element_frame_iff dest: header_wire_nonempty)
  then have "length body < length input"
    by (cases h) auto
  with assms show ?thesis
    by (auto simp: data_element_step_def Inr a)
qed (simp add: data_element_step_def)

lemma fuel_total:
  "(\<forall>bs. 2 * length bs + 1 \<le> f \<longrightarrow> data_element_fuel N f bs \<noteq> None) \<and>
   (\<forall>bs acc. 2 * length bs + 2 \<le> f \<longrightarrow> sequence_contents_fuel N f bs acc \<noteq> None)"
proof (induction f)
  case 0
  then show ?case by simp
next
  case (Suc f)
  then have de: "\<And>bs. 2 * length bs + 1 \<le> f \<Longrightarrow> data_element_fuel N f bs \<noteq> None"
    and sq: "\<And>bs acc. 2 * length bs + 2 \<le> f \<Longrightarrow> sequence_contents_fuel N f bs acc \<noteq> None"
    by blast+
  have "data_element_fuel N (Suc f) bs \<noteq> None" if "2 * length bs + 1 \<le> Suc f" for bs
    unfolding data_element_fuel.simps(2)
    by (rule data_element_step_total) (use that sq in auto)
  moreover have "sequence_contents_fuel N (Suc f) bs acc \<noteq> None"
    if len: "2 * length bs + 2 \<le> Suc f" for bs acc
  proof (cases "data_element_fuel N f bs")
    case None
    with de [of bs] len show ?thesis by simp
  next
    case (Some r)
    show ?thesis
    proof (cases r)
      case (Inr a)
      obtain rest e where a: "a = (rest, e)"
        by (cases a)
      with Some Inr fuel_sound obtain p where "bs = p @ rest" "p \<noteq> []"
        by (blast dest: element_wire_nonempty)
      then have "2 * length rest + 2 \<le> f"
        using len by (cases p) auto
      from sq [OF this] show ?thesis
        by (auto simp: fuel_steps sequence_step_def Some Inr a)
    qed (simp add: fuel_steps sequence_step_def Some)
  qed
  ultimately show ?case by blast
qed

lemma data_element_returns: "data_element N bs \<noteq> None"
  unfolding data_element_def using fuel_total [of "2 * length bs + 1"] by blast

lemma sequence_loop_returns: "sequence_loop N bs acc \<noteq> None"
  unfolding sequence_loop_def using fuel_total [of "2 * length bs + 2"] by blast

lemma data_element_fuel_enough:
  assumes "2 * length bs + 1 \<le> f"
  shows "data_element_fuel N f bs = data_element N bs"
proof -
  obtain r where "data_element N bs = Some r"
    using data_element_returns by blast
  with assms show ?thesis
    by (simp add: data_element_def data_element_fuel_mono [of N "2 * length bs + 1" bs r f])
qed

lemma sequence_contents_fuel_enough:
  assumes "2 * length bs + 2 \<le> f"
  shows "sequence_contents_fuel N f bs acc = sequence_loop N bs acc"
proof -
  obtain r where "sequence_loop N bs acc = Some r"
    using sequence_loop_returns by blast
  with assms show ?thesis
    by (simp add: sequence_loop_def sequence_contents_fuel_mono [of N "2 * length bs + 2" bs acc r f])
qed

section \<open>The equations of the Rust text\<close>

lemma data_element_step_cong:
  assumes "\<And>body. length body < length input \<Longrightarrow> sq body = sq' body"
  shows "data_element_step N sq input = data_element_step N sq' input"
proof (cases "element_frame N input")
  case (Inr a)
  obtain desc rest body where a: "a = (desc, rest, body)"
    by (cases a)
  with Inr obtain h where "input = h @ body @ rest" "h \<noteq> []"
    by (auto simp: element_frame_iff dest: header_wire_nonempty)
  then have "length body < length input"
    by (cases h) auto
  with assms show ?thesis
    by (simp add: data_element_step_def Inr a)
qed (simp add: data_element_step_def)

lemma data_element_unfold:
  "data_element N input = data_element_step N (sequence_contents N) input"
proof -
  have "data_element N input =
      data_element_step N (\<lambda>body. sequence_contents_fuel N (2 * length input) body []) input"
    by (simp add: data_element_def fuel_steps)
  also have "\<dots> = data_element_step N (sequence_contents N) input"
    by (rule data_element_step_cong)
      (simp add: sequence_contents_def sequence_contents_fuel_enough)
  finally show ?thesis .
qed

lemma data_element_consumes:
  "data_element N bs = Some (Inr (rest, e)) \<Longrightarrow> length rest < length bs"
  using fuel_sound [of "2 * length bs + 1"] by (fastforce simp: data_element_def dest: element_wire_nonempty)

lemma sequence_loop_unfold:
  "sequence_loop N remaining elements =
     sequence_step (data_element N) (sequence_loop N) remaining elements"
proof -
  have de: "data_element_fuel N (2 * length remaining + 1) remaining = data_element N remaining"
    by (rule data_element_fuel_enough) simp
  have nx: "sequence_contents_fuel N (Suc (2 * length remaining)) rest acc = sequence_loop N rest acc"
    if "data_element N remaining = Some (Inr (rest, e))" for rest e acc
    using data_element_consumes [OF that] by (simp add: sequence_contents_fuel_enough)
  have "sequence_loop N remaining elements =
      sequence_step (data_element_fuel N (2 * length remaining + 1))
        (sequence_contents_fuel N (2 * length remaining + 1)) remaining elements"
    by (simp add: sequence_loop_def fuel_steps)
  also have "\<dots> = sequence_step (data_element N) (sequence_loop N) remaining elements"
    unfolding sequence_step_def de
    by (auto simp: nx split: option.splits sum.splits)
  finally show ?thesis .
qed

section \<open>The decoder and the wire format\<close>

lemma data_element_iff:
  "data_element N bs = Some (Inr (rest, e)) \<longleftrightarrow> (\<exists>p. bs = p @ rest \<and> element_wire p e)"
proof
  assume "data_element N bs = Some (Inr (rest, e))"
  then show "\<exists>p. bs = p @ rest \<and> element_wire p e"
    using fuel_sound [of "2 * length bs + 1"] by (auto simp: data_element_def)
next
  assume "\<exists>p. bs = p @ rest \<and> element_wire p e"
  then obtain p where "bs = p @ rest" "element_wire p e" by blast
  then show "data_element N bs = Some (Inr (rest, e))"
    using fuel_complete(1) [of p e "2 * length bs + 1" rest] by (simp add: data_element_def)
qed

lemma sequence_contents_iff:
  "sequence_contents N body = Some (Inr (rest, es)) \<longleftrightarrow> rest = [] \<and> elements_wire body es"
proof
  assume "sequence_contents N body = Some (Inr (rest, es))"
  then show "rest = [] \<and> elements_wire body es"
    using fuel_sound [of "2 * length body + 2"]
    by (fastforce simp: sequence_contents_def sequence_loop_def)
next
  assume "rest = [] \<and> elements_wire body es"
  then show "sequence_contents N body = Some (Inr (rest, es))"
    using fuel_complete(2) [of body es "2 * length body + 2" "[]"]
    by (simp add: sequence_contents_def sequence_loop_def)
qed

lemma data_element_error_iff:
  "(\<exists>err. data_element N bs = Some (Inl err)) \<longleftrightarrow>
     (\<forall>p rest e. bs = p @ rest \<longrightarrow> \<not> element_wire p e)"
proof -
  obtain r where "data_element N bs = Some r"
    using data_element_returns by blast
  then show ?thesis
    using data_element_iff [of bs] by (cases r) (fastforce, fastforce)
qed

end

text \<open>The wire format fixes both the value and the length of an element.\<close>

lemma element_wire_unique:
  assumes "element_wire p e" "element_wire p' e'" "p @ rest = p' @ rest'"
  shows "p = p' \<and> e = e' \<and> rest = rest'"
  using assms nom_std.data_element_iff [of "p @ rest" rest e]
    nom_std.data_element_iff [of "p' @ rest'" rest' e']
  by auto

end
