(* ===== verification/Response.thy ===== *)
theory Response
  imports Pdu_Header Element_Correct
begin

text \<open>
  \<^verbatim>\<open>src/codec/response.rs\<close>: the framing of a \<^verbatim>\<open>ServiceSearchAttributeResponse\<close>, which never looks
  inside the attribute bytes, and the interpretation of the reassembled attribute bytes as one
  attribute list per service record.
\<close>

section \<open>Data and operations\<close>

type_synonym AttributeList = "(u16 \<times> DataElement) list"

definition reject_response :: "('e, 'b) nom_lib \<Rightarrow> bytes \<Rightarrow> 'e" where
  "reject_response N input = nom_verify_error N input"

record RawServiceSearchAttributeResponse =
  header :: PduHeader
  attribute_bytes :: bytes
  continuation_state :: bytes

definition raw_response ::
    "('e, 'b) nom_lib \<Rightarrow> ('e, RawServiceSearchAttributeResponse) parser" where
  "raw_response N input =
     propagate (pdu_header N input) (\<lambda>(rest, hdr).
     propagate (nom_be_u16 N rest) (\<lambda>(rest, attribute_bytes_len).
     propagate (nom_take N (unat attribute_bytes_len) rest) (\<lambda>(rest, attr_bytes).
     propagate (nom_be_u8 N rest) (\<lambda>(rest, continuation_len).
     propagate (nom_take N (unat continuation_len) rest) (\<lambda>(rest, continuation_bytes).
       Inr (rest, \<lparr>header = hdr, attribute_bytes = attr_bytes,
                   continuation_state = continuation_bytes\<rparr>))))))"

definition attribute_pair ::
    "('e, 'b) nom_lib \<Rightarrow> DataElement \<times> DataElement \<Rightarrow> 'e + u16 \<times> DataElement" where
  "attribute_pair N pair =
     (case pair of
        (UnsignedInt ident, v) \<Rightarrow>
          (case u16_try_from_u128 ident of
             Some i \<Rightarrow> Inr (i, v)
           | None \<Rightarrow> Inl (reject_response N []))
      | _ \<Rightarrow> Inl (reject_response N []))"

definition attribute_list ::
    "('e, 'b) nom_lib \<Rightarrow> DataElement list \<Rightarrow> 'e + AttributeList" where
  "attribute_list N elements =
     (if length elements mod 2 \<noteq> 0 then Inl (reject_response N [])
      else collect_results (map (attribute_pair N) (chunks_exact2 elements)))"

definition record_attributes ::
    "('e, 'b) nom_lib \<Rightarrow> DataElement \<Rightarrow> 'e + AttributeList" where
  "record_attributes N record =
     (case record of Sequence elements \<Rightarrow> attribute_list N elements | _ \<Rightarrow> Inr [])"

definition outer_attributes ::
    "('e, 'b) nom_lib \<Rightarrow> bytes \<Rightarrow> DataElement \<Rightarrow> 'e + AttributeList list" where
  "outer_attributes N attr_bytes outer =
     (case outer of
        Sequence records \<Rightarrow>
          map_err (\<lambda>_. reject_response N attr_bytes)
            (collect_results (map (record_attributes N) records))
      | _ \<Rightarrow> Inr [])"

definition decode_attribute_lists ::
    "('e, 'b) nom_lib \<Rightarrow> bytes \<Rightarrow> ('e, AttributeList list) iresult option" where
  "decode_attribute_lists N attr_bytes =
     map_option (\<lambda>r. propagate r (\<lambda>(rest, outer).
     propagate (outer_attributes N attr_bytes outer) (\<lambda>attribute_lists.
       Inr (rest, attribute_lists))))
       (data_element N attr_bytes)"

section \<open>Framing\<close>

text \<open>The bytes of a response with the given header, attribute bytes and continuation state.\<close>

definition response_bytes :: "RawServiceSearchAttributeResponse \<Rightarrow> bytes" where
  "response_bytes r =
     header_bytes (header r) @
     u16_to_be_bytes (of_nat (length (attribute_bytes r))) @ attribute_bytes r @
     of_nat (length (continuation_state r)) # continuation_state r"

definition response_fits :: "RawServiceSearchAttributeResponse \<Rightarrow> bool" where
  "response_fits r \<longleftrightarrow>
     length (attribute_bytes r) < 2 ^ 16 \<and> length (continuation_state r) < 2 ^ 8"

context nom_contract
begin

lemma raw_response_iff:
  "raw_response N bs = Inr (rest, r) \<longleftrightarrow>
     bs = response_bytes r @ rest \<and> response_fits r" (is "?l \<longleftrightarrow> ?r")
proof
  assume ?l
  then show ?r
    by (auto simp: raw_response_def propagate_Inr_iff pdu_header_iff nom_Inr_iffs
        response_bytes_def response_fits_def unat_u8_less unat_u16_less)
next
  assume ?r
  then show ?l
    by (simp add: raw_response_def framing_simps response_bytes_def response_fits_def unat_of_nat
        take_bit_nat_eq_self)
qed

lemma raw_response_fwd [framing_simps]:
  "response_fits r \<Longrightarrow> raw_response N (response_bytes r @ bs) = Inr (bs, r)"
  by (simp add: raw_response_iff)

lemma raw_response_short: "length bs < 8 \<Longrightarrow> isl (raw_response N bs)"
proof (rule ccontr)
  assume short: "length bs < 8" and "\<not> isl (raw_response N bs)"
  then obtain rest r where "bs = response_bytes r @ rest"
    by (auto simp: not_isl_iff raw_response_iff)
  then have "8 \<le> length bs"
    by (simp add: response_bytes_def)
  with short show False by simp
qed

section \<open>Interpretation\<close>

lemma attribute_pair_iff:
  "attribute_pair N p = Inr (i, v) \<longleftrightarrow> p = (UnsignedInt (ucast i), v)"
proof (cases "fst p")
  case (UnsignedInt w)
  then have p: "p = (UnsignedInt w, snd p)"
    by (cases p) simp
  show ?thesis
  proof (cases "unat w < 2 ^ 16")
    case True
    then have "w = ucast i \<longleftrightarrow> ucast w = i"
      using ucast_u16_u128 [of w i] by simp
    with True show ?thesis
      by (subst p, subst (2) p) (auto simp: attribute_pair_def u16_try_from_u128_def)
  next
    case False
    then have "w \<noteq> ucast i"
      using unat_u16_less [of i] by (auto simp: unsigned_ucast_eq take_bit_nat_eq_self)
    with False show ?thesis
      by (subst p, subst (2) p) (simp add: attribute_pair_def u16_try_from_u128_def)
  qed
qed (cases p; auto simp: attribute_pair_def)+

end

text \<open>The elements of a record's sequence that carry the given attributes.\<close>

definition attribute_elements :: "AttributeList \<Rightarrow> DataElement list" where
  "attribute_elements al = concat (map (\<lambda>(i, v). [UnsignedInt (ucast i), v]) al)"

fun record_carries :: "DataElement \<Rightarrow> AttributeList \<Rightarrow> bool" where
  "record_carries (Sequence es) al \<longleftrightarrow> es = attribute_elements al"
| "record_carries _ al \<longleftrightarrow> al = []"

fun records_carry :: "DataElement \<Rightarrow> AttributeList list \<Rightarrow> bool" where
  "records_carry (Sequence records) als \<longleftrightarrow> list_all2 record_carries records als"
| "records_carry _ als \<longleftrightarrow> als = []"

context nom_contract
begin

lemma pairs_iff:
  "map (attribute_pair N) ps = map Inr al \<longleftrightarrow>
     ps = map (\<lambda>(i, v). (UnsignedInt (ucast i), v)) al"
  by (rule map_eq_map_Inr) (auto simp: attribute_pair_iff)

lemma attribute_list_iff:
  "attribute_list N es = Inr al \<longleftrightarrow> es = attribute_elements al"
proof
  assume ok: "attribute_list N es = Inr al"
  then have "even (length es)"
    and "chunks_exact2 es = map (\<lambda>(i, v). (UnsignedInt (ucast i), v)) al"
    by (auto simp: attribute_list_def collect_results_Inr_iff pairs_iff split: if_splits)
  then have "concat (map (\<lambda>(x, y). [x, y]) (chunks_exact2 es)) = attribute_elements al"
    by (simp add: attribute_elements_def comp_def case_prod_unfold)
  with \<open>even (length es)\<close> show "es = attribute_elements al"
    by (simp add: concat_chunks_exact2)
next
  assume es: "es = attribute_elements al"
  then have "chunks_exact2 es = map (\<lambda>(i, v). (UnsignedInt (ucast i), v)) al"
    using chunks_exact2_concat [of "map (\<lambda>(i, v). (UnsignedInt (ucast i), v)) al"]
    by (simp add: attribute_elements_def comp_def case_prod_unfold)
  moreover have "even (length es)"
    unfolding es by (induction al) (auto simp: attribute_elements_def)
  ultimately show "attribute_list N es = Inr al"
    by (simp add: attribute_list_def collect_results_Inr_iff pairs_iff del: map_map)
qed

lemma record_attributes_iff: "record_attributes N r = Inr al \<longleftrightarrow> record_carries r al"
  by (cases r) (auto simp: record_attributes_def attribute_list_iff)

lemma records_iff:
  "map (record_attributes N) rs = map Inr als \<longleftrightarrow> list_all2 record_carries rs als"
proof (induction rs arbitrary: als)
  case (Cons r rs)
  then show ?case
    by (cases als) (auto simp: record_attributes_iff)
qed auto

lemma outer_attributes_iff: "outer_attributes N bs outer = Inr als \<longleftrightarrow> records_carry outer als"
  by (cases outer) (auto simp: outer_attributes_def collect_results_Inr_iff records_iff)

lemma decode_attribute_lists_iff:
  "decode_attribute_lists N bs = Some (Inr (rest, als)) \<longleftrightarrow>
     (\<exists>p outer. bs = p @ rest \<and> element_wire p outer \<and> records_carry outer als)"
proof -
  have "decode_attribute_lists N bs = Some (Inr (rest, als)) \<longleftrightarrow>
      (\<exists>outer. data_element N bs = Some (Inr (rest, outer)) \<and> records_carry outer als)"
    by (auto simp: decode_attribute_lists_def propagate_Inr_iff outer_attributes_iff)
  then show ?thesis
    by (auto simp: data_element_iff)
qed

lemma decode_attribute_lists_returns: "decode_attribute_lists N bs \<noteq> None"
  by (simp add: decode_attribute_lists_def data_element_returns)

end

end
