(* ===== verification/Element_Encoding.thy ===== *)
theory Element_Encoding
  imports Element_Correct
begin

text \<open>
  What a sender may write: one encoding of each element the decoder represents, the size of
  decoded values against the size of the input, how deep the decoder's recursion can be driven,
  the encoding of a decoded value, and how an error inside a sequence ends the decoding of the
  whole.
\<close>

section \<open>An encoder\<close>

definition sequence_header :: "nat \<Rightarrow> bytes" where
  "sequence_header n =
     (if n < 2 ^ 8 then [0x35, of_nat n]
      else if n < 2 ^ 16 then 0x36 # u16_to_be_bytes (of_nat n)
      else 0x37 # u32_to_be_bytes (of_nat n))"

definition uint_bytes :: "u128 \<Rightarrow> bytes" where
  "uint_bytes v =
     (if unat v < 2 ^ 8 then [0x08, ucast v]
      else if unat v < 2 ^ 16 then 0x09 # u16_to_be_bytes (ucast v)
      else 0x0a # u32_to_be_bytes (ucast v))"

fun element_bytes :: "DataElement \<Rightarrow> bytes" where
  "element_bytes (UnsignedInt v) = uint_bytes v"
| "element_bytes (Uuid16 u) = 0x19 # u16_to_be_bytes u"
| "element_bytes (Sequence es) =
     (let body = concat (map element_bytes es) in sequence_header (length body) @ body)"
| "element_bytes Unknown = [0x00]"

text \<open>The elements that have an encoding: 32-bit integers, and payloads a length field can hold.\<close>

fun encodable :: "DataElement \<Rightarrow> bool" where
  "encodable (UnsignedInt v) \<longleftrightarrow> unat v < 2 ^ 32"
| "encodable (Uuid16 u) \<longleftrightarrow> True"
| "encodable (Sequence es) \<longleftrightarrow>
     list_all encodable es \<and> length (concat (map element_bytes es)) < 2 ^ 32"
| "encodable Unknown \<longleftrightarrow> True"

lemma header_wireI:
  assumes "b = descriptor_byte t i" "t < 32" "i < 8" "sz = resolve_size t i"
    and "length_field sz n lf"
  shows "header_wire t sz n (b # lf)"
  using assms by (auto simp: header_wire_code)

lemma sequence_header_wire:
  assumes "n < 2 ^ 32"
  obtains sz where "header_wire 6 sz n (sequence_header n)"
proof -
  consider "n < 2 ^ 8" | "\<not> n < 2 ^ 8" "n < 2 ^ 16" | "\<not> n < 2 ^ 16" by blast
  then show thesis
  proof cases
    case 1
    have "header_wire 6 VarLen8 n [0x35, of_nat n]"
      by (rule header_wireI [where i = 5])
        (use 1 in \<open>simp_all add: descriptor_byte_def resolve_size_def
          be_value_single unat_of_nat take_bit_nat_eq_self\<close>)
    then show thesis
      using that 1 by (simp add: sequence_header_def)
  next
    case 2
    have "header_wire 6 VarLen16 n (0x36 # u16_to_be_bytes (of_nat n))"
      by (rule header_wireI [where i = 6])
        (use 2 in \<open>simp_all add: descriptor_byte_def resolve_size_def
          be_value_u16 unat_of_nat take_bit_nat_eq_self\<close>)
    then show thesis
      using that 2 by (simp add: sequence_header_def)
  next
    case 3
    have "header_wire 6 VarLen32 n (0x37 # u32_to_be_bytes (of_nat n))"
      by (rule header_wireI [where i = 7])
        (use assms in \<open>simp_all add: descriptor_byte_def resolve_size_def
          be_value_u32 unat_of_nat take_bit_nat_eq_self\<close>)
    then show thesis
      using that 3 by (simp add: sequence_header_def)
  qed
qed

lemma header_uint_wire:
  "header_wire 1 (Fixed 1) 1 [0x08]"
  "header_wire 1 (Fixed 2) 2 [0x09]"
  "header_wire 1 (Fixed 4) 4 [0x0a]"
  "header_wire 1 (Fixed 8) 8 [0x0b]"
  by (rule header_wireI [where i = 0] header_wireI [where i = 1] header_wireI [where i = 2]
        header_wireI [where i = 3];
      simp add: descriptor_byte_def resolve_size_def)+

lemma header_uuid16_wire: "header_wire 3 (Fixed 2) 2 [0x19]"
  by (rule header_wireI [where i = 1])
    (simp_all add: descriptor_byte_def resolve_size_def)

lemma header_nil_wire: "header_wire 0 (Fixed 0) 0 [0x00]"
  by (rule header_wireI [where i = 0])
    (simp_all add: descriptor_byte_def resolve_size_def)

lemma uint_bytes_wire:
  assumes "unat v < 2 ^ 32"
  shows "element_wire (uint_bytes v) (UnsignedInt v)"
proof -
  consider "unat v < 2 ^ 8" | "\<not> unat v < 2 ^ 8" "unat v < 2 ^ 16" | "\<not> unat v < 2 ^ 16"
    by blast
  then show ?thesis
  proof cases
    case 1
    then have "(of_nat (be_value [ucast v]) :: u128) = v"
      by (simp add: be_value_single unsigned_ucast_eq take_bit_nat_eq_self)
    then show ?thesis
      using uint_wire [of "Fixed 1" "[ucast v]" "[0x08]"] header_uint_wire 1
      by (simp add: uint_bytes_def)
  next
    case 2
    then have "(of_nat (be_value (u16_to_be_bytes (ucast v))) :: u128) = v"
      by (simp add: be_value_u16 unsigned_ucast_eq take_bit_nat_eq_self)
    then show ?thesis
      using uint_wire [of "Fixed 2" "u16_to_be_bytes (ucast v)" "[0x09]"] header_uint_wire 2
      by (simp add: uint_bytes_def)
  next
    case 3
    then have "(of_nat (be_value (u32_to_be_bytes (ucast v))) :: u128) = v"
      using assms by (simp add: be_value_u32 unsigned_ucast_eq take_bit_nat_eq_self)
    then show ?thesis
      using uint_wire [of "Fixed 4" "u32_to_be_bytes (ucast v)" "[0x0a]"] header_uint_wire 3
      by (simp add: uint_bytes_def)
  qed
qed

lemma elements_wire_concat:
  "(\<And>e. e \<in> set es \<Longrightarrow> element_wire (f e) e) \<Longrightarrow> elements_wire (concat (map f es)) es"
  by (induction es) (auto intro: nil_wire cons_wire)

lemma element_bytes_wire: "encodable e \<Longrightarrow> element_wire (element_bytes e) e"
proof (induction e)
  case (UnsignedInt v)
  then show ?case by (simp add: uint_bytes_wire)
next
  case (Uuid16 u)
  then show ?case
    using uuid16_wire [OF header_uuid16_wire, of "u16_to_be_bytes u"] by (simp add: be_value_u16)
next
  case (Sequence es)
  let ?body = "concat (map element_bytes es)"
  from Sequence have "elements_wire ?body es"
    by (intro elements_wire_concat) (auto simp: list_all_iff)
  moreover have "length ?body < 2 ^ 32"
    using Sequence.prems by simp
  then obtain sz where
    "header_wire 6 sz (length ?body) (sequence_header (length ?body))"
    by (rule sequence_header_wire)
  ultimately show ?case
    by (simp add: Let_def sequence_wire)
next
  case Unknown
  then show ?case
    using unknown_wire [of 0 "Fixed 0" "[]"] header_nil_wire
    by (simp add: type_codes)
qed

lemma element_bytes_nonempty: "element_bytes e \<noteq> []"
  by (cases e) (auto simp: uint_bytes_def sequence_header_def Let_def)

section \<open>How large and how deep a decoded value can be\<close>

fun element_count :: "DataElement \<Rightarrow> nat" where
  "element_count (Sequence es) = Suc (sum_list (map element_count es))"
| "element_count (UnsignedInt v) = 1"
| "element_count (Uuid16 u) = 1"
| "element_count Unknown = 1"

text \<open>
  \<open>element_depth\<close> counts the nested sequences: the number of calls of \<open>sequence_contents\<close> that
  are open at once while the value is decoded.
\<close>

fun element_depth :: "DataElement \<Rightarrow> nat" where
  "element_depth (Sequence es) = Suc (Max (insert 0 (set (map element_depth es))))"
| "element_depth (UnsignedInt v) = 0"
| "element_depth (Uuid16 u) = 0"
| "element_depth Unknown = 0"

lemma element_count_pos: "0 < element_count e"
  by (cases e) auto

lemma element_depth_le_count: "element_depth e \<le> element_count e"
proof (induction e)
  case (Sequence es)
  have "Max (insert 0 (set (map element_depth es))) \<le> sum_list (map element_count es)"
  proof (rule Max.boundedI)
    fix x
    assume "x \<in> insert 0 (set (map element_depth es))"
    then consider "x = 0" | e where "e \<in> set es" "x = element_depth e" by auto
    then show "x \<le> sum_list (map element_count es)"
    proof cases
      case 2
      then have "x \<le> element_count e" using Sequence.IH by simp
      also have "\<dots> \<le> sum_list (map element_count es)"
        using 2 by (intro member_le_sum_list) auto
      finally show ?thesis by simp
    qed simp
  qed simp_all
  then show ?case by (simp del: Max_insert Max.insert)
qed simp_all

lemma element_count_le_length:
  "element_wire p e \<Longrightarrow> element_count e \<le> length p"
  "elements_wire q es \<Longrightarrow> sum_list (map element_count es) \<le> length q"
proof (induction rule: element_wire_elements_wire.inducts)
  case (sequence_wire sz body h es)
  then show ?case
    using header_wire_nonempty [OF sequence_wire.hyps(1)] by (cases h) auto
qed (auto dest: header_wire_nonempty simp: Suc_le_eq)

text \<open>A sequence of one sequence of one sequence, and so on.\<close>

fun nest :: "nat \<Rightarrow> DataElement" where
  "nest 0 = Unknown"
| "nest (Suc k) = Sequence [nest k]"

lemma element_depth_nest [simp]: "element_depth (nest k) = k"
  by (induction k) auto

lemma length_sequence_header: "length (sequence_header n) \<le> 5"
  by (simp add: sequence_header_def)

lemma nest_bytes: "length (element_bytes (nest k)) \<le> 5 * k + 1"
proof (induction k)
  case (Suc k)
  then show ?case
    using length_sequence_header [of "length (element_bytes (nest k))"] by (simp add: Let_def)
qed simp

lemma encodable_nest: "5 * k < 2 ^ 32 \<Longrightarrow> encodable (nest k)"
proof (induction k)
  case (Suc k)
  then show ?case
    using nest_bytes [of k] by simp
qed simp

section \<open>Encoding a decoded value again\<close>

lemma uint_wire_bytes:
  assumes "length body \<in> {1, 2, 4}" "h \<noteq> []"
  defines "v \<equiv> (of_nat (be_value body) :: u128)"
  shows "unat v < 2 ^ 32" "length (uint_bytes v) \<le> 2 * length (h @ body)"
proof -
  have "unat v < 2 ^ 32 \<and> (length body = 1 \<longrightarrow> unat v < 2 ^ 8)"
  proof -
    from assms(1) consider "length body = 1" | "length body = 2" | "length body = 4"
      by blast
    then show ?thesis
    proof cases
      case 1
      then obtain w where "body = [w]" by (rule one_byteE)
      then show ?thesis
        using unat_u8_less [of w]
        by (simp add: v_def be_value_single unat_of_nat take_bit_nat_eq_self)
    next
      case 2
      then obtain w where "body = u16_to_be_bytes w" by (rule two_bytesE)
      then show ?thesis
        using unat_u16_less [of w]
        by (simp add: v_def be_value_u16 unat_of_nat take_bit_nat_eq_self)
    next
      case 3
      then obtain w where "body = u32_to_be_bytes w" by (rule four_bytesE)
      then show ?thesis
        using unat_u32_less [of w]
        by (simp add: v_def be_value_u32 unat_of_nat take_bit_nat_eq_self)
    qed
  qed
  moreover have "1 \<le> length h"
    using assms(2) by (cases h) auto
  ultimately show "unat v < 2 ^ 32" "length (uint_bytes v) \<le> 2 * length (h @ body)"
    using assms(1) by (auto simp: uint_bytes_def)
qed

text \<open>A header of one byte announces at most sixteen bytes, one of two at most 255.\<close>

lemma sequence_header_length:
  assumes "header_wire t sz n h" "m \<le> 2 * n"
  shows "length (sequence_header m) \<le> 2 * length h"
proof -
  from assms(1) obtain i lf where h: "h = descriptor_byte t i # lf" "sz = resolve_size t i"
    "length_field sz n lf"
    by (auto simp: header_wire_code)
  show ?thesis
  proof (cases sz)
    case (Fixed k)
    with h have "n = unat k" "lf = []" "k \<in> {0, 1, 2, 4, 8, 16}"
      by (auto simp: resolve_size_def split: if_splits)
    then have "n \<le> 16"
      by auto
    with assms(2) h \<open>lf = []\<close> show ?thesis
      by (simp add: sequence_header_def)
  next
    case VarLen8
    with h obtain b where "lf = [b]" "n = unat b"
      by (auto simp: length_Suc_conv be_value_single)
    then have "n < 256"
      using unat_u8_less [of b] by simp
    with assms(2) h \<open>lf = [b]\<close> show ?thesis
      by (simp add: sequence_header_def)
  qed (use h length_sequence_header [of m] in auto)
qed

lemma wire_encodable:
  "element_wire p e \<Longrightarrow> length p < 2 ^ 31 \<Longrightarrow>
   encodable e \<and> length (element_bytes e) \<le> 2 * length p"
  "elements_wire q es \<Longrightarrow> length q < 2 ^ 31 \<Longrightarrow>
   list_all encodable es \<and> length (concat (map element_bytes es)) \<le> 2 * length q"
proof (induction rule: element_wire_elements_wire.inducts)
  case (uint_wire sz body h)
  then show ?case
    using uint_wire_bytes [OF uint_wire.hyps(2) header_wire_nonempty [OF uint_wire.hyps(1)]] by simp
next
  case (uuid16_wire h body)
  then show ?case
    using header_wire_nonempty [OF uuid16_wire.hyps(1)] by (cases h) simp_all
next
  case (sequence_wire sz body h es)
  then have "list_all encodable es" "length (concat (map element_bytes es)) \<le> 2 * length body"
    by simp_all
  with sequence_wire.prems sequence_header_length [OF sequence_wire.hyps(1), of
      "length (concat (map element_bytes es))"]
  show ?case
    by (simp add: Let_def)
next
  case (unknown_wire t sz body h)
  then show ?case
    using header_wire_nonempty [OF unknown_wire.hyps(1)] by (cases h) simp_all
qed (auto)

section \<open>Errors inside a sequence\<close>

context nom_contract
begin

lemma sequence_loop_append:
  "elements_wire pre es \<Longrightarrow> sequence_loop N (pre @ post) acc = sequence_loop N post (acc @ es)"
proof (induction es arbitrary: pre acc)
  case Nil
  then show ?case by (auto elim: elements_wire_NilE)
next
  case (Cons e es)
  then obtain p q where pre: "pre = p @ q" "element_wire p e" "elements_wire q es"
    by (auto elim: elements_wire_ConsE)
  then have "data_element N (p @ q @ post) = Some (Inr (q @ post, e))"
    by (auto simp: data_element_iff)
  moreover have "p \<noteq> []"
    using element_wire_nonempty [OF pre(2)] .
  ultimately have "sequence_loop N (pre @ post) acc = sequence_loop N (q @ post) (acc @ [e])"
    using pre by (subst sequence_loop_unfold) (simp add: sequence_step_def)
  with Cons.IH [OF pre(3)] show ?case by simp
qed

text \<open>The loop stops at the first element that does not decode, with that element's error.\<close>

lemma sequence_loop_error:
  assumes "sequence_loop N body acc = Some (Inl err)"
  shows "\<exists>pre es post. body = pre @ post \<and> elements_wire pre es \<and> post \<noteq> [] \<and>
    data_element N post = Some (Inl err)"
  using assms
proof (induction "length body" arbitrary: body acc rule: less_induct)
  case less
  from less.prems have step: "sequence_step (data_element N) (sequence_loop N) body acc = Some (Inl err)"
    by (simp only: sequence_loop_unfold [symmetric])
  show ?case
  proof (cases "data_element N body = Some (Inl err)")
    case True
    moreover from step have "body \<noteq> []"
      by (auto simp: sequence_step_def)
    ultimately show ?thesis
      by (intro exI [of _ "[]"] exI [of _ "[]"] exI [of _ body]) (simp add: nil_wire)
  next
    case False
    with step obtain rest e where el: "data_element N body = Some (Inr (rest, e))"
      and loop: "sequence_loop N rest (acc @ [e]) = Some (Inl err)"
      by (auto simp: sequence_step_def split: if_splits option.splits sum.splits)
    from less.hyps [OF data_element_consumes [OF el] loop] obtain pre es post where
      "rest = pre @ post" "elements_wire pre es" "post \<noteq> []" "data_element N post = Some (Inl err)"
      by blast
    moreover from el obtain p where "body = p @ rest" "element_wire p e"
      by (auto simp: data_element_iff)
    ultimately show ?thesis
      by (intro exI [of _ "p @ pre"] exI [of _ "e # es"] exI [of _ post]) (simp add: cons_wire)
  qed
qed

lemma sequence_contents_error_iff:
  "sequence_contents N body = Some (Inl err) \<longleftrightarrow>
     (\<exists>pre es post. body = pre @ post \<and> elements_wire pre es \<and> post \<noteq> [] \<and>
        data_element N post = Some (Inl err))"
proof
  assume "sequence_contents N body = Some (Inl err)"
  then show "\<exists>pre es post. body = pre @ post \<and> elements_wire pre es \<and> post \<noteq> [] \<and>
      data_element N post = Some (Inl err)"
    unfolding sequence_contents_def by (rule sequence_loop_error)
next
  assume "\<exists>pre es post. body = pre @ post \<and> elements_wire pre es \<and> post \<noteq> [] \<and>
      data_element N post = Some (Inl err)"
  then obtain pre es post where body: "body = pre @ post" "elements_wire pre es"
    and bad: "post \<noteq> []" "data_element N post = Some (Inl err)"
    by blast
  from bad have "sequence_loop N post es = Some (Inl err)"
    by (subst sequence_loop_unfold) (simp add: sequence_step_def)
  with sequence_loop_append [OF body(2), of post "[]"] body(1)
  show "sequence_contents N body = Some (Inl err)"
    by (simp add: sequence_contents_def)
qed

lemma sequence_error:
  assumes pre: "elements_wire pre es"
    and bad: "post \<noteq> []" "data_element N post = Some (Inl err)"
    and h: "header_wire 6 sz (length (pre @ post)) h"
  shows "data_element N (h @ (pre @ post) @ rest) = Some (Inl err)"
proof -
  from assms have "sequence_contents N (pre @ post) = Some (Inl err)"
    unfolding sequence_contents_error_iff by blast
  then show ?thesis
    by (subst data_element_unfold)
      (simp only: data_element_step_def element_frame_header [OF h], simp add: type_codes)
qed

lemma wide_uint_error:
  assumes "header_wire 1 sz (length body) h" "length body \<notin> {1, 2, 4}"
  shows "data_element N (h @ body @ rest) = Some (Inl (reject N body))"
  using assms(2)
  by (subst data_element_unfold)
    (auto simp: data_element_step_def element_frame_header [OF assms(1)] uint_value_def
        type_codes)

end

end
