(* ===== verification/Encode.thy ===== *)
theory Encode
  imports Response Element_Encoding
begin

text \<open>
  \<^verbatim>\<open>src/codec/encode.rs\<close>: the one PDU the crate constructs. The growable buffer it is built in is
  \<^verbatim>\<open>BytesMut\<close> of the third-party crate \<^verbatim>\<open>bytes\<close>, a parameter of the model with the locale
  \<open>bytes_contract\<close> for its documented behaviour; \<open>bytes_model\<close> is a library that keeps it.
\<close>

section \<open>The crate bytes\<close>

record 'm bytes_lib =
  bm_new :: 'm
  bm_with_capacity :: "nat \<Rightarrow> 'm"
  bm_put_u8 :: "u8 \<Rightarrow> 'm \<Rightarrow> 'm"
  bm_put_u16 :: "u16 \<Rightarrow> 'm \<Rightarrow> 'm"
  bm_put_u32 :: "u32 \<Rightarrow> 'm \<Rightarrow> 'm"
  bm_put_slice :: "bytes \<Rightarrow> 'm \<Rightarrow> 'm"
  bm_len :: "'m \<Rightarrow> nat"
  bm_as_slice :: "'m \<Rightarrow> bytes"

text \<open>
  \<open>bm_as_slice\<close> is the dereference of a buffer to its contents, which both \<^verbatim>\<open>&body\<close> and
  \<^verbatim>\<open>to_vec\<close> go through. A new buffer is empty; each \<open>put\<close> appends to the contents, integers
  in big-endian order.
\<close>

locale bytes_contract =
  fixes B :: "'m bytes_lib"
  assumes as_slice_new: "bm_as_slice B (bm_new B) = []"
    and as_slice_with_capacity: "bm_as_slice B (bm_with_capacity B k) = []"
    and as_slice_put_u8: "bm_as_slice B (bm_put_u8 B b m) = bm_as_slice B m @ [b]"
    and as_slice_put_u16:
      "bm_as_slice B (bm_put_u16 B w m) = bm_as_slice B m @ u16_to_be_bytes w"
    and as_slice_put_u32:
      "bm_as_slice B (bm_put_u32 B d m) = bm_as_slice B m @ u32_to_be_bytes d"
    and as_slice_put_slice: "bm_as_slice B (bm_put_slice B bs m) = bm_as_slice B m @ bs"
    and len_as_slice: "bm_len B m = length (bm_as_slice B m)"
begin

lemmas buffer_simps = as_slice_new as_slice_with_capacity as_slice_put_u8 as_slice_put_u16
  as_slice_put_u32 as_slice_put_slice len_as_slice

end

definition bytes_model :: "bytes bytes_lib" where
  "bytes_model =
     \<lparr>bm_new = [], bm_with_capacity = (\<lambda>_. []), bm_put_u8 = (\<lambda>b m. m @ [b]),
      bm_put_u16 = (\<lambda>w m. m @ u16_to_be_bytes w), bm_put_u32 = (\<lambda>d m. m @ u32_to_be_bytes d),
      bm_put_slice = (\<lambda>bs m. m @ bs), bm_len = length, bm_as_slice = (\<lambda>m. m)\<rparr>"

interpretation bytes_std: bytes_contract bytes_model
  by unfold_locales (simp_all add: bytes_model_def)

section \<open>Data and operations\<close>

record ServiceSearchAttributeRequest =
  req_transaction_id :: u16
  service_uuid16 :: u16
  maximum_attribute_byte_count :: u16
  attribute_id_range :: u32
  req_continuation_state :: bytes

datatype EncodeError =
    ContinuationStateTooLong nat
  | BodyTooLong nat

definition PDU_ID_SERVICE_SEARCH_ATTRIBUTE_REQUEST :: u8 where
  "PDU_ID_SERVICE_SEARCH_ATTRIBUTE_REQUEST = 0x06"

definition SEQUENCE_LEN_3 :: u8 where "SEQUENCE_LEN_3 = 0x35"
definition UUID16_DESCRIPTOR :: u8 where "UUID16_DESCRIPTOR = 0x19"
definition UINT32_DESCRIPTOR :: u8 where "UINT32_DESCRIPTOR = 0x0a"

definition encode_error_to_string :: "EncodeError \<Rightarrow> string" where
  "encode_error_to_string err =
     (case err of
        ContinuationStateTooLong len \<Rightarrow>
          ''continuation state is '' @ decimal len @ '' bytes, exceeds the 255-byte limit''
      | BodyTooLong len \<Rightarrow>
          ''request body is '' @ decimal len @ '' bytes, exceeds the 65535-byte limit'')"

definition encode ::
    "'m bytes_lib \<Rightarrow> ServiceSearchAttributeRequest \<Rightarrow> EncodeError + bytes" where
  "encode B request =
     (let body = bm_new B;
          body = bm_put_u8 B SEQUENCE_LEN_3 body;
          body = bm_put_u8 B 0x03 body;
          body = bm_put_u8 B UUID16_DESCRIPTOR body;
          body = bm_put_u16 B (service_uuid16 request) body;
          body = bm_put_u16 B (maximum_attribute_byte_count request) body;
          body = bm_put_u8 B SEQUENCE_LEN_3 body;
          body = bm_put_u8 B 0x05 body;
          body = bm_put_u8 B UINT32_DESCRIPTOR body;
          body = bm_put_u32 B (attribute_id_range request) body
      in case u8_try_from_usize (length (req_continuation_state request)) of
           None \<Rightarrow> Inl (ContinuationStateTooLong (length (req_continuation_state request)))
         | Some continuation_len \<Rightarrow>
             (let body = bm_put_u8 B continuation_len body;
                  body = bm_put_slice B (req_continuation_state request) body
              in case u16_try_from_usize (bm_len B body) of
                   None \<Rightarrow> Inl (BodyTooLong (bm_len B body))
                 | Some param_len \<Rightarrow>
                     (let pdu = bm_with_capacity B (bm_len B body + 5);
                          pdu = bm_put_u8 B PDU_ID_SERVICE_SEARCH_ATTRIBUTE_REQUEST pdu;
                          pdu = bm_put_u16 B (req_transaction_id request) pdu;
                          pdu = bm_put_u16 B param_len pdu;
                          pdu = bm_put_slice B (bm_as_slice B body) pdu
                      in Inr (bm_as_slice B pdu))))"

section \<open>The layout of a request\<close>

definition request_header :: "ServiceSearchAttributeRequest \<Rightarrow> PduHeader" where
  "request_header r =
     \<lparr>pdu_id = 0x06, transaction_id = req_transaction_id r,
      parameter_length = of_nat (15 + length (req_continuation_state r))\<rparr>"

definition search_pattern :: "ServiceSearchAttributeRequest \<Rightarrow> DataElement" where
  "search_pattern r = Sequence [Uuid16 (service_uuid16 r)]"

text \<open>
  The attribute ID list: one four-byte integer in a sequence, whatever its value.
\<close>

definition request_bytes :: "ServiceSearchAttributeRequest \<Rightarrow> bytes" where
  "request_bytes r =
     header_bytes (request_header r) @
     [0x35, 0x03, 0x19] @ u16_to_be_bytes (service_uuid16 r) @
     u16_to_be_bytes (maximum_attribute_byte_count r) @
     [0x35, 0x05, 0x0a] @ u32_to_be_bytes (attribute_id_range r) @
     of_nat (length (req_continuation_state r)) # req_continuation_state r"

context bytes_contract
begin

lemma encode_ok:
  assumes "length (req_continuation_state r) < 2 ^ 8"
  shows "encode B r = Inr (request_bytes r)"
  using assms
  by (simp add: encode_def Let_def buffer_simps u8_try_from_usize_def u16_try_from_usize_def
      request_bytes_def header_bytes_def request_header_def SEQUENCE_LEN_3_def
      UUID16_DESCRIPTOR_def UINT32_DESCRIPTOR_def PDU_ID_SERVICE_SEARCH_ATTRIBUTE_REQUEST_def
      add.commute)

lemma encode_too_long:
  assumes "\<not> length (req_continuation_state r) < 2 ^ 8"
  shows "encode B r = Inl (ContinuationStateTooLong (length (req_continuation_state r)))"
  using assms by (simp add: encode_def Let_def u8_try_from_usize_def)

lemma encode_eq:
  "encode B r =
     (if length (req_continuation_state r) < 2 ^ 8 then Inr (request_bytes r)
      else Inl (ContinuationStateTooLong (length (req_continuation_state r))))"
  using encode_ok encode_too_long by auto

end

lemma length_request_bytes: "length (request_bytes r) = 20 + length (req_continuation_state r)"
  by (simp add: request_bytes_def)

lemma search_pattern_wire:
  "element_wire ([0x35, 0x03, 0x19] @ u16_to_be_bytes u) (Sequence [Uuid16 u])"
  using element_bytes_wire [of "Sequence [Uuid16 u]"]
  by (simp add: sequence_header_def)

lemma attribute_range_wire:
  "element_wire ([0x35, 0x05, 0x0a] @ u32_to_be_bytes d) (Sequence [UnsignedInt (ucast d)])"
proof -
  have "element_wire ([0x0a] @ u32_to_be_bytes d) (UnsignedInt (of_nat (unat d)))"
    using uint_wire [of "Fixed 4" "u32_to_be_bytes d" "[0x0a]"] header_uint_wire
    by (simp add: be_value_u32)
  then have el: "elements_wire ([0x0a] @ u32_to_be_bytes d) [UnsignedInt (ucast d)]"
    using cons_wire [OF _ nil_wire] by fastforce
  have "header_wire 6 VarLen8 (length ([0x0a] @ u32_to_be_bytes d)) [0x35, 0x05]"
    by (rule header_wireI [where i = 5])
      (simp_all add: descriptor_byte_def resolve_size_def be_value_single)
  from sequence_wire [OF this el] show ?thesis
    by simp
qed

section \<open>Reading a request back\<close>

text \<open>
  What the peer that receives a request does with it, in terms of the crate's own parsers: the
  header, the search pattern, the byte count, the attribute ID list and the continuation state,
  with nothing left over.
\<close>

definition parse_request ::
    "('e, 'b) nom_lib \<Rightarrow> bytes \<Rightarrow> ServiceSearchAttributeRequest option" where
  "parse_request N bs =
     (case pdu_header N bs of
        Inr (p1, h) \<Rightarrow>
          (if pdu_id h = 0x06 \<and> unat (parameter_length h) = length p1 then
             (case data_element N p1 of
                Some (Inr (p2, Sequence [Uuid16 uuid])) \<Rightarrow>
                  (case nom_be_u16 N p2 of
                     Inr (p3, cnt) \<Rightarrow>
                       (case data_element N p3 of
                          Some (Inr (p4, Sequence [UnsignedInt id_range])) \<Rightarrow>
                            (case nom_be_u8 N p4 of
                               Inr (p5, len) \<Rightarrow>
                                 (if unat len = length p5 then
                                    Some \<lparr>req_transaction_id = transaction_id h,
                                          service_uuid16 = uuid,
                                          maximum_attribute_byte_count = cnt,
                                          attribute_id_range = ucast id_range,
                                          req_continuation_state = p5\<rparr>
                                  else None)
                             | _ \<Rightarrow> None)
                        | _ \<Rightarrow> None)
                   | _ \<Rightarrow> None)
              | _ \<Rightarrow> None)
           else None)
      | _ \<Rightarrow> None)"

context nom_contract
begin

lemma data_element_fwd:
  "element_wire p e \<Longrightarrow> data_element N (p @ rest) = Some (Inr (rest, e))"
  by (auto simp: data_element_iff)

lemma parse_request_bytes:
  assumes fits: "length (req_continuation_state r) < 2 ^ 8"
  shows "parse_request N (request_bytes r) = Some r"
proof -
  let ?tail = "of_nat (length (req_continuation_state r)) # req_continuation_state r"
  let ?ids = "[0x35, 0x05, 0x0a] @ u32_to_be_bytes (attribute_id_range r)"
  let ?pattern = "[0x35, 0x03, 0x19] @ u16_to_be_bytes (service_uuid16 r)"
  let ?count = "u16_to_be_bytes (maximum_attribute_byte_count r)"
  have split: "request_bytes r =
      header_bytes (request_header r) @ ?pattern @ ?count @ ?ids @ ?tail"
    by (simp add: request_bytes_def)
  have len: "unat (parameter_length (request_header r)) = length (?pattern @ ?count @ ?ids @ ?tail)"
    using fits unat_of_nat_u16 [of "15 + length (req_continuation_state r)"]
    by (simp add: request_header_def)
  have "data_element N (?pattern @ rest) = Some (Inr (rest, Sequence [Uuid16 (service_uuid16 r)]))"
    for rest
    by (rule data_element_fwd [OF search_pattern_wire])
  moreover have "data_element N (?ids @ rest) =
      Some (Inr (rest, Sequence [UnsignedInt (ucast (attribute_id_range r))]))" for rest
    by (rule data_element_fwd [OF attribute_range_wire])
  moreover have "ucast (ucast (attribute_id_range r) :: u128) = attribute_id_range r"
    by (auto intro!: bit_word_eqI simp: bit_simps)
  moreover have "unat (of_nat (length (req_continuation_state r)) :: u8) =
      length (req_continuation_state r)"
    using fits by (rule unat_of_nat_u8)
  ultimately show ?thesis
    unfolding parse_request_def split pdu_header_fwd
    using len by (simp add: be_u16_fwd be_u8_fwd request_header_def)
qed

end

end
