(* ===== verification/Extract.thy ===== *)
theory Extract
  imports Response
begin

text \<open>
  \<^verbatim>\<open>src/codec/extract.rs\<close>: the RFCOMM channel of a service record.
\<close>

definition PROTOCOL_DESCRIPTOR_LIST_ATTR_ID :: u16 where
  "PROTOCOL_DESCRIPTOR_LIST_ATTR_ID = 0x0004"

definition RFCOMM_UUID :: u16 where "RFCOMM_UUID = 0x0003"

definition rfcomm_entry :: "DataElement \<Rightarrow> u8 option" where
  "rfcomm_entry entry =
     (case entry of
        Sequence [Uuid16 uuid, UnsignedInt channel] \<Rightarrow>
          if uuid = RFCOMM_UUID then u8_try_from_u128 channel else None
      | _ \<Rightarrow> None)"

definition rfcomm_channel :: "AttributeList \<Rightarrow> u8 option" where
  "rfcomm_channel attributes =
     (case find (\<lambda>(i, _). i = PROTOCOL_DESCRIPTOR_LIST_ATTR_ID) attributes of
        None \<Rightarrow> None
      | Some (_, protocol_descriptor_list) \<Rightarrow>
          (case protocol_descriptor_list of
             Sequence protocol_stack \<Rightarrow> find_map rfcomm_entry protocol_stack
           | _ \<Rightarrow> None))"

section \<open>What the search finds\<close>

text \<open>The protocol stack entry that names RFCOMM channel \<open>c\<close>.\<close>

definition rfcomm_element :: "u8 \<Rightarrow> DataElement" where
  "rfcomm_element c = Sequence [Uuid16 RFCOMM_UUID, UnsignedInt (ucast c)]"

lemma rfcomm_entry_iff: "rfcomm_entry e = Some c \<longleftrightarrow> e = rfcomm_element c"
proof -
  have conv: "u8_try_from_u128 v = Some c \<longleftrightarrow> v = ucast c" for v
  proof (cases "unat v < 2 ^ 8")
    case True
    then show ?thesis
      using ucast_u8_u128 [of v c] by (simp add: u8_try_from_u128_def)
  next
    case False
    then have "v \<noteq> ucast c"
      using unat_u8_less [of c] by auto
    with False show ?thesis
      by (simp add: u8_try_from_u128_def)
  qed
  show ?thesis
    by (auto simp: rfcomm_entry_def rfcomm_element_def conv
        split: DataElement.splits list.splits if_splits)
qed

lemma rfcomm_entry_None_iff: "rfcomm_entry e = None \<longleftrightarrow> (\<forall>c. e \<noteq> rfcomm_element c)"
  using rfcomm_entry_iff [of e] by (cases "rfcomm_entry e") auto

lemma find_attribute_append:
  "k \<notin> fst ` set pre \<Longrightarrow>
   find (\<lambda>(i, _). i = k) (pre @ (k, v) # post) = Some (k, v)"
  by (induction pre) auto

lemma find_attribute_SomeD:
  "find (\<lambda>(i, _). i = k) al = Some (i, v) \<Longrightarrow>
   i = k \<and> (\<exists>pre post. al = pre @ (k, v) # post \<and> k \<notin> fst ` set pre)"
proof (induction al)
  case (Cons a al)
  obtain j w where a: "a = (j, w)"
    by (cases a)
  show ?case
  proof (cases "j = k")
    case True
    with Cons.prems have "i = k" "a # al = [] @ (k, v) # al" "k \<notin> fst ` set []"
      by (auto simp: a)
    then show ?thesis by blast
  next
    case False
    with Cons obtain pre post where "i = k" "al = pre @ (k, v) # post" "k \<notin> fst ` set pre"
      by (auto simp: a)
    with False have "i = k" "a # al = (a # pre) @ (k, v) # post" "k \<notin> fst ` set (a # pre)"
      by (auto simp: a)
    then show ?thesis by blast
  qed
qed simp

lemma find_attribute_Some_iff:
  "find (\<lambda>(i, _). i = k) al = Some (i, v) \<longleftrightarrow>
     i = k \<and> (\<exists>pre post. al = pre @ (k, v) # post \<and> k \<notin> fst ` set pre)"
  using find_attribute_SomeD [of k al i v] find_attribute_append [of k _ v] by auto

lemma rfcomm_channel_iff:
  "rfcomm_channel al = Some c \<longleftrightarrow>
     (\<exists>pre stack post i.
        al = pre @ (PROTOCOL_DESCRIPTOR_LIST_ATTR_ID, Sequence stack) # post \<and>
        PROTOCOL_DESCRIPTOR_LIST_ATTR_ID \<notin> fst ` set pre \<and>
        i < length stack \<and> stack ! i = rfcomm_element c \<and>
        (\<forall>j < i. \<forall>d. stack ! j \<noteq> rfcomm_element d))" (is "_ \<longleftrightarrow> ?r")
proof -
  have "rfcomm_channel al = Some c \<longleftrightarrow>
      (\<exists>stack. find (\<lambda>(i, _). i = PROTOCOL_DESCRIPTOR_LIST_ATTR_ID) al =
          Some (PROTOCOL_DESCRIPTOR_LIST_ATTR_ID, Sequence stack) \<and>
        find_map rfcomm_entry stack = Some c)"
  proof (cases "find (\<lambda>(i, _). i = PROTOCOL_DESCRIPTOR_LIST_ATTR_ID) al")
    case (Some a)
    obtain i v where "a = (i, v)"
      by (cases a)
    with Some find_attribute_SomeD [of PROTOCOL_DESCRIPTOR_LIST_ATTR_ID al i v] show ?thesis
      by (cases v) (simp_all add: rfcomm_channel_def)
  qed (simp add: rfcomm_channel_def)
  also have "\<dots> \<longleftrightarrow> ?r"
    by (simp only: find_attribute_Some_iff find_map_Some_iff rfcomm_entry_iff
        rfcomm_entry_None_iff) blast
  finally show ?thesis .
qed

end
