(* ===== verification/Properties_Codec.thy ===== *)
theory Properties_Codec
  imports Encode Extract
begin

text \<open>
  What the codec guarantees, \<^verbatim>\<open>src/codec\<close>: one theorem per property, over any \<^verbatim>\<open>nom\<close> and any
  \<^verbatim>\<open>bytes\<close> that keep their contracts, each followed by an instance on concrete bytes with the
  concrete libraries.
\<close>

section \<open>Data elements\<close>

text \<open>
  C3. The decoder accepts exactly the data elements of the wire format: it returns a value and a
  rest if and only if the input is one element of the format, with that value, followed by that
  rest.
\<close>

theorem data_element_wire_format:
  assumes "nom_contract N"
  shows "data_element N bs = Some (Inr (rest, e)) \<longleftrightarrow> (\<exists>p. bs = p @ rest \<and> element_wire p e)"
  using assms by (rule nom_contract.data_element_iff)

theorem data_element_wire_format_witness:
  "element_wire [0x35, 0x03, 0x19, 0x11, 0x2f] (Sequence [Uuid16 0x112f])"
proof -
  have "data_element nom_model ([0x35, 0x03, 0x19, 0x11, 0x2f] @ [0xaa]) =
      Some (Inr ([0xaa], Sequence [Uuid16 0x112f]))"
    by code_simp
  then show ?thesis
    using data_element_wire_format [OF nom_std.nom_contract_axioms] by fastforce
qed

text \<open>
  C9. The recursion of the decoder and the loop over a sequence always return, on every input,
  and more fuel than the input's length calls for never changes their result.
\<close>

theorem data_element_returns_always:
  assumes "nom_contract N"
  shows "(\<exists>r. data_element N bs = Some r) \<and> (\<exists>r. sequence_contents N bs = Some r) \<and>
    data_element_fuel N (2 * length bs + 1 + k) bs = data_element N bs \<and>
    sequence_contents_fuel N (2 * length bs + 2 + k) bs [] = sequence_contents N bs"
  using nom_contract.data_element_returns [OF assms, of bs]
    nom_contract.sequence_loop_returns [OF assms, of bs]
    nom_contract.data_element_fuel_enough [OF assms, of bs "2 * length bs + 1 + k"]
    nom_contract.sequence_contents_fuel_enough [OF assms, of bs "2 * length bs + 2 + k" "[]"]
  by (auto simp: sequence_contents_def)

theorem data_element_returns_always_witness:
  "\<exists>r. sequence_contents nom_model [0x35, 0xff, 0x08] = Some r"
  using data_element_returns_always [OF nom_std.nom_contract_axioms] by blast

text \<open>
  C30. The loop over a sequence returns values exactly when the whole of its payload is a run of
  elements of the wire format, one value for each of them, in order, and nothing is left. It is an
  error exactly when, after some such elements, what follows is not empty and does not decode, and
  then the error is that of the first element that fails.
\<close>

theorem sequence_contents_spec:
  assumes "nom_contract N"
  shows "(sequence_contents N body = Some (Inr (rest, es)) \<longleftrightarrow>
      rest = [] \<and> elements_wire body es) \<and>
    (sequence_contents N body = Some (Inl err) \<longleftrightarrow>
      (\<exists>pre vs post. body = pre @ post \<and> elements_wire pre vs \<and> post \<noteq> [] \<and>
         data_element N post = Some (Inl err)))"
  using assms
  by (intro conjI nom_contract.sequence_contents_iff nom_contract.sequence_contents_error_iff)

theorem sequence_contents_spec_witness:
  "elements_wire [0x08, 0x2a, 0x19, 0x00, 0x03] [UnsignedInt 42, Uuid16 3]"
proof -
  have "sequence_contents nom_model [0x08, 0x2a, 0x19, 0x00, 0x03] =
      Some (Inr ([], [UnsignedInt 42, Uuid16 3]))"
    by code_simp
  then show ?thesis
    using sequence_contents_spec [OF nom_std.nom_contract_axioms,
        of "[0x08, 0x2a, 0x19, 0x00, 0x03]" "[]" "[UnsignedInt 42, Uuid16 3]"]
    by simp
qed

text \<open>
  With the fuel hidden, the decoder and the loop satisfy the equations of the source: the body of
  each, with the other in the place of its calls.
\<close>

lemma data_element_equations:
  assumes "nom_contract N"
  shows "data_element N input = data_element_step N (sequence_contents N) input"
    and "sequence_loop N remaining elements =
      sequence_step (data_element N) (sequence_loop N) remaining elements"
  by (rule nom_contract.data_element_unfold [OF assms], rule nom_contract.sequence_loop_unfold [OF assms])

text \<open>
  C8. What a reference encoder writes for an element (the crate has none of its own), the decoder
  reads back, whatever follows: integers of up to 32 bits, 16-bit UUIDs and sequences of them,
  nested as deep as their lengths fit.
\<close>

theorem element_round_trip:
  assumes "nom_contract N" "encodable e"
  shows "data_element N (element_bytes e @ rest) = Some (Inr (rest, e))"
  using assms by (intro nom_contract.data_element_fwd element_bytes_wire)

theorem element_round_trip_witness:
  "data_element nom_model (element_bytes (Sequence [Uuid16 3, UnsignedInt 13]) @ [0xff]) =
     Some (Inr ([0xff], Sequence [Uuid16 3, UnsignedInt 13]))"
  by (rule element_round_trip [OF nom_std.nom_contract_axioms])
    (simp add: uint_bytes_def)

text \<open>
  C31. A decoded value has at most as many elements as it has bytes, so its size is bounded by
  the input consumed; its depth is bounded by its size; and decoding consumes at least a byte.
\<close>

theorem decoded_size_bound:
  assumes "nom_contract N" "data_element N bs = Some (Inr (rest, e))"
  shows "element_count e + length rest \<le> length bs \<and> element_depth e \<le> element_count e \<and>
    length rest < length bs"
  using assms nom_contract.data_element_iff [OF assms(1)] element_count_le_length(1)
    element_depth_le_count [of e] nom_contract.data_element_consumes [OF assms]
  by fastforce

theorem decoded_size_bound_witness:
  "element_count (Sequence [Uuid16 0x112f]) + length [0xaa :: u8] \<le> 6"
proof -
  have "data_element nom_model [0x35, 0x03, 0x19, 0x11, 0x2f, 0xaa] =
      Some (Inr ([0xaa], Sequence [Uuid16 0x112f]))"
    by code_simp
  from decoded_size_bound [OF nom_std.nom_contract_axioms this] show ?thesis
    by simp
qed

text \<open>
  C32. The decoder has no nesting limit of its own, only the one that the 32-bit length field of
  the format imposes: for every depth k with 5 k below 2 to the 32nd there is an input, of at most
  five bytes per level and one more, that the decoder follows k levels deep and accepts.
\<close>

theorem nesting_follows_input:
  assumes "nom_contract N" "5 * k < 2 ^ 32"
  shows "\<exists>bs e. length bs \<le> 5 * k + 1 \<and> data_element N bs = Some (Inr ([], e)) \<and>
    element_depth e = k"
proof (intro exI conjI)
  show "data_element N (element_bytes (nest k)) = Some (Inr ([], nest k))"
    using nom_contract.data_element_fwd [OF assms(1), of "element_bytes (nest k)" "nest k" "[]"]
      encodable_nest [OF assms(2)]
    by (simp add: element_bytes_wire)
qed (use nest_bytes [of k] in simp_all)

theorem nesting_follows_input_witness:
  "\<exists>bs e. length bs \<le> 500001 \<and> data_element nom_model bs = Some (Inr ([], e)) \<and>
     element_depth e = 100000"
  using nesting_follows_input [OF nom_std.nom_contract_axioms, of 100000] by simp

text \<open>
  C33. An unsigned integer of a width other than one, two or four bytes is an error, and it fails
  the whole sequence it stands in, however many elements before it decode.
\<close>

theorem wide_integer_rejects_sequence:
  assumes "nom_contract N"
    and "elements_wire pre es"
    and "header_wire 1 usz (length body) uh" "length body \<notin> {1, 2, 4}"
    and "header_wire 6 sz (length (pre @ uh @ body @ post)) h"
  shows "data_element N (h @ (pre @ uh @ body @ post) @ rest) = Some (Inl (reject N body))"
proof (rule nom_contract.sequence_error [OF assms(1,2)])
  show "uh @ body @ post \<noteq> []"
    using header_wire_nonempty [OF assms(3)] by simp
  show "data_element N (uh @ body @ post) = Some (Inl (reject N body))"
    by (rule nom_contract.wide_uint_error [OF assms(1,3,4)])
qed (rule assms(5))

theorem wide_integer_rejects_sequence_witness:
  "data_element nom_model [0x35, 0x0b, 0x08, 0x01, 0x0b, 0, 0, 0, 0, 0, 0, 0, 1] =
     Some (Inl (reject nom_model [0, 0, 0, 0, 0, 0, 0, 1]))"
proof -
  have "elements_wire ([0x08, 0x01] @ []) [UnsignedInt 1]"
    using uint_bytes_wire [of 1] by (intro cons_wire nil_wire) (simp add: uint_bytes_def)
  moreover have "header_wire 1 (Fixed 8) (length [0, 0, 0, 0, 0, 0, 0, 1 :: u8]) [0x0b]"
    by (rule header_wireI [where i = 3])
      (simp_all add: descriptor_byte_def resolve_size_def)
  moreover have "header_wire 6 VarLen8
      (length ([0x08, 0x01] @ [0x0b] @ [0, 0, 0, 0, 0, 0, 0, 1 :: u8] @ [])) [0x35, 0x0b]"
    by (rule header_wireI [where i = 5])
      (simp_all add: descriptor_byte_def resolve_size_def be_value_def)
  ultimately show ?thesis
    using wide_integer_rejects_sequence [OF nom_std.nom_contract_axioms, of "[0x08, 0x01]"
        "[UnsignedInt 1]" "Fixed 8" "[0, 0, 0, 0, 0, 0, 0, 1]" "[0x0b]" VarLen8 "[]" "[0x35, 0x0b]" "[]"]
    by simp
qed

text \<open>
  C34. Whatever an input shorter than 2 to the 31 bytes decodes to is a value that the encoder can
  represent, with every integer below 2 to the 32nd: its encoding, at most twice as long as the
  bytes it came from, decodes to the same value.
\<close>

theorem decoded_values_reencode:
  assumes "nom_contract N" "length bs < 2 ^ 31" "data_element N bs = Some (Inr (rest, e))"
  shows "encodable e \<and> length (element_bytes e) + 2 * length rest \<le> 2 * length bs \<and>
    data_element N (element_bytes e @ tail) = Some (Inr (tail, e))"
proof -
  from assms obtain p where p: "bs = p @ rest" "element_wire p e"
    by (auto simp: nom_contract.data_element_iff)
  with assms(2) have "encodable e" "length (element_bytes e) \<le> 2 * length p"
    using wire_encodable(1) [OF p(2)] by simp_all
  with p nom_contract.data_element_fwd [OF assms(1) element_bytes_wire] show ?thesis
    by simp
qed

theorem decoded_values_reencode_witness:
  "element_bytes (Sequence [UnsignedInt 5]) = [0x35, 0x02, 0x08, 0x05] \<and>
   data_element nom_model ([0x35, 0x02, 0x08, 0x05] @ []) = Some (Inr ([], Sequence [UnsignedInt 5]))"
proof -
  have "data_element nom_model [0x36, 0x00, 0x05, 0x0a, 0, 0, 0, 5] =
      Some (Inr ([], Sequence [UnsignedInt 5]))"
    by code_simp
  moreover have "element_bytes (Sequence [UnsignedInt 5]) = [0x35, 0x02, 0x08, 0x05]"
    by (simp add: uint_bytes_def sequence_header_def)
  ultimately show ?thesis
    using decoded_values_reencode [OF nom_std.nom_contract_axioms, of
        "[0x36, 0x00, 0x05, 0x0a, 0, 0, 0, 5]" "[]" "Sequence [UnsignedInt 5]" "[]"]
    by simp
qed

text \<open>
  C35. The descriptor parser reads five bits of type and three bits of size index back from the
  byte that packs them, and the size that belongs to the index: 1, 2, 4, 8 or 16 bytes for 0 to 4,
  but none for index 0 of the type Nil, and a length field of 1, 2 or 4 bytes for 5 to 7. It is an
  error on an empty input.
\<close>

theorem descriptor_reads_byte:
  assumes "nom_contract N" "t < 32" "i < 8"
  shows "descriptor N (descriptor_byte t i # rest) =
      Inr (rest, \<lparr>element_type = t, element_size =
        [Fixed (if t = 0 then 0 else 1), Fixed 2, Fixed 4, Fixed 8, Fixed 16,
         VarLen8, VarLen16, VarLen32] ! unat i\<rparr>) \<and>
    isl (descriptor N [])"
  using assms u8_below_8 [OF assms(3)]
  by (auto simp: nom_contract.descriptor_Cons nom_contract.descriptor_Nil of_descriptor_byte
      resolve_size_def)

theorem descriptor_reads_byte_witness:
  "descriptor nom_model [0x27, 0x00, 0x00, 0x01, 0x00] =
     Inr ([0x00, 0x00, 0x01, 0x00], \<lparr>element_type = 4, element_size = VarLen32\<rparr>)"
  using descriptor_reads_byte [OF nom_std.nom_contract_axioms, of 4 7]
  by (simp add: descriptor_byte_def)

section \<open>Responses\<close>

text \<open>
  C16. A response is framed exactly when the bytes are a header, the counted attribute bytes and
  the counted continuation state, followed by the rest: framing never looks inside them.
\<close>

theorem raw_response_framing:
  assumes "nom_contract N"
  shows "raw_response N bs = Inr (rest, r) \<longleftrightarrow> bs = response_bytes r @ rest \<and> response_fits r"
  using assms by (rule nom_contract.raw_response_iff)

theorem raw_response_framing_witness:
  "raw_response nom_model [7, 0, 0, 0, 6, 0, 1, 0x35, 2, 0xaa, 0xbb, 0xcc] =
     Inr ([0xcc], \<lparr>header = \<lparr>pdu_id = 7, transaction_id = 0, parameter_length = 6\<rparr>,
       attribute_bytes = [0x35], continuation_state = [0xaa, 0xbb]\<rparr>)"
  using raw_response_framing [OF nom_std.nom_contract_axioms, of _ "[0xcc]"
      "\<lparr>header = \<lparr>pdu_id = 7, transaction_id = 0, parameter_length = 6\<rparr>,
        attribute_bytes = [0x35], continuation_state = [0xaa, 0xbb]\<rparr>"]
  by (simp add: response_bytes_def response_fits_def header_bytes_def u16_to_be_bytes_def)

text \<open>
  Framing does not depend on the header: any other PDU id, transaction id or parameter
  length in it is accepted just the same, and the rest of the result does not change.
\<close>

theorem raw_response_ignores_header:
  assumes "nom_contract N" "raw_response N bs = Inr (rest, r)"
  shows "raw_response N (header_bytes h @ drop 5 bs) = Inr (rest, r\<lparr>header := h\<rparr>)"
proof -
  from assms have "bs = response_bytes r @ rest" "response_fits r"
    by (simp_all add: nom_contract.raw_response_iff)
  then have "header_bytes h @ drop 5 bs = response_bytes (r\<lparr>header := h\<rparr>) @ rest"
    "response_fits (r\<lparr>header := h\<rparr>)"
    by (simp_all add: response_bytes_def response_fits_def)
  with assms(1) show ?thesis
    by (simp add: nom_contract.raw_response_iff)
qed

theorem raw_response_ignores_header_witness:
  "\<exists>r. raw_response nom_model
     (header_bytes \<lparr>pdu_id = 1, transaction_id = 9, parameter_length = 0\<rparr> @
      drop 5 [7, 0, 0, 0, 3, 0, 0, 0]) = Inr ([], r) \<and> pdu_id (header r) = 1"
proof -
  have "raw_response nom_model [7, 0, 0, 0, 3, 0, 0, 0] =
      Inr ([], \<lparr>header = \<lparr>pdu_id = 7, transaction_id = 0, parameter_length = 3\<rparr>,
        attribute_bytes = [], continuation_state = []\<rparr>)"
    by code_simp
  from raw_response_ignores_header [OF nom_std.nom_contract_axioms this,
      of "\<lparr>pdu_id = 1, transaction_id = 9, parameter_length = 0\<rparr>"]
  show ?thesis
    by auto
qed

text \<open>
  A PDU with fewer than three bytes after its header is never framed: an \<^verbatim>\<open>ErrorResponse\<close>
  that carries an error code only is reported as a decode error.
\<close>

theorem short_response_rejected:
  assumes "nom_contract N" "length bs < 8"
  shows "isl (raw_response N bs)"
  using assms by (rule nom_contract.raw_response_short)

theorem short_response_rejected_witness:
  "isl (raw_response nom_model [0x01, 0x00, 0x00, 0x00, 0x02, 0x00, 0x03])"
  by (rule short_response_rejected [OF nom_std.nom_contract_axioms]) simp

text \<open>
  C18. The elements of a record are read as its attributes exactly when they alternate 16-bit
  integers, of any encoded width, and values: an odd element, an identifier that is no integer
  or one that does not fit sixteen bits is an error, and nothing is dropped.
\<close>

theorem attribute_list_alternates:
  assumes "nom_contract N"
  shows "attribute_list N es = Inr al \<longleftrightarrow> es = concat (map (\<lambda>(i, v). [UnsignedInt (ucast i), v]) al)"
  using nom_contract.attribute_list_iff [OF assms] by (simp add: attribute_elements_def)

theorem attribute_list_alternates_witness:
  "attribute_list nom_model [UnsignedInt 4, Unknown] = Inr [(4, Unknown)]"
  using attribute_list_alternates [OF nom_std.nom_contract_axioms, of _ "[(4, Unknown)]"] by simp

text \<open>
  C17. The reassembled attribute bytes decode to attribute lists exactly when they start with an
  element of the wire format that is a sequence of records with those attributes, one list per
  record in order, or that is no sequence at all, which yields no list.
\<close>

theorem decode_attribute_lists_spec:
  assumes "nom_contract N"
  shows "decode_attribute_lists N bs = Some (Inr (rest, als)) \<longleftrightarrow>
    (\<exists>p outer. bs = p @ rest \<and> element_wire p outer \<and> records_carry outer als)"
  using assms by (rule nom_contract.decode_attribute_lists_iff)

theorem decode_attribute_lists_spec_witness:
  "decode_attribute_lists nom_model [0x35, 0x00] = Some (Inr ([], []))"
proof -
  have "element_wire [0x35, 0x00] (Sequence [])"
    using element_bytes_wire [of "Sequence []"] by (simp add: sequence_header_def)
  then show ?thesis
    using decode_attribute_lists_spec [OF nom_std.nom_contract_axioms, of "[0x35, 0x00]" "[]" "[]"]
    by fastforce
qed

section \<open>Extraction\<close>

text \<open>
  C19. The channel of a record is found exactly when its first ProtocolDescriptorList attribute
  is a sequence with an entry that is RFCOMM's UUID and an 8-bit channel and nothing else; the
  first such entry counts.
\<close>

theorem rfcomm_channel_spec:
  "rfcomm_channel al = Some ch \<longleftrightarrow>
     (\<exists>pre stack post i.
        al = pre @ (PROTOCOL_DESCRIPTOR_LIST_ATTR_ID, Sequence stack) # post \<and>
        PROTOCOL_DESCRIPTOR_LIST_ATTR_ID \<notin> fst ` set pre \<and>
        i < length stack \<and> stack ! i = rfcomm_element ch \<and>
        (\<forall>j \<in> {..<i}. \<forall>d. stack ! j \<noteq> rfcomm_element d))"
  using rfcomm_channel_iff [of al ch] by (simp add: lessThan_def)

theorem rfcomm_channel_spec_witness:
  "rfcomm_channel [(0x0004, Sequence [Sequence [Uuid16 0x0100], rfcomm_element 13])] = Some 13"
  unfolding rfcomm_channel_spec
  by (intro exI [of _ "[]"] exI [of _ "[Sequence [Uuid16 0x0100], rfcomm_element 13]"] exI [of _ 1])
    (simp add: PROTOCOL_DESCRIPTOR_LIST_ATTR_ID_def rfcomm_element_def RFCOMM_UUID_def)

section \<open>Requests\<close>

text \<open>
  C15. A request is encoded, to the layout of the specification, exactly when its continuation
  state is at most 255 bytes long; a longer one is an error that names the length. The error
  for a body that is too long never occurs.
\<close>

theorem encode_layout:
  assumes "bytes_contract B"
  shows "encode B r =
      (if length (req_continuation_state r) \<le> 255 then Inr (request_bytes r)
       else Inl (ContinuationStateTooLong (length (req_continuation_state r)))) \<and>
    encode B r \<noteq> Inl (BodyTooLong n)"
  using bytes_contract.encode_eq [OF assms, of r] by auto

theorem encode_layout_witness:
  "encode bytes_model
     \<lparr>req_transaction_id = 0, service_uuid16 = 0x1002, maximum_attribute_byte_count = 0xffff,
      attribute_id_range = 0xffff, req_continuation_state = replicate 256 0\<rparr> =
   Inl (ContinuationStateTooLong 256)"
  using encode_layout [OF bytes_std.bytes_contract_axioms] by simp

text \<open>
  C14. The peer reads a request back: the crate's own parsers recover every field of it from its
  encoding, with the declared lengths consistent and nothing left over.
\<close>

theorem request_round_trip:
  assumes "nom_contract N" "bytes_contract B" "encode B r = Inr bs"
  shows "parse_request N bs = Some r \<and> length bs = 20 + length (req_continuation_state r)"
proof -
  from bytes_contract.encode_eq [OF assms(2), of r] assms(3)
  have "length (req_continuation_state r) < 2 ^ 8" "bs = request_bytes r"
    by (auto split: if_splits)
  then show ?thesis
    using nom_contract.parse_request_bytes [OF assms(1), of r] by (simp add: length_request_bytes)
qed

theorem request_round_trip_witness:
  "parse_request nom_model
     [6, 0, 1, 0, 17, 53, 3, 25, 16, 2, 255, 255, 53, 5, 10, 0, 0, 255, 255, 2, 0, 243] =
   Some \<lparr>req_transaction_id = 1, service_uuid16 = 0x1002, maximum_attribute_byte_count = 0xffff,
     attribute_id_range = 0xffff, req_continuation_state = [0, 0xf3]\<rparr>"
proof -
  have "encode bytes_model \<lparr>req_transaction_id = 1, service_uuid16 = 0x1002,
      maximum_attribute_byte_count = 0xffff, attribute_id_range = 0xffff,
      req_continuation_state = [0, 0xf3]\<rparr> =
    Inr [6, 0, 1, 0, 17, 53, 3, 25, 16, 2, 255, 255, 53, 5, 10, 0, 0, 255, 255, 2, 0, 243]"
    by code_simp
  from request_round_trip [OF nom_std.nom_contract_axioms bytes_std.bytes_contract_axioms this]
  show ?thesis
    by simp
qed

end
