(* ===== verification/Socket.thy ===== *)
theory Socket
  imports Pdu_Header
begin

text \<open>
  \<^verbatim>\<open>src/transport/socket.rs\<close>: one request written, one complete PDU read back. The stream is
  generic in the source (any \<^verbatim>\<open>AsyncRead + AsyncWrite\<close>), and its operations and the timer are
  tokio's: the record \<open>tokio_lib\<close> holds \<^verbatim>\<open>timeout(d, stream.write_all(bytes))\<close> and
  \<^verbatim>\<open>timeout(d, stream.read_exact(buf))\<close>, awaited, over a stream state \<open>'s\<close>.
\<close>

section \<open>Streams under a timeout\<close>

text \<open>Durations are in milliseconds.\<close>

type_synonym duration = nat

text \<open>
  The outer sum is the timer's verdict (\<open>Inl\<close> for \<^verbatim>\<open>Elapsed\<close>), the inner one the operation's
  (\<open>Inl\<close> for \<^verbatim>\<open>io::Error\<close>). A successful read returns the filled buffer.
\<close>

record ('s, 'io, 'el) tokio_lib =
  timeout_write_all :: "duration \<Rightarrow> bytes \<Rightarrow> 's \<Rightarrow> ('el + 'io + unit) \<times> 's"
  timeout_read_exact :: "duration \<Rightarrow> nat \<Rightarrow> 's \<Rightarrow> ('el + 'io + bytes) \<times> 's"

text \<open>
  What the code relies on, in terms of all the bytes a stream state has ever sent and received:
  a completed write has sent its bytes, a completed read has received as many bytes as asked
  for and returns them, and an abandoned or failed operation has moved at most part of them.
\<close>

locale byte_stream =
  fixes T :: "('s, 'io, 'el) tokio_lib"
    and sent :: "'s \<Rightarrow> bytes"
    and received :: "'s \<Rightarrow> bytes"
  assumes write_ok:
      "timeout_write_all T d bs s = (Inr (Inr u), s') \<Longrightarrow> sent s' = sent s @ bs"
    and write_part:
      "timeout_write_all T d bs s = (w, s') \<Longrightarrow> \<exists>k. sent s' = sent s @ take k bs"
    and write_received:
      "timeout_write_all T d bs s = (w, s') \<Longrightarrow> received s' = received s"
    and read_ok:
      "timeout_read_exact T d n s = (Inr (Inr buf), s') \<Longrightarrow>
       length buf = n \<and> received s' = received s @ buf"
    and read_part:
      "timeout_read_exact T d n s = (v, s') \<Longrightarrow>
       \<exists>got. length got \<le> n \<and> received s' = received s @ got"
    and read_sent:
      "timeout_read_exact T d n s = (v, s') \<Longrightarrow> sent s' = sent s"

text \<open>
  A stream with a clock. An operation under a timeout ends when the time is up, at the latest, or
  somewhat later: tokio looks at the timer only when the operation yields, and the task may have to
  wait before it runs. What an operation can take beyond its time limit, and what passes between
  the end of the operation before it and its own beginning, is at most \<open>lag\<close>.
\<close>

locale timed_byte_stream = byte_stream +
  fixes now :: "'s \<Rightarrow> nat"
    and lag :: nat
  assumes write_time:
      "timeout_write_all T d bs s = (w, s') \<Longrightarrow> now s \<le> now s' \<and> now s' \<le> now s + d + lag"
    and read_time:
      "timeout_read_exact T d n s = (v, s') \<Longrightarrow> now s \<le> now s' \<and> now s' \<le> now s + d + lag"

section \<open>Data and operations\<close>

definition PDU_HEADER_LEN :: nat where "PDU_HEADER_LEN = 5"
definition RESPONSE_TIMEOUT :: duration where "RESPONSE_TIMEOUT = 20000"

datatype SocketError = Io | Timeout

definition socket_error_to_string :: "SocketError \<Rightarrow> string" where
  "socket_error_to_string err =
     (case err of
        Io \<Rightarrow> ''I/O error during SDP exchange''
      | Timeout \<Rightarrow> ''timed out waiting for SDP response'')"

text \<open>\<^verbatim>\<open>.map_err(|_| SocketError::Timeout)?.map_err(|_| SocketError::Io)?\<close>\<close>

definition settle :: "'el + 'io + 'a \<Rightarrow> SocketError + 'a" where
  "settle outcome =
     propagate (map_err (\<lambda>_. Timeout) outcome) (\<lambda>done. map_err (\<lambda>_. Io) done)"

definition send_and_receive_pdu ::
    "('s, 'io, 'el) tokio_lib \<Rightarrow> bytes \<Rightarrow> 's \<Rightarrow> (SocketError + bytes) \<times> 's" where
  "send_and_receive_pdu T request stream =
     (let (written, stream) = timeout_write_all T RESPONSE_TIMEOUT request stream in
      case settle written of
        Inl e \<Rightarrow> (Inl e, stream)
      | Inr _ \<Rightarrow>
     (let (got, stream) = timeout_read_exact T RESPONSE_TIMEOUT PDU_HEADER_LEN stream in
      case settle got of
        Inl e \<Rightarrow> (Inl e, stream)
      | Inr header \<Rightarrow>
     (let param_len = unat (u16_from_be_bytes (header ! 3) (header ! 4));
          (got, stream) = timeout_read_exact T RESPONSE_TIMEOUT param_len stream in
      case settle got of
        Inl e \<Rightarrow> (Inl e, stream)
      | Inr body \<Rightarrow> (Inr (header @ body), stream))))"

lemma settle_Inr_iff [simp]: "settle r = Inr a \<longleftrightarrow> r = Inr (Inr a)"
  by (auto simp: settle_def propagate_Inr_iff)

lemma settle_simps [simp]:
  "settle (Inl el) = Inl Timeout"
  "settle (Inr (Inl io)) = Inl Io"
  "settle (Inr (Inr a)) = Inr a"
  by (simp_all add: settle_def)

section \<open>Exactly one PDU\<close>

text \<open>A complete PDU: a header and as many bytes as it declares.\<close>

definition complete_pdu :: "bytes \<Rightarrow> bool" where
  "complete_pdu pdu \<longleftrightarrow>
     (\<exists>h body. pdu = header_bytes h @ body \<and> length body = unat (parameter_length h))"

text \<open>At most one PDU: a header at most, or a header and at most as many bytes as it declares.\<close>

definition within_one_pdu :: "bytes \<Rightarrow> bool" where
  "within_one_pdu got \<longleftrightarrow>
     length got \<le> 5 \<or> length got \<le> 5 + unat (u16_from_be_bytes (got ! 3) (got ! 4))"

lemma five_bytes_header:
  assumes "length bs = 5"
  obtains h where "bs = header_bytes h"
    "parameter_length h = u16_from_be_bytes (bs ! 3) (bs ! 4)"
proof -
  from assms obtain a b c d f where bs: "bs = [a, b, c, d, f]"
    by (auto simp: numeral_eq_Suc length_Suc_conv)
  show thesis
    by (rule that [of "\<lparr>pdu_id = a, transaction_id = u16_from_be_bytes b c,
        parameter_length = u16_from_be_bytes d f\<rparr>"]) (simp_all add: bs header_bytes_def)
qed

lemma settle_cases:
  obtains (fails) e where "settle v = Inl e" | (settles) a where "v = Inr (Inr a)"
  by (cases "settle v") auto

text \<open>The four ways an exchange can end, in the order of its operations.\<close>

lemma send_and_receive_cases:
  assumes "send_and_receive_pdu T request s = (r, s')"
  obtains
    (write_fails) w e where
      "timeout_write_all T RESPONSE_TIMEOUT request s = (w, s')" "settle w = Inl e" "r = Inl e"
  | (header_fails) u s1 v e where
      "timeout_write_all T RESPONSE_TIMEOUT request s = (Inr (Inr u), s1)"
      "timeout_read_exact T RESPONSE_TIMEOUT PDU_HEADER_LEN s1 = (v, s')"
      "settle v = Inl e" "r = Inl e"
  | (body_fails) u s1 header s2 v e where
      "timeout_write_all T RESPONSE_TIMEOUT request s = (Inr (Inr u), s1)"
      "timeout_read_exact T RESPONSE_TIMEOUT PDU_HEADER_LEN s1 = (Inr (Inr header), s2)"
      "timeout_read_exact T RESPONSE_TIMEOUT
         (unat (u16_from_be_bytes (header ! 3) (header ! 4))) s2 = (v, s')"
      "settle v = Inl e" "r = Inl e"
  | (complete) u s1 header s2 body where
      "timeout_write_all T RESPONSE_TIMEOUT request s = (Inr (Inr u), s1)"
      "timeout_read_exact T RESPONSE_TIMEOUT PDU_HEADER_LEN s1 = (Inr (Inr header), s2)"
      "timeout_read_exact T RESPONSE_TIMEOUT
         (unat (u16_from_be_bytes (header ! 3) (header ! 4))) s2 = (Inr (Inr body), s')"
      "r = Inr (header @ body)"
proof (cases "timeout_write_all T RESPONSE_TIMEOUT request s")
  case sends: (Pair w s1)
  show thesis
  proof (cases w rule: settle_cases)
    case (fails e)
    with assms sends show thesis
      by (intro write_fails) (auto simp: send_and_receive_pdu_def)
  next
    case wrote: (settles u)
    show thesis
    proof (cases "timeout_read_exact T RESPONSE_TIMEOUT PDU_HEADER_LEN s1")
      case heads: (Pair v s2)
      show thesis
      proof (cases v rule: settle_cases)
        case (fails e)
        with assms sends wrote heads show thesis
          by (intro header_fails [of u s1 v e]) (auto simp: send_and_receive_pdu_def)
      next
        case got: (settles hdr)
        obtain x s3 where body: "timeout_read_exact T RESPONSE_TIMEOUT
            (unat (u16_from_be_bytes (hdr ! 3) (hdr ! 4))) s2 = (x, s3)"
          by fastforce
        note run = assms sends wrote heads got body
        show thesis
        proof (cases x rule: settle_cases)
          case (fails e)
          with run show thesis
            by (intro body_fails [of u s1 hdr s2 x e]) (auto simp: send_and_receive_pdu_def Let_def)
        next
          case (settles b)
          with run show thesis
            by (intro complete [of u s1 hdr s2 b]) (auto simp: send_and_receive_pdu_def Let_def)
        qed
      qed
    qed
  qed
qed

context byte_stream
begin

lemma exchange_ok:
  assumes "send_and_receive_pdu T request s = (Inr pdu, s')"
  shows "sent s' = sent s @ request" "received s' = received s @ pdu" "complete_pdu pdu"
proof -
  from assms obtain u s1 header s2 body where
    w: "timeout_write_all T RESPONSE_TIMEOUT request s = (Inr (Inr u), s1)" and
    r1: "timeout_read_exact T RESPONSE_TIMEOUT PDU_HEADER_LEN s1 = (Inr (Inr header), s2)" and
    r2: "timeout_read_exact T RESPONSE_TIMEOUT
       (unat (u16_from_be_bytes (header ! 3) (header ! 4))) s2 = (Inr (Inr body), s')" and
    pdu: "pdu = header @ body"
    by (rule send_and_receive_cases) auto
  show "sent s' = sent s @ request"
    using write_ok [OF w] read_sent [OF r1] read_sent [OF r2] by simp
  show "received s' = received s @ pdu"
    using write_received [OF w] read_ok [OF r1] read_ok [OF r2] pdu by simp
  obtain h where "header = header_bytes h"
    "parameter_length h = u16_from_be_bytes (header ! 3) (header ! 4)"
    using read_ok [OF r1] by (auto simp: PDU_HEADER_LEN_def elim: five_bytes_header)
  then show "complete_pdu pdu"
    using read_ok [OF r2] pdu by (auto simp: complete_pdu_def)
qed

text \<open>
  However an exchange ends, it has received nothing before the request was sent in full, then at
  most a header, and then at most the bytes that header declares.
\<close>

lemma read_after_header:
  assumes "timeout_write_all T d request s = (Inr (Inr u), s1)"
    and "timeout_read_exact T d' PDU_HEADER_LEN s1 = (Inr (Inr header), s2)"
    and "timeout_read_exact T d'' (unat (u16_from_be_bytes (header ! 3) (header ! 4))) s2 = (v, s')"
  shows "\<exists>got. sent s' = sent s @ request \<and> received s' = received s @ got \<and> within_one_pdu got"
proof -
  from read_part [OF assms(3)] obtain got where
    got: "length got \<le> unat (u16_from_be_bytes (header ! 3) (header ! 4))"
      "received s' = received s2 @ got"
    by blast
  moreover have "length header = 5" "received s2 = received s @ header"
    using read_ok [OF assms(2)] write_received [OF assms(1)] by (simp_all add: PDU_HEADER_LEN_def)
  moreover have "sent s' = sent s @ request"
    using write_ok [OF assms(1)] read_sent [OF assms(2)] read_sent [OF assms(3)] by simp
  ultimately show ?thesis
    by (intro exI [of _ "header @ got"]) (simp add: within_one_pdu_def nth_append)
qed

lemma exchange_part:
  assumes "send_and_receive_pdu T request s = (r, s')"
  shows "\<exists>k got. sent s' = sent s @ take k request \<and> received s' = received s @ got \<and>
    (got = [] \<or> take k request = request) \<and> within_one_pdu got"
  using assms
proof (cases rule: send_and_receive_cases)
  case (write_fails w e)
  from write_part [OF write_fails(1)] obtain k where "sent s' = sent s @ take k request" ..
  with write_received [OF write_fails(1)] show ?thesis
    by (intro exI [of _ k] exI [of _ "[]"]) (simp add: within_one_pdu_def)
next
  case (header_fails u s1 v e)
  from read_part [OF header_fails(2)] obtain got where
    "length got \<le> 5" "received s' = received s1 @ got"
    by (auto simp: PDU_HEADER_LEN_def)
  with header_fails show ?thesis
    by (intro exI [of _ "length request"] exI [of _ got])
      (simp add: within_one_pdu_def write_ok read_sent write_received)
next
  case (body_fails u s1 header s2 v e)
  from read_after_header [OF body_fails(1-3)] show ?thesis
    by (auto intro: exI [of _ "length request"])
next
  case (complete u s1 header s2 body)
  from read_after_header [OF complete(1-3)] show ?thesis
    by (auto intro: exI [of _ "length request"])
qed

lemma exchange_sent_part:
  assumes "send_and_receive_pdu T request s = (r, s')"
  shows "\<exists>k. sent s' = sent s @ take k request"
  using exchange_part [OF assms] by blast

end

context timed_byte_stream
begin

lemma exchange_time:
  assumes "send_and_receive_pdu T request s = (r, s')"
  shows "now s' \<le> now s + 3 * (RESPONSE_TIMEOUT + lag)"
  using assms
proof (cases rule: send_and_receive_cases)
  case write_fails
  then show ?thesis
    using write_time by fastforce
next
  case header_fails
  then show ?thesis
    using write_time [OF header_fails(1)] read_time [OF header_fails(2)] by simp
next
  case body_fails
  then show ?thesis
    using write_time [OF body_fails(1)] read_time [OF body_fails(2)] read_time [OF body_fails(3)]
    by simp
next
  case complete
  then show ?thesis
    using write_time [OF complete(1)] read_time [OF complete(2)] read_time [OF complete(3)]
    by simp
qed

end

end
