(* ===== verification/Session.thy ===== *)
theory Session
  imports Socket Encode Extract
begin

text \<open>
  \<^verbatim>\<open>src/transport/session.rs\<close>: a whole query over a connected stream. The pagination loop has no
  bound in the source, so it is a \<open>partial_function\<close> and a query's value is an \<open>option\<close>:
  \<open>None\<close> is a query that never returns.
\<close>

section \<open>Data and operations\<close>

definition MAXIMUM_ATTRIBUTE_BYTE_COUNT :: u16 where "MAXIMUM_ATTRIBUTE_BYTE_COUNT = 0xffff"

definition PROTOCOL_DESCRIPTOR_LIST_ATTRIBUTE_RANGE :: u32 where
  "PROTOCOL_DESCRIPTOR_LIST_ATTRIBUTE_RANGE = 0x0000ffff"

datatype QueryError =
    Encode EncodeError
  | Socket SocketError
  | Decode

definition query_error_to_string :: "QueryError \<Rightarrow> string" where
  "query_error_to_string err =
     (case err of
        Encode e \<Rightarrow> ''encode error: '' @ encode_error_to_string e
      | Socket e \<Rightarrow> ''transport error: '' @ socket_error_to_string e
      | Decode \<Rightarrow> ''failed to decode SDP response'')"

definition query_request :: "u16 \<Rightarrow> u16 \<Rightarrow> bytes \<Rightarrow> ServiceSearchAttributeRequest" where
  "query_request tid uuid cs =
     \<lparr>req_transaction_id = tid, service_uuid16 = uuid,
      maximum_attribute_byte_count = MAXIMUM_ATTRIBUTE_BYTE_COUNT,
      attribute_id_range = PROTOCOL_DESCRIPTOR_LIST_ATTRIBUTE_RANGE,
      req_continuation_state = cs\<rparr>"

definition query_once ::
    "'m bytes_lib \<Rightarrow> ('s, 'io, 'el) tokio_lib \<Rightarrow> 's \<Rightarrow> u16 \<Rightarrow> u16 \<Rightarrow> bytes
     \<Rightarrow> (QueryError + bytes) \<times> 's" where
  "query_once B T stream tid uuid cs =
     (case map_err Encode (encode B (query_request tid uuid cs)) of
        Inl e \<Rightarrow> (Inl e, stream)
      | Inr bytes \<Rightarrow>
          (let (response, stream) = send_and_receive_pdu T bytes stream
           in (map_err Socket response, stream)))"

partial_function (option) fetch_pages ::
    "('e, 'b) nom_lib \<Rightarrow> 'm bytes_lib \<Rightarrow> ('s, 'io, 'el) tokio_lib \<Rightarrow> u16
     \<Rightarrow> u16 \<Rightarrow> bytes \<Rightarrow> bytes \<Rightarrow> 's \<Rightarrow> ((QueryError + bytes) \<times> 's) option" where
  "fetch_pages N B T uuid tid attrs cs stream =
     (if cs = [] then Some (Inr attrs, stream)
      else
        (case query_once B T stream (tid + 1) uuid cs of
           (Inl e, stream) \<Rightarrow> Some (Inl e, stream)
         | (Inr bytes, stream) \<Rightarrow>
             (case raw_response N bytes of
                Inl _ \<Rightarrow> Some (Inl Decode, stream)
              | Inr (_, raw) \<Rightarrow>
                  fetch_pages N B T uuid (tid + 1) (attrs @ attribute_bytes raw)
                    (continuation_state raw) stream)))"

definition find_rfcomm_channel ::
    "('e, 'b) nom_lib \<Rightarrow> 'm bytes_lib \<Rightarrow> ('s, 'io, 'el) tokio_lib \<Rightarrow> 's \<Rightarrow> u16
     \<Rightarrow> ((QueryError + u8 option) \<times> 's) option" where
  "find_rfcomm_channel N B T stream uuid =
     (case query_once B T stream 0 uuid [] of
        (Inl e, stream) \<Rightarrow> Some (Inl e, stream)
      | (Inr first_bytes, stream) \<Rightarrow>
     (case raw_response N first_bytes of
        Inl _ \<Rightarrow> Some (Inl Decode, stream)
      | Inr (_, first_raw) \<Rightarrow>
     (case fetch_pages N B T uuid 0 (attribute_bytes first_raw) (continuation_state first_raw)
             stream of
        None \<Rightarrow> None
      | Some (Inl e, stream) \<Rightarrow> Some (Inl e, stream)
      | Some (Inr attrs, stream) \<Rightarrow>
     (case decode_attribute_lists N attrs of
        None \<Rightarrow> None
      | Some (Inl _) \<Rightarrow> Some (Inl Decode, stream)
      | Some (Inr (_, attribute_lists)) \<Rightarrow>
          Some (Inr (find_map rfcomm_channel attribute_lists), stream)))))"

end
