(* ===== verification/Scripted_Peer.thy ===== *)
theory Scripted_Peer
  imports Socket
begin

text \<open>
  A concrete stream: the client's end of an in-memory duplex whose other end is the server task
  of the tests in \<^verbatim>\<open>src/transport/session.rs\<close>, which answers each complete request with the next
  of a list of pages and hangs up after the last. Every byte of a page carries the time it takes
  to arrive after the byte before it, in milliseconds.
\<close>

section \<open>The server task\<close>

type_synonym paced = "(nat \<times> u8) list"

definition pdu_size :: "bytes \<Rightarrow> nat" where
  "pdu_size bs = 5 + unat (u16_from_be_bytes (bs ! 3) (bs ! 4))"

definition has_pdu :: "bytes \<Rightarrow> bool" where
  "has_pdu bs \<longleftrightarrow> 5 \<le> length bs \<and> pdu_size bs \<le> length bs"

text \<open>The requests left unread, the pages left to send, and what is sent now.\<close>

fun serve :: "bytes \<Rightarrow> paced list \<Rightarrow> bytes \<times> paced list \<times> paced" where
  "serve unread [] = (unread, [], [])"
| "serve unread (page # pages) =
     (if has_pdu unread then
        (let (unread', pages', out) = serve (drop (pdu_size unread) unread) pages
         in (unread', pages', page @ out))
      else (unread, page # pages, []))"

section \<open>The client's end of the stream\<close>

datatype peer_io = UnexpectedEof | BrokenPipe

record peer =
  sent_log :: bytes
  received_log :: bytes
  unread :: bytes
  inbox :: paced
  script :: "paced list"
  clock :: nat

text \<open>The bytes of a queue that arrive within a time limit, the time they take, and the rest.\<close>

fun arrived :: "nat \<Rightarrow> paced \<Rightarrow> bytes \<times> nat \<times> paced" where
  "arrived d [] = ([], 0, [])"
| "arrived d ((t, b) # q) =
     (if t \<le> d then
        (let (got, used, late) = arrived (d - t) q in (b # got, t + used, late))
      else ([], 0, (t, b) # q))"

definition peer_write :: "duration \<Rightarrow> bytes \<Rightarrow> peer \<Rightarrow> (unit + peer_io + unit) \<times> peer" where
  "peer_write d bs s =
     (if script s = [] \<and> bs \<noteq> [] then (Inr (Inl BrokenPipe), s)
      else
        (let (left, pages, out) = serve (unread s @ bs) (script s)
         in (Inr (Inr ()), s\<lparr>sent_log := sent_log s @ bs, unread := left,
               inbox := inbox s @ out, script := pages\<rparr>)))"

definition peer_read :: "duration \<Rightarrow> nat \<Rightarrow> peer \<Rightarrow> (unit + peer_io + bytes) \<times> peer" where
  "peer_read d n s =
     (let (got, used, late) = arrived d (take n (inbox s));
          s' = s\<lparr>received_log := received_log s @ got, inbox := drop (length got) (inbox s)\<rparr>
      in if length got = n then (Inr (Inr got), s'\<lparr>clock := clock s + used\<rparr>)
         else if late = [] \<and> script s = [] then
           (Inr (Inl UnexpectedEof), s'\<lparr>clock := clock s + used\<rparr>)
         else (Inl (), s'\<lparr>clock := clock s + d\<rparr>))"

definition peer_tokio :: "(peer, peer_io, unit) tokio_lib" where
  "peer_tokio = \<lparr>timeout_write_all = peer_write, timeout_read_exact = peer_read\<rparr>"

definition peer_of :: "paced list \<Rightarrow> peer" where
  "peer_of pages =
     \<lparr>sent_log = [], received_log = [], unread = [], inbox = [], script = pages, clock = 0\<rparr>"

text \<open>A page sent without delay.\<close>

definition prompt :: "bytes \<Rightarrow> paced" where
  "prompt bs = map (Pair 0) bs"

lemma arrived_time: "arrived d q = (got, used, late) \<Longrightarrow> used \<le> d"
proof (induction d q arbitrary: got used late rule: arrived.induct)
  case (2 d t b q)
  show ?case
  proof (cases "t \<le> d")
    case True
    obtain got' used' late' where rest: "arrived (d - t) q = (got', used', late')"
      by (cases "arrived (d - t) q")
    with "2.prems" True have "used = t + used'"
      by simp
    with "2.IH" [OF True rest] True show ?thesis
      by simp
  qed (use 2 in simp)
qed simp

lemma arrived_length: "arrived d q = (got, used, late) \<Longrightarrow> length got \<le> length q"
  by (induction d q arbitrary: got used late rule: arrived.induct)
    (auto split: if_splits prod.splits)

lemma arrived_prompt [simp]: "arrived d (prompt bs) = (bs, 0, [])"
  by (induction bs) (auto simp: prompt_def)

lemma take_prompt [simp]: "take n (prompt bs) = prompt (take n bs)"
  by (simp add: prompt_def take_map)

lemma drop_prompt [simp]: "drop n (prompt bs) = prompt (drop n bs)"
  by (simp add: prompt_def drop_map)

lemma prompt_Nil_iff [simp]: "prompt bs = [] \<longleftrightarrow> bs = []"
  by (simp add: prompt_def)

lemma prompt_Nil [simp]: "prompt [] = []"
  by (simp add: prompt_def)

interpretation peer_stream: timed_byte_stream peer_tokio sent_log received_log clock 0
proof unfold_locales
  fix d bs s u s'
  assume "timeout_write_all peer_tokio d bs s = (Inr (Inr u), s')"
  then show "sent_log s' = sent_log s @ bs"
    by (auto simp: peer_tokio_def peer_write_def split: if_splits prod.splits)
next
  fix d bs s w s'
  assume w: "timeout_write_all peer_tokio d bs s = (w, s')"
  then have "sent_log s' = sent_log s @ take 0 bs \<or> sent_log s' = sent_log s @ take (length bs) bs"
    by (auto simp: peer_tokio_def peer_write_def split: if_splits prod.splits)
  then show "\<exists>k. sent_log s' = sent_log s @ take k bs"
    by blast
  from w show "received_log s' = received_log s" "clock s \<le> clock s' \<and> clock s' \<le> clock s + d + 0"
    by (auto simp: peer_tokio_def peer_write_def split: if_splits prod.splits)
next
  fix d n s buf s'
  assume "timeout_read_exact peer_tokio d n s = (Inr (Inr buf), s')"
  then show "length buf = n \<and> received_log s' = received_log s @ buf"
    by (auto simp: peer_tokio_def peer_read_def Let_def split: if_splits prod.splits)
next
  fix d n s v s'
  assume v: "timeout_read_exact peer_tokio d n s = (v, s')"
  then show "\<exists>got. length got \<le> n \<and> received_log s' = received_log s @ got"
    by (auto simp: peer_tokio_def peer_read_def Let_def dest!: arrived_length
        split: if_splits prod.splits)
  from v show "sent_log s' = sent_log s"
    by (auto simp: peer_tokio_def peer_read_def Let_def split: if_splits prod.splits)
  from v show "clock s \<le> clock s' \<and> clock s' \<le> clock s + d + 0"
    by (auto simp: peer_tokio_def peer_read_def Let_def dest: arrived_time
        split: if_splits prod.splits)
qed

section \<open>A slow link\<close>

text \<open>
  A stream on which every operation, a write too, takes a time of its own, the next of a list of
  delays in milliseconds: the operation is done when that time has passed, or else abandoned when
  its time limit has.
\<close>

record slow_link =
  slow_sent :: bytes
  slow_received :: bytes
  slow_incoming :: bytes
  slow_delays :: "nat list"
  slow_clock :: nat

fun next_delay :: "nat list \<Rightarrow> nat" where
  "next_delay [] = 0"
| "next_delay (t # ts) = t"

definition pass :: "nat \<Rightarrow> slow_link \<Rightarrow> slow_link" where
  "pass t s = s\<lparr>slow_delays := tl (slow_delays s), slow_clock := slow_clock s + t\<rparr>"

definition slow_write :: "duration \<Rightarrow> bytes \<Rightarrow> slow_link \<Rightarrow> (unit + unit + unit) \<times> slow_link" where
  "slow_write d bs s =
     (let t = next_delay (slow_delays s)
      in if t \<le> d then (Inr (Inr ()), (pass t s)\<lparr>slow_sent := slow_sent s @ bs\<rparr>)
         else (Inl (), pass d s))"

definition slow_read :: "duration \<Rightarrow> nat \<Rightarrow> slow_link \<Rightarrow> (unit + unit + bytes) \<times> slow_link" where
  "slow_read d n s =
     (let t = next_delay (slow_delays s); got = take n (slow_incoming s)
      in if t \<le> d then
           (if length got = n then Inr (Inr got) else Inr (Inl ()),
            (pass t s)\<lparr>slow_received := slow_received s @ got,
               slow_incoming := drop n (slow_incoming s)\<rparr>)
         else (Inl (), pass d s))"

definition slow_tokio :: "(slow_link, unit, unit) tokio_lib" where
  "slow_tokio = \<lparr>timeout_write_all = slow_write, timeout_read_exact = slow_read\<rparr>"

definition slow_of :: "bytes \<Rightarrow> nat list \<Rightarrow> slow_link" where
  "slow_of bs delays =
     \<lparr>slow_sent = [], slow_received = [], slow_incoming = bs, slow_delays = delays, slow_clock = 0\<rparr>"

interpretation slow_stream: timed_byte_stream slow_tokio slow_sent slow_received slow_clock 0
proof unfold_locales
  fix d bs w s s'
  assume "timeout_write_all slow_tokio d bs s = (w, s')"
  then have "slow_sent s' = slow_sent s @ take 0 bs \<or> slow_sent s' = slow_sent s @ take (length bs) bs"
    by (auto simp: slow_tokio_def slow_write_def pass_def Let_def split: if_splits)
  then show "\<exists>k. slow_sent s' = slow_sent s @ take k bs"
    by blast
next
  fix d n v s s'
  assume "timeout_read_exact slow_tokio d n s = (v, s')"
  then have "slow_received s' = slow_received s @ [] \<or>
      slow_received s' = slow_received s @ take n (slow_incoming s)"
    by (auto simp: slow_tokio_def slow_read_def pass_def Let_def split: if_splits)
  moreover have "length ([] :: bytes) \<le> n" "length (take n (slow_incoming s)) \<le> n"
    by simp_all
  ultimately show "\<exists>got. length got \<le> n \<and> slow_received s' = slow_received s @ got"
    by blast
qed (auto simp: slow_tokio_def slow_write_def slow_read_def pass_def Let_def split: if_splits)

section \<open>One exchange with the server task\<close>

lemma complete_pdu_size:
  assumes "complete_pdu pdu"
  shows "has_pdu pdu" "pdu_size pdu = length pdu" "5 \<le> length pdu"
    "drop (pdu_size pdu) pdu = []"
proof -
  from assms obtain h body where
    pdu: "pdu = header_bytes h @ body" "length body = unat (parameter_length h)"
    by (auto simp: complete_pdu_def)
  then have "pdu_size pdu = length pdu"
    by (simp add: pdu_size_def header_bytes_def u16_to_be_bytes_def)
  with pdu show "has_pdu pdu" "pdu_size pdu = length pdu" "5 \<le> length pdu"
    "drop (pdu_size pdu) pdu = []"
    by (simp_all add: has_pdu_def)
qed

lemma serve_nothing [simp]: "serve [] pages = ([], pages, [])"
  by (cases pages) (simp_all add: has_pdu_def)

text \<open>
  A page that has arrived is read to its last byte, and what has arrived after it is left.
\<close>

lemma peer_exchange_pending:
  assumes "timeout_write_all peer_tokio RESPONSE_TIMEOUT req s = (Inr (Inr ()), s1)"
    and "inbox s1 = prompt (page @ pending)" "complete_pdu page"
  shows "send_and_receive_pdu peer_tokio req s =
    (Inr page, s1\<lparr>received_log := received_log s1 @ page, inbox := prompt pending\<rparr>)"
proof -
  note sizes = complete_pdu_size [OF assms(3)]
  have len: "unat (u16_from_be_bytes (page ! 3) (page ! 4)) = length page - 5"
    using sizes by (simp add: pdu_size_def)
  have "timeout_write_all peer_tokio = peer_write" "timeout_read_exact peer_tokio = peer_read"
    by (simp_all add: peer_tokio_def)
  then show ?thesis
    using assms(1,2) sizes
    by (simp add: send_and_receive_pdu_def peer_read_def Let_def PDU_HEADER_LEN_def len)
qed

lemma peer_exchange:
  assumes "unread s = []" "inbox s = []" "script s = prompt page # pages"
    and req: "complete_pdu req" and page: "complete_pdu page"
  shows "send_and_receive_pdu peer_tokio req s =
    (Inr page, s\<lparr>sent_log := sent_log s @ req, received_log := received_log s @ page,
       script := pages\<rparr>)"
proof -
  note sizes = complete_pdu_size [OF req] complete_pdu_size [OF page]
  have len: "unat (u16_from_be_bytes (page ! 3) (page ! 4)) = length page - 5"
    using sizes by (simp add: pdu_size_def)
  show ?thesis
    using assms(1-3) sizes
    by (simp add: send_and_receive_pdu_def peer_tokio_def peer_write_def peer_read_def Let_def
        PDU_HEADER_LEN_def len)
qed

section \<open>One exchange over the slow link\<close>

lemma slow_exchange:
  assumes "complete_pdu page"
  shows "\<exists>s'. send_and_receive_pdu slow_tokio request (slow_of (page @ rest) [w, a, b]) =
      (if w \<le> RESPONSE_TIMEOUT \<and> a \<le> RESPONSE_TIMEOUT \<and> b \<le> RESPONSE_TIMEOUT then Inr page
       else Inl Timeout, s') \<and>
    slow_clock s' =
      (if w \<le> RESPONSE_TIMEOUT then
         w + (if a \<le> RESPONSE_TIMEOUT then a + min b RESPONSE_TIMEOUT else RESPONSE_TIMEOUT)
       else RESPONSE_TIMEOUT)"
proof -
  note sizes = complete_pdu_size [OF assms]
  have len: "unat (u16_from_be_bytes (page ! 3) (page ! 4)) = length page - 5"
    using sizes by (simp add: pdu_size_def)
  show ?thesis
    using sizes(3)
    by (simp add: send_and_receive_pdu_def slow_tokio_def slow_write_def slow_read_def pass_def
        slow_of_def Let_def PDU_HEADER_LEN_def len min_def)
qed

end
