(* ===== verification/Session_Correct.thy ===== *)
theory Session_Correct
  imports Session Scripted_Peer
begin

text \<open>
  A query of \<^verbatim>\<open>src/transport/session.rs\<close> against its specification: \<open>query_run\<close> is the big-step
  relation of a query's exchanges, one rule for each way a page can go, and \<open>endless\<close> is its
  coinductive counterpart for a query whose pages never stop. The lemmas show that the loop
  implements exactly these two, and what a run puts on the wire.
\<close>

section \<open>Specification\<close>

text \<open>
  The bytes of the request for one page: a \<^verbatim>\<open>ServiceSearchAttributeRequest\<close> for one UUID, up to
  65535 attribute bytes, all attributes, and a continuation state.
\<close>

definition request_for :: "u16 \<Rightarrow> u16 \<Rightarrow> bytes \<Rightarrow> bytes" where
  "request_for uuid tid cs =
     [0x06] @ u16_to_be_bytes tid @ u16_to_be_bytes (of_nat (15 + length cs)) @
     [0x35, 0x03, 0x19] @ u16_to_be_bytes uuid @ [0xff, 0xff] @
     [0x35, 0x05, 0x0a, 0x00, 0x00, 0xff, 0xff] @ [of_nat (length cs)] @ cs"

lemma query_request_bytes: "request_bytes (query_request tid uuid cs) = request_for uuid tid cs"
  by (simp add: request_for_def request_bytes_def query_request_def header_bytes_def
      request_header_def MAXIMUM_ATTRIBUTE_BYTE_COUNT_def PROTOCOL_DESCRIPTOR_LIST_ATTRIBUTE_RANGE_def)
    (simp add: u16_to_be_bytes_def u32_to_be_bytes_def)

lemma query_request_continuation: "req_continuation_state (query_request tid uuid cs) = cs"
  by (simp add: query_request_def)

lemma length_request_for: "length (request_for uuid tid cs) = 20 + length cs"
  by (simp add: request_for_def)

text \<open>What a received PDU says, if it is framed as a response at all.\<close>

definition framed :: "bytes \<Rightarrow> RawServiceSearchAttributeResponse \<Rightarrow> bool" where
  "framed pdu r \<longleftrightarrow> response_fits r \<and> (\<exists>rest. pdu = response_bytes r @ rest)"

text \<open>
  \<open>query_run T uuid tid cs s rs res s'\<close>: from stream state \<open>s\<close>, with the transaction id and the
  continuation state of the next request given, the query receives the pages \<open>rs\<close> and ends in
  \<open>s'\<close>, after the last page (\<open>Inr ()\<close>) or with an error.
\<close>

inductive query_run ::
    "('s, 'io, 'el) tokio_lib \<Rightarrow> u16 \<Rightarrow> u16 \<Rightarrow> bytes \<Rightarrow> 's
     \<Rightarrow> RawServiceSearchAttributeResponse list \<Rightarrow> QueryError + unit \<Rightarrow> 's \<Rightarrow> bool"
  for T uuid where
  run_socket:
    "send_and_receive_pdu T (request_for uuid tid cs) s = (Inl e, s') \<Longrightarrow>
     query_run T uuid tid cs s [] (Inl (Socket e)) s'"
| run_garbled:
    "send_and_receive_pdu T (request_for uuid tid cs) s = (Inr pdu, s') \<Longrightarrow>
     \<forall>r. \<not> framed pdu r \<Longrightarrow> query_run T uuid tid cs s [] (Inl Decode) s'"
| run_last:
    "send_and_receive_pdu T (request_for uuid tid cs) s = (Inr pdu, s') \<Longrightarrow>
     framed pdu r \<Longrightarrow> continuation_state r = [] \<Longrightarrow> query_run T uuid tid cs s [r] (Inr ()) s'"
| run_more:
    "send_and_receive_pdu T (request_for uuid tid cs) s = (Inr pdu, s1) \<Longrightarrow>
     framed pdu r \<Longrightarrow> continuation_state r \<noteq> [] \<Longrightarrow>
     query_run T uuid (tid + 1) (continuation_state r) s1 rs res s' \<Longrightarrow>
     query_run T uuid tid cs s (r # rs) res s'"

coinductive endless :: "('s, 'io, 'el) tokio_lib \<Rightarrow> u16 \<Rightarrow> u16 \<Rightarrow> bytes \<Rightarrow> 's \<Rightarrow> bool"
  for T uuid where
  endless_page:
    "send_and_receive_pdu T (request_for uuid tid cs) s = (Inr pdu, s1) \<Longrightarrow>
     framed pdu r \<Longrightarrow> continuation_state r \<noteq> [] \<Longrightarrow>
     endless T uuid (tid + 1) (continuation_state r) s1 \<Longrightarrow> endless T uuid tid cs s"

text \<open>The requests of a run, in order.\<close>

fun requests ::
    "u16 \<Rightarrow> u16 \<Rightarrow> bytes \<Rightarrow> RawServiceSearchAttributeResponse list \<Rightarrow> bytes list" where
  "requests uuid tid cs [] = []"
| "requests uuid tid cs (r # rs) =
     request_for uuid tid cs # requests uuid (tid + 1) (continuation_state r) rs"

lemma framed_unique: "framed pdu r \<Longrightarrow> framed pdu q \<Longrightarrow> r = q"
  unfolding framed_def using nom_std.raw_response_iff [of pdu] by (metis Inr_inject prod.inject)

lemma framed_continuation: "framed pdu r \<Longrightarrow> length (continuation_state r) < 2 ^ 8"
  by (simp add: framed_def response_fits_def)

lemma page_cases:
  obtains
    (socket) e s' where "send_and_receive_pdu T (request_for uuid tid cs) s = (Inl e, s')"
  | (garbled) pdu s' where
      "send_and_receive_pdu T (request_for uuid tid cs) s = (Inr pdu, s')" "\<forall>r. \<not> framed pdu r"
  | (last) pdu s' r where
      "send_and_receive_pdu T (request_for uuid tid cs) s = (Inr pdu, s')"
      "framed pdu r" "continuation_state r = []"
  | (more) pdu s' r where
      "send_and_receive_pdu T (request_for uuid tid cs) s = (Inr pdu, s')"
      "framed pdu r" "continuation_state r \<noteq> []"
proof -
  obtain v s1 where v: "send_and_receive_pdu T (request_for uuid tid cs) s = (v, s1)"
    by fastforce
  show thesis
  proof (cases v)
    case (Inl e)
    with v show thesis
      by (intro socket) simp
  next
    case (Inr pdu)
    with v show thesis
      by (cases "\<forall>r. \<not> framed pdu r") (auto intro: garbled last more)
  qed
qed

lemma endless_moreD:
  assumes "endless T uuid tid cs s"
    and "send_and_receive_pdu T (request_for uuid tid cs) s = (v, s1)"
  obtains pdu r where "v = Inr pdu" "framed pdu r" "continuation_state r \<noteq> []"
    "endless T uuid (tid + 1) (continuation_state r) s1"
  using assms(1)
proof cases
  case (endless_page pdu s2 r)
  with assms(2) show thesis
    by (intro that [of pdu r]) simp_all
qed

lemma query_run_not_endless: "query_run T uuid tid cs s rs res s' \<Longrightarrow> \<not> endless T uuid tid cs s"
proof (induction rule: query_run.induct)
  case (run_socket tid cs s e s')
  then show ?case
    by (blast elim: endless_moreD)
next
  case (run_garbled tid cs s pdu s')
  then show ?case
    by (blast elim: endless_moreD)
next
  case (run_last tid cs s pdu s' r)
  show ?case
  proof
    assume "endless T uuid tid cs s"
    from this run_last.hyps(1) obtain q where "framed pdu q" "continuation_state q \<noteq> []"
      by (rule endless_moreD) simp
    with run_last.hyps framed_unique [of pdu r q] show False
      by simp
  qed
next
  case (run_more tid cs s pdu s1 r rs res s')
  show ?case
  proof
    assume "endless T uuid tid cs s"
    from this run_more.hyps(1) obtain q where
      "framed pdu q" "endless T uuid (tid + 1) (continuation_state q) s1"
      by (rule endless_moreD) simp
    with run_more.hyps run_more.IH framed_unique [of pdu r q] show False
      by simp
  qed
qed

text \<open>A run that starts with a framed page ends there or goes on from it.\<close>

lemma run_framed:
  assumes "query_run T uuid tid cs s rs res s'"
    and exch: "send_and_receive_pdu T (request_for uuid tid cs) s = (Inr pdu, s1)" "framed pdu r"
  shows "if continuation_state r = [] then rs = [r] \<and> res = Inr () \<and> s' = s1
    else \<exists>rs'. rs = r # rs' \<and> query_run T uuid (tid + 1) (continuation_state r) s1 rs' res s'"
  using assms(1)
proof cases
  case (run_last pdu' q)
  with exch framed_unique [of pdu r q] show ?thesis
    by simp
next
  case (run_more pdu' s2 q rs')
  with exch framed_unique [of pdu r q] show ?thesis
    by simp
qed (use exch in simp_all)

lemma query_run_unique:
  "query_run T uuid tid cs s rs res s' \<Longrightarrow> query_run T uuid tid cs s rs2 res2 s2 \<Longrightarrow>
   rs2 = rs \<and> res2 = res \<and> s2 = s'"
proof (induction arbitrary: rs2 rule: query_run.induct)
  case (run_socket tid cs s e s')
  from run_socket.prems show ?case
    by cases (use run_socket.hyps in simp_all)
next
  case (run_garbled tid cs s pdu s')
  from run_garbled.prems show ?case
    by cases (use run_garbled.hyps in simp_all)
next
  case (run_last tid cs s pdu s' r)
  from run_framed [OF run_last.prems run_last.hyps(1,2)] run_last.hyps(3) show ?case
    by simp
next
  case (run_more tid cs s pdu s1 r rs res s')
  from run_framed [OF run_more.prems run_more.hyps(1,2)] run_more.hyps(3) run_more.IH show ?case
    by auto
qed

section \<open>The loop implements the specification\<close>

text \<open>Sending the request for one page and going on from there, the first page or a later one.\<close>

definition fetch_from ::
    "('e, 'b) nom_lib \<Rightarrow> 'm bytes_lib \<Rightarrow> ('s, 'io, 'el) tokio_lib \<Rightarrow> u16
     \<Rightarrow> u16 \<Rightarrow> bytes \<Rightarrow> bytes \<Rightarrow> 's \<Rightarrow> ((QueryError + bytes) \<times> 's) option" where
  "fetch_from N B T uuid tid cs attrs s =
     (case query_once B T s tid uuid cs of
        (Inl e, s) \<Rightarrow> Some (Inl e, s)
      | (Inr bytes, s) \<Rightarrow>
          (case raw_response N bytes of
             Inl _ \<Rightarrow> Some (Inl Decode, s)
           | Inr (_, raw) \<Rightarrow>
               fetch_pages N B T uuid tid (attrs @ attribute_bytes raw)
                 (continuation_state raw) s))"

lemma fetch_pages_eq:
  "fetch_pages N B T uuid tid attrs cs s =
     (if cs = [] then Some (Inr attrs, s) else fetch_from N B T uuid (tid + 1) cs attrs s)"
  unfolding fetch_from_def by (subst fetch_pages.simps) simp

lemma find_rfcomm_channel_eq:
  "find_rfcomm_channel N B T s uuid =
     (case fetch_from N B T uuid 0 [] [] s of
        None \<Rightarrow> None
      | Some (Inl e, s') \<Rightarrow> Some (Inl e, s')
      | Some (Inr attrs, s') \<Rightarrow>
          (case decode_attribute_lists N attrs of
             None \<Rightarrow> None
           | Some (Inl _) \<Rightarrow> Some (Inl Decode, s')
           | Some (Inr (_, als)) \<Rightarrow> Some (Inr (find_map rfcomm_channel als), s')))"
  by (simp add: find_rfcomm_channel_def fetch_from_def split: prod.split sum.split)

locale sdp_codec = nom_contract N + bytes_contract B
  for N :: "('e, 'b) nom_lib" and B :: "'m bytes_lib"
begin

lemma query_once_eq:
  "length cs < 2 ^ 8 \<Longrightarrow>
   query_once B T s tid uuid cs =
     (let (response, s') = send_and_receive_pdu T (request_for uuid tid cs) s
      in (map_err Socket response, s'))"
  by (simp add: query_once_def encode_ok query_request_continuation query_request_bytes)

lemma raw_response_framed: "raw_response N pdu = Inr (rest, r) \<Longrightarrow> framed pdu r"
  by (auto simp: framed_def raw_response_iff)

lemma raw_response_of_framed: "framed pdu r \<Longrightarrow> \<exists>rest. raw_response N pdu = Inr (rest, r)"
  by (auto simp: framed_def raw_response_iff)

lemma raw_response_error: "raw_response N pdu = Inl err \<Longrightarrow> \<not> framed pdu r"
  using raw_response_of_framed by fastforce

lemma raw_response_not_framed: "\<forall>r. \<not> framed pdu r \<Longrightarrow> \<exists>err. raw_response N pdu = Inl err"
  using raw_response_framed by (cases "raw_response N pdu") auto

text \<open>One page, by how the exchange and the framing of its answer turn out.\<close>

lemma fetch_socket:
  "send_and_receive_pdu T (request_for uuid tid cs) s = (Inl e, s') \<Longrightarrow> length cs < 2 ^ 8 \<Longrightarrow>
   fetch_from N B T uuid tid cs attrs s = Some (Inl (Socket e), s')"
  by (simp add: fetch_from_def query_once_eq)

lemma fetch_garbled:
  assumes "send_and_receive_pdu T (request_for uuid tid cs) s = (Inr pdu, s')"
    and "\<forall>r. \<not> framed pdu r" "length cs < 2 ^ 8"
  shows "fetch_from N B T uuid tid cs attrs s = Some (Inl Decode, s')"
  using assms raw_response_not_framed [of pdu] by (auto simp: fetch_from_def query_once_eq)

lemma fetch_framed:
  assumes "send_and_receive_pdu T (request_for uuid tid cs) s = (Inr pdu, s1)"
    and "framed pdu r" "length cs < 2 ^ 8"
  shows "fetch_from N B T uuid tid cs attrs s =
    (if continuation_state r = [] then Some (Inr (attrs @ attribute_bytes r), s1)
     else fetch_from N B T uuid (tid + 1) (continuation_state r) (attrs @ attribute_bytes r) s1)"
  using assms raw_response_of_framed [of pdu r]
  by (auto simp: fetch_from_def [where tid = tid] query_once_eq fetch_pages_eq)

lemma run_fetches:
  "query_run T uuid tid cs s rs res s' \<Longrightarrow> length cs < 2 ^ 8 \<Longrightarrow>
   fetch_from N B T uuid tid cs attrs s =
     Some (propagate res (\<lambda>_. Inr (attrs @ concat (map attribute_bytes rs))), s')"
proof (induction arbitrary: attrs rule: query_run.induct)
  case (run_more tid cs s pdu s1 r rs res s')
  moreover from run_more.hyps have "length (continuation_state r) < 2 ^ 8"
    by (simp only: framed_continuation)
  ultimately show ?case
    by (simp add: fetch_framed)
qed (simp_all add: fetch_socket fetch_garbled fetch_framed)

text \<open>Conversely, a loop that returns has made a run; one that does not has no end to its pages.\<close>

lemma fetch_once_cases:
  assumes "query_once B T s tid uuid cs = (v, s1)" "length cs < 2 ^ 8"
    and "endless T uuid tid cs s"
  obtains pdu rest r where "v = Inr pdu" "raw_response N pdu = Inr (rest, r)"
    "continuation_state r \<noteq> []" "length (continuation_state r) < 2 ^ 8"
    "endless T uuid (tid + 1) (continuation_state r) s1"
proof -
  obtain w where w: "send_and_receive_pdu T (request_for uuid tid cs) s = (w, s1)"
    "v = map_err Socket w"
    using assms by (auto simp: query_once_eq Let_def split: prod.splits)
  from assms(3) w(1) obtain pdu r where r: "w = Inr pdu" "framed pdu r"
    "continuation_state r \<noteq> []" "endless T uuid (tid + 1) (continuation_state r) s1"
    by (rule endless_moreD)
  from raw_response_of_framed [OF r(2)] obtain rest where "raw_response N pdu = Inr (rest, r)"
    by blast
  with r w framed_continuation [OF r(2)] show thesis
    by (intro that [of pdu rest r]) simp_all
qed

end

definition stops ::
    "('e, 'b) nom_lib \<Rightarrow> 'm bytes_lib \<Rightarrow> ('s, 'io, 'el) tokio_lib \<Rightarrow> u16 \<Rightarrow> u16 \<Rightarrow> bytes
     \<Rightarrow> 's \<Rightarrow> bool" where
  "stops N B T uuid tid cs s \<longleftrightarrow>
     (sdp_codec N B \<and> length cs < 2 ^ 8 \<and> cs \<noteq> [] \<longrightarrow> \<not> endless T uuid (tid + 1) cs s)"

lemma returns_stops:
  assumes "fetch_pages N B T uuid tid attrs cs s = Some y"
  shows "stops N B T uuid tid cs s"
proof (rule fetch_pages.raw_induct [where P = "\<lambda>N B T uuid tid attrs cs s y.
    stops N B T uuid tid cs s", OF _ assms])
  fix fetch N B T uuid tid attrs cs s y
  assume IH: "\<And>N B T uuid tid attrs cs s y.
      fetch N B T uuid tid attrs cs s = Some y \<Longrightarrow> stops N B T uuid tid cs s"
    and body: "(if cs = [] then Some (Inr attrs, s)
      else case query_once B T s (tid + 1) uuid cs of
           (Inl e, s) \<Rightarrow> Some (Inl e, s)
         | (Inr bytes, s) \<Rightarrow>
             (case raw_response N bytes of
                Inl x \<Rightarrow> Some (Inl Decode, s)
              | Inr (x, raw) \<Rightarrow>
                  fetch N B T uuid (tid + 1) (attrs @ attribute_bytes raw)
                    (continuation_state raw) s)) = Some y"
  show "stops N B T uuid tid cs s"
    unfolding stops_def
  proof (intro impI notI, elim conjE)
    assume codec: "sdp_codec N B" and cs: "length cs < 2 ^ 8" "cs \<noteq> []"
      and endless: "endless T uuid (tid + 1) cs s"
    obtain v s1 where once: "query_once B T s (tid + 1) uuid cs = (v, s1)"
      by fastforce
    from sdp_codec.fetch_once_cases [OF codec once cs(1) endless] obtain pdu rest r where
      r: "v = Inr pdu" "raw_response N pdu = Inr (rest, r)" "continuation_state r \<noteq> []"
        "length (continuation_state r) < 2 ^ 8"
      and next_page: "endless T uuid (tid + 1 + 1) (continuation_state r) s1"
      by blast
    from body cs once r have "fetch N B T uuid (tid + 1) (attrs @ attribute_bytes r)
        (continuation_state r) s1 = Some y"
      by simp
    from IH [OF this] codec r next_page show False
      by (simp add: stops_def)
  qed
qed

lemma returns_not_endless:
  assumes "fetch_pages N B T uuid tid attrs cs s = Some y"
    and "sdp_codec N B" "length cs < 2 ^ 8" "cs \<noteq> []"
  shows "\<not> endless T uuid (tid + 1) cs s"
  using returns_stops [OF assms(1)] assms(2-4) by (simp add: stops_def)

definition unending :: "('s, 'io, 'el) tokio_lib \<Rightarrow> u16 \<Rightarrow> u16 \<Rightarrow> bytes \<Rightarrow> 's \<Rightarrow> bool" where
  "unending T uuid tid cs s \<longleftrightarrow> (\<forall>rs res s'. \<not> query_run T uuid tid cs s rs res s')"

lemma unending_more:
  assumes "unending T uuid tid cs s"
  obtains pdu s1 r where
    "send_and_receive_pdu T (request_for uuid tid cs) s = (Inr pdu, s1)"
    "framed pdu r" "continuation_state r \<noteq> []"
    "unending T uuid (tid + 1) (continuation_state r) s1"
proof (cases rule: page_cases [of T uuid tid cs s])
  case (socket e s')
  with assms show thesis
    by (auto simp: unending_def dest: run_socket)
next
  case (garbled pdu s')
  with assms show thesis
    by (auto simp: unending_def dest: run_garbled)
next
  case (last pdu s' r)
  with assms show thesis
    by (auto simp: unending_def dest: run_last)
next
  case (more pdu s1 r)
  with assms have "unending T uuid (tid + 1) (continuation_state r) s1"
    by (auto simp: unending_def dest: run_more)
  with more show thesis
    by (rule that)
qed

lemma unending_endless: "unending T uuid tid cs s \<Longrightarrow> endless T uuid tid cs s"
proof (coinduction arbitrary: tid cs s)
  case (endless tid cs s)
  then show ?case
    by (rule unending_more) blast
qed

lemma run_or_endless:
  obtains rs res s' where "query_run T uuid tid cs s rs res s'" | "endless T uuid tid cs s"
  using unending_endless [of T uuid tid cs s] unfolding unending_def by blast

context sdp_codec
begin

text \<open>The loop returns what the run says, and does not return exactly on endless pages.\<close>

lemma fetch_from_None_iff:
  assumes "length cs < 2 ^ 8"
  shows "fetch_from N B T uuid tid cs attrs s = None \<longleftrightarrow> endless T uuid tid cs s"
proof
  assume "fetch_from N B T uuid tid cs attrs s = None"
  with run_fetches [OF _ assms] have "\<not> query_run T uuid tid cs s rs res s'" for rs res s'
    by fastforce
  with run_or_endless [of T uuid tid cs s] show "endless T uuid tid cs s"
    by blast
next
  assume endless: "endless T uuid tid cs s"
  obtain v s1 where once: "query_once B T s tid uuid cs = (v, s1)"
    by fastforce
  from once assms endless obtain pdu rest r where
    "v = Inr pdu" "raw_response N pdu = Inr (rest, r)" "continuation_state r \<noteq> []"
    "length (continuation_state r) < 2 ^ 8" "endless T uuid (tid + 1) (continuation_state r) s1"
    by (rule fetch_once_cases)
  with once returns_not_endless [of N B T uuid tid _ "continuation_state r" s1] sdp_codec_axioms
  show "fetch_from N B T uuid tid cs attrs s = None"
    by (cases "fetch_pages N B T uuid tid (attrs @ attribute_bytes r) (continuation_state r) s1")
      (auto simp: fetch_from_def)
qed

lemma fetch_from_Some_iff:
  assumes "length cs < 2 ^ 8"
  shows "fetch_from N B T uuid tid cs attrs s = Some (v, s') \<longleftrightarrow>
    (\<exists>rs res. query_run T uuid tid cs s rs res s' \<and>
       v = propagate res (\<lambda>_. Inr (attrs @ concat (map attribute_bytes rs))))"
proof
  assume some: "fetch_from N B T uuid tid cs attrs s = Some (v, s')"
  with fetch_from_None_iff [OF assms, of T uuid tid attrs s] have "\<not> endless T uuid tid cs s"
    by simp
  with run_or_endless [of T uuid tid cs s] obtain rs res s2 where
    run: "query_run T uuid tid cs s rs res s2"
    by blast
  from run_fetches [OF this assms, of attrs] some
  have "s2 = s'" "v = propagate res (\<lambda>_. Inr (attrs @ concat (map attribute_bytes rs)))"
    by simp_all
  with run show "\<exists>rs res. query_run T uuid tid cs s rs res s' \<and>
       v = propagate res (\<lambda>_. Inr (attrs @ concat (map attribute_bytes rs)))"
    by blast
qed (use assms in \<open>auto dest: run_fetches\<close>)

end

section \<open>The whole query\<close>

text \<open>What the reassembled attribute bytes say: a channel, its absence, or nothing decodable.\<close>

definition attributes_say :: "bytes \<Rightarrow> AttributeList list \<Rightarrow> bool" where
  "attributes_say attrs als \<longleftrightarrow>
     (\<exists>p rest outer. attrs = p @ rest \<and> element_wire p outer \<and> records_carry outer als)"

lemma attributes_sayI: "element_wire p outer \<Longrightarrow> records_carry outer als \<Longrightarrow> attributes_say p als"
  unfolding attributes_say_def by (intro exI [of _ p] exI [of _ "[]"] exI [of _ outer]) simp

definition query_value :: "bytes \<Rightarrow> QueryError + u8 option \<Rightarrow> bool" where
  "query_value attrs v \<longleftrightarrow>
     (if \<exists>als. attributes_say attrs als
      then \<exists>als. attributes_say attrs als \<and> v = Inr (find_map rfcomm_channel als)
      else v = Inl Decode)"

definition query_ends ::
    "('s, 'io, 'el) tokio_lib \<Rightarrow> u16 \<Rightarrow> 's \<Rightarrow> QueryError + u8 option \<Rightarrow> 's \<Rightarrow> bool" where
  "query_ends T uuid s v s' \<longleftrightarrow>
     (\<exists>rs. query_run T uuid 0 [] s rs (Inr ()) s' \<and>
        query_value (concat (map attribute_bytes rs)) v) \<or>
     (\<exists>rs e. query_run T uuid 0 [] s rs (Inl e) s' \<and> v = Inl e)"

lemma query_run_no_encode: "query_run T uuid tid cs s rs res s' \<Longrightarrow> res \<noteq> Inl (Encode e)"
  by (induction rule: query_run.induct) auto

lemma query_ends_no_encode: "query_ends T uuid s v s' \<Longrightarrow> v \<noteq> Inl (Encode e)"
  by (auto simp: query_ends_def query_value_def dest: query_run_no_encode split: if_splits)

context sdp_codec
begin

lemma decode_says: "(\<exists>rest. decode_attribute_lists N attrs = Some (Inr (rest, als))) \<longleftrightarrow>
    attributes_say attrs als"
  by (auto simp: attributes_say_def decode_attribute_lists_iff)

lemma decode_query_value:
  "(case decode_attribute_lists N attrs of
      None \<Rightarrow> None
    | Some (Inl _) \<Rightarrow> Some (Inl Decode, s')
    | Some (Inr (_, als)) \<Rightarrow> Some (Inr (find_map rfcomm_channel als), s')) = Some (v, s2) \<longleftrightarrow>
   query_value attrs v \<and> s2 = s'"
proof -
  obtain d where d: "decode_attribute_lists N attrs = Some d"
    using decode_attribute_lists_returns by blast
  show ?thesis
  proof (cases d)
    case (Inl err)
    with d decode_says [of attrs] have "\<not> attributes_say attrs als" for als
      by fastforce
    with d Inl show ?thesis
      by (auto simp: query_value_def)
  next
    case (Inr a)
    obtain rest als where a: "a = (rest, als)"
      by (cases a)
    have "attributes_say attrs als' \<longleftrightarrow> als' = als" for als'
      using d Inr a decode_says [of attrs als'] by auto
    with d Inr a show ?thesis
      by (auto simp: query_value_def)
  qed
qed

lemma find_rfcomm_channel_None_iff:
  "find_rfcomm_channel N B T s uuid = None \<longleftrightarrow> endless T uuid 0 [] s"
proof -
  have "find_rfcomm_channel N B T s uuid = None \<longleftrightarrow> fetch_from N B T uuid 0 [] [] s = None"
    by (auto simp: find_rfcomm_channel_eq decode_attribute_lists_returns
        split: option.split sum.split)
  then show ?thesis
    by (simp add: fetch_from_None_iff)
qed

lemma find_rfcomm_channel_Some_iff:
  "find_rfcomm_channel N B T s uuid = Some (v, s') \<longleftrightarrow> query_ends T uuid s v s'"
proof (cases rule: run_or_endless [of T uuid 0 "[]" s])
  case (1 rs res s1)
  then have run: "query_run T uuid 0 [] s rs' res' s'' \<longleftrightarrow> rs' = rs \<and> res' = res \<and> s'' = s1"
    for rs' res' s''
    using 1 query_run_unique [OF 1, of rs' res' s''] by blast
  from run_fetches [OF 1] have fetch: "fetch_from N B T uuid 0 [] [] s =
      Some (propagate res (\<lambda>_. Inr (concat (map attribute_bytes rs))), s1)"
    by simp
  show ?thesis
  proof (cases res)
    case (Inl e)
    then show ?thesis
      by (auto simp: find_rfcomm_channel_eq fetch query_ends_def run)
  next
    case (Inr u)
    then have "find_rfcomm_channel N B T s uuid = Some (v, s') \<longleftrightarrow>
        query_value (concat (map attribute_bytes rs)) v \<and> s' = s1"
      by (simp add: find_rfcomm_channel_eq fetch decode_query_value)
    with Inr show ?thesis
      by (auto simp: query_ends_def run)
  qed
next
  case 2
  then have "find_rfcomm_channel N B T s uuid = None"
    by (simp add: find_rfcomm_channel_None_iff)
  with 2 show ?thesis
    by (auto simp: query_ends_def dest: query_run_not_endless)
qed

lemma find_returns_run:
  assumes "find_rfcomm_channel N B T s uuid = Some (v, s')"
  obtains rs res where "query_run T uuid 0 [] s rs res s'"
  using assms by (auto simp: find_rfcomm_channel_Some_iff query_ends_def)

lemma find_finds_run:
  assumes "find_rfcomm_channel N B T s uuid = Some (Inr ch, s')"
  obtains rs where "query_run T uuid 0 [] s rs (Inr ()) s'"
  using assms by (auto simp: find_rfcomm_channel_Some_iff query_ends_def)

lemma find_of_run:
  assumes run: "query_run T uuid 0 [] s rs res s'"
  obtains v where "find_rfcomm_channel N B T s uuid = Some (v, s')"
    "res = Inr () \<longrightarrow> query_value (concat (map attribute_bytes rs)) v"
proof (cases "find_rfcomm_channel N B T s uuid")
  case None
  with query_run_not_endless [OF run] show thesis
    by (simp add: find_rfcomm_channel_None_iff)
next
  case (Some a)
  obtain v s2 where a: "a = (v, s2)"
    by (cases a)
  with Some have "query_ends T uuid s v s2"
    by (simp add: find_rfcomm_channel_Some_iff)
  then have "s2 = s'" "res = Inr () \<longrightarrow> query_value (concat (map attribute_bytes rs)) v"
    using query_run_unique [OF run] by (auto simp: query_ends_def)
  with Some a show thesis
    by (intro that) simp_all
qed

end

section \<open>What a run puts on the wire, and how long it takes\<close>

definition next_continuation ::
    "bytes \<Rightarrow> RawServiceSearchAttributeResponse list \<Rightarrow> bytes" where
  "next_continuation cs rs = (if rs = [] then cs else continuation_state (last rs))"

context byte_stream
begin

lemma run_sent:
  "query_run T uuid tid cs s rs (Inr ()) s' \<Longrightarrow>
   sent s' = sent s @ concat (requests uuid tid cs rs)"
proof (induction tid cs s rs "Inr () :: QueryError + unit" s' rule: query_run.induct)
  case (run_last tid cs s pdu s' r)
  then show ?case
    by (simp add: exchange_ok)
next
  case (run_more tid cs s pdu s1 r rs s')
  then show ?case
    by (simp add: exchange_ok)
qed

lemma run_received:
  "query_run T uuid tid cs s rs (Inr ()) s' \<Longrightarrow>
   \<exists>pdus. received s' = received s @ concat pdus \<and> list_all2 framed pdus rs \<and>
     list_all complete_pdu pdus"
proof (induction tid cs s rs "Inr () :: QueryError + unit" s' rule: query_run.induct)
  case (run_last tid cs s pdu s' r)
  then have "received s' = received s @ concat [pdu] \<and> list_all2 framed [pdu] [r] \<and>
      list_all complete_pdu [pdu]"
    by (simp add: exchange_ok)
  then show ?case ..
next
  case (run_more tid cs s pdu s1 r rs s')
  then obtain pdus where "received s' = received s1 @ concat pdus" "list_all2 framed pdus rs"
    "list_all complete_pdu pdus"
    by auto
  with run_more.hyps have "received s' = received s @ concat (pdu # pdus) \<and>
      list_all2 framed (pdu # pdus) (r # rs) \<and> list_all complete_pdu (pdu # pdus)"
    by (simp add: exchange_ok)
  then show ?case ..
qed

lemma failed_run_wire:
  "query_run T uuid tid cs s rs (Inl e) s' \<Longrightarrow>
   let req = request_for uuid (tid + of_nat (length rs)) (next_continuation cs rs)
   in \<exists>pdus k got.
     sent s' = sent s @ concat (requests uuid tid cs rs) @ take k req \<and>
     received s' = received s @ concat pdus @ got \<and>
     list_all2 framed pdus rs \<and> list_all complete_pdu pdus \<and>
     (got = [] \<or> take k req = req) \<and> within_one_pdu got"
proof (induction tid cs s rs "Inl e :: QueryError + unit" s' rule: query_run.induct)
  case (run_socket tid cs s e s')
  then show ?case
    using exchange_part [OF run_socket.hyps(1)]
    unfolding Let_def by (intro exI [of _ "[]"]) (simp add: next_continuation_def)
next
  case (run_garbled tid cs s pdu s')
  then show ?case
    using exchange_part [OF run_garbled.hyps(1)]
    unfolding Let_def by (intro exI [of _ "[]"]) (simp add: next_continuation_def)
next
  case (run_more tid cs s pdu s1 r rs s')
  let ?req = "request_for uuid (tid + of_nat (length (r # rs))) (next_continuation cs (r # rs))"
  have "request_for uuid (tid + 1 + of_nat (length rs)) (next_continuation (continuation_state r) rs) = ?req"
    by (simp add: next_continuation_def ac_simps)
  with run_more.hyps(5) obtain pdus k got where
    "sent s' = sent s1 @ concat (requests uuid (tid + 1) (continuation_state r) rs) @ take k ?req"
    "received s' = received s1 @ concat pdus @ got" "list_all2 framed pdus rs"
    "list_all complete_pdu pdus" "got = [] \<or> take k ?req = ?req" "within_one_pdu got"
    unfolding Let_def by metis
  with run_more.hyps show ?case
    unfolding Let_def
    by (intro exI [of _ "pdu # pdus"] exI [of _ k] exI [of _ got]) (simp add: exchange_ok)
qed

end

context timed_byte_stream
begin

text \<open>Sixty seconds per exchange, three operations of twenty each, and three times the lag.\<close>

lemma run_time:
  "query_run T uuid tid cs s rs res s' \<Longrightarrow>
   now s' \<le> now s + (length rs + (if isl res then 1 else 0)) * (3 * (RESPONSE_TIMEOUT + lag))"
proof (induction rule: query_run.induct)
  case (run_more tid cs s pdu s1 r rs res s')
  then show ?case
    using exchange_time [OF run_more.hyps(1)] by simp
qed (auto dest: exchange_time)

end

end
