(* ===== verification/Session_Peer.thy ===== *)
theory Session_Peer
  imports Session_Correct
begin

text \<open>
  When a query returns, and what it returns, against concrete peers: a stream with a finite
  supply of bytes ends every query, a peer that always asks for another page ends none, and the
  scripted peer that serves a device's records, split into pages in any way, gets its first
  RFCOMM channel reported.
\<close>

section \<open>Streams that run dry\<close>

text \<open>\<open>available\<close> bounds the bytes that can still be received.\<close>

locale finite_stream = byte_stream +
  fixes available :: "'s \<Rightarrow> nat"
  assumes write_supply: "timeout_write_all T d bs s = (w, s') \<Longrightarrow> available s' \<le> available s"
    and read_supply:
      "timeout_read_exact T d n s = (Inr (Inr buf), s') \<Longrightarrow> available s' + n \<le> available s"
begin

lemma exchange_supply:
  assumes "send_and_receive_pdu T request s = (Inr pdu, s')"
  shows "available s' + length pdu \<le> available s"
  using assms
proof (cases rule: send_and_receive_cases)
  case (complete u s1 header s2 body)
  then show ?thesis
    using write_supply [OF complete(1)] read_supply [OF complete(2)] read_supply [OF complete(3)]
      read_ok [OF complete(2)] read_ok [OF complete(3)]
    by simp
qed simp_all

lemma framed_length: "framed pdu r \<Longrightarrow> 8 \<le> length pdu"
  by (auto simp: framed_def response_bytes_def)

lemma not_endless: "\<not> endless T uuid tid cs s"
proof (induction "available s" arbitrary: tid cs s rule: less_induct)
  case less
  show ?case
  proof
    assume "endless T uuid tid cs s"
    then obtain pdu s1 r where
      "send_and_receive_pdu T (request_for uuid tid cs) s = (Inr pdu, s1)" "framed pdu r"
      "endless T uuid (tid + 1) (continuation_state r) s1"
      by cases
    with less [of s1] exchange_supply framed_length show False
      by fastforce
  qed
qed

lemma run_length:
  "query_run T uuid tid cs s rs res s' \<Longrightarrow> 8 * length rs \<le> available s"
proof (induction rule: query_run.induct)
  case (run_last tid cs s pdu s' r)
  then show ?case
    using exchange_supply framed_length by fastforce
next
  case (run_more tid cs s pdu s1 r rs res s')
  then show ?case
    using exchange_supply [OF run_more.hyps(1)] framed_length [OF run_more.hyps(2)] by simp
qed simp_all

end

definition peer_supply :: "peer \<Rightarrow> nat" where
  "peer_supply s = length (inbox s) + sum_list (map length (script s))"

lemma serve_supply:
  "serve bs pages = (left, pages', out) \<Longrightarrow>
   length out + sum_list (map length pages') = sum_list (map length pages)"
  by (induction bs pages arbitrary: left pages' out rule: serve.induct)
    (auto split: if_splits prod.splits)

interpretation peer_finite: finite_stream peer_tokio sent_log received_log peer_supply
proof unfold_locales
  fix d bs s w s'
  assume "timeout_write_all peer_tokio d bs s = (w, s')"
  then show "peer_supply s' \<le> peer_supply s"
    by (auto simp: peer_tokio_def peer_write_def peer_supply_def dest: serve_supply
        split: if_splits prod.splits)
next
  fix d n s buf s'
  assume "timeout_read_exact peer_tokio d n s = (Inr (Inr buf), s')"
  then show "peer_supply s' + n \<le> peer_supply s"
    by (auto simp: peer_tokio_def peer_read_def peer_supply_def Let_def dest!: arrived_length
        split: if_splits prod.splits)
qed

section \<open>A peer that never stops\<close>

text \<open>
  It answers every request with a response that has no attribute bytes and one byte of
  continuation state. The state is what was sent and received.
\<close>

definition babbler_bytes :: "nat \<Rightarrow> bytes" where
  "babbler_bytes n =
     (if n = 5 then [0x07, 0, 0, 0, 4] else if n = 4 then [0, 0, 1, 1] else replicate n 0)"

definition babbler :: "(bytes \<times> bytes, unit, unit) tokio_lib" where
  "babbler =
     \<lparr>timeout_write_all = (\<lambda>d bs (out, got). (Inr (Inr ()), (out @ bs, got))),
      timeout_read_exact = (\<lambda>d n (out, got).
        (Inr (Inr (babbler_bytes n)), (out, got @ babbler_bytes n)))\<rparr>"

lemma length_babbler_bytes: "length (babbler_bytes n) = n"
  by (simp add: babbler_bytes_def)

interpretation babbler_stream: timed_byte_stream babbler fst snd "\<lambda>_. 0" 0
proof unfold_locales
  fix d bs w and s s' :: "bytes \<times> bytes"
  assume w: "timeout_write_all babbler d bs s = (w, s')"
  then have "fst s' = fst s @ take (length bs) bs"
    by (auto simp: babbler_def split: prod.splits)
  then show "\<exists>k. fst s' = fst s @ take k bs" ..
next
  fix d n v and s s' :: "bytes \<times> bytes"
  assume "timeout_read_exact babbler d n s = (v, s')"
  then have "length (babbler_bytes n) \<le> n \<and> snd s' = snd s @ babbler_bytes n"
    by (auto simp: babbler_def length_babbler_bytes split: prod.splits)
  then show "\<exists>got. length got \<le> n \<and> snd s' = snd s @ got" ..
qed (auto simp: babbler_def length_babbler_bytes split: prod.splits)

lemma babbler_exchange:
  "send_and_receive_pdu babbler req (out, got) =
     (Inr [0x07, 0, 0, 0, 4, 0, 0, 1, 1], (out @ req, got @ [0x07, 0, 0, 0, 4] @ [0, 0, 1, 1]))"
  by (simp add: send_and_receive_pdu_def babbler_def babbler_bytes_def PDU_HEADER_LEN_def
      u16_from_be_bytes_def)

definition babbler_page :: RawServiceSearchAttributeResponse where
  "babbler_page =
     \<lparr>header = \<lparr>pdu_id = 7, transaction_id = 0, parameter_length = 4\<rparr>,
      attribute_bytes = [], continuation_state = [1]\<rparr>"

lemma babbler_framed: "framed [0x07, 0, 0, 0, 4, 0, 0, 1, 1] babbler_page"
  by (simp add: framed_def babbler_page_def response_fits_def response_bytes_def
      header_bytes_def u16_to_be_bytes_def)

lemma babbler_endless: "endless babbler uuid tid cs s"
proof (coinduction arbitrary: tid cs s)
  case (endless tid cs s)
  obtain out got where "s = (out, got)"
    by (cases s)
  then have "send_and_receive_pdu babbler (request_for uuid tid cs) s =
      (Inr [0x07, 0, 0, 0, 4, 0, 0, 1, 1],
       (out @ request_for uuid tid cs, got @ [0x07, 0, 0, 0, 4] @ [0, 0, 1, 1]))"
    by (simp only: babbler_exchange)
  moreover have "continuation_state babbler_page \<noteq> []"
    by (simp add: babbler_page_def)
  ultimately show ?case
    using babbler_framed by blast
qed

section \<open>The scripted peer\<close>

lemma request_for_complete:
  assumes "length cs < 2 ^ 8"
  shows "complete_pdu (request_for uuid tid cs)"
proof -
  have "request_for uuid tid cs =
      header_bytes \<lparr>pdu_id = 6, transaction_id = tid, parameter_length = of_nat (15 + length cs)\<rparr> @
      drop 5 (request_for uuid tid cs)"
    by (simp add: request_for_def header_bytes_def u16_to_be_bytes_def)
  moreover have "length (drop 5 (request_for uuid tid cs)) = unat (of_nat (15 + length cs) :: u16)"
    using assms unat_of_nat_u16 [of "15 + length cs"] by (simp add: length_request_for)
  ultimately show ?thesis
    unfolding complete_pdu_def by fastforce
qed

text \<open>Every page but the last, and only those, asks for another request.\<close>

fun paged :: "RawServiceSearchAttributeResponse list \<Rightarrow> bool" where
  "paged [] \<longleftrightarrow> False"
| "paged (r # rs) \<longleftrightarrow>
     (if rs = [] then continuation_state r = [] else continuation_state r \<noteq> [] \<and> paged rs)"

text \<open>The parameter length of its header counts what follows the header.\<close>

definition well_formed_response :: "RawServiceSearchAttributeResponse \<Rightarrow> bool" where
  "well_formed_response r \<longleftrightarrow>
     response_fits r \<and>
     unat (parameter_length (header r)) =
       3 + length (attribute_bytes r) + length (continuation_state r)"

lemma well_formed_complete: "well_formed_response r \<Longrightarrow> complete_pdu (response_bytes r)"
  unfolding complete_pdu_def well_formed_response_def response_bytes_def by fastforce

lemma well_formed_framed: "well_formed_response r \<Longrightarrow> framed (response_bytes r) r"
  by (simp add: framed_def well_formed_response_def)

definition responses :: "RawServiceSearchAttributeResponse list \<Rightarrow> paced list" where
  "responses rs = map (\<lambda>r. prompt (response_bytes r)) rs"

lemma peer_run:
  assumes "paged rs" "list_all well_formed_response rs" "length cs < 2 ^ 8"
    and "unread s = []" "inbox s = []" "script s = responses rs @ pages"
  shows "query_run peer_tokio uuid tid cs s rs (Inr ())
    (s\<lparr>sent_log := sent_log s @ concat (requests uuid tid cs rs),
       received_log := received_log s @ concat (map response_bytes rs), script := pages\<rparr>)"
  using assms
proof (induction rs arbitrary: tid cs s)
  case (Cons r rs)
  let ?s = "s\<lparr>sent_log := sent_log s @ request_for uuid tid cs,
    received_log := received_log s @ response_bytes r, script := responses rs @ pages\<rparr>"
  from Cons.prems have wf: "framed (response_bytes r) r" "complete_pdu (response_bytes r)"
    by (simp_all add: well_formed_framed well_formed_complete)
  from Cons.prems have exch: "send_and_receive_pdu peer_tokio (request_for uuid tid cs) s =
      (Inr (response_bytes r), ?s)"
    by (intro peer_exchange) (simp_all add: responses_def request_for_complete wf)
  show ?case
  proof (cases "rs = []")
    case True
    with Cons.prems have "continuation_state r = []"
      by simp
    from run_last [OF exch wf(1) this] True show ?thesis
      by (simp add: responses_def)
  next
    case False
    with Cons.prems have more: "continuation_state r \<noteq> []" "paged rs"
      by simp_all
    have "query_run peer_tokio uuid (tid + 1) (continuation_state r) ?s rs (Inr ())
      (?s\<lparr>sent_log := sent_log ?s @ concat (requests uuid (tid + 1) (continuation_state r) rs),
         received_log := received_log ?s @ concat (map response_bytes rs), script := pages\<rparr>)"
      using Cons.prems more framed_continuation [OF wf(1)] by (intro Cons.IH) simp_all
    from run_more [OF exch wf(1) more(1) this] show ?thesis
      by simp
  qed
qed simp

section \<open>What the pages say\<close>

text \<open>Bytes that say something contain the whole of the element they start.\<close>

lemma attributes_say_whole:
  assumes "element_wire p outer" "attributes_say (take k p) als"
  shows "length p \<le> k"
proof -
  from assms(2) obtain q rest outer' where q: "take k p = q @ rest" "element_wire q outer'"
    by (auto simp: attributes_say_def)
  then have "q @ (rest @ drop k p) = p @ []"
    by (metis append.assoc append_Nil2 append_take_drop_id)
  with element_wire_unique [OF q(2) assms(1)] have "q = p"
    by blast
  with arg_cong [OF q(1), of length] show ?thesis
    by simp
qed

context sdp_codec
begin

lemma decode_value:
  assumes "decode_attribute_lists N attrs = Some (Inr (rest, als))"
  shows "query_value attrs v \<longleftrightarrow> v = Inr (find_map rfcomm_channel als)"
  using assms decode_query_value [where attrs = attrs and v = v and s' = "()" and ?s2.0 = "()"]
  by auto

lemma find_on_peer_value:
  assumes "paged rs" "list_all well_formed_response rs"
    and "query_value (concat (map attribute_bytes rs)) v"
  shows "find_rfcomm_channel N B peer_tokio (peer_of (responses rs)) uuid =
    Some (v, (peer_of [])\<lparr>sent_log := concat (requests uuid 0 [] rs),
                received_log := concat (map response_bytes rs)\<rparr>)"
proof -
  have "query_run peer_tokio uuid 0 [] (peer_of (responses rs)) rs (Inr ())
      ((peer_of [])\<lparr>sent_log := concat (requests uuid 0 [] rs),
         received_log := concat (map response_bytes rs)\<rparr>)"
    using peer_run [OF assms(1,2), of "[]" "peer_of (responses rs)" "[]" uuid 0]
    by (simp add: peer_of_def)
  then show ?thesis
    using assms(3) by (auto simp: find_rfcomm_channel_Some_iff query_ends_def)
qed

lemma records_value:
  assumes "element_wire p outer" "records_carry outer als"
  shows "query_value (p @ rest) (Inr (find_map rfcomm_channel als))"
proof -
  from assms have "decode_attribute_lists N (p @ rest) = Some (Inr (rest, als))"
    by (auto simp: decode_attribute_lists_iff)
  then show ?thesis
    by (simp add: decode_value)
qed

lemma find_on_peer:
  assumes "paged rs" "list_all well_formed_response rs"
    and "element_wire p outer" "records_carry outer als"
    and "concat (map attribute_bytes rs) = p @ rest"
  shows "find_rfcomm_channel N B peer_tokio (peer_of (responses rs)) uuid =
    Some (Inr (find_map rfcomm_channel als),
      (peer_of [])\<lparr>sent_log := concat (requests uuid 0 [] rs),
         received_log := concat (map response_bytes rs)\<rparr>)"
  using assms records_value [OF assms(3,4), of rest] by (intro find_on_peer_value) simp_all

end

interpretation codec_std: sdp_codec nom_model bytes_model ..

section \<open>A small device\<close>

text \<open>
  One record, whose channel is 13, encoded as the devices of the tests encode it, with a 16-bit
  attribute identifier, in two pages that split it inside that identifier.
\<close>

definition sample_records :: "AttributeList list" where
  "sample_records =
     [[(PROTOCOL_DESCRIPTOR_LIST_ATTR_ID, Sequence [rfcomm_element 13])]]"

definition sample_element :: DataElement where
  "sample_element =
     Sequence [Sequence [UnsignedInt 4, Sequence [Sequence [Uuid16 3, UnsignedInt 13]]]]"

definition sample_attrs :: bytes where
  "sample_attrs =
     [0x35, 0x0e, 0x35, 0x0c, 0x09, 0x00, 0x04,
      0x35, 0x07, 0x35, 0x05, 0x19, 0x00, 0x03, 0x08, 0x0d]"

definition sample_pages :: "RawServiceSearchAttributeResponse list" where
  "sample_pages =
     [\<lparr>header = \<lparr>pdu_id = 7, transaction_id = 0, parameter_length = 11\<rparr>,
       attribute_bytes = [0x35, 0x0e, 0x35, 0x0c, 0x09, 0x00], continuation_state = [0xaa, 0xbb]\<rparr>,
      \<lparr>header = \<lparr>pdu_id = 7, transaction_id = 1, parameter_length = 13\<rparr>,
       attribute_bytes = [0x04, 0x35, 0x07, 0x35, 0x05, 0x19, 0x00, 0x03, 0x08, 0x0d],
       continuation_state = []\<rparr>]"

lemma sample_wire: "element_wire sample_attrs sample_element"
proof -
  have "data_element nom_model (sample_attrs @ []) = Some (Inr ([], sample_element))"
    by code_simp
  then show ?thesis
    by (simp only: nom_std.data_element_iff) simp
qed

lemma sample_carries: "records_carry sample_element sample_records"
  by (simp add: sample_element_def sample_records_def attribute_elements_def rfcomm_element_def
      RFCOMM_UUID_def PROTOCOL_DESCRIPTOR_LIST_ATTR_ID_def)

lemma sample_bytes: "concat (map attribute_bytes sample_pages) = sample_attrs @ []"
  by (simp add: sample_pages_def sample_attrs_def)

lemma length_sample_attrs: "length sample_attrs = 16"
  by (simp add: sample_attrs_def)

lemma sample_channel: "find_map rfcomm_channel sample_records = Some 13"
  by code_simp

lemma sample_served: "paged sample_pages" "list_all well_formed_response sample_pages"
  by (simp_all add: sample_pages_def well_formed_response_def response_fits_def)

definition sample_end :: "u16 \<Rightarrow> peer" where
  "sample_end uuid =
     (peer_of [])\<lparr>sent_log := concat (requests uuid 0 [] sample_pages),
        received_log := concat (map response_bytes sample_pages)\<rparr>"

lemma sample_query:
  "find_rfcomm_channel nom_model bytes_model peer_tokio (peer_of (responses sample_pages)) uuid =
     Some (Inr (Some 13), sample_end uuid)"
  using codec_std.find_on_peer [OF sample_served sample_wire sample_carries sample_bytes, of uuid]
  by (simp add: sample_channel sample_end_def)

end
