(* ===== verification/Session_Machine.thy ===== *)
theory Session_Machine
  imports Session_Peer
begin

text \<open>
  The query of \<^verbatim>\<open>src/transport/session.rs\<close> as a state machine: its states are the points at which
  a request is about to be sent, with the local variables of the function, or at which the loop
  has been left; a step is one exchange. The machine is proved equal to the recursive functions
  of \<open>Session\<close>, so an invariant of its reachable states is an invariant of the loop.
\<close>

section \<open>States and steps\<close>

text \<open>
  \<open>Requesting tid cs attrs s\<close>: the next request has transaction id \<open>tid\<close> and continuation state
  \<open>cs\<close>, and \<open>attrs\<close> are the attribute bytes gathered so far. \<open>Gathered\<close> is the point after the
  loop, \<open>Failed\<close> an early return.
\<close>

datatype 's session_state =
    Requesting u16 bytes bytes 's
  | Gathered bytes 's
  | Failed QueryError 's

inductive session_step ::
    "('e, 'b) nom_lib \<Rightarrow> 'm bytes_lib \<Rightarrow> ('s, 'io, 'el) tokio_lib \<Rightarrow> u16
     \<Rightarrow> 's session_state \<Rightarrow> 's session_state \<Rightarrow> bool"
  for N B T uuid where
  step_error:
    "query_once B T s tid uuid cs = (Inl e, s') \<Longrightarrow>
     session_step N B T uuid (Requesting tid cs attrs s) (Failed e s')"
| step_garbled:
    "query_once B T s tid uuid cs = (Inr pdu, s') \<Longrightarrow> raw_response N pdu = Inl err \<Longrightarrow>
     session_step N B T uuid (Requesting tid cs attrs s) (Failed Decode s')"
| step_last:
    "query_once B T s tid uuid cs = (Inr pdu, s') \<Longrightarrow> raw_response N pdu = Inr (rest, raw) \<Longrightarrow>
     continuation_state raw = [] \<Longrightarrow>
     session_step N B T uuid (Requesting tid cs attrs s) (Gathered (attrs @ attribute_bytes raw) s')"
| step_page:
    "query_once B T s tid uuid cs = (Inr pdu, s') \<Longrightarrow> raw_response N pdu = Inr (rest, raw) \<Longrightarrow>
     continuation_state raw \<noteq> [] \<Longrightarrow>
     session_step N B T uuid (Requesting tid cs attrs s)
       (Requesting (tid + 1) (continuation_state raw) (attrs @ attribute_bytes raw) s')"

code_pred (modes: i \<Rightarrow> i \<Rightarrow> i \<Rightarrow> i \<Rightarrow> i \<Rightarrow> o \<Rightarrow> bool) session_step .

inductive_cases requesting_stepE: "session_step N B T uuid (Requesting tid cs attrs s) st"

inductive_simps halted_steps [simp]:
  "session_step N B T uuid (Gathered attrs s) st"
  "session_step N B T uuid (Failed e s) st"

definition session_start :: "'s \<Rightarrow> 's session_state" where
  "session_start s = Requesting 0 [] [] s"

lemma step_deterministic:
  "session_step N B T uuid st st1 \<Longrightarrow> session_step N B T uuid st st2 \<Longrightarrow> st2 = st1"
  by (induction rule: session_step.induct) (auto elim: requesting_stepE)

text \<open>Only a state that has left the loop has no next state.\<close>

lemma requesting_steps: "\<exists>st. session_step N B T uuid (Requesting tid cs attrs s) st"
proof -
  obtain v s' where v: "query_once B T s tid uuid cs = (v, s')"
    by fastforce
  show ?thesis
  proof (cases v)
    case (Inl e)
    with v show ?thesis
      by (blast intro: step_error)
  next
    case (Inr pdu)
    with v show ?thesis
      by (cases "raw_response N pdu") (auto intro: step_garbled step_last step_page)
  qed
qed

lemma counted_deterministic:
  "(session_step N B T uuid ^^ n) st st1 \<Longrightarrow> (session_step N B T uuid ^^ n) st st2 \<Longrightarrow> st2 = st1"
proof (induction n arbitrary: st1 st2)
  case (Suc n)
  then show ?case
    by (metis relpowp_Suc_E step_deterministic)
qed simp

section \<open>The machine is the loop\<close>

text \<open>The state in which the machine halts when the loop returns a value.\<close>

definition halted :: "QueryError + bytes \<Rightarrow> 's \<Rightarrow> 's session_state" where
  "halted v s = (case v of Inl e \<Rightarrow> Failed e s | Inr attrs \<Rightarrow> Gathered attrs s)"

text \<open>What the loop returns from a state on.\<close>

definition loop_result ::
    "('e, 'b) nom_lib \<Rightarrow> 'm bytes_lib \<Rightarrow> ('s, 'io, 'el) tokio_lib \<Rightarrow> u16
     \<Rightarrow> 's session_state \<Rightarrow> ((QueryError + bytes) \<times> 's) option" where
  "loop_result N B T uuid st =
     (case st of
        Requesting tid cs attrs s \<Rightarrow> fetch_from N B T uuid tid cs attrs s
      | Gathered attrs s \<Rightarrow> Some (Inr attrs, s)
      | Failed e s \<Rightarrow> Some (Inl e, s))"

lemma result_halted: "loop_result N B T uuid (halted v s) = Some (v, s)"
  by (simp add: loop_result_def halted_def split: sum.split)

lemma step_result:
  "session_step N B T uuid st st' \<Longrightarrow> loop_result N B T uuid st = loop_result N B T uuid st'"
  by (induction rule: session_step.induct)
    (simp_all add: loop_result_def fetch_from_def [where tid = tid for tid] fetch_pages_eq)

lemma steps_result:
  "(session_step N B T uuid)\<^sup>*\<^sup>* st st' \<Longrightarrow> loop_result N B T uuid st = loop_result N B T uuid st'"
  by (induction rule: rtranclp_induct) (simp_all add: step_result)

lemma halted_step: "\<not> session_step N B T uuid (halted v s) st"
  by (cases v) (simp_all add: halted_def)

text \<open>A loop that returns takes the machine to the state in which it halts.\<close>

definition halts ::
    "('e, 'b) nom_lib \<Rightarrow> 'm bytes_lib \<Rightarrow> ('s, 'io, 'el) tokio_lib \<Rightarrow> u16
     \<Rightarrow> 's session_state \<Rightarrow> (QueryError + bytes) \<times> 's \<Rightarrow> bool" where
  "halts N B T uuid st y \<longleftrightarrow> (session_step N B T uuid)\<^sup>*\<^sup>* st (halted (fst y) (snd y))"

lemma halts_step:
  "session_step N B T uuid st st' \<Longrightarrow> halts N B T uuid st' y \<Longrightarrow> halts N B T uuid st y"
  by (simp add: halts_def converse_rtranclp_into_rtranclp)

lemma halts_at: "halts N B T uuid (Failed e s) (Inl e, s)" "halts N B T uuid (Gathered attrs s) (Inr attrs, s)"
  by (simp_all add: halts_def halted_def)

text \<open>The state at the head of the loop, where the continuation state decides.\<close>

definition loop_head :: "u16 \<Rightarrow> bytes \<Rightarrow> bytes \<Rightarrow> 's \<Rightarrow> 's session_state" where
  "loop_head tid attrs cs s = (if cs = [] then Gathered attrs s else Requesting (tid + 1) cs attrs s)"

lemma exchange_halts:
  assumes "query_once B T s tid uuid cs = (v, s1)"
    and "(case v of
        Inl e \<Rightarrow> Some (Inl e, s1)
      | Inr pdu \<Rightarrow>
          (case raw_response N pdu of
             Inl _ \<Rightarrow> Some (Inl Decode, s1)
           | Inr (_, raw) \<Rightarrow> k raw)) = Some y"
    and "\<And>raw. k raw = Some y \<Longrightarrow>
      halts N B T uuid (loop_head tid (attrs @ attribute_bytes raw) (continuation_state raw) s1) y"
  shows "halts N B T uuid (Requesting tid cs attrs s) y"
proof (cases v)
  case (Inl e)
  with assms(2) have "y = (Inl e, s1)"
    by simp
  with halts_step [OF step_error halts_at(1)] assms(1) Inl show ?thesis
    by simp
next
  case (Inr pdu)
  show ?thesis
  proof (cases "raw_response N pdu")
    case (Inl err)
    with assms(2) Inr have "y = (Inl Decode, s1)"
      by simp
    with halts_step [OF step_garbled halts_at(1)] assms(1) Inr Inl show ?thesis
      by simp
  next
    case (Inr a)
    obtain rest raw where raw: "raw_response N pdu = Inr (rest, raw)"
      using Inr by (cases a) simp
    with assms \<open>v = Inr pdu\<close> have
      "halts N B T uuid (loop_head tid (attrs @ attribute_bytes raw) (continuation_state raw) s1) y"
      by simp
    with assms(1) \<open>v = Inr pdu\<close> raw show ?thesis
      by (auto simp: loop_head_def intro: halts_step [OF step_last] halts_step [OF step_page]
          split: if_splits)
  qed
qed

lemma fetch_pages_halts:
  assumes "fetch_pages N B T uuid tid attrs cs s = Some y"
  shows "halts N B T uuid (loop_head tid attrs cs s) y"
proof (rule fetch_pages.raw_induct [where P = "\<lambda>N B T uuid tid attrs cs s y.
    halts N B T uuid (loop_head tid attrs cs s) y", OF _ assms])
  fix fetch N B T uuid tid attrs cs s y
  assume IH: "\<And>N B T uuid tid attrs cs s y.
      fetch N B T uuid tid attrs cs s = Some y \<Longrightarrow> halts N B T uuid (loop_head tid attrs cs s) y"
    and body: "(if cs = [] then Some (Inr attrs, s)
      else case query_once B T s (tid + 1) uuid cs of
           (Inl e, s) \<Rightarrow> Some (Inl e, s)
         | (Inr bytes, s) \<Rightarrow>
             (case raw_response N bytes of
                Inl x \<Rightarrow> Some (Inl Decode, s)
              | Inr (x, raw) \<Rightarrow>
                  fetch N B T uuid (tid + 1) (attrs @ attribute_bytes raw)
                    (continuation_state raw) s)) = Some y"
  show "halts N B T uuid (loop_head tid attrs cs s) y"
  proof (cases "cs = []")
    case True
    with body show ?thesis
      by (auto simp: loop_head_def halts_at)
  next
    case False
    obtain v s1 where once: "query_once B T s (tid + 1) uuid cs = (v, s1)"
      by fastforce
    from once body False IH have "halts N B T uuid (Requesting (tid + 1) cs attrs s) y"
      by (intro exchange_halts [where v = v and k = "\<lambda>raw. fetch N B T uuid (tid + 1)
            (attrs @ attribute_bytes raw) (continuation_state raw) s1"]) simp_all
    with False show ?thesis
      by (simp add: loop_head_def)
  qed
qed

lemma fetch_from_halts:
  assumes "fetch_from N B T uuid tid cs attrs s = Some y"
  shows "halts N B T uuid (Requesting tid cs attrs s) y"
proof -
  obtain v s1 where once: "query_once B T s tid uuid cs = (v, s1)"
    by fastforce
  from assms once have "(case v of
        Inl e \<Rightarrow> Some (Inl e, s1)
      | Inr pdu \<Rightarrow>
          (case raw_response N pdu of
             Inl _ \<Rightarrow> Some (Inl Decode, s1)
           | Inr (_, raw) \<Rightarrow>
               fetch_pages N B T uuid tid (attrs @ attribute_bytes raw) (continuation_state raw)
                 s1)) = Some y"
    by (simp add: fetch_from_def)
  from once this fetch_pages_halts show ?thesis
    by (rule exchange_halts)
qed

text \<open>So the two agree, on values and on not returning.\<close>

lemma fetch_from_machine:
  "fetch_from N B T uuid tid cs attrs s = Some (v, s') \<longleftrightarrow>
     (session_step N B T uuid)\<^sup>*\<^sup>* (Requesting tid cs attrs s) (halted v s')"
proof
  assume "fetch_from N B T uuid tid cs attrs s = Some (v, s')"
  from fetch_from_halts [OF this] show
    "(session_step N B T uuid)\<^sup>*\<^sup>* (Requesting tid cs attrs s) (halted v s')"
    by (simp add: halts_def)
next
  assume "(session_step N B T uuid)\<^sup>*\<^sup>* (Requesting tid cs attrs s) (halted v s')"
  from steps_result [OF this] show "fetch_from N B T uuid tid cs attrs s = Some (v, s')"
    unfolding result_halted by (simp add: loop_result_def)
qed

lemma fetch_from_forever:
  "fetch_from N B T uuid tid cs attrs s = None \<longleftrightarrow>
     (\<forall>n. \<exists>st. (session_step N B T uuid ^^ n) (Requesting tid cs attrs s) st)"
proof
  assume none: "fetch_from N B T uuid tid cs attrs s = None"
  show "\<forall>n. \<exists>st. (session_step N B T uuid ^^ n) (Requesting tid cs attrs s) st"
  proof
    fix n
    show "\<exists>st. (session_step N B T uuid ^^ n) (Requesting tid cs attrs s) st"
    proof (induction n)
      case (Suc n)
      then obtain st where st: "(session_step N B T uuid ^^ n) (Requesting tid cs attrs s) st" ..
      then have "loop_result N B T uuid st = None"
        using steps_result [OF relpowp_imp_rtranclp [OF st]] none by (simp add: loop_result_def)
      then obtain tid' cs' attrs' s' where "st = Requesting tid' cs' attrs' s'"
        by (cases st) (simp_all add: loop_result_def)
      with requesting_steps [of N B T uuid tid' cs' attrs' s'] st show ?case
        by auto
    qed auto
  qed
next
  assume forever: "\<forall>n. \<exists>st. (session_step N B T uuid ^^ n) (Requesting tid cs attrs s) st"
  show "fetch_from N B T uuid tid cs attrs s = None"
  proof (rule ccontr)
    assume "fetch_from N B T uuid tid cs attrs s \<noteq> None"
    then obtain y where "fetch_from N B T uuid tid cs attrs s = Some y"
      by blast
    from fetch_from_halts [OF this] obtain n where
      n: "(session_step N B T uuid ^^ n) (Requesting tid cs attrs s) (halted (fst y) (snd y))"
      by (auto simp: halts_def dest: rtranclp_imp_relpowp)
    from forever obtain st where "(session_step N B T uuid ^^ Suc n) (Requesting tid cs attrs s) st"
      by blast
    then obtain st' where "(session_step N B T uuid ^^ n) (Requesting tid cs attrs s) st'"
      "session_step N B T uuid st' st"
      by auto
    with counted_deterministic [OF n, of st'] show False
      by (simp add: halted_step)
  qed
qed

section \<open>The query\<close>

context sdp_codec
begin

lemma find_machine:
  "find_rfcomm_channel N B T s uuid = Some (v, s') \<longleftrightarrow>
     (\<exists>attrs. (session_step N B T uuid)\<^sup>*\<^sup>* (session_start s) (Gathered attrs s') \<and> query_value attrs v) \<or>
     (\<exists>e. (session_step N B T uuid)\<^sup>*\<^sup>* (session_start s) (Failed e s') \<and> v = Inl e)"
proof -
  have gathered: "(session_step N B T uuid)\<^sup>*\<^sup>* (session_start s) (Gathered attrs s') \<longleftrightarrow>
      fetch_from N B T uuid 0 [] [] s = Some (Inr attrs, s')" for attrs
    by (simp add: fetch_from_machine session_start_def halted_def)
  have failed: "(session_step N B T uuid)\<^sup>*\<^sup>* (session_start s) (Failed e s') \<longleftrightarrow>
      fetch_from N B T uuid 0 [] [] s = Some (Inl e, s')" for e
    by (simp add: fetch_from_machine session_start_def halted_def)
  show ?thesis
  proof (cases "fetch_from N B T uuid 0 [] [] s")
    case None
    then show ?thesis
      unfolding gathered failed by (simp add: find_rfcomm_channel_eq)
  next
    case (Some a)
    obtain w s1 where a: "a = (w, s1)"
      by (cases a)
    show ?thesis
    proof (cases w)
      case (Inl e)
      with Some a show ?thesis
        unfolding gathered failed by (auto simp: find_rfcomm_channel_eq)
    next
      case (Inr attrs)
      with Some a show ?thesis
        unfolding gathered failed by (auto simp: find_rfcomm_channel_eq decode_query_value)
    qed
  qed
qed

lemma find_machine_forever:
  "find_rfcomm_channel N B T s uuid = None \<longleftrightarrow>
     (\<forall>n. \<exists>st. (session_step N B T uuid ^^ n) (session_start s) st)"
proof -
  have "find_rfcomm_channel N B T s uuid = None \<longleftrightarrow> fetch_from N B T uuid 0 [] [] s = None"
    by (simp add: find_rfcomm_channel_None_iff fetch_from_None_iff)
  then show ?thesis
    unfolding session_start_def fetch_from_forever .
qed

end

section \<open>The invariant of the reachable states\<close>

text \<open>What has gone over the wire since \<open>s0\<close> when the pages \<open>rs\<close> have been fetched.\<close>

definition pages_exchanged ::
    "('s \<Rightarrow> bytes) \<Rightarrow> ('s \<Rightarrow> bytes) \<Rightarrow> u16 \<Rightarrow> 's \<Rightarrow> RawServiceSearchAttributeResponse list
     \<Rightarrow> 's \<Rightarrow> bool" where
  "pages_exchanged sent received uuid s0 rs s \<longleftrightarrow>
     sent s = sent s0 @ concat (requests uuid 0 [] rs) \<and>
     (\<exists>pdus. received s = received s0 @ concat pdus \<and> list_all2 framed pdus rs \<and>
        list_all complete_pdu pdus)"

fun session_invariant ::
    "('s \<Rightarrow> bytes) \<Rightarrow> ('s \<Rightarrow> bytes) \<Rightarrow> u16 \<Rightarrow> 's \<Rightarrow> 's session_state \<Rightarrow> bool" where
  "session_invariant sent received uuid s0 (Requesting tid cs attrs s) \<longleftrightarrow>
     (\<exists>rs. pages_exchanged sent received uuid s0 rs s \<and>
        list_all (\<lambda>r. continuation_state r \<noteq> []) rs \<and> tid = of_nat (length rs) \<and>
        cs = next_continuation [] rs \<and> attrs = concat (map attribute_bytes rs))"
| "session_invariant sent received uuid s0 (Gathered attrs s) \<longleftrightarrow>
     (\<exists>rs r. pages_exchanged sent received uuid s0 (rs @ [r]) s \<and>
        list_all (\<lambda>r. continuation_state r \<noteq> []) rs \<and> continuation_state r = [] \<and>
        attrs = concat (map attribute_bytes (rs @ [r])))"
| "session_invariant sent received uuid s0 (Failed e s) \<longleftrightarrow>
     (\<exists>rs s1 request k. pages_exchanged sent received uuid s0 rs s1 \<and>
        list_all (\<lambda>r. continuation_state r \<noteq> []) rs \<and>
        request = request_for uuid (of_nat (length rs)) (next_continuation [] rs) \<and>
        sent s = sent s1 @ take k request \<and>
        (if e = Decode then
           k = length request \<and>
           (\<exists>pdu. received s = received s1 @ pdu \<and> complete_pdu pdu \<and> (\<forall>r. \<not> framed pdu r))
         else \<exists>io. e = Socket io))"

lemma requests_snoc:
  "requests uuid tid cs (rs @ [r]) =
     requests uuid tid cs rs @ [request_for uuid (tid + of_nat (length rs)) (next_continuation cs rs)]"
  by (induction rs arbitrary: tid cs) (auto simp: next_continuation_def ac_simps)

lemma next_continuation_snoc [simp]: "next_continuation cs (rs @ [r]) = continuation_state r"
  by (simp add: next_continuation_def)

lemma next_continuation_fits:
  assumes "list_all2 framed pdus rs"
  shows "length (next_continuation [] rs) < 2 ^ 8"
proof (cases rs rule: rev_cases)
  case (snoc rs' r)
  with assms have "\<exists>pdu. framed pdu r"
    by (auto simp: list_all2_append2 list_all2_Cons2)
  with snoc framed_continuation show ?thesis
    by auto
qed (simp add: next_continuation_def)

lemma pages_exchanged_fits:
  "pages_exchanged sent received uuid s0 rs s \<Longrightarrow> length (next_continuation [] rs) < 2 ^ 8"
  using next_continuation_fits [of _ rs] by (auto simp: pages_exchanged_def)

context byte_stream
begin

lemma pages_exchanged_snoc:
  assumes "pages_exchanged sent received uuid s0 rs s"
    and "send_and_receive_pdu T (request_for uuid (of_nat (length rs)) (next_continuation [] rs)) s =
      (Inr pdu, s')"
    and "framed pdu r"
  shows "pages_exchanged sent received uuid s0 (rs @ [r]) s'"
proof -
  from assms(1) obtain pdus where "received s = received s0 @ concat pdus" "list_all2 framed pdus rs"
    "list_all complete_pdu pdus"
    by (auto simp: pages_exchanged_def)
  with exchange_ok [OF assms(2)] assms(3) have
    "received s' = received s0 @ concat (pdus @ [pdu]) \<and> list_all2 framed (pdus @ [pdu]) (rs @ [r]) \<and>
     list_all complete_pdu (pdus @ [pdu])"
    by (simp add: list_all2_appendI)
  moreover have "sent s' = sent s0 @ concat (requests uuid 0 [] (rs @ [r]))"
    using exchange_ok(1) [OF assms(2)] assms(1) by (simp add: pages_exchanged_def requests_snoc)
  ultimately show ?thesis
    unfolding pages_exchanged_def by blast
qed

end


text \<open>A client of the stream: the codec and the stream together keep the invariant.\<close>

locale sdp_client = sdp_codec N B + byte_stream T sent received
  for N :: "('e, 'b) nom_lib" and B :: "'m bytes_lib" and T :: "('s, 'io, 'el) tokio_lib"
    and sent received :: "'s \<Rightarrow> bytes"
begin

text \<open>The exchange made in a requesting state that satisfies the invariant.\<close>

lemma invariant_exchange:
  assumes "session_invariant sent received uuid s0 (Requesting tid cs attrs s)"
    and "query_once B T s tid uuid cs = (v, s')"
  obtains rs w where "pages_exchanged sent received uuid s0 rs s"
    "list_all (\<lambda>r. continuation_state r \<noteq> []) rs" "attrs = concat (map attribute_bytes rs)"
    "tid = of_nat (length rs)" "cs = next_continuation [] rs"
    "send_and_receive_pdu T (request_for uuid tid cs) s = (w, s')" "v = map_err Socket w"
proof -
  from assms(1) obtain rs where rs: "pages_exchanged sent received uuid s0 rs s"
    "list_all (\<lambda>r. continuation_state r \<noteq> []) rs" "attrs = concat (map attribute_bytes rs)"
    "tid = of_nat (length rs)" "cs = next_continuation [] rs"
    by auto
  from assms(2) query_once_eq [OF pages_exchanged_fits [OF rs(1)], of T s tid uuid] rs(5)
  obtain w where "send_and_receive_pdu T (request_for uuid tid cs) s = (w, s')" "v = map_err Socket w"
    by (auto simp: Let_def split: prod.splits)
  with rs show thesis
    by (rule that)
qed

text \<open>A page that is framed is one page more.\<close>

lemma invariant_page:
  assumes "session_invariant sent received uuid s0 (Requesting tid cs attrs s)"
    and "query_once B T s tid uuid cs = (Inr pdu, s')" "raw_response N pdu = Inr (rest, raw)"
  obtains rs where "pages_exchanged sent received uuid s0 (rs @ [raw]) s'"
    "list_all (\<lambda>r. continuation_state r \<noteq> []) rs" "tid = of_nat (length rs)"
    "attrs @ attribute_bytes raw = concat (map attribute_bytes (rs @ [raw]))"
proof -
  from assms(1,2) obtain rs w where rs: "pages_exchanged sent received uuid s0 rs s"
    "list_all (\<lambda>r. continuation_state r \<noteq> []) rs" "attrs = concat (map attribute_bytes rs)"
    "tid = of_nat (length rs)" "cs = next_continuation [] rs"
    and exch: "send_and_receive_pdu T (request_for uuid tid cs) s = (w, s')" "Inr pdu = map_err Socket w"
    by (rule invariant_exchange)
  from exch(2) have "w = Inr pdu"
    by (cases w) simp_all
  with exch(1) rs pages_exchanged_snoc [OF rs(1) _ raw_response_framed [OF assms(3)]] show thesis
    by (intro that [of rs]) simp_all
qed

lemma step_invariant:
  assumes "session_step N B T uuid st st'" "session_invariant sent received uuid s0 st"
  shows "session_invariant sent received uuid s0 st'"
  using assms
proof (induction rule: session_step.induct)
  case (step_error s tid cs e s' attrs)
  from step_error.prems step_error.hyps obtain rs w where rs:
    "pages_exchanged sent received uuid s0 rs s" "list_all (\<lambda>r. continuation_state r \<noteq> []) rs"
    "tid = of_nat (length rs)" "cs = next_continuation [] rs"
    and exch: "send_and_receive_pdu T (request_for uuid tid cs) s = (w, s')" "Inl e = map_err Socket w"
    by (rule invariant_exchange)
  from exchange_sent_part [OF exch(1)] obtain k where
    "sent s' = sent s @ take k (request_for uuid tid cs)" ..
  moreover from exch(2) obtain io where "e = Socket io"
    by (cases w) simp_all
  ultimately show ?case
    using rs by auto
next
  case (step_garbled s tid cs pdu s' err attrs)
  from step_garbled.prems step_garbled.hyps(1) obtain rs w where rs:
    "pages_exchanged sent received uuid s0 rs s" "list_all (\<lambda>r. continuation_state r \<noteq> []) rs"
    "tid = of_nat (length rs)" "cs = next_continuation [] rs"
    and exch: "send_and_receive_pdu T (request_for uuid tid cs) s = (w, s')" "Inr pdu = map_err Socket w"
    by (rule invariant_exchange)
  from exch(2) have "w = Inr pdu"
    by (cases w) simp_all
  with exch(1) have ok: "send_and_receive_pdu T (request_for uuid tid cs) s = (Inr pdu, s')"
    by simp
  from raw_response_error [OF step_garbled.hyps(2)] exchange_ok [OF ok] have
    "\<exists>pdu. received s' = received s @ pdu \<and> complete_pdu pdu \<and> (\<forall>r. \<not> framed pdu r)"
    by blast
  with rs exchange_ok(1) [OF ok] show ?case
    unfolding session_invariant.simps
    by (intro exI [of _ rs] exI [of _ s] exI [of _ "request_for uuid tid cs"]
        exI [of _ "length (request_for uuid tid cs)"]) simp
next
  case (step_last s tid cs pdu s' rest raw attrs)
  from step_last.prems step_last.hyps(1,2) show ?case
    by (rule invariant_page) (use step_last.hyps(3) in auto)
next
  case (step_page s tid cs pdu s' rest raw attrs)
  from step_page.prems step_page.hyps(1,2) obtain rs where
    "pages_exchanged sent received uuid s0 (rs @ [raw]) s'"
    "list_all (\<lambda>r. continuation_state r \<noteq> []) rs" "tid = of_nat (length rs)"
    "attrs @ attribute_bytes raw = concat (map attribute_bytes (rs @ [raw]))"
    by (rule invariant_page)
  with step_page.hyps(3) show ?case
    unfolding session_invariant.simps by (intro exI [of _ "rs @ [raw]"]) simp
qed

lemma start_invariant: "session_invariant sent received uuid s (session_start s)"
proof -
  have "pages_exchanged sent received uuid s [] s"
    unfolding pages_exchanged_def by (intro conjI exI [of _ "[]"]) simp_all
  then show ?thesis
    unfolding session_start_def session_invariant.simps
    by (intro exI [of _ "[]"]) (simp add: next_continuation_def)
qed

lemma reachable_invariant:
  "(session_step N B T uuid)\<^sup>*\<^sup>* (session_start s) st \<Longrightarrow> session_invariant sent received uuid s st"
  by (induction rule: rtranclp_induct) (auto intro: start_invariant step_invariant)

end

text \<open>What is gathered never outgrows what has been received.\<close>

lemma framed_attribute_length: "framed pdu r \<Longrightarrow> length (attribute_bytes r) \<le> length pdu"
  by (auto simp: framed_def response_bytes_def)

lemma gathered_length:
  "list_all2 framed pdus rs \<Longrightarrow> length (concat (map attribute_bytes rs)) \<le> length (concat pdus)"
proof (induction rule: list_all2_induct)
  case (Cons pdu pdus r rs)
  with framed_attribute_length [of pdu r] show ?case
    by simp
qed simp

lemma pages_exchanged_length:
  "pages_exchanged sent received uuid s0 rs s \<Longrightarrow>
   length (received s0) + length (concat (map attribute_bytes rs)) \<le> length (received s)"
  using gathered_length [of _ rs] by (fastforce simp: pages_exchanged_def)

interpretation peer_client: sdp_client nom_model bytes_model peer_tokio sent_log received_log ..

end
