(* ===== verification/Sdp_Server.thy ===== *)
theory Sdp_Server
  imports Session_Peer
begin

text \<open>
  A device that reads what the client sends: an SDP server that parses each request, looks the
  service up and answers with the next part of its attribute bytes, of at most a fixed size. Its
  continuation state is the position it has reached, so a page is right only if the client echoes
  the continuation state of the page before it. A request it cannot read, or a continuation state
  it never issued, is answered with an \<^verbatim>\<open>ErrorResponse\<close>. Served by it, a query reports the first
  channel, whatever the size of the pages.
\<close>

section \<open>The server\<close>

definition error_response :: "u16 \<Rightarrow> u16 \<Rightarrow> bytes \<Rightarrow> bytes" where
  "error_response tid code info =
     header_bytes \<lparr>pdu_id = 1, transaction_id = tid, parameter_length = of_nat (2 + length info)\<rparr> @
     u16_to_be_bytes code @ info"

text \<open>The position a continuation state stands for.\<close>

fun resume_position :: "bytes \<Rightarrow> nat option" where
  "resume_position [] = Some 0"
| "resume_position [a, b, c, d] = Some (unat (u32_from_be_bytes a b c d))"
| "resume_position _ = None"

text \<open>
  A page holds at most as many attribute bytes as the request allows and the server is set to, and
  never more than 65528: with the two length fields and four bytes of continuation state they then
  fit a PDU.
\<close>

definition page_size :: "nat \<Rightarrow> nat" where
  "page_size n = min n 65528"

lemma page_size_pos [simp]: "page_size n = 0 \<longleftrightarrow> n = 0" "0 < page_size n \<longleftrightarrow> 0 < n"
  by (simp_all add: page_size_def min_def)

lemma page_size_le: "page_size n \<le> 65528"
  by (simp add: page_size_def)

definition server_page ::
    "nat \<Rightarrow> bytes \<Rightarrow> nat \<Rightarrow> ServiceSearchAttributeRequest \<Rightarrow> RawServiceSearchAttributeResponse" where
  "server_page n attrs pos request =
     (let chunk = take (min (page_size n) (unat (maximum_attribute_byte_count request))) (drop pos attrs);
          end_pos = pos + length chunk;
          cs = (if end_pos < length attrs then u32_to_be_bytes (of_nat end_pos) else [])
      in \<lparr>header =
            \<lparr>pdu_id = 7, transaction_id = req_transaction_id request,
             parameter_length = of_nat (3 + length chunk + length cs)\<rparr>,
          attribute_bytes = chunk, continuation_state = cs\<rparr>)"

text \<open>Error codes 3 and 5 are those of an invalid request and of an invalid continuation state.\<close>

definition server_answer :: "(u16 \<Rightarrow> bytes) \<Rightarrow> nat \<Rightarrow> bytes \<Rightarrow> bytes" where
  "server_answer db n pdu =
     (case parse_request nom_model pdu of
        None \<Rightarrow> error_response 0 3 []
      | Some request \<Rightarrow>
          (case resume_position (req_continuation_state request) of
             None \<Rightarrow> error_response (req_transaction_id request) 5 []
           | Some pos \<Rightarrow>
               response_bytes (server_page n (db (service_uuid16 request)) pos request)))"

text \<open>It answers every request that has arrived in full.\<close>

function server_answers :: "(u16 \<Rightarrow> bytes) \<Rightarrow> nat \<Rightarrow> bytes \<Rightarrow> bytes \<times> bytes" where
  "server_answers db n buf =
     (if has_pdu buf then
        (let (left, out) = server_answers db n (drop (pdu_size buf) buf)
         in (left, server_answer db n (take (pdu_size buf) buf) @ out))
      else (buf, []))"
  by auto
termination
  by (relation "measure (\<lambda>(_, _, buf). length buf)") (auto simp: has_pdu_def pdu_size_def)

declare server_answers.simps [simp del]

section \<open>The client's end of a connection to it\<close>

record server_link =
  link_sent :: bytes
  link_received :: bytes
  link_unread :: bytes
  link_outbox :: bytes
  link_clock :: nat

definition server_write ::
    "(u16 \<Rightarrow> bytes) \<Rightarrow> nat \<Rightarrow> duration \<Rightarrow> bytes \<Rightarrow> server_link \<Rightarrow> (unit + unit + unit) \<times> server_link" where
  "server_write db n d bs s =
     (let (left, out) = server_answers db n (link_unread s @ bs)
      in (Inr (Inr ()), s\<lparr>link_sent := link_sent s @ bs, link_unread := left,
            link_outbox := link_outbox s @ out\<rparr>))"

definition server_read ::
    "duration \<Rightarrow> nat \<Rightarrow> server_link \<Rightarrow> (unit + unit + bytes) \<times> server_link" where
  "server_read d k s =
     (let got = take k (link_outbox s);
          s' = s\<lparr>link_received := link_received s @ got, link_outbox := drop k (link_outbox s)\<rparr>
      in if length got = k then (Inr (Inr got), s')
         else (Inl (), s'\<lparr>link_clock := link_clock s + d\<rparr>))"

definition server_tokio ::
    "(u16 \<Rightarrow> bytes) \<Rightarrow> nat \<Rightarrow> (server_link, unit, unit) tokio_lib" where
  "server_tokio db n =
     \<lparr>timeout_write_all = server_write db n, timeout_read_exact = server_read\<rparr>"

definition fresh_link :: server_link where
  "fresh_link =
     \<lparr>link_sent = [], link_received = [], link_unread = [], link_outbox = [], link_clock = 0\<rparr>"

interpretation server_stream:
  timed_byte_stream "server_tokio db n" link_sent link_received link_clock 0
proof unfold_locales
  fix d bs w s s'
  assume w: "timeout_write_all (server_tokio db n) d bs s = (w, s')"
  then have "link_sent s' = link_sent s @ take (length bs) bs"
    by (auto simp: server_tokio_def server_write_def split: prod.splits)
  then show "\<exists>k. link_sent s' = link_sent s @ take k bs" ..
next
  fix d k v s s'
  assume "timeout_read_exact (server_tokio db n) d k s = (v, s')"
  then have "length (take k (link_outbox s)) \<le> k \<and>
      link_received s' = link_received s @ take k (link_outbox s)"
    by (auto simp: server_tokio_def server_read_def Let_def split: if_splits)
  then show "\<exists>got. length got \<le> k \<and> link_received s' = link_received s @ got" ..
qed (auto simp: server_tokio_def server_write_def server_read_def Let_def split: prod.splits if_splits)

section \<open>One exchange\<close>

lemma server_answers_complete:
  "complete_pdu req \<Longrightarrow> server_answers db n req = ([], server_answer db n req)"
  by (subst server_answers.simps)
    (simp add: complete_pdu_size server_answers.simps [of db n "[]"] has_pdu_def [of "[]"])

lemma server_exchange:
  assumes "link_unread s = []" "link_outbox s = []"
    and "complete_pdu req" "complete_pdu (server_answer db n req)"
  shows "send_and_receive_pdu (server_tokio db n) req s =
    (Inr (server_answer db n req),
     s\<lparr>link_sent := link_sent s @ req, link_received := link_received s @ server_answer db n req\<rparr>)"
proof -
  note sizes = complete_pdu_size [OF assms(4)]
  have len: "unat (u16_from_be_bytes (server_answer db n req ! 3) (server_answer db n req ! 4)) =
      length (server_answer db n req) - 5"
    using sizes by (simp add: pdu_size_def)
  show ?thesis
    using assms(1,2) sizes
    by (simp add: send_and_receive_pdu_def server_tokio_def server_write_def server_read_def
        Let_def PDU_HEADER_LEN_def len server_answers_complete [OF assms(3)])
qed

section \<open>A query against it\<close>

lemma parse_request_for:
  "length cs < 2 ^ 8 \<Longrightarrow> parse_request nom_model (request_for uuid tid cs) = Some (query_request tid uuid cs)"
  using nom_std.parse_request_bytes [of "query_request tid uuid cs"]
  by (simp add: query_request_bytes query_request_continuation)

lemma query_request_fields:
  "req_transaction_id (query_request tid uuid cs) = tid"
  "service_uuid16 (query_request tid uuid cs) = uuid"
  "maximum_attribute_byte_count (query_request tid uuid cs) = 0xffff"
  by (simp_all add: query_request_def MAXIMUM_ATTRIBUTE_BYTE_COUNT_def)

text \<open>The page that answers the client's request for a position.\<close>

definition page_at :: "nat \<Rightarrow> bytes \<Rightarrow> nat \<Rightarrow> u16 \<Rightarrow> RawServiceSearchAttributeResponse" where
  "page_at n attrs pos tid =
     (let cs = (if pos + n < length attrs then u32_to_be_bytes (of_nat (pos + n)) else [])
      in \<lparr>header =
            \<lparr>pdu_id = 7, transaction_id = tid,
             parameter_length = of_nat (3 + length (take n (drop pos attrs)) + length cs)\<rparr>,
          attribute_bytes = take n (drop pos attrs), continuation_state = cs\<rparr>)"

lemma server_page_at:
  assumes "0 < n" "pos \<le> length attrs"
  shows "server_page n attrs pos (query_request tid uuid cs) = page_at (page_size n) attrs pos tid"
proof -
  have "min (page_size n) (unat (0xffff :: u16)) = page_size n"
    using page_size_le [of n] by simp
  with assms show ?thesis
    by (auto simp: server_page_def page_at_def Let_def query_request_fields)
qed

lemma page_at_well_formed:
  assumes "n \<le> 65528"
  shows "well_formed_response (page_at n attrs pos tid)"
proof -
  define k where "k = 3 + length (take n (drop pos attrs)) +
    length (if pos + n < length attrs then u32_to_be_bytes (of_nat (pos + n)) else [])"
  have "k < 2 ^ 16"
    using assms by (auto simp: k_def)
  then have "unat (of_nat k :: u16) = k"
    by (rule unat_of_nat_u16)
  with assms show ?thesis
    by (auto simp: well_formed_response_def response_fits_def page_at_def Let_def k_def)
qed

text \<open>The continuation state with which the server is asked for a position.\<close>

definition position_state :: "nat \<Rightarrow> bytes" where
  "position_state pos = (if pos = 0 then [] else u32_to_be_bytes (of_nat pos))"

lemma position_state_fits: "length (position_state pos) < 2 ^ 8"
  by (simp add: position_state_def)

lemma resume_position_state: "pos < 2 ^ 32 \<Longrightarrow> resume_position (position_state pos) = Some pos"
  by (simp add: position_state_def u32_to_be_bytes_def unat_of_nat take_bit_nat_eq_self)

lemma server_answer_page:
  assumes "0 < n" "length (db uuid) < 2 ^ 32" "pos \<le> length (db uuid)"
  shows "server_answer db n (request_for uuid tid (position_state pos)) =
    response_bytes (page_at (page_size n) (db uuid) pos tid)"
proof -
  have "resume_position (position_state pos) = Some pos"
    using assms(2,3) by (intro resume_position_state) simp
  with assms show ?thesis
    by (simp add: server_answer_def parse_request_for [OF position_state_fits]
        query_request_continuation query_request_fields server_page_at)
qed

text \<open>The number of pages that attribute bytes of a length take.\<close>

definition page_count :: "nat \<Rightarrow> nat \<Rightarrow> nat" where
  "page_count n k = max 1 ((k + n - 1) div n)"

lemma page_count_Suc: "0 < n \<Longrightarrow> page_count n (Suc j) = Suc (j div n)"
  by (simp add: page_count_def div_add_self2 max_def)

lemma page_count_last: "0 < n \<Longrightarrow> k \<le> n \<Longrightarrow> page_count n k = 1"
proof (cases k)
  case 0
  then show "0 < n \<Longrightarrow> k \<le> n \<Longrightarrow> page_count n k = 1"
    by (simp add: page_count_def)
next
  case (Suc j)
  then show "0 < n \<Longrightarrow> k \<le> n \<Longrightarrow> page_count n k = 1"
    by (simp add: page_count_Suc)
qed

lemma page_count_more: "0 < n \<Longrightarrow> n < k \<Longrightarrow> page_count n k = Suc (page_count n (k - n))"
proof -
  assume "0 < n" "n < k"
  then obtain j where k: "k = Suc (j + n)"
    using less_imp_Suc_add [of n k] by (auto simp: ac_simps)
  then have "k - n = Suc j"
    by simp
  with k \<open>0 < n\<close> show ?thesis
    by (simp add: page_count_Suc div_add_self2)
qed

lemma server_page_exchange:
  assumes "0 < n" "length (db uuid) < 2 ^ 32" "pos \<le> length (db uuid)"
    and "link_unread s = []" "link_outbox s = []"
  shows "send_and_receive_pdu (server_tokio db n) (request_for uuid tid (position_state pos)) s =
    (Inr (response_bytes (page_at (page_size n) (db uuid) pos tid)),
     s\<lparr>link_sent := link_sent s @ request_for uuid tid (position_state pos),
       link_received := link_received s @ response_bytes (page_at (page_size n) (db uuid) pos tid)\<rparr>)"
  using server_exchange [OF assms(4,5) request_for_complete [OF position_state_fits], of db n uuid tid pos]
    well_formed_complete [OF page_at_well_formed [OF page_size_le]]
  by (simp add: server_answer_page [where db = db and uuid = uuid, OF assms(1-3)])

text \<open>The pages \<open>rs\<close> are those a run receives that asks for the rest from a position on.\<close>

definition served ::
    "(u16 \<Rightarrow> bytes) \<Rightarrow> nat \<Rightarrow> u16 \<Rightarrow> u16 \<Rightarrow> nat \<Rightarrow> server_link
     \<Rightarrow> RawServiceSearchAttributeResponse list \<Rightarrow> bool" where
  "served db n uuid tid pos s rs \<longleftrightarrow>
     query_run (server_tokio db n) uuid tid (position_state pos) s rs (Inr ())
       (s\<lparr>link_sent := link_sent s @ concat (requests uuid tid (position_state pos) rs),
          link_received := link_received s @ concat (map response_bytes rs)\<rparr>) \<and>
     concat (map attribute_bytes rs) = drop pos (db uuid) \<and>
     length rs = page_count (page_size n) (length (db uuid) - pos)"

lemma server_run:
  assumes "0 < n" "length (db uuid) < 2 ^ 32"
    and "pos = 0 \<or> pos < length (db uuid)" "link_unread s = []" "link_outbox s = []"
  shows "\<exists>rs. served db n uuid tid pos s rs"
  using assms(3-5)
proof (induction "length (db uuid) - pos" arbitrary: pos tid s rule: less_induct)
  case less
  let ?req = "request_for uuid tid (position_state pos)"
  let ?m = "page_size n"
  let ?r = "page_at (page_size n) (db uuid) pos tid"
  let ?s = "s\<lparr>link_sent := link_sent s @ ?req, link_received := link_received s @ response_bytes ?r\<rparr>"
  have wf: "well_formed_response ?r"
    by (rule page_at_well_formed [OF page_size_le])
  note framed = well_formed_framed [OF wf]
  have exch: "send_and_receive_pdu (server_tokio db n) ?req s = (Inr (response_bytes ?r), ?s)"
    using less.prems assms(1,2) by (intro server_page_exchange) auto
  show ?case
  proof (cases "pos + ?m < length (db uuid)")
    case False
    then have "continuation_state ?r = []" "attribute_bytes ?r = drop pos (db uuid)"
      by (simp_all add: page_at_def Let_def)
    moreover from False have "length (db uuid) - pos \<le> ?m"
      by linarith
    ultimately show ?thesis
      using run_last [OF exch framed] page_count_last [of ?m "length (db uuid) - pos"] assms(1)
      by (intro exI [of _ "[?r]"]) (simp add: served_def)
  next
    case True
    have cs: "continuation_state ?r = position_state (pos + ?m)"
      "attribute_bytes ?r = take ?m (drop pos (db uuid))"
      using True assms(1) by (simp_all add: page_at_def Let_def position_state_def)
    then have more: "continuation_state ?r \<noteq> []"
      using assms(1) by (auto simp: position_state_def u32_to_be_bytes_def)
    have "\<exists>rs. served db n uuid (tid + 1) (pos + ?m) ?s rs"
      using True assms(1) page_size_pos(2) [of n] less.prems by (intro less.hyps) (linarith | simp)+
    then obtain rs where rs: "served db n uuid (tid + 1) (pos + ?m) ?s rs" ..
    then have "query_run (server_tokio db n) uuid tid (position_state pos) s (?r # rs) (Inr ())
        (s\<lparr>link_sent := link_sent s @ concat (requests uuid tid (position_state pos) (?r # rs)),
           link_received := link_received s @ concat (map response_bytes (?r # rs))\<rparr>)"
      using run_more [OF exch framed more, of rs] by (simp add: cs(1) served_def)
    moreover have "concat (map attribute_bytes (?r # rs)) = drop pos (db uuid)"
      using cs(2) rs append_take_drop_id [of ?m "drop pos (db uuid)"]
      by (simp add: served_def add.commute)
    moreover have "length (?r # rs) = page_count (page_size n) (length (db uuid) - pos)"
      using rs page_count_more [of "page_size n" "length (db uuid) - pos"] True assms(1) by (simp add: served_def)
    ultimately show ?thesis
      unfolding served_def by blast
  qed
qed

context sdp_codec
begin

lemma find_on_server:
  assumes "0 < n" "length (db uuid) < 2 ^ 32"
    and "element_wire p outer" "records_carry outer als" "db uuid = p @ rest"
  shows "\<exists>rs. find_rfcomm_channel N B (server_tokio db n) fresh_link uuid =
      Some (Inr (find_map rfcomm_channel als),
        fresh_link\<lparr>link_sent := concat (requests uuid 0 [] rs),
          link_received := concat (map response_bytes rs)\<rparr>) \<and>
    concat (map attribute_bytes rs) = db uuid \<and>
    length rs = page_count (page_size n) (length (db uuid))"
proof -
  from server_run [where db = db and uuid = uuid and pos = 0 and s = fresh_link and tid = 0,
      OF assms(1,2)] obtain rs where
    run: "query_run (server_tokio db n) uuid 0 [] fresh_link rs (Inr ())
      (fresh_link\<lparr>link_sent := concat (requests uuid 0 [] rs),
         link_received := concat (map response_bytes rs)\<rparr>)"
    and pages: "concat (map attribute_bytes rs) = db uuid"
      "length rs = page_count (page_size n) (length (db uuid))"
    by (auto simp: served_def position_state_def fresh_link_def)
  have "query_value (concat (map attribute_bytes rs)) (Inr (find_map rfcomm_channel als))"
    using records_value [OF assms(3,4), of rest] pages(1) assms(5) by simp
  with run pages show ?thesis
    unfolding find_rfcomm_channel_Some_iff query_ends_def by blast
qed

end

section \<open>Error responses\<close>

text \<open>
  Nothing in the framing of a response tells an \<^verbatim>\<open>ErrorResponse\<close> from it: its error code is read as
  the length of the attribute bytes, its error information as those bytes and what follows them.
\<close>

lemma header_bytes_inj: "header_bytes g = header_bytes h \<longleftrightarrow> g = h"
  using nom_std.pdu_header_iff [of "header_bytes g" "[]" g]
    nom_std.pdu_header_iff [of "header_bytes g" "[]" h] by auto

context nom_contract
begin

lemma error_response_framed:
  "raw_response N (error_response tid code info) = Inr (rest, r) \<longleftrightarrow>
     (\<exists>attrs cs. info = attrs @ of_nat (length cs) # cs @ rest \<and>
        length attrs = unat code \<and> length cs < 256 \<and>
        r = \<lparr>header = \<lparr>pdu_id = 1, transaction_id = tid, parameter_length = of_nat (2 + length info)\<rparr>,
             attribute_bytes = attrs, continuation_state = cs\<rparr>)" (is "?l \<longleftrightarrow> ?r")
proof
  assume ?l
  then have eq: "error_response tid code info = response_bytes r @ rest" and fits: "response_fits r"
    by (simp_all add: raw_response_iff)
  then have "header r = \<lparr>pdu_id = 1, transaction_id = tid, parameter_length = of_nat (2 + length info)\<rparr>"
    and "code = of_nat (length (attribute_bytes r))"
    and "info = attribute_bytes r @ of_nat (length (continuation_state r)) # continuation_state r @ rest"
    by (auto simp: error_response_def response_bytes_def header_bytes_inj)
  with fits show ?r
    by (intro exI [of _ "attribute_bytes r"] exI [of _ "continuation_state r"])
      (auto simp: response_fits_def unat_of_nat_u16)
next
  assume ?r
  then show ?l
    using unat_u16_less [of code]
    by (auto simp: raw_response_iff error_response_def response_bytes_def response_fits_def)
qed

end

end
