(* ===== verification/Answer.thy ===== *)
theory Answer
  imports Session_Peer
begin

text \<open>
  What a query answers, in terms of the wire alone: the specification that the interpretation of
  \<^verbatim>\<open>src/codec/response.rs\<close> and the search of \<^verbatim>\<open>src/codec/extract.rs\<close> implement together. It
  mentions none of their functions, only the wire format and the values it carries.
\<close>

section \<open>Specification\<close>

text \<open>An entry of a protocol stack that names RFCOMM and a channel: UUID 3 and an integer.\<close>

definition names_channel :: "DataElement \<Rightarrow> u8 \<Rightarrow> bool" where
  "names_channel entry c \<longleftrightarrow> entry = Sequence [Uuid16 3, UnsignedInt (ucast c)]"

text \<open>
  The elements of a record offer a channel if their first attribute 4 is a sequence and the first
  of its entries that names a channel names that one.
\<close>

definition record_offers :: "DataElement list \<Rightarrow> u8 \<Rightarrow> bool" where
  "record_offers es c \<longleftrightarrow>
     (\<exists>before stack others i.
        es = attribute_elements before @ [UnsignedInt 4, Sequence stack] @ others \<and>
        4 \<notin> fst ` set before \<and> i < length stack \<and> names_channel (stack ! i) c \<and>
        (\<forall>j < i. \<forall>d. \<not> names_channel (stack ! j) d))"

text \<open>The channel of the first record that offers one, or none if no record does.\<close>

definition records_answer :: "DataElement list list \<Rightarrow> u8 option \<Rightarrow> bool" where
  "records_answer records ch \<longleftrightarrow>
     (case ch of
        Some c \<Rightarrow> \<exists>i < length records. record_offers (records ! i) c \<and>
          (\<forall>j < i. \<forall>d. \<not> record_offers (records ! j) d)
      | None \<Rightarrow> \<forall>i < length records. \<forall>d. \<not> record_offers (records ! i) d)"

text \<open>The records in the outer element; a member that is no sequence is a record without elements.\<close>

fun elements_of :: "DataElement \<Rightarrow> DataElement list" where
  "elements_of (Sequence es) = es"
| "elements_of _ = []"

definition wire_answer :: "bytes \<Rightarrow> u8 option \<Rightarrow> bool" where
  "wire_answer attrs ch \<longleftrightarrow>
     (\<exists>p rest outer.
        attrs = p @ rest \<and> element_wire p outer \<and>
        (\<forall>r \<in> set (elements_of outer). \<exists>al. elements_of r = attribute_elements al) \<and>
        records_answer (map elements_of (elements_of outer)) ch)"

section \<open>Records\<close>

lemma names_channel_iff: "names_channel e c \<longleftrightarrow> rfcomm_entry e = Some c"
  by (simp add: names_channel_def rfcomm_entry_iff rfcomm_element_def RFCOMM_UUID_def)

lemma attribute_elements_simps [simp]:
  "attribute_elements [] = []"
  "attribute_elements ((i, v) # al) = UnsignedInt (ucast i) # v # attribute_elements al"
  by (simp_all add: attribute_elements_def)

lemma ucast_u16_u128_inj [simp]: "(ucast (i :: u16) :: u128) = ucast j \<longleftrightarrow> i = j"
  by (metis unat_ucast_u16_u128 word_unat_eq_iff)

lemma ucast_four: "(4 :: u128) = ucast (i :: u16) \<longleftrightarrow> i = 4"
  using ucast_u16_u128_inj [of 4 i] by auto

lemma attribute_elements_inj [simp]: "attribute_elements al = attribute_elements al' \<longleftrightarrow> al = al'"
proof (induction al arbitrary: al')
  case Nil
  show ?case by (cases al') auto
next
  case (Cons a al)
  show ?case
    by (cases a; cases al') (auto simp: Cons.IH)
qed

lemma attribute_elements_split:
  "attribute_elements al = attribute_elements before @ others \<Longrightarrow>
   \<exists>al'. al = before @ al' \<and> others = attribute_elements al'"
proof (induction before arbitrary: al)
  case (Cons a before)
  obtain i v where a: "a = (i, v)"
    by (cases a)
  with Cons.prems obtain al' where "al = (i, v) # al'"
    "attribute_elements al' = attribute_elements before @ others"
    by (cases al) auto
  with Cons.IH [of al'] a show ?case
    by auto
qed simp

lemma record_offers_iff: "record_offers (attribute_elements al) c \<longleftrightarrow> rfcomm_channel al = Some c"
proof
  assume "record_offers (attribute_elements al) c"
  then obtain before stack others i where
    es: "attribute_elements al = attribute_elements before @ [UnsignedInt 4, Sequence stack] @ others"
    and first: "4 \<notin> fst ` set before" "i < length stack" "names_channel (stack ! i) c"
      "\<forall>j < i. \<forall>d. \<not> names_channel (stack ! j) d"
    by (auto simp: record_offers_def)
  from attribute_elements_split [OF es] obtain al' where al': "al = before @ al'"
    "UnsignedInt 4 # Sequence stack # others = attribute_elements al'"
    by auto
  then obtain post where "al' = (4, Sequence stack) # post"
    by (cases al') (auto simp: ucast_four)
  with al'(1) first show "rfcomm_channel al = Some c"
    unfolding rfcomm_channel_iff PROTOCOL_DESCRIPTOR_LIST_ATTR_ID_def names_channel_def
      rfcomm_element_def RFCOMM_UUID_def
    by blast
next
  assume "rfcomm_channel al = Some c"
  then obtain before stack post i where al: "al = before @ (4, Sequence stack) # post"
    and first: "4 \<notin> fst ` set before" "i < length stack" "names_channel (stack ! i) c"
      "\<forall>j < i. \<forall>d. \<not> names_channel (stack ! j) d"
    unfolding rfcomm_channel_iff PROTOCOL_DESCRIPTOR_LIST_ATTR_ID_def names_channel_def
      rfcomm_element_def RFCOMM_UUID_def
    by blast
  from al have "attribute_elements al =
      attribute_elements before @ [UnsignedInt 4, Sequence stack] @ attribute_elements post"
    by (simp add: attribute_elements_def)
  with first show "record_offers (attribute_elements al) c"
    unfolding record_offers_def by blast
qed

lemma records_answer_iff:
  "records_answer (map attribute_elements als) ch \<longleftrightarrow> find_map rfcomm_channel als = ch"
proof (cases ch)
  case None
  have "find_map rfcomm_channel als = None \<longleftrightarrow> (\<forall>i < length als. rfcomm_channel (als ! i) = None)"
    by (induction als) (auto simp: nth_Cons' all_conj_distrib split: option.splits)
  then show ?thesis
    by (auto simp: None records_answer_def record_offers_iff)
next
  case (Some c)
  then show ?thesis
    by (auto simp: records_answer_def record_offers_iff find_map_Some_iff)
qed

lemma record_carries_iff: "record_carries r al \<longleftrightarrow> elements_of r = attribute_elements al"
  by (cases r; cases al) auto

lemma records_carry_iff:
  "records_carry outer als \<longleftrightarrow> map elements_of (elements_of outer) = map attribute_elements als"
proof -
  have "list_all2 record_carries rs als \<longleftrightarrow> map elements_of rs = map attribute_elements als" for rs
    by (induction rs als rule: list_induct2') (auto simp: record_carries_iff)
  then show ?thesis
    by (cases outer) auto
qed

lemma all_attributes:
  "(\<forall>r \<in> set rs. \<exists>al. elements_of r = attribute_elements al) \<longleftrightarrow>
     (\<exists>als. map elements_of rs = map attribute_elements als)"
  by (induction rs) (auto simp: Cons_eq_map_conv)

section \<open>The query implements it\<close>

lemma query_value_wire: "query_value attrs (Inr ch) \<longleftrightarrow> wire_answer attrs ch"
proof -
  have "query_value attrs (Inr ch) \<longleftrightarrow>
      (\<exists>als. attributes_say attrs als \<and> find_map rfcomm_channel als = ch)"
    by (auto simp: query_value_def)
  also have "\<dots> \<longleftrightarrow> wire_answer attrs ch"
  proof -
    have "(\<exists>als. map elements_of rs = map attribute_elements als \<and> find_map rfcomm_channel als = ch) \<longleftrightarrow>
        (\<forall>r \<in> set rs. \<exists>al. elements_of r = attribute_elements al) \<and>
        records_answer (map elements_of rs) ch" for rs
      unfolding all_attributes by (auto simp: records_answer_iff)
    then show ?thesis
      unfolding wire_answer_def attributes_say_def records_carry_iff by blast
  qed
  finally show ?thesis .
qed

end
