(* ===== verification/Properties_Transport.thy ===== *)
theory Properties_Transport
  imports Session_Machine Sdp_Server Answer
begin

text \<open>
  What the transport guarantees, \<^verbatim>\<open>src/transport/socket.rs\<close> and \<^verbatim>\<open>src/transport/session.rs\<close>: one
  exchange, the pagination loop as a whole, what it puts on the wire, and when it ends.
\<close>

section \<open>One exchange\<close>

text \<open>
  C10. A successful exchange has sent the request, all of it and nothing else, and has received
  exactly one complete PDU, its header and the bytes the header declares, which it returns:
  nothing of what follows in the stream is consumed.
\<close>

theorem exchange_moves_one_pdu:
  assumes "byte_stream T sent received"
    and "send_and_receive_pdu T request s = (Inr pdu, s')"
  shows "sent s' = sent s @ request \<and> received s' = received s @ pdu \<and> complete_pdu pdu"
  using byte_stream.exchange_ok [OF assms] by blast

theorem exchange_moves_one_pdu_witness:
  "\<exists>s' :: peer. sent_log s' = request_for 0x112f 0 [] \<and>
     received_log s' = [0x07, 0, 0, 0, 3, 0, 0, 0] \<and>
     complete_pdu [0x07, 0, 0, 0, 3, 0, 0, 0 :: u8]"
proof -
  let ?page = "[0x07, 0, 0, 0, 3, 0, 0, 0]"
  have "complete_pdu ?page"
    using well_formed_complete [of "\<lparr>header = \<lparr>pdu_id = 7, transaction_id = 0, parameter_length = 3\<rparr>,
        attribute_bytes = [], continuation_state = []\<rparr>"]
    by (simp add: well_formed_response_def response_fits_def response_bytes_def header_bytes_def
        u16_to_be_bytes_def)
  then have "\<exists>s'. send_and_receive_pdu peer_tokio (request_for 0x112f 0 [])
      (peer_of [prompt ?page]) = (Inr ?page, s')"
    using peer_exchange [of "peer_of [prompt ?page]" ?page "[]" "request_for 0x112f 0 []"]
      request_for_complete [of "[]"] by (simp add: peer_of_def)
  then obtain s' where "send_and_receive_pdu peer_tokio (request_for 0x112f 0 [])
      (peer_of [prompt ?page]) = (Inr ?page, s')" ..
  from exchange_moves_one_pdu [OF peer_stream.byte_stream_axioms this]
  have "sent_log s' = request_for 0x112f 0 [] \<and> received_log s' = ?page \<and> complete_pdu ?page"
    by (simp add: peer_of_def)
  then show ?thesis
    by (rule exI [where x = s'])
qed

text \<open>How the outcome of an operation under a timer is reported.\<close>

definition fails_with :: "'el + 'io + 'a \<Rightarrow> SocketError \<Rightarrow> bool" where
  "fails_with outcome e \<longleftrightarrow>
     (case outcome of
        Inl elapsed \<Rightarrow> e = Timeout
      | Inr (Inl io) \<Rightarrow> e = Io
      | Inr (Inr done) \<Rightarrow> False)"

lemma settle_fails: "settle outcome = Inl e \<longleftrightarrow> fails_with outcome e"
  by (auto simp: fails_with_def split: sum.split)

text \<open>
  C25. An exchange fails exactly when its write, its header read or its body read does, each made
  only after the ones before it succeeded, and it fails with that operation's error: a timeout
  where the timer ran out, an I/O error where the operation returned one.
\<close>

theorem exchange_errors:
  "send_and_receive_pdu T request s = (Inl e, s') \<longleftrightarrow>
     (\<exists>w. timeout_write_all T 20000 request s = (w, s') \<and> fails_with w e) \<or>
     (\<exists>u s1 v. timeout_write_all T 20000 request s = (Inr (Inr u), s1) \<and>
        timeout_read_exact T 20000 5 s1 = (v, s') \<and> fails_with v e) \<or>
     (\<exists>u s1 header s2 v. timeout_write_all T 20000 request s = (Inr (Inr u), s1) \<and>
        timeout_read_exact T 20000 5 s1 = (Inr (Inr header), s2) \<and>
        timeout_read_exact T 20000 (unat (u16_from_be_bytes (header ! 3) (header ! 4))) s2 = (v, s') \<and>
        fails_with v e)" (is "?l \<longleftrightarrow> ?r")
proof
  assume ?l
  then show ?r
    by (cases rule: send_and_receive_cases)
      (auto simp: PDU_HEADER_LEN_def RESPONSE_TIMEOUT_def simp flip: settle_fails)
qed (auto simp: send_and_receive_pdu_def PDU_HEADER_LEN_def RESPONSE_TIMEOUT_def Let_def
    simp flip: settle_fails)

text \<open>
  C26. A failed exchange has sent a prefix of the request, and it has received nothing unless that
  is the whole of it. What it has received is at most the PDU being answered with: a header, or
  part of one, or a header and at most as many bytes as bytes 3 and 4 of that header declare.
\<close>

theorem failed_exchange_partial:
  assumes "byte_stream T sent received"
    and "send_and_receive_pdu T request s = (Inl e, s')"
  shows "\<exists>k got. sent s' = sent s @ take k request \<and> received s' = received s @ got \<and>
    (got = [] \<or> take k request = request) \<and>
    (length got \<le> 5 \<or> length got \<le> 5 + unat (u16_from_be_bytes (got ! 3) (got ! 4)))"
  using byte_stream.exchange_part [OF assms] by (simp only: within_one_pdu_def)

theorem failed_exchange_partial_witness:
  "\<exists>s'. send_and_receive_pdu peer_tokio (request_for 0x112f 0 [])
       (peer_of [prompt [0x07, 0, 0, 0, 9, 0xaa]]) = (Inl Io, s') \<and>
     (\<exists>k got. sent_log s' = take k (request_for 0x112f 0 []) \<and> received_log s' = got \<and>
       (got = [] \<or> take k (request_for 0x112f 0 []) = request_for 0x112f 0 []) \<and>
       (length got \<le> 5 \<or> length got \<le> 5 + unat (u16_from_be_bytes (got ! 3) (got ! 4))))"
proof -
  have "\<exists>s'. send_and_receive_pdu peer_tokio (request_for 0x112f 0 [])
      (peer_of [prompt [0x07, 0, 0, 0, 9, 0xaa]]) = (Inl Io, s')"
    using complete_pdu_size [OF request_for_complete [of "[]" "0x112f" 0]]
    by (simp add: send_and_receive_pdu_def peer_tokio_def peer_write_def peer_read_def Let_def
        peer_of_def PDU_HEADER_LEN_def RESPONSE_TIMEOUT_def u16_from_be_bytes_def)
  then obtain s' where exch: "send_and_receive_pdu peer_tokio (request_for 0x112f 0 [])
      (peer_of [prompt [0x07, 0, 0, 0, 9, 0xaa]]) = (Inl Io, s')" ..
  from failed_exchange_partial [OF peer_stream.byte_stream_axioms exch] show ?thesis
    by (intro exI [of _ s'] conjI exch) (simp add: peer_of_def)
qed

text \<open>
  An exchange takes at most a minute and three times the lag of the stream: each of its three
  operations has a timer of twenty seconds of its own.
\<close>

theorem exchange_within_a_minute:
  assumes "timed_byte_stream T sent received now lag"
    and "send_and_receive_pdu T request s = (r, s')"
  shows "now s' \<le> now s + 60000 + 3 * lag"
  using timed_byte_stream.exchange_time [OF assms] by (simp add: RESPONSE_TIMEOUT_def)

theorem exchange_within_a_minute_witness:
  "clock (snd (send_and_receive_pdu peer_tokio [] (peer_of [[(60000, 0x07)]]))) \<le> 60000"
proof -
  obtain r s' where e: "send_and_receive_pdu peer_tokio [] (peer_of [[(60000, 0x07)]]) = (r, s')"
    by fastforce
  from exchange_within_a_minute [OF peer_stream.timed_byte_stream_axioms e] e show ?thesis
    by (simp add: peer_of_def)
qed

text \<open>
  C40. The write, the header and the body have twenty seconds each, not together: over a link on
  which the write of the request takes w milliseconds, the read of the header a and the read of the
  body b, the exchange succeeds exactly when none of the three is more than 20000, after w plus a
  plus b, and otherwise it times out, 20000 after it began the first operation that is late. So an
  exchange can take three times the response timeout and succeed.
\<close>

theorem exchange_timers_are_separate:
  assumes "complete_pdu page"
  shows "\<exists>s'. send_and_receive_pdu slow_tokio request (slow_of (page @ rest) [w, a, b]) =
      (if w \<le> 20000 \<and> a \<le> 20000 \<and> b \<le> 20000 then Inr page else Inl Timeout, s') \<and>
    slow_clock s' =
      (if w \<le> 20000 then w + (if a \<le> 20000 then a + min b 20000 else 20000) else 20000)"
  using slow_exchange [OF assms, of request rest w a b] unfolding RESPONSE_TIMEOUT_def .

theorem exchange_timers_are_separate_witness:
  "\<exists>s'. send_and_receive_pdu slow_tokio (request_for 0x112f 0 [])
       (slow_of ([0x07, 0, 0, 0, 3, 0, 0, 0] @ []) [18000, 19000, 20000]) =
      (Inr [0x07, 0, 0, 0, 3, 0, 0, 0], s') \<and> slow_clock s' = 57000"
proof -
  have "complete_pdu [0x07, 0, 0, 0, 3, 0, 0, 0]"
    using well_formed_complete [of "\<lparr>header = \<lparr>pdu_id = 7, transaction_id = 0, parameter_length = 3\<rparr>,
        attribute_bytes = [], continuation_state = []\<rparr>"]
    by (simp add: well_formed_response_def response_fits_def response_bytes_def header_bytes_def
        u16_to_be_bytes_def)
  from exchange_timers_are_separate [OF this, of "request_for 0x112f 0 []" "[]" 18000 19000 20000]
  show ?thesis
    by simp
qed

section \<open>The query and its specification\<close>

text \<open>
  C2. A query refines its specification: it returns a result in a stream state exactly when the
  big-step relation of its exchanges ends there, with the error of the exchange that failed or
  with what the attribute bytes of all pages, in order, say.
\<close>

theorem query_refines_specification:
  assumes "nom_contract N" "bytes_contract B"
  shows "find_rfcomm_channel N B T s uuid = Some (v, s') \<longleftrightarrow> query_ends T uuid s v s'"
  using sdp_codec.intro [OF assms] by (rule sdp_codec.find_rfcomm_channel_Some_iff)

theorem query_refines_specification_witness:
  "query_ends peer_tokio 0x112f (peer_of (responses sample_pages)) (Inr (Some 13))
     (sample_end 0x112f)"
  by (rule iffD1 [OF query_refines_specification [OF nom_std.nom_contract_axioms
        bytes_std.bytes_contract_axioms] sample_query])

text \<open>
  C6. A query fails to return exactly when the peer's pages have no end: every one of them is
  framed and asks for another.
\<close>

theorem query_diverges_iff_endless:
  assumes "nom_contract N" "bytes_contract B"
  shows "find_rfcomm_channel N B T s uuid = None \<longleftrightarrow> endless T uuid 0 [] s"
  using sdp_codec.intro [OF assms] by (rule sdp_codec.find_rfcomm_channel_None_iff)

theorem query_diverges_iff_endless_witness:
  "\<not> endless peer_tokio 0x112f 0 [] (peer_of (responses sample_pages))"
  using query_diverges_iff_endless [OF nom_std.nom_contract_axioms bytes_std.bytes_contract_axioms]
    sample_query by (metis option.distinct(1))

text \<open>
  C36. Nothing in the code bounds the pages: there is a peer, behind a stream that keeps the
  contract, against which a query never returns.
\<close>

theorem pagination_unbounded:
  assumes "nom_contract N" "bytes_contract B"
  shows "timed_byte_stream babbler fst snd (\<lambda>_. 0) 0 \<and> find_rfcomm_channel N B babbler s uuid = None"
  using sdp_codec.find_rfcomm_channel_None_iff [OF sdp_codec.intro [OF assms], of babbler s uuid]
    babbler_endless [of uuid 0 "[]" s] babbler_stream.timed_byte_stream_axioms by blast

theorem pagination_unbounded_witness:
  "find_rfcomm_channel nom_model bytes_model babbler ([], []) 0x1002 = None"
  using pagination_unbounded [OF nom_std.nom_contract_axioms bytes_std.bytes_contract_axioms]
  by blast

text \<open>
  C7. Against a stream that can deliver a bounded number of bytes, a query returns, and it has
  received at most one page for each eight of them.
\<close>

theorem query_returns_on_finite_stream:
  assumes "finite_stream T sent received available" "nom_contract N" "bytes_contract B"
  shows "\<exists>v s' rs res. find_rfcomm_channel N B T s uuid = Some (v, s') \<and>
    query_run T uuid 0 [] s rs res s' \<and> 8 * length rs \<le> available s"
proof -
  note codec = sdp_codec.intro [OF assms(2,3)]
  obtain v s' where v: "find_rfcomm_channel N B T s uuid = Some (v, s')"
    using finite_stream.not_endless [OF assms(1), of uuid 0 "[]" s]
      sdp_codec.find_rfcomm_channel_None_iff [OF codec, of T s uuid]
    by (cases "find_rfcomm_channel N B T s uuid") auto
  from sdp_codec.find_returns_run [OF codec this] obtain rs res where
    "query_run T uuid 0 [] s rs res s'" .
  with v finite_stream.run_length [OF assms(1)] show ?thesis
    by blast
qed

theorem query_returns_on_finite_stream_witness:
  "\<exists>v s'. find_rfcomm_channel nom_model bytes_model peer_tokio (peer_of [prompt [0x07, 0x00]]) 0x1002 =
     Some (v, s')"
  using query_returns_on_finite_stream [OF peer_finite.finite_stream_axioms
      nom_std.nom_contract_axioms bytes_std.bytes_contract_axioms] by blast

section \<open>The query as a state machine\<close>

text \<open>
  The query is the run of its state machine: it returns exactly when the machine leaves the loop,
  with what the attribute bytes gathered there say or with the error it failed with, and it does
  not return exactly when the machine can take any number of steps. So what holds of every
  reachable state of the machine is true of the loop of the query.
\<close>

theorem query_is_state_machine:
  assumes "nom_contract N" "bytes_contract B"
  shows "(find_rfcomm_channel N B T s uuid = Some (v, s') \<longleftrightarrow>
      (\<exists>attrs. (session_step N B T uuid)\<^sup>*\<^sup>* (session_start s) (Gathered attrs s') \<and>
         query_value attrs v) \<or>
      (\<exists>e. (session_step N B T uuid)\<^sup>*\<^sup>* (session_start s) (Failed e s') \<and> v = Inl e)) \<and>
    (find_rfcomm_channel N B T s uuid = None \<longleftrightarrow>
      (\<forall>n. \<exists>st. (session_step N B T uuid ^^ n) (session_start s) st))"
  using sdp_codec.find_machine [OF sdp_codec.intro [OF assms]]
    sdp_codec.find_machine_forever [OF sdp_codec.intro [OF assms]] by (intro conjI)

theorem query_is_state_machine_witness:
  "\<exists>attrs. (session_step nom_model bytes_model peer_tokio 0x112f)\<^sup>*\<^sup>*
     (session_start (peer_of (responses sample_pages))) (Gathered attrs (sample_end 0x112f)) \<and>
   query_value attrs (Inr (Some 13))"
  using iffD1 [OF conjunct1 [OF query_is_state_machine [OF nom_std.nom_contract_axioms
        bytes_std.bytes_contract_axioms]] sample_query [of "0x112f"]] by simp

text \<open>
  C24. In every state the query can reach, the wire carries one request and one complete page per
  page fetched and nothing else; the transaction id counts the pages, the continuation state is
  that of the last of them, what is gathered is their attribute bytes in order, and every page
  but the last asked for another; after a failure the request that failed was sent in part, or a
  PDU was received that is no page. The continuation state always fits the next request, and what
  is gathered is never longer than what was received.
\<close>

theorem reachable_states_invariant:
  assumes "nom_contract N" "bytes_contract B" "byte_stream T sent received"
    and "(session_step N B T uuid)\<^sup>*\<^sup>* (session_start s) st"
  shows "session_invariant sent received uuid s st \<and>
    (case st of
       Requesting tid cs attrs s' \<Rightarrow>
         length cs < 256 \<and> length (received s) + length attrs \<le> length (received s')
     | Gathered attrs s' \<Rightarrow> length (received s) + length attrs \<le> length (received s')
     | Failed e s' \<Rightarrow> \<forall>x. e \<noteq> Encode x)"
proof -
  from assms have "sdp_client N B T sent received"
    by (intro sdp_client.intro sdp_codec.intro)
  from sdp_client.reachable_invariant [OF this assms(4)]
  have inv: "session_invariant sent received uuid s st" .
  show ?thesis
  proof (cases st)
    case (Requesting tid cs attrs s')
    with inv pages_exchanged_fits pages_exchanged_length show ?thesis
      by fastforce
  next
    case (Gathered attrs s')
    with inv pages_exchanged_length show ?thesis
      by fastforce
  next
    case (Failed e s')
    with inv show ?thesis
      by (auto split: if_splits)
  qed
qed

theorem reachable_states_invariant_witness:
  "session_invariant sent_log received_log 0x112f (peer_of []) (Failed (Socket Io) (peer_of []))"
proof -
  have "query_once bytes_model peer_tokio (peer_of []) 0 0x112f [] = (Inl (Socket Io), peer_of [])"
    using codec_std.query_once_eq [of "[]" peer_tokio "peer_of []" 0 "0x112f"]
    by (simp add: send_and_receive_pdu_def peer_tokio_def peer_write_def peer_of_def request_for_def)
  from step_error [OF this] have
    "(session_step nom_model bytes_model peer_tokio 0x112f)\<^sup>*\<^sup>* (session_start (peer_of []))
       (Failed (Socket Io) (peer_of []))"
    unfolding session_start_def by (rule r_into_rtranclp)
  from reachable_states_invariant [OF nom_std.nom_contract_axioms bytes_std.bytes_contract_axioms
      peer_stream.byte_stream_axioms this]
  show ?thesis
    by blast
qed

section \<open>What a query puts on the wire\<close>

lemma requests_nth:
  "i < length rs \<Longrightarrow>
   requests uuid tid cs rs ! i =
     request_for uuid (tid + of_nat i) (if i = 0 then cs else continuation_state (rs ! (i - 1)))"
proof (induction rs arbitrary: tid cs i)
  case (Cons r rs)
  then show ?case
    by (cases i) (auto simp: nth_Cons' ac_simps)
qed simp

lemma length_requests: "length (requests uuid tid cs rs) = length rs"
  by (induction rs arbitrary: tid cs) auto

text \<open>
  C5. A query that finds an answer has sent one request per page and nothing else: the i-th has
  transaction id i, modulo 2 to the 16th, and carries the continuation state of the page before
  it, byte for byte; the first carries none. What it has received is those pages, each a
  complete PDU.
\<close>

theorem query_wire_trace:
  assumes "byte_stream T sent received" "nom_contract N" "bytes_contract B"
    and "find_rfcomm_channel N B T s uuid = Some (Inr ch, s')"
  shows "\<exists>rs reqs pdus. sent s' = sent s @ concat reqs \<and> received s' = received s @ concat pdus \<and>
    list_all2 framed pdus rs \<and> list_all complete_pdu pdus \<and> length reqs = length rs \<and>
    list_all (\<lambda>i. reqs ! i = request_for uuid (of_nat i)
      (if i = 0 then [] else continuation_state (rs ! (i - 1)))) [0..<length rs]"
proof -
  from sdp_codec.find_finds_run [OF sdp_codec.intro [OF assms(2,3)] assms(4)] obtain rs where
    run: "query_run T uuid 0 [] s rs (Inr ()) s'" .
  from byte_stream.run_received [OF assms(1) run] obtain pdus where
    "received s' = received s @ concat pdus" "list_all2 framed pdus rs" "list_all complete_pdu pdus"
    by blast
  moreover have "sent s' = sent s @ concat (requests uuid 0 [] rs)"
    using byte_stream.run_sent [OF assms(1) run] .
  moreover have "list_all (\<lambda>i. requests uuid 0 [] rs ! i = request_for uuid (of_nat i)
      (if i = 0 then [] else continuation_state (rs ! (i - 1)))) [0..<length rs]"
    by (simp add: list_all_iff requests_nth)
  ultimately show ?thesis
    using length_requests [of uuid 0 "[]" rs] by blast
qed

theorem query_wire_trace_witness:
  "\<exists>rs reqs pdus. sent_log (sample_end 0x112f) = concat reqs \<and>
     received_log (sample_end 0x112f) = concat pdus \<and>
     list_all2 framed pdus rs \<and> list_all complete_pdu pdus \<and> length reqs = length rs \<and>
     list_all (\<lambda>i. reqs ! i = request_for 0x112f (of_nat i)
       (if i = 0 then [] else continuation_state (rs ! (i - 1)))) [0..<length rs]"
  using query_wire_trace [OF peer_stream.byte_stream_axioms nom_std.nom_contract_axioms
      bytes_std.bytes_contract_axioms sample_query]
  by (simp add: peer_of_def)

text \<open>
  C29. A query that fails has sent one request per complete page before the failure, each with its
  transaction id and the continuation state of the page before, then at most the request for the
  next page, and nothing else; it has received those pages and then, only if that request went out
  in full, at most one PDU.
\<close>

theorem failed_query_wire_trace:
  assumes "byte_stream T sent received" "nom_contract N" "bytes_contract B"
    and "find_rfcomm_channel N B T s uuid = Some (Inl e, s')"
  shows "\<exists>rs reqs pdus k got req.
    sent s' = sent s @ concat reqs @ take k req \<and>
    received s' = received s @ concat pdus @ got \<and>
    list_all2 framed pdus rs \<and> list_all complete_pdu pdus \<and> length reqs = length rs \<and>
    list_all (\<lambda>i. (reqs @ [req]) ! i = request_for uuid (of_nat i)
      (if i = 0 then [] else continuation_state (rs ! (i - 1)))) [0..<Suc (length rs)] \<and>
    (got = [] \<or> take k req = req) \<and>
    (length got \<le> 5 \<or> length got \<le> 5 + unat (u16_from_be_bytes (got ! 3) (got ! 4)))"
proof -
  from sdp_codec.find_returns_run [OF sdp_codec.intro [OF assms(2,3)] assms(4)] obtain rs res where
    run: "query_run T uuid 0 [] s rs res s'" .
  let ?req = "request_for uuid (of_nat (length rs)) (next_continuation [] rs)"
  have "\<exists>pdus k got. sent s' = sent s @ concat (requests uuid 0 [] rs) @ take k ?req \<and>
      received s' = received s @ concat pdus @ got \<and> list_all2 framed pdus rs \<and>
      list_all complete_pdu pdus \<and> (got = [] \<or> take k ?req = ?req) \<and> within_one_pdu got"
  proof (cases res)
    case (Inl err)
    with byte_stream.failed_run_wire [OF assms(1) run [unfolded Inl]] show ?thesis
      by (simp add: Let_def)
  next
    case (Inr u)
    with run have run: "query_run T uuid 0 [] s rs (Inr ()) s'"
      by simp
    from byte_stream.run_received [OF assms(1) run] obtain pdus where
      "received s' = received s @ concat pdus" "list_all2 framed pdus rs" "list_all complete_pdu pdus"
      by blast
    with byte_stream.run_sent [OF assms(1) run] show ?thesis
      by (intro exI [of _ pdus] exI [of _ 0] exI [of _ "[]"]) (simp add: within_one_pdu_def)
  qed
  then obtain pdus k got where trace:
    "sent s' = sent s @ concat (requests uuid 0 [] rs) @ take k ?req"
    "received s' = received s @ concat pdus @ got" "list_all2 framed pdus rs"
    "list_all complete_pdu pdus" "got = [] \<or> take k ?req = ?req" "within_one_pdu got"
    by blast
  have "list_all (\<lambda>i. (requests uuid 0 [] rs @ [?req]) ! i = request_for uuid (of_nat i)
      (if i = 0 then [] else continuation_state (rs ! (i - 1)))) [0..<Suc (length rs)]"
    by (auto simp: list_all_iff less_Suc_eq nth_append length_requests requests_nth
        next_continuation_def last_conv_nth)
  with trace show ?thesis
    unfolding within_one_pdu_def
    by (intro exI [of _ rs] exI [of _ "requests uuid 0 [] rs"] exI [of _ pdus] exI [of _ k]
        exI [of _ got] exI [of _ ?req]) (simp add: length_requests del: upt_Suc)
qed

text \<open>A device that hangs up after the first of its two pages.\<close>

lemma sample_cut_short:
  obtains s' where "find_rfcomm_channel nom_model bytes_model peer_tokio
    (peer_of (responses [sample_pages ! 0])) uuid = Some (Inl (Socket Io), s')"
proof -
  let ?r = "sample_pages ! 0" and ?s = "peer_of (responses [sample_pages ! 0])"
  have wf: "well_formed_response ?r" and more: "continuation_state ?r \<noteq> []"
    using sample_served(2) by (simp_all add: sample_pages_def)
  have "\<exists>s1. send_and_receive_pdu peer_tokio (request_for uuid 0 []) ?s = (Inr (response_bytes ?r), s1) \<and>
      script s1 = []"
    using peer_exchange [of ?s "response_bytes ?r" "[]" "request_for uuid 0 []"]
      request_for_complete [of "[]"] well_formed_complete [OF wf]
    by (simp add: peer_of_def responses_def)
  then obtain s1 where page: "send_and_receive_pdu peer_tokio (request_for uuid 0 []) ?s =
      (Inr (response_bytes ?r), s1)" and "script s1 = []"
    by blast
  then have "send_and_receive_pdu peer_tokio (request_for uuid (0 + 1) (continuation_state ?r)) s1 =
      (Inl Io, s1)"
    by (simp add: send_and_receive_pdu_def peer_tokio_def peer_write_def request_for_def)
  from run_more [OF page well_formed_framed [OF wf] more run_socket [OF this]]
  have "query_ends peer_tokio uuid ?s (Inl (Socket Io)) s1"
    unfolding query_ends_def by blast
  then show thesis
    by (intro that) (simp only: codec_std.find_rfcomm_channel_Some_iff)
qed

theorem failed_query_wire_trace_witness:
  "\<exists>(rs :: RawServiceSearchAttributeResponse list) reqs pdus k got req s'.
     find_rfcomm_channel nom_model bytes_model peer_tokio
       (peer_of (responses [sample_pages ! 0])) 0x112f = Some (Inl (Socket Io), s') \<and>
     sent_log s' = concat reqs @ take k req \<and> received_log s' = concat pdus @ got \<and>
     list_all2 framed pdus rs \<and> length reqs = length rs"
proof -
  obtain s' where found: "find_rfcomm_channel nom_model bytes_model peer_tokio
      (peer_of (responses [sample_pages ! 0])) 0x112f = Some (Inl (Socket Io), s')"
    by (rule sample_cut_short)
  have logs: "sent_log (peer_of pages) = []" "received_log (peer_of pages) = []" for pages
    by (simp_all add: peer_of_def)
  from failed_query_wire_trace [OF peer_stream.byte_stream_axioms nom_std.nom_contract_axioms
      bytes_std.bytes_contract_axioms found, unfolded logs append_Nil]
  obtain rs reqs pdus k got req where "sent_log s' = concat reqs @ take k req"
    "received_log s' = concat pdus @ got" "list_all2 framed pdus rs" "length reqs = length rs"
    by blast
  with found show ?thesis
    by blast
qed

text \<open>
  When the first page carries no continuation state, the query ends with it: it makes
  exactly one request, and no other byte is sent.
\<close>

theorem single_page_single_request:
  assumes "byte_stream T sent received" "nom_contract N" "bytes_contract B"
    and "send_and_receive_pdu T (request_for uuid 0 []) s = (Inr pdu, s')"
    and "framed pdu r" "continuation_state r = []"
  shows "\<exists>v. find_rfcomm_channel N B T s uuid = Some (v, s') \<and>
    sent s' = sent s @ request_for uuid 0 [] \<and> query_value (attribute_bytes r) v"
proof -
  note codec = sdp_codec.intro [OF assms(2,3)]
  from run_last [OF assms(4-6)] have run: "query_run T uuid 0 [] s [r] (Inr ()) s'" .
  from sdp_codec.find_of_run [OF codec run] obtain v where
    "find_rfcomm_channel N B T s uuid = Some (v, s')" "query_value (attribute_bytes r) v"
    by auto
  with byte_stream.exchange_ok(1) [OF assms(1,4)] show ?thesis
    by blast
qed

theorem single_page_single_request_witness:
  "\<exists>v s'. find_rfcomm_channel nom_model bytes_model peer_tokio
      (peer_of [prompt [0x07, 0, 0, 0, 5, 0, 2, 0x35, 0, 0]]) 0x112f = Some (v, s') \<and>
    sent_log s' = request_for 0x112f 0 []"
proof -
  let ?r = "\<lparr>header = \<lparr>pdu_id = 7, transaction_id = 0, parameter_length = 5\<rparr>,
    attribute_bytes = [0x35, 0], continuation_state = []\<rparr>"
  let ?page = "[0x07, 0, 0, 0, 5, 0, 2, 0x35, 0, 0]"
  have wf: "well_formed_response ?r" and bytes: "response_bytes ?r = ?page"
    by (simp_all add: well_formed_response_def response_fits_def response_bytes_def
        header_bytes_def u16_to_be_bytes_def)
  have "\<exists>s'. send_and_receive_pdu peer_tokio (request_for 0x112f 0 []) (peer_of [prompt ?page]) =
      (Inr ?page, s')"
    using peer_exchange [of "peer_of [prompt ?page]" ?page "[]" "request_for 0x112f 0 []"]
      request_for_complete [of "[]"] well_formed_complete [OF wf]
    by (simp add: peer_of_def bytes)
  then obtain s' where exch: "send_and_receive_pdu peer_tokio (request_for 0x112f 0 [])
      (peer_of [prompt ?page]) = (Inr ?page, s')" ..
  have "framed ?page ?r"
    using well_formed_framed [OF wf] unfolding bytes .
  from single_page_single_request [OF peer_stream.byte_stream_axioms nom_std.nom_contract_axioms
      bytes_std.bytes_contract_axioms exch this]
  show ?thesis
    by (auto simp: peer_of_def)
qed

text \<open>
  C28. A query that returns after n complete pages has taken at most n minutes, and one minute more
  if an exchange failed or brought a PDU that is no page; to each of these minutes come three times
  the lag, what an operation may take beyond its timer and what passes before the next begins.
\<close>

theorem query_time:
  assumes "timed_byte_stream T sent received now lag" "nom_contract N" "bytes_contract B"
    and "find_rfcomm_channel N B T s uuid = Some (v, s')"
  shows "\<exists>rs res. query_run T uuid 0 [] s rs res s' \<and>
    now s' \<le> now s +
      (length rs + (case res of Inl e \<Rightarrow> 1 | Inr u \<Rightarrow> 0)) * (60000 + 3 * lag)"
proof -
  from sdp_codec.find_returns_run [OF sdp_codec.intro [OF assms(2,3)] assms(4)] obtain rs res where
    run: "query_run T uuid 0 [] s rs res s'" .
  have "(if isl res then 1 else 0 :: nat) = (case res of Inl e \<Rightarrow> 1 | Inr u \<Rightarrow> 0)"
    by (cases res) simp_all
  with timed_byte_stream.run_time [OF assms(1) run]
  have "now s' \<le> now s + (length rs + (case res of Inl e \<Rightarrow> 1 | Inr u \<Rightarrow> 0)) * (60000 + 3 * lag)"
    by (simp add: RESPONSE_TIMEOUT_def)
  with run show ?thesis
    by blast
qed

theorem query_time_witness:
  "\<exists>rs res. query_run peer_tokio 0x112f 0 [] (peer_of (responses sample_pages)) rs res
     (sample_end 0x112f) \<and>
     clock (sample_end 0x112f) \<le> (length rs + (case res of Inl e \<Rightarrow> 1 | Inr u \<Rightarrow> 0)) * 60000"
  using query_time [OF peer_stream.timed_byte_stream_axioms nom_std.nom_contract_axioms
      bytes_std.bytes_contract_axioms sample_query [of "0x112f"]]
  by (simp add: peer_of_def)

text \<open>
  A query never fails to encode a request: a continuation state that a page can carry always
  fits the next request, so the only errors are those of the stream and of decoding.
\<close>

theorem query_never_fails_to_encode:
  assumes "nom_contract N" "bytes_contract B"
    and "find_rfcomm_channel N B T s uuid = Some (v, s')"
  shows "v \<noteq> Inl (Encode e)"
  using assms(3) sdp_codec.find_rfcomm_channel_Some_iff [OF sdp_codec.intro [OF assms(1,2)]]
    query_ends_no_encode by metis

theorem query_never_fails_to_encode_witness:
  "(Inr (Some 13) :: QueryError + u8 option) \<noteq> Inl (Encode (BodyTooLong 65536))"
  by (rule query_never_fails_to_encode [OF nom_std.nom_contract_axioms
        bytes_std.bytes_contract_axioms sample_query])

section \<open>Whole queries against a device\<close>

text \<open>
  C1. However a device encodes and splits its records: if the attribute bytes of its pages, put
  together, start with an element of the wire format, in whichever of its encodings, that carries
  records with the attributes \<open>als\<close>, then a query reports the channel of the first record that
  offers one, or that there is none, as \<open>records_answer\<close> has it, which mentions no code. The pages
  may be split at any byte, inside a length field or an identifier too; the query has sent the
  requests for those pages and received them, and no more.
\<close>

theorem query_reports_first_channel:
  assumes "nom_contract N" "bytes_contract B"
    and "paged rs" "list_all well_formed_response rs"
    and "element_wire p outer" "records_carry outer als"
    and "concat (map attribute_bytes rs) = p @ rest"
  shows "find_rfcomm_channel N B peer_tokio (peer_of (responses rs)) uuid =
    Some (Inr (find_map rfcomm_channel als),
      (peer_of [])\<lparr>sent_log := concat (requests uuid 0 [] rs),
         received_log := concat (map response_bytes rs)\<rparr>) \<and>
    records_answer (map attribute_elements als) (find_map rfcomm_channel als)"
  using sdp_codec.find_on_peer [OF sdp_codec.intro [OF assms(1,2)] assms(3-7)]
  by (simp add: records_answer_iff)

theorem query_reports_first_channel_witness:
  "find_rfcomm_channel nom_model bytes_model peer_tokio (peer_of (responses sample_pages)) 0x112f =
     Some (Inr (Some 13), sample_end 0x112f) \<and>
   records_answer (map attribute_elements sample_records) (Some 13)"
  using query_reports_first_channel [OF nom_std.nom_contract_axioms bytes_std.bytes_contract_axioms
      sample_served sample_wire sample_carries sample_bytes, of "0x112f"]
  by (simp add: sample_channel sample_end_def)

text \<open>
  C27. Attribute bytes that end before the element they start is complete never decode: when a
  device stops paging in the middle of its records, however it split them, the query fails with a
  decode error and reports neither a channel nor the absence of one.
\<close>

theorem truncated_records_rejected:
  assumes "nom_contract N" "bytes_contract B"
    and "paged rs" "list_all well_formed_response rs"
    and "element_wire p outer" "k < length p" "concat (map attribute_bytes rs) = take k p"
  shows "(\<exists>err. decode_attribute_lists N (take k p) = Some (Inl err)) \<and>
    find_rfcomm_channel N B peer_tokio (peer_of (responses rs)) uuid =
      Some (Inl Decode,
        (peer_of [])\<lparr>sent_log := concat (requests uuid 0 [] rs),
           received_log := concat (map response_bytes rs)\<rparr>)"
proof
  have says: "\<not> attributes_say (take k p) als" for als
    using attributes_say_whole [OF assms(5)] assms(6) by fastforce
  then show "\<exists>err. decode_attribute_lists N (take k p) = Some (Inl err)"
    using nom_contract.decode_attribute_lists_returns [OF assms(1), of "take k p"]
      sdp_codec.decode_says [OF sdp_codec.intro [OF assms(1,2)], of "take k p"]
    by (metis old.sum.exhaust option.exhaust prod.exhaust)
  from says have "query_value (concat (map attribute_bytes rs)) (Inl Decode)"
    unfolding query_value_def assms(7) by simp
  then show "find_rfcomm_channel N B peer_tokio (peer_of (responses rs)) uuid =
      Some (Inl Decode,
        (peer_of [])\<lparr>sent_log := concat (requests uuid 0 [] rs),
           received_log := concat (map response_bytes rs)\<rparr>)"
    by (rule sdp_codec.find_on_peer_value [OF sdp_codec.intro [OF assms(1,2)] assms(3,4)])
qed

theorem truncated_records_rejected_witness:
  "\<exists>s'. find_rfcomm_channel nom_model bytes_model peer_tokio
     (peer_of (responses [(sample_pages ! 0)\<lparr>continuation_state := [],
        header := \<lparr>pdu_id = 7, transaction_id = 0, parameter_length = 9\<rparr>\<rparr>])) 0x112f =
   Some (Inl Decode, s')"
proof -
  let ?r = "(sample_pages ! 0)\<lparr>continuation_state := [],
    header := \<lparr>pdu_id = 7, transaction_id = 0, parameter_length = 9\<rparr>\<rparr>"
  have "paged [?r]" "list_all well_formed_response [?r]"
    "concat (map attribute_bytes [?r]) = take 6 sample_attrs"
    by (simp_all add: sample_pages_def well_formed_response_def response_fits_def sample_attrs_def)
  from truncated_records_rejected [OF nom_std.nom_contract_axioms bytes_std.bytes_contract_axioms
      this(1,2) sample_wire _ this(3), of "0x112f"]
  show ?thesis
    by (simp add: length_sample_attrs)
qed

text \<open>
  C39. An \<^verbatim>\<open>ErrorResponse\<close> is accepted as a page exactly when its error information is as many bytes
  as its error code says, a byte that counts the bytes after it, those bytes and any rest; the
  first part is then taken for attribute bytes, the second for a continuation state. So one
  without error information is always rejected, whatever its code.
\<close>

theorem error_response_framing:
  assumes "nom_contract N"
  shows "raw_response N (error_response tid code info) = Inr (rest, r) \<longleftrightarrow>
    (\<exists>attrs cs. info = attrs @ of_nat (length cs) # cs @ rest \<and>
       length attrs = unat code \<and> length cs < 256 \<and>
       r = \<lparr>header = \<lparr>pdu_id = 1, transaction_id = tid, parameter_length = of_nat (2 + length info)\<rparr>,
            attribute_bytes = attrs, continuation_state = cs\<rparr>)"
  using assms by (rule nom_contract.error_response_framed)

theorem error_response_framing_witness:
  "\<nexists>rest r. raw_response nom_model (error_response 7 3 []) = Inr (rest, r)"
  by (simp add: error_response_framing [OF nom_std.nom_contract_axioms])

text \<open>Pages that differ in their headers only.\<close>

definition same_page ::
    "RawServiceSearchAttributeResponse \<Rightarrow> RawServiceSearchAttributeResponse \<Rightarrow> bool" where
  "same_page r r' \<longleftrightarrow>
     attribute_bytes r' = attribute_bytes r \<and> continuation_state r' = continuation_state r"

lemma same_pages:
  assumes "list_all2 same_page rs rs'"
  shows "requests uuid tid cs rs' = requests uuid tid cs rs" "paged rs' = paged rs"
    "map attribute_bytes rs' = map attribute_bytes rs"
proof -
  from assms show "requests uuid tid cs rs' = requests uuid tid cs rs"
    by (induction arbitrary: tid cs rule: list_all2_induct) (simp_all add: same_page_def)
  from assms show "paged rs' = paged rs"
    by (induction rule: list_all2_induct) (auto simp: same_page_def)
  from assms show "map attribute_bytes rs' = map attribute_bytes rs"
    by (induction rule: list_all2_induct) (simp_all add: same_page_def)
qed

text \<open>
  C38. The headers of the pages have no influence on a query: whatever PDU ids and transaction ids
  the pages come with, those of another query or of another kind of PDU included, the result and
  every byte sent are the same.
\<close>

theorem headers_do_not_matter:
  assumes "nom_contract N" "bytes_contract B"
    and "paged rs" "list_all well_formed_response rs" "list_all well_formed_response rs'"
    and "list_all2 (\<lambda>r r'. attribute_bytes r' = attribute_bytes r \<and>
      continuation_state r' = continuation_state r) rs rs'"
  shows "\<exists>v s s'. find_rfcomm_channel N B peer_tokio (peer_of (responses rs)) uuid = Some (v, s) \<and>
    find_rfcomm_channel N B peer_tokio (peer_of (responses rs')) uuid = Some (v, s') \<and>
    sent_log s' = sent_log s"
proof -
  from assms(6) have same: "list_all2 same_page rs rs'"
    by (simp add: same_page_def [abs_def])
  obtain v where v: "query_value (concat (map attribute_bytes rs)) v"
    unfolding query_value_def by (metis (full_types))
  note peer = sdp_codec.find_on_peer_value [OF sdp_codec.intro [OF assms(1,2)]]
  from peer [OF assms(3,4) v, of uuid] peer [of rs' v uuid] assms(3,5) v same_pages [OF same]
  show ?thesis
    by simp
qed

theorem headers_do_not_matter_witness:
  "\<exists>v s s'. find_rfcomm_channel nom_model bytes_model peer_tokio
      (peer_of (responses sample_pages)) 0x112f = Some (v, s) \<and>
    find_rfcomm_channel nom_model bytes_model peer_tokio
      (peer_of (responses (map (\<lambda>r. r\<lparr>header := (header r)\<lparr>pdu_id := 3, transaction_id := 0xbeef\<rparr>\<rparr>)
        sample_pages))) 0x112f = Some (v, s') \<and>
    sent_log s' = sent_log s"
  by (rule headers_do_not_matter [OF nom_std.nom_contract_axioms bytes_std.bytes_contract_axioms
        sample_served])
    (simp_all add: sample_pages_def well_formed_response_def response_fits_def)

text \<open>
  C37. The PDU id is never looked at: an \<^verbatim>\<open>ErrorResponse\<close> with error code 1 and two zero bytes of
  error information is taken for a response without records, and reported as the absence of a
  channel, not as an error.
\<close>

theorem error_response_reported_as_absence:
  assumes "nom_contract N" "bytes_contract B"
  shows "\<exists>s'. find_rfcomm_channel N B peer_tokio
      (peer_of [prompt [0x01, hi, lo, 0, 4, 0, 1, 0, 0]]) uuid = Some (Inr None, s')"
proof -
  let ?r = "\<lparr>header = \<lparr>pdu_id = 1, transaction_id = u16_from_be_bytes hi lo, parameter_length = 4\<rparr>,
    attribute_bytes = [0], continuation_state = []\<rparr>"
  have "well_formed_response ?r"
    by (simp add: well_formed_response_def response_fits_def)
  moreover have "response_bytes ?r = [0x01, hi, lo, 0, 4, 0, 1, 0, 0]"
    by (simp add: response_bytes_def header_bytes_def) (simp add: u16_to_be_bytes_def)
  moreover have "attributes_say [0] []"
    using element_bytes_wire [of Unknown] by (intro attributes_sayI [where outer = Unknown]) simp_all
  then have "query_value [0] (Inr None)"
    unfolding query_value_def by fastforce
  ultimately show ?thesis
    using sdp_codec.find_on_peer_value [OF sdp_codec.intro [OF assms], of "[?r]" "Inr None" uuid]
    by (simp add: responses_def)
qed

theorem error_response_reported_as_absence_witness:
  "\<exists>s'. find_rfcomm_channel nom_model bytes_model peer_tokio
     (peer_of [prompt [0x01, 0, 0, 0, 4, 0, 1, 0, 0]]) 0x112f = Some (Inr None, s')"
  by (rule error_response_reported_as_absence [OF nom_std.nom_contract_axioms
        bytes_std.bytes_contract_axioms])

end
