(* ===== verification/Connect.thy ===== *)
theory Connect
  imports Socket
begin

text \<open>
  \<^verbatim>\<open>src/transport/connect.rs\<close>: the bounded retry policy. The closure \<^verbatim>\<open>connect\<close> and
  \<^verbatim>\<open>tokio::time::sleep\<close> act on a world \<open>'w\<close>: an attempt is a function from a world to an outcome
  and the world after it.
\<close>

section \<open>Data and operations\<close>

definition MAX_CONNECT_ATTEMPTS :: u32 where "MAX_CONNECT_ATTEMPTS = 5"
definition RETRY_DELAY :: duration where "RETRY_DELAY = 200"

datatype RetriesExhausted = RetriesExhausted

definition retries_exhausted_to_string :: "RetriesExhausted \<Rightarrow> string" where
  "retries_exhausted_to_string _ =
     ''connection failed after '' @ decimal (unat MAX_CONNECT_ATTEMPTS) @ '' attempts''"

lemma retries_message: "retries_exhausted_to_string e = ''connection failed after 5 attempts''"
  by (cases e) code_simp

fun connect_attempts ::
    "(duration \<Rightarrow> 'w \<Rightarrow> 'w) \<Rightarrow> ('w \<Rightarrow> ('err + 'a) \<times> 'w) \<Rightarrow> nat list \<Rightarrow> 'w
     \<Rightarrow> (RetriesExhausted + 'a) \<times> 'w" where
  "connect_attempts sleep connect [] w = (Inl RetriesExhausted, w)"
| "connect_attempts sleep connect (attempt # attempts) w =
     (case connect w of
        (Inr value, w) \<Rightarrow> (Inr value, w)
      | (Inl _, w) \<Rightarrow>
          connect_attempts sleep connect attempts
            (if attempt + 1 < unat MAX_CONNECT_ATTEMPTS then sleep RETRY_DELAY w else w))"

definition connect_with_retry ::
    "(duration \<Rightarrow> 'w \<Rightarrow> 'w) \<Rightarrow> ('w \<Rightarrow> ('err + 'a) \<times> 'w) \<Rightarrow> 'w
     \<Rightarrow> (RetriesExhausted + 'a) \<times> 'w" where
  "connect_with_retry sleep connect w =
     connect_attempts sleep connect [0..<unat MAX_CONNECT_ATTEMPTS] w"

section \<open>Specification\<close>

text \<open>The world in which attempt \<open>k\<close> is made, if it is made: every earlier one has failed.\<close>

fun world_before ::
    "(duration \<Rightarrow> 'w \<Rightarrow> 'w) \<Rightarrow> ('w \<Rightarrow> ('err + 'a) \<times> 'w) \<Rightarrow> nat \<Rightarrow> 'w \<Rightarrow> 'w" where
  "world_before sleep connect 0 w = w"
| "world_before sleep connect (Suc k) w =
     sleep RETRY_DELAY (snd (connect (world_before sleep connect k w)))"

definition attempt_fails ::
    "(duration \<Rightarrow> 'w \<Rightarrow> 'w) \<Rightarrow> ('w \<Rightarrow> ('err + 'a) \<times> 'w) \<Rightarrow> 'w \<Rightarrow> nat \<Rightarrow> bool" where
  "attempt_fails sleep connect w k \<longleftrightarrow> isl (fst (connect (world_before sleep connect k w)))"

lemma world_before_shift:
  "world_before sleep connect k (sleep RETRY_DELAY (snd (connect w))) =
     world_before sleep connect (Suc k) w"
  by (induction k) simp_all

lemma attempt_fails_shift:
  "attempt_fails sleep connect (sleep RETRY_DELAY (snd (connect w))) k \<longleftrightarrow>
     attempt_fails sleep connect w (Suc k)"
  by (simp only: attempt_fails_def world_before_shift)

lemma unat_max_attempts [simp]: "unat MAX_CONNECT_ATTEMPTS = 5"
  by (simp add: MAX_CONNECT_ATTEMPTS_def)

text \<open>The turns of the loop from attempt \<open>m\<close> on.\<close>

lemma turn_fails:
  assumes "attempt_fails sleep connect w 0" "m < 4"
  shows "connect_attempts sleep connect [m..<5] w =
    connect_attempts sleep connect [Suc m..<5] (sleep RETRY_DELAY (snd (connect w)))"
  using assms
  by (cases "connect w") (auto simp: upt_conv_Cons attempt_fails_def isl_iff)

lemma turn_succeeds:
  "connect w = (Inr v, w') \<Longrightarrow> m < 5 \<Longrightarrow> connect_attempts sleep connect [m..<5] w = (Inr v, w')"
  by (simp add: upt_conv_Cons)

lemma attempts_succeed:
  "m + k < 5 \<Longrightarrow> \<forall>j < k. attempt_fails sleep connect w j \<Longrightarrow>
   connect (world_before sleep connect k w) = (Inr v, w') \<Longrightarrow>
   connect_attempts sleep connect [m..<5] w = (Inr v, w')"
proof (induction k arbitrary: m w)
  case 0
  then show ?case
    by (simp add: turn_succeeds)
next
  case (Suc k)
  then show ?case
    by (subst turn_fails) (auto simp: attempt_fails_shift world_before_shift simp del: world_before.simps(2))
qed

lemma attempts_give_up:
  "m + n = 4 \<Longrightarrow> \<forall>j \<le> n. attempt_fails sleep connect w j \<Longrightarrow>
   connect_attempts sleep connect [m..<5] w =
     (Inl RetriesExhausted, snd (connect (world_before sleep connect n w)))"
proof (induction n arbitrary: m w)
  case 0
  then show ?case
    by (cases "connect w") (auto simp: upt_rec attempt_fails_def isl_iff)
next
  case (Suc n)
  then show ?case
    by (subst turn_fails)
      (auto simp: attempt_fails_shift world_before_shift simp del: world_before.simps(2))
qed

lemma retry_success:
  "k < 5 \<Longrightarrow> \<forall>j < k. attempt_fails sleep connect w j \<Longrightarrow>
   connect (world_before sleep connect k w) = (Inr v, w') \<Longrightarrow>
   connect_with_retry sleep connect w = (Inr v, w')"
  using attempts_succeed [of 0 k sleep connect w v w'] by (simp add: connect_with_retry_def)

lemma retry_give_up:
  "\<forall>j < 5. attempt_fails sleep connect w j \<Longrightarrow>
   connect_with_retry sleep connect w =
     (Inl RetriesExhausted, snd (connect (world_before sleep connect 4 w)))"
  using attempts_give_up [of 0 4 sleep connect w] by (simp add: connect_with_retry_def)

text \<open>Either all five attempts fail, or there is a first one that succeeds.\<close>

lemma attempts_cases:
  obtains
    (give_up) "\<forall>j < 5. attempt_fails sleep connect w j"
  | (succeed) k v w' where "k < 5" "\<forall>j < k. attempt_fails sleep connect w j"
      "connect (world_before sleep connect k w) = (Inr v, w')"
proof (cases "\<forall>j < 5. attempt_fails sleep connect w j")
  case False
  define k where "k = (LEAST j. \<not> attempt_fails sleep connect w j)"
  from False obtain i where i: "i < 5" "\<not> attempt_fails sleep connect w i"
    by blast
  then have k: "k < 5" "\<not> attempt_fails sleep connect w k"
    using Least_le [of "\<lambda>j. \<not> attempt_fails sleep connect w j" i]
      LeastI [of "\<lambda>j. \<not> attempt_fails sleep connect w j" i]
    by (simp_all add: k_def)
  have before: "\<forall>j < k. attempt_fails sleep connect w j"
    using not_less_Least unfolding k_def by blast
  from k(2) obtain v w' where "connect (world_before sleep connect k w) = (Inr v, w')"
    by (cases "connect (world_before sleep connect k w)")
      (auto simp: attempt_fails_def not_isl_iff)
  with k(1) before show thesis
    by (rule succeed)
qed (rule give_up)

lemma retry_Inr_iff:
  "connect_with_retry sleep connect w = (Inr v, w') \<longleftrightarrow>
     (\<exists>k < 5. (\<forall>j < k. attempt_fails sleep connect w j) \<and>
        connect (world_before sleep connect k w) = (Inr v, w'))"
proof (cases rule: attempts_cases [of sleep connect w])
  case give_up
  then have "\<not> (\<exists>k < 5. connect (world_before sleep connect k w) = (Inr v, w'))"
    by (auto simp: attempt_fails_def)
  with give_up show ?thesis
    by (auto simp: retry_give_up)
next
  case (succeed k u w1)
  have "connect_with_retry sleep connect w = (Inr u, w1)"
    using succeed by (rule retry_success)
  then show ?thesis
    using succeed retry_success [of _ sleep connect w v w'] by fastforce
qed

lemma retry_Inl_iff:
  "connect_with_retry sleep connect w = (Inl err, w') \<longleftrightarrow>
     (\<forall>j < 5. attempt_fails sleep connect w j) \<and>
     w' = snd (connect (world_before sleep connect 4 w))"
proof (cases rule: attempts_cases [of sleep connect w])
  case give_up
  then show ?thesis
    by (cases err) (auto simp: retry_give_up)
next
  case (succeed k u w1)
  moreover have "connect_with_retry sleep connect w = (Inr u, w1)"
    using succeed by (rule retry_success)
  ultimately show ?thesis
    by (auto simp: attempt_fails_def)
qed

section \<open>Attempts made and time slept\<close>

text \<open>
  A world that counts: an attempt is one more attempt and no sleep, a sleep lasts as long as
  asked and is no attempt.
\<close>

locale counted_world =
  fixes sleep :: "duration \<Rightarrow> 'w \<Rightarrow> 'w"
    and connect :: "'w \<Rightarrow> ('err + 'a) \<times> 'w"
    and attempts_made :: "'w \<Rightarrow> nat"
    and time_slept :: "'w \<Rightarrow> nat"
  assumes connect_counts: "attempts_made (snd (connect w)) = attempts_made w + 1"
    and connect_no_sleep: "time_slept (snd (connect w)) = time_slept w"
    and sleep_no_attempt: "attempts_made (sleep d w) = attempts_made w"
    and sleep_lasts: "time_slept (sleep d w) = time_slept w + d"
begin

lemma world_before_counts:
  "attempts_made (world_before sleep connect k w) = attempts_made w + k"
  "time_slept (world_before sleep connect k w) = time_slept w + k * RETRY_DELAY"
  by (induction k)
    (simp_all add: connect_counts connect_no_sleep sleep_no_attempt sleep_lasts)

lemma retry_counts:
  assumes "connect_with_retry sleep connect w = (r, w')"
  obtains n where "1 \<le> n" "n \<le> 5" "attempts_made w' = attempts_made w + n"
    "time_slept w' = time_slept w + (n - 1) * RETRY_DELAY" "isl r \<longrightarrow> n = 5"
proof (cases r)
  case (Inl e)
  with assms have "w' = snd (connect (world_before sleep connect 4 w))"
    by (simp add: retry_Inl_iff)
  then show thesis
    by (intro that [of 5]) (simp_all add: connect_counts connect_no_sleep world_before_counts)
next
  case (Inr v)
  with assms obtain k where k: "k < 5" "connect (world_before sleep connect k w) = (Inr v, w')"
    by (auto simp: retry_Inr_iff)
  then have "w' = snd (connect (world_before sleep connect k w))"
    by simp
  with k(1) Inr show thesis
    by (intro that [of "Suc k"]) (simp_all add: connect_counts connect_no_sleep world_before_counts)
qed

end

section \<open>A peer that refuses a number of times\<close>

text \<open>The attempt counter of the tests, with the time slept beside it.\<close>

record 'a adapter =
  attempts :: nat
  slept :: duration
  refusals :: nat
  answer :: 'a

definition adapter_connect :: "'a adapter \<Rightarrow> (unit + 'a) \<times> 'a adapter" where
  "adapter_connect w =
     (if attempts w < refusals w then Inl () else Inr (answer w),
      w\<lparr>attempts := attempts w + 1\<rparr>)"

definition adapter_sleep :: "duration \<Rightarrow> 'a adapter \<Rightarrow> 'a adapter" where
  "adapter_sleep d w = w\<lparr>slept := slept w + d\<rparr>"

definition adapter_of :: "nat \<Rightarrow> 'a \<Rightarrow> 'a adapter" where
  "adapter_of n a = \<lparr>attempts = 0, slept = 0, refusals = n, answer = a\<rparr>"

interpretation adapter_world: counted_world adapter_sleep adapter_connect attempts slept
  by unfold_locales (simp_all add: adapter_connect_def adapter_sleep_def)

end
