(* ===== verification/Live.thy ===== *)
theory Live
  imports Connect
begin

text \<open>
  \<^verbatim>\<open>src/transport/live.rs\<close>: the real transport. The third-party crate \<^verbatim>\<open>bluer\<close> is a parameter:
  the record \<open>bluer_lib\<close> holds the parts of it that the crate calls, parsing an address,
  printing the error of a failed parse, building an L2CAP socket address and connecting to it
  in a world \<open>'w\<close>. Nothing is assumed about them. \<open>adapter_bluer\<close> is one concrete instance.
\<close>

section \<open>The crate bluer\<close>

record ('addr, 'aty, 'sa, 'ierr, 'cerr, 's, 'w) bluer_lib =
  bluer_parse :: "string \<Rightarrow> 'ierr + 'addr"
  bluer_invalid_address_to_string :: "'ierr \<Rightarrow> string"
  bluer_br_edr :: 'aty
  bluer_socket_addr :: "'addr \<Rightarrow> 'aty \<Rightarrow> u16 \<Rightarrow> 'sa"
  bluer_connect :: "'sa \<Rightarrow> 'w \<Rightarrow> ('cerr + 's) \<times> 'w"

section \<open>Connecting to the SDP server\<close>

definition SDP_PSM :: u16 where "SDP_PSM = 1"

definition connect_sdp ::
    "(duration \<Rightarrow> 'w \<Rightarrow> 'w) \<Rightarrow> ('addr, 'aty, 'sa, 'ierr, 'cerr, 's, 'w) bluer_lib \<Rightarrow> 'addr
     \<Rightarrow> 'w \<Rightarrow> (RetriesExhausted + 's) \<times> 'w" where
  "connect_sdp sleep L addr w =
     (let socket_addr = bluer_socket_addr L addr (bluer_br_edr L) SDP_PSM
      in connect_with_retry sleep (bluer_connect L socket_addr) w)"

section \<open>A concrete instance\<close>

text \<open>
  Every text of seventeen characters is an address; the address type is a unit, and the device
  answers on the SDP PSM only.
\<close>

definition adapter_bluer ::
    "(string, unit, string \<times> u16, string, unit, 'a, 'a adapter) bluer_lib" where
  "adapter_bluer =
     \<lparr>bluer_parse = (\<lambda>t. if length t = 17 then Inr t else Inl t),
      bluer_invalid_address_to_string = (\<lambda>t. ''not an address: '' @ t),
      bluer_br_edr = (),
      bluer_socket_addr = (\<lambda>t _ psm. (t, psm)),
      bluer_connect = (\<lambda>(_, psm) w.
        if psm = 1 then adapter_connect w else (Inl (), w\<lparr>attempts := attempts w + 1\<rparr>))\<rparr>"

interpretation adapter_device:
  counted_world adapter_sleep "bluer_connect adapter_bluer sa" attempts slept
  by unfold_locales
    (cases sa; simp add: adapter_bluer_def adapter_connect_def adapter_sleep_def)+

end
