(* ===== verification/Public.thy ===== *)
theory Public
  imports Answer Live
begin

text \<open>
  \<^verbatim>\<open>src/public.rs\<close>: the crate's one entry point, its argument and error types, and what a caller
  of it sees. A call acts on a world \<open>'w\<close>, in which connections are attempted, and on the stream
  it opens, if it opens one: its value is the result, the world and that stream, or \<open>None\<close> when
  the call never returns.
\<close>

section \<open>Data and operations\<close>

datatype Uuid16 = Uuid16 (uuid16_field: u16)

definition PBAP :: Uuid16 where "PBAP = Uuid16 0x112f"
definition MAP :: Uuid16 where "MAP = Uuid16 0x1132"

datatype SdpError =
    InvalidAddress string
  | Connect string
  | Encode EncodeError
  | Transport SocketError
  | Decode string

definition sdp_error_to_string :: "SdpError \<Rightarrow> string" where
  "sdp_error_to_string err =
     (case err of
        InvalidAddress msg \<Rightarrow> ''invalid Bluetooth address: '' @ msg
      | Connect msg \<Rightarrow> ''failed to connect to SDP server: '' @ msg
      | SdpError.Encode e \<Rightarrow> ''failed to encode SDP request: '' @ encode_error_to_string e
      | Transport e \<Rightarrow> ''SDP transport error: '' @ socket_error_to_string e
      | SdpError.Decode msg \<Rightarrow> ''failed to decode SDP response: '' @ msg)"

definition sdp_error_from :: "QueryError \<Rightarrow> SdpError" where
  "sdp_error_from err =
     (case err of
        QueryError.Encode e \<Rightarrow> SdpError.Encode e
      | QueryError.Socket e \<Rightarrow> Transport e
      | QueryError.Decode \<Rightarrow> SdpError.Decode ''malformed SDP response'')"

definition query_rfcomm_channel ::
    "('e, 'b) nom_lib \<Rightarrow> 'm bytes_lib \<Rightarrow> ('s, 'io, 'el) tokio_lib \<Rightarrow> (duration \<Rightarrow> 'w \<Rightarrow> 'w)
     \<Rightarrow> ('addr, 'aty, 'sa, 'ierr, 'cerr, 's, 'w) bluer_lib \<Rightarrow> string \<Rightarrow> Uuid16 \<Rightarrow> 'w
     \<Rightarrow> ((SdpError + u8 option) \<times> 'w \<times> 's option) option" where
  "query_rfcomm_channel N B T sleep L addr service_uuid w =
     (case map_err (\<lambda>e. InvalidAddress (bluer_invalid_address_to_string L e)) (bluer_parse L addr) of
        Inl err \<Rightarrow> Some (Inl err, w, None)
      | Inr address \<Rightarrow>
     (let (connected, w) = connect_sdp sleep L address w in
      case map_err (\<lambda>e. Connect (retries_exhausted_to_string e)) connected of
        Inl err \<Rightarrow> Some (Inl err, w, None)
      | Inr stream \<Rightarrow>
     (case find_rfcomm_channel N B T stream (uuid16_field service_uuid) of
        None \<Rightarrow> None
      | Some (found, stream) \<Rightarrow> Some (map_err sdp_error_from found, w, Some stream))))"

section \<open>What a caller sees\<close>

text \<open>A connection to the SDP server at an address, made within the retry budget.\<close>

definition connects ::
    "(duration \<Rightarrow> 'w \<Rightarrow> 'w) \<Rightarrow> ('addr, 'aty, 'sa, 'ierr, 'cerr, 's, 'w) bluer_lib \<Rightarrow> string
     \<Rightarrow> 'w \<Rightarrow> 's \<Rightarrow> 'w \<Rightarrow> bool" where
  "connects sleep L addr w stream w' \<longleftrightarrow>
     (\<exists>address k. bluer_parse L addr = Inr address \<and> k < 5 \<and>
        (let attempt = bluer_connect L (bluer_socket_addr L address (bluer_br_edr L) 1)
         in (\<forall>j < k. attempt_fails sleep attempt w j) \<and>
            attempt (world_before sleep attempt k w) = (Inr stream, w')))"

lemma connects_iff:
  "connects sleep L addr w stream w' \<longleftrightarrow>
     (\<exists>address. bluer_parse L addr = Inr address \<and>
        connect_sdp sleep L address w = (Inr stream, w'))"
  by (auto simp: connects_def connect_sdp_def SDP_PSM_def retry_Inr_iff Let_def)

lemma query_invalid:
  "bluer_parse L addr = Inl e \<Longrightarrow>
   query_rfcomm_channel N B T sleep L addr uuid w =
     Some (Inl (InvalidAddress (bluer_invalid_address_to_string L e)), w, None)"
  by (simp add: query_rfcomm_channel_def)

lemma query_unconnected:
  "bluer_parse L addr = Inr address \<Longrightarrow> connect_sdp sleep L address w = (Inl e, w') \<Longrightarrow>
   query_rfcomm_channel N B T sleep L addr uuid w =
     Some (Inl (Connect (retries_exhausted_to_string e)), w', None)"
  by (simp add: query_rfcomm_channel_def)

lemma query_connected:
  "connects sleep L addr w stream w' \<Longrightarrow>
   query_rfcomm_channel N B T sleep L addr uuid w =
     map_option (\<lambda>(found, stream'). (map_err sdp_error_from found, w', Some stream'))
       (find_rfcomm_channel N B T stream (uuid16_field uuid))"
  by (auto simp: connects_iff query_rfcomm_channel_def split: option.splits)

lemma query_phases:
  obtains
    (invalid) e where "bluer_parse L addr = Inl e"
  | (unconnected) address e w' where "bluer_parse L addr = Inr address"
      "connect_sdp sleep L address w = (Inl e, w')"
  | (connected) stream w' where "connects sleep L addr w stream w'"
proof (cases "bluer_parse L addr")
  case (Inr address)
  obtain c w' where c: "connect_sdp sleep L address w = (c, w')"
    by fastforce
  with Inr show thesis
    by (cases c) (auto simp: connects_iff intro: unconnected connected)
qed (rule invalid)

lemma query_phases_exclusive:
  "bluer_parse L addr = Inl e \<Longrightarrow> \<not> connects sleep L addr w stream w'"
  "bluer_parse L addr = Inr address \<Longrightarrow> connect_sdp sleep L address w = (Inl x, w1) \<Longrightarrow>
   \<not> connects sleep L addr w stream w'"
  by (auto simp: connects_iff)

context sdp_codec
begin

lemma query_Ok_iff:
  "query_rfcomm_channel N B T sleep L addr uuid w = Some (Inr ch, w', st) \<longleftrightarrow>
     (\<exists>stream stream'. connects sleep L addr w stream w' \<and> st = Some stream' \<and>
        query_ends T (uuid16_field uuid) stream (Inr ch) stream')"
proof (cases rule: query_phases [where L = L and addr = addr and sleep = sleep and w = w])
  case (connected stream w1)
  then have "connects sleep L addr w stream2 w2 \<longleftrightarrow> stream2 = stream \<and> w2 = w1" for stream2 w2
    by (auto simp: connects_iff)
  then show ?thesis
    by (auto simp: query_connected [OF connected] find_rfcomm_channel_Some_iff)
qed (auto simp: query_invalid query_unconnected dest: query_phases_exclusive)

lemma query_answer_wire:
  "query_rfcomm_channel N B T sleep L addr uuid w = Some (Inr ch, w', st) \<longleftrightarrow>
     (\<exists>stream stream' rs. connects sleep L addr w stream w' \<and> st = Some stream' \<and>
        query_run T (uuid16_field uuid) 0 [] stream rs (Inr ()) stream' \<and>
        wire_answer (concat (map attribute_bytes rs)) ch)"
  by (auto simp: query_Ok_iff query_ends_def query_value_wire)

lemma query_None_iff:
  "query_rfcomm_channel N B T sleep L addr uuid w = None \<longleftrightarrow>
     (\<exists>stream w'. connects sleep L addr w stream w' \<and>
        endless T (uuid16_field uuid) 0 [] stream)"
proof (cases rule: query_phases [where L = L and addr = addr and sleep = sleep and w = w])
  case (connected stream w1)
  then have "connects sleep L addr w stream2 w2 \<longleftrightarrow> stream2 = stream \<and> w2 = w1" for stream2 w2
    by (auto simp: connects_iff)
  then show ?thesis
    by (auto simp: query_connected [OF connected] find_rfcomm_channel_None_iff)
qed (auto simp: query_invalid query_unconnected dest: query_phases_exclusive)

lemma query_errors:
  assumes "query_rfcomm_channel N B T sleep L addr uuid w = Some (Inl err, w', st)"
  shows "(\<exists>e. bluer_parse L addr = Inl e \<and> w' = w \<and> st = None \<and>
        err = InvalidAddress (bluer_invalid_address_to_string L e)) \<or>
     (\<exists>address. bluer_parse L addr = Inr address \<and> st = None \<and>
        connect_sdp sleep L address w = (Inl RetriesExhausted, w') \<and>
        err = Connect ''connection failed after 5 attempts'') \<or>
     (\<exists>stream stream' e. connects sleep L addr w stream w' \<and> st = Some stream' \<and>
        query_ends T (uuid16_field uuid) stream (Inl e) stream' \<and>
        (e = QueryError.Decode \<and> err = SdpError.Decode ''malformed SDP response'' \<or>
         (\<exists>io. e = QueryError.Socket io \<and> err = Transport io)))"
proof (cases rule: query_phases [where L = L and addr = addr and sleep = sleep and w = w])
  case (invalid e)
  with assms show ?thesis
    by (auto simp: query_invalid)
next
  case (unconnected address e w1)
  with assms show ?thesis
    by (cases e) (auto simp: query_unconnected retries_message)
next
  case (connected stream w1)
  with assms obtain e stream' where ends: "query_ends T (uuid16_field uuid) stream (Inl e) stream'"
    and res: "err = sdp_error_from e" "w' = w1" "st = Some stream'"
    by (auto simp: query_connected [OF connected] find_rfcomm_channel_Some_iff map_err_Inl_iff)
  then have "e \<noteq> QueryError.Encode x" for x
    using query_ends_no_encode [OF ends] by simp
  with res have "e = QueryError.Decode \<and> err = SdpError.Decode ''malformed SDP response'' \<or>
      (\<exists>io. e = QueryError.Socket io \<and> err = Transport io)"
    by (cases e) (auto simp: sdp_error_from_def)
  with connected ends res show ?thesis
    by blast
qed

lemma query_errors_iff:
  "query_rfcomm_channel N B T sleep L addr uuid w = Some (Inl err, w', st) \<longleftrightarrow>
     (\<exists>e. bluer_parse L addr = Inl e \<and> w' = w \<and> st = None \<and>
        err = InvalidAddress (bluer_invalid_address_to_string L e)) \<or>
     (\<exists>address. bluer_parse L addr = Inr address \<and> st = None \<and>
        connect_sdp sleep L address w = (Inl RetriesExhausted, w') \<and>
        err = Connect ''connection failed after 5 attempts'') \<or>
     (\<exists>stream stream' e. connects sleep L addr w stream w' \<and> st = Some stream' \<and>
        query_ends T (uuid16_field uuid) stream (Inl e) stream' \<and>
        (e = QueryError.Decode \<and> err = SdpError.Decode ''malformed SDP response'' \<or>
         (\<exists>io. e = QueryError.Socket io \<and> err = Transport io)))" (is "?l \<longleftrightarrow> ?invalid \<or> ?unconnected \<or> ?failed")
proof
  assume "?invalid \<or> ?unconnected \<or> ?failed"
  then show ?l
  proof (elim disjE)
    assume ?invalid
    then show ?l
      by (auto simp: query_invalid)
  next
    assume ?unconnected
    then show ?l
      by (auto simp: query_unconnected retries_message)
  next
    assume ?failed
    then show ?l
      by (auto simp: query_connected sdp_error_from_def simp flip: find_rfcomm_channel_Some_iff)
  qed
qed (rule query_errors)

end

section \<open>Connecting to the concrete device\<close>

lemma adapter_before:
  "k \<le> n \<Longrightarrow>
   world_before adapter_sleep (bluer_connect adapter_bluer (addr, 1)) k (adapter_of n a) =
     \<lparr>attempts = k, slept = k * 200, refusals = n, answer = a\<rparr>"
  by (induction k)
    (simp_all add: adapter_of_def adapter_bluer_def adapter_connect_def adapter_sleep_def
      RETRY_DELAY_def)

lemma adapter_connects:
  assumes "length addr = 17" "n < 5"
  shows "connects adapter_sleep adapter_bluer addr (adapter_of n a) a
    \<lparr>attempts = n + 1, slept = n * 200, refusals = n, answer = a\<rparr>"
proof -
  have "\<forall>j < n. attempt_fails adapter_sleep (bluer_connect adapter_bluer (addr, 1)) (adapter_of n a) j"
    by (simp add: attempt_fails_def adapter_before)
      (simp add: adapter_bluer_def adapter_connect_def)
  moreover have "bluer_connect adapter_bluer (addr, 1)
      (world_before adapter_sleep (bluer_connect adapter_bluer (addr, 1)) n (adapter_of n a)) =
    (Inr a, \<lparr>attempts = n + 1, slept = n * 200, refusals = n, answer = a\<rparr>)"
    by (simp add: adapter_before) (simp add: adapter_bluer_def adapter_connect_def)
  moreover have "bluer_parse adapter_bluer addr = Inr addr"
    "bluer_socket_addr adapter_bluer addr (bluer_br_edr adapter_bluer) 1 = (addr, 1)"
    using assms(1) by (simp_all add: adapter_bluer_def)
  ultimately show ?thesis
    using assms(2) unfolding connects_def Let_def by metis
qed

end
