(* ===== verification/Properties_Public.thy ===== *)
theory Properties_Public
  imports Public Sdp_Server
begin

text \<open>
  What connecting guarantees, \<^verbatim>\<open>src/transport/connect.rs\<close> and \<^verbatim>\<open>src/transport/live.rs\<close>, and what a
  caller of the crate's entry point sees, \<^verbatim>\<open>src/public.rs\<close>.
\<close>

section \<open>The retry policy\<close>

text \<open>
  C11. Connecting succeeds exactly when one of five attempts does, every one before it having
  failed, and it returns the first success at once, in the world that attempt left.
\<close>

theorem retry_returns_first_success:
  "connect_with_retry sleep connect w = (Inr v, w') \<longleftrightarrow>
     (\<exists>k < 5. (\<forall>j \<in> {..<k}. attempt_fails sleep connect w j) \<and>
        connect (world_before sleep connect k w) = (Inr v, w'))"
  using retry_Inr_iff [of sleep connect w v w'] by (simp add: lessThan_def)

theorem retry_returns_first_success_witness:
  "connect_with_retry adapter_sleep adapter_connect (adapter_of 2 (7 :: nat)) =
     (Inr 7, \<lparr>attempts = 3, slept = 400, refusals = 2, answer = 7\<rparr>)"
proof -
  have "{..<2 :: nat} = {0, 1}"
    by auto
  then show ?thesis
    unfolding retry_returns_first_success
    by (intro exI [of _ 2])
      (simp add: attempt_fails_def adapter_connect_def adapter_sleep_def adapter_of_def
        RETRY_DELAY_def numeral_2_eq_2)
qed

text \<open>
  C12. Connecting gives up exactly when all five attempts fail, and then the last thing that
  happens is the fifth attempt: there is no delay after it.
\<close>

theorem retry_gives_up:
  "connect_with_retry sleep connect w = (Inl err, w') \<longleftrightarrow>
     (\<forall>j \<in> {..<5}. attempt_fails sleep connect w j) \<and>
     w' = snd (connect (world_before sleep connect 4 w))"
  using retry_Inl_iff [of sleep connect w err w'] by (simp add: lessThan_def)

theorem retry_gives_up_witness:
  "connect_with_retry adapter_sleep adapter_connect (adapter_of 9 (7 :: nat)) =
     (Inl RetriesExhausted, \<lparr>attempts = 5, slept = 800, refusals = 9, answer = 7\<rparr>)"
proof -
  have "{..<5 :: nat} = {0, 1, 2, 3, 4}"
    by auto
  then show ?thesis
    unfolding retry_gives_up
    by (simp add: attempt_fails_def adapter_connect_def adapter_sleep_def adapter_of_def
        RETRY_DELAY_def eval_nat_numeral)
qed

text \<open>
  C13. Connecting makes between one and five attempts and sleeps 200 milliseconds between them,
  so at most 800 in all; a failure has made all five.
\<close>

theorem retry_budget:
  assumes "counted_world sleep connect attempts_made time_slept"
    and "connect_with_retry sleep connect w = (r, w')"
  shows "\<exists>n. 1 \<le> n \<and> n \<le> 5 \<and> attempts_made w' = attempts_made w + n \<and>
    time_slept w' = time_slept w + (n - 1) * 200 \<and> (n = 5 \<or> \<not> isl r)"
  using counted_world.retry_counts [OF assms] by (metis RETRY_DELAY_def)

theorem retry_budget_witness:
  "\<exists>n. 1 \<le> n \<and> n \<le> 5 \<and>
     attempts (snd (connect_with_retry adapter_sleep adapter_connect (adapter_of 2 (7 :: nat)))) = n"
proof -
  obtain r w' where "connect_with_retry adapter_sleep adapter_connect (adapter_of 2 (7 :: nat)) = (r, w')"
    by fastforce
  from retry_budget [OF adapter_world.counted_world_axioms this] this show ?thesis
    by (auto simp: adapter_of_def)
qed

section \<open>The entry point\<close>

text \<open>
  An address that does not parse is reported as such, with the parser's message; no
  connection is attempted and nothing is slept: the world is untouched.
\<close>

theorem invalid_address_touches_nothing:
  assumes "bluer_parse L addr = Inl e"
  shows "query_rfcomm_channel N B T sleep L addr uuid w =
    Some (Inl (InvalidAddress (bluer_invalid_address_to_string L e)), w, None)"
  using assms by (rule query_invalid)

theorem invalid_address_touches_nothing_witness:
  "query_rfcomm_channel nom_model bytes_model peer_tokio adapter_sleep adapter_bluer ''''
     MAP (adapter_of 0 (peer_of [])) =
   Some (Inl (InvalidAddress ''not an address: ''), adapter_of 0 (peer_of []), None)"
  using invalid_address_touches_nothing [of adapter_bluer "''''" "''''"]
  by (simp add: adapter_bluer_def)

lemma sample_answer:
  "query_rfcomm_channel nom_model bytes_model peer_tokio adapter_sleep adapter_bluer
     ''AA:BB:CC:DD:EE:FF'' PBAP (adapter_of 0 (peer_of (responses sample_pages))) =
   Some (Inr (Some 13), \<lparr>attempts = 1, slept = 0, refusals = 0,
     answer = peer_of (responses sample_pages)\<rparr>, Some (sample_end 0x112f))"
  by (subst query_connected [OF adapter_connects]) (simp_all add: PBAP_def sample_query)

text \<open>
  C21. The entry point answers exactly when the address parses, one of five attempts to connect
  to its SDP server, on PSM 1, succeeds, every page of the query arrives and is framed, and the
  attribute bytes of the pages, put together, start with an element of the wire format whose
  records are well formed; the answer is then the channel of the first record that offers one, or
  none. A record offers the channel named by the first entry that names one, RFCOMM's UUID with
  an 8-bit number, in the sequence that is its first attribute 4.
\<close>

theorem query_answers:
  assumes "nom_contract N" "bytes_contract B"
  shows "query_rfcomm_channel N B T sleep L addr uuid w = Some (Inr ch, w', st) \<longleftrightarrow>
    (\<exists>stream stream' rs. connects sleep L addr w stream w' \<and> st = Some stream' \<and>
       query_run T (uuid16_field uuid) 0 [] stream rs (Inr ()) stream' \<and>
       wire_answer (concat (map attribute_bytes rs)) ch)"
  using sdp_codec.intro [OF assms] by (rule sdp_codec.query_answer_wire)

theorem query_answers_witness:
  "\<exists>stream rs. connects adapter_sleep adapter_bluer ''AA:BB:CC:DD:EE:FF''
      (adapter_of 0 (peer_of (responses sample_pages))) stream
      \<lparr>attempts = 1, slept = 0, refusals = 0, answer = peer_of (responses sample_pages)\<rparr> \<and>
    query_run peer_tokio 0x112f 0 [] stream rs (Inr ()) (sample_end 0x112f) \<and>
    wire_answer (concat (map attribute_bytes rs)) (Some 13)"
  using iffD1 [OF query_answers [OF nom_std.nom_contract_axioms bytes_std.bytes_contract_axioms]
      sample_answer] by (auto simp: PBAP_def)

text \<open>
  C20. The entry point fails exactly for one of four reasons, and each has its error: the address
  does not parse, and then no connection is attempted and nothing slept; all five attempts fail,
  with a message that says so; an exchange on the stream fails; or what was received does not
  decode. The fifth error, an encoding error, never occurs.
\<close>

theorem query_error_causes:
  assumes "nom_contract N" "bytes_contract B"
  shows "query_rfcomm_channel N B T sleep L addr uuid w = Some (Inl err, w', st) \<longleftrightarrow>
    (\<exists>e. bluer_parse L addr = Inl e \<and> w' = w \<and> st = None \<and>
        err = InvalidAddress (bluer_invalid_address_to_string L e)) \<or>
    (\<exists>address. bluer_parse L addr = Inr address \<and> st = None \<and>
        connect_sdp sleep L address w = (Inl RetriesExhausted, w') \<and>
        err = Connect ''connection failed after 5 attempts'') \<or>
    (\<exists>stream stream' e. connects sleep L addr w stream w' \<and> st = Some stream' \<and>
        query_ends T (uuid16_field uuid) stream (Inl e) stream' \<and>
        (e = QueryError.Decode \<and> err = SdpError.Decode ''malformed SDP response'' \<or>
         (\<exists>io. e = QueryError.Socket io \<and> err = Transport io)))"
  using sdp_codec.query_errors_iff [OF sdp_codec.intro [OF assms]] .

theorem query_error_causes_witness:
  "query_rfcomm_channel nom_model bytes_model peer_tokio adapter_sleep adapter_bluer ''bad''
     MAP (adapter_of 0 (peer_of [])) =
   Some (Inl (InvalidAddress ''not an address: bad''), adapter_of 0 (peer_of []), None)"
  by (intro iffD2 [OF query_error_causes [OF nom_std.nom_contract_axioms
        bytes_std.bytes_contract_axioms]] disjI1)
    (simp add: adapter_bluer_def)

text \<open>
  C22. The entry point fails to return exactly when the address parses, one of five attempts to
  connect succeeds, and the device on that connection sends pages without end, every one of them
  framed and asking for another. Provided that each call of a library returns, nothing else in the
  crate can keep a caller waiting forever.
\<close>

theorem entry_point_diverges:
  assumes "nom_contract N" "bytes_contract B"
  shows "query_rfcomm_channel N B T sleep L addr uuid w = None \<longleftrightarrow>
    (\<exists>stream w'. connects sleep L addr w stream w' \<and> endless T (uuid16_field uuid) 0 [] stream)"
  using sdp_codec.intro [OF assms] by (rule sdp_codec.query_None_iff)

theorem entry_point_diverges_witness:
  "query_rfcomm_channel nom_model bytes_model babbler adapter_sleep adapter_bluer
     ''AA:BB:CC:DD:EE:FF'' MAP (adapter_of 3 ([], [])) = None"
proof -
  have "connects adapter_sleep adapter_bluer ''AA:BB:CC:DD:EE:FF'' (adapter_of 3 ([], [])) ([], [])
      \<lparr>attempts = 4, slept = 600, refusals = 3, answer = ([], [])\<rparr>"
    using adapter_connects [of "''AA:BB:CC:DD:EE:FF''" 3] by simp
  with babbler_endless show ?thesis
    unfolding entry_point_diverges [OF nom_std.nom_contract_axioms bytes_std.bytes_contract_axioms]
    by blast
qed

text \<open>
  From end to end: a device that refuses at most four connections and then serves its
  records, split into pages in any way, is asked until it answers, and the caller gets the
  channel of its first record that has one; the calls slept 200 milliseconds per refusal.
\<close>

theorem query_end_to_end:
  assumes "nom_contract N" "bytes_contract B"
    and "length addr = 17" "n < 5"
    and "paged rs" "list_all well_formed_response rs"
    and "element_wire p outer" "records_carry outer als"
    and "concat (map attribute_bytes rs) = p @ rest"
  shows "\<exists>stream. query_rfcomm_channel N B peer_tokio adapter_sleep adapter_bluer addr uuid
      (adapter_of n (peer_of (responses rs))) =
    Some (Inr (find_map rfcomm_channel als),
      \<lparr>attempts = n + 1, slept = n * 200, refusals = n, answer = peer_of (responses rs)\<rparr>,
      Some stream)"
  by (simp add: query_connected [OF adapter_connects [OF assms(3,4)]]
      sdp_codec.find_on_peer [OF sdp_codec.intro [OF assms(1,2)] assms(5-9)])

theorem query_end_to_end_witness:
  "\<exists>w stream. query_rfcomm_channel nom_model bytes_model peer_tokio adapter_sleep adapter_bluer
     ''AA:BB:CC:DD:EE:FF'' PBAP (adapter_of 4 (peer_of (responses sample_pages))) =
   Some (Inr (Some 13), w, Some stream)"
  using query_end_to_end [OF nom_std.nom_contract_axioms bytes_std.bytes_contract_axioms _ _
      sample_served sample_wire sample_carries sample_bytes, of "''AA:BB:CC:DD:EE:FF''" 4 PBAP]
  by (auto simp: sample_channel)

text \<open>
  C23. No answer is made up: when the entry point answers, it was connected, what it has received is
  complete PDUs that are framed as pages and nothing else, what it has sent is the requests for
  those pages, and the answer is the one that their attribute bytes, put together in order, give.
\<close>

theorem answer_is_on_the_wire:
  assumes "nom_contract N" "bytes_contract B" "byte_stream T sent received"
    and "query_rfcomm_channel N B T sleep L addr uuid w = Some (Inr ch, w', st)"
  shows "\<exists>stream stream' rs pdus. connects sleep L addr w stream w' \<and> st = Some stream' \<and>
    received stream' = received stream @ concat pdus \<and> list_all complete_pdu pdus \<and>
    list_all2 framed pdus rs \<and> wire_answer (concat (map attribute_bytes rs)) ch \<and>
    sent stream' = sent stream @ concat (requests (uuid16_field uuid) 0 [] rs)"
proof -
  from assms(4) obtain stream stream' rs where "connects sleep L addr w stream w'"
    "st = Some stream'" "wire_answer (concat (map attribute_bytes rs)) ch"
    and run: "query_run T (uuid16_field uuid) 0 [] stream rs (Inr ()) stream'"
    by (auto simp: sdp_codec.query_answer_wire [OF sdp_codec.intro [OF assms(1,2)]])
  with byte_stream.run_received [OF assms(3) run] byte_stream.run_sent [OF assms(3) run]
  show ?thesis
    by blast
qed

theorem answer_is_on_the_wire_witness:
  "\<exists>rs pdus. received_log (sample_end 0x112f) = concat pdus \<and> list_all complete_pdu pdus \<and>
     list_all2 framed pdus rs \<and> wire_answer (concat (map attribute_bytes rs)) (Some 13)"
proof -
  from answer_is_on_the_wire [OF nom_std.nom_contract_axioms bytes_std.bytes_contract_axioms
      peer_stream.byte_stream_axioms sample_answer]
  obtain stream rs pdus where conn: "connects adapter_sleep adapter_bluer ''AA:BB:CC:DD:EE:FF''
      (adapter_of 0 (peer_of (responses sample_pages))) stream
      \<lparr>attempts = 1, slept = 0, refusals = 0, answer = peer_of (responses sample_pages)\<rparr>"
    and "received_log (sample_end 0x112f) = received_log stream @ concat pdus"
      "list_all complete_pdu pdus" "list_all2 framed pdus rs"
      "wire_answer (concat (map attribute_bytes rs)) (Some 13)"
    by auto
  moreover have "stream = peer_of (responses sample_pages)"
    using conn adapter_connects [of "''AA:BB:CC:DD:EE:FF''" 0 "peer_of (responses sample_pages)"]
    by (auto simp: connects_iff)
  ultimately show ?thesis
    by (auto simp: peer_of_def)
qed

text \<open>
  C4. From end to end, against a device that reads its requests. The adapter parses addresses of 17
  characters; the device refuses k connections, fewer than five, and then runs an SDP server that
  pages what its database holds for a service by position, n bytes at a time, or 65528, the most a
  PDU can hold, if n is more. If the database holds, in whichever encoding, an element of the wire
  format that carries records with the attributes \<open>als\<close>, and fewer than 2 to the 32nd bytes in all,
  so that a position fits four bytes of continuation state, then for every n but 0 the caller gets
  the channel of the first record that offers one, or none, after one request for each page that
  this takes, at least one, each answered by the page that goes on where the one before it ended.
\<close>

theorem device_end_to_end:
  assumes "nom_contract N" "bytes_contract B"
    and "length addr = 17" "k < 5" "0 < n"
    and "element_wire p outer" "records_carry outer als"
    and "db (uuid16_field uuid) = p @ rest" "length (db (uuid16_field uuid)) < 2 ^ 32"
  shows "\<exists>stream rs. query_rfcomm_channel N B (server_tokio db n) adapter_sleep adapter_bluer addr uuid
      (adapter_of k fresh_link) =
    Some (Inr (find_map rfcomm_channel als),
      \<lparr>attempts = k + 1, slept = k * 200, refusals = k, answer = fresh_link\<rparr>, Some stream) \<and>
    link_sent stream = concat (requests (uuid16_field uuid) 0 [] rs) \<and>
    link_received stream = concat (map response_bytes rs) \<and>
    concat (map attribute_bytes rs) = db (uuid16_field uuid) \<and>
    length rs =
      max 1 ((length (db (uuid16_field uuid)) + min n 65528 - 1) div min n 65528) \<and>
    records_answer (map attribute_elements als) (find_map rfcomm_channel als)"
proof -
  from sdp_codec.find_on_server [where db = db and uuid = "uuid16_field uuid",
      OF sdp_codec.intro [OF assms(1,2)] assms(5,9,6-8)] obtain rs where
    found: "find_rfcomm_channel N B (server_tokio db n) fresh_link (uuid16_field uuid) =
      Some (Inr (find_map rfcomm_channel als),
        fresh_link\<lparr>link_sent := concat (requests (uuid16_field uuid) 0 [] rs),
          link_received := concat (map response_bytes rs)\<rparr>)"
    and pages: "concat (map attribute_bytes rs) = db (uuid16_field uuid)"
      "length rs = page_count (page_size n) (length (db (uuid16_field uuid)))"
    by blast
  let ?stream = "fresh_link\<lparr>link_sent := concat (requests (uuid16_field uuid) 0 [] rs),
    link_received := concat (map response_bytes rs)\<rparr>"
  have "query_rfcomm_channel N B (server_tokio db n) adapter_sleep adapter_bluer addr uuid
      (adapter_of k fresh_link) =
    Some (Inr (find_map rfcomm_channel als),
      \<lparr>attempts = k + 1, slept = k * 200, refusals = k, answer = fresh_link\<rparr>, Some ?stream)"
    by (simp add: query_connected [OF adapter_connects [OF assms(3,4)]] found)
  moreover have "link_sent ?stream = concat (requests (uuid16_field uuid) 0 [] rs)"
    "link_received ?stream = concat (map response_bytes rs)"
    by simp_all
  moreover have "records_answer (map attribute_elements als) (find_map rfcomm_channel als)"
    by (simp add: records_answer_iff)
  ultimately show ?thesis
    using pages unfolding page_count_def page_size_def by blast
qed

theorem device_end_to_end_witness:
  "\<exists>w stream. query_rfcomm_channel nom_model bytes_model (server_tokio (\<lambda>_. sample_attrs @ []) 4)
     adapter_sleep adapter_bluer ''AA:BB:CC:DD:EE:FF'' PBAP (adapter_of 4 fresh_link) =
   Some (Inr (Some 13), w, Some stream)"
  using device_end_to_end [OF nom_std.nom_contract_axioms bytes_std.bytes_contract_axioms _ _ _
      sample_wire sample_carries, of "''AA:BB:CC:DD:EE:FF''" 4 4 "\<lambda>_. sample_attrs @ []" PBAP "[]"]
  by (auto simp: sample_channel length_sample_attrs)

end
