(* ===== verification/Fixtures.thy ===== *)
theory Fixtures
  imports Sdp_Prelude
begin

text \<open>
  The captured PDUs of \<^verbatim>\<open>src/tests/fixtures\<close>, as the text of their files, and the helper
  \<^verbatim>\<open>hex_decode\<close> of the test modules that reads them.
\<close>

section \<open>Reading a fixture\<close>

definition hex_digit :: "char \<Rightarrow> nat option" where
  "hex_digit c =
     (let n = of_char c in
      if 48 \<le> n \<and> n \<le> 57 then Some (n - 48)
      else if 65 \<le> n \<and> n \<le> 70 then Some (n - 55)
      else if 97 \<le> n \<and> n \<le> 102 then Some (n - 87)
      else None)"

text \<open>\<^verbatim>\<open>u8::from_str_radix\<close> of two characters, base sixteen: a leading plus sign is accepted.\<close>

definition u8_from_str_radix_16 :: "char \<Rightarrow> char \<Rightarrow> u8 option" where
  "u8_from_str_radix_16 a b =
     (case (hex_digit a, hex_digit b) of
        (Some hi, Some lo) \<Rightarrow> Some (of_nat (16 * hi + lo))
      | (None, Some lo) \<Rightarrow> if a = CHR ''+'' then Some (of_nat lo) else None
      | _ \<Rightarrow> None)"

fun hex_pairs :: "string \<Rightarrow> bytes" where
  "hex_pairs (a # b # rest) =
     (case u8_from_str_radix_16 a b of None \<Rightarrow> 0 | Some v \<Rightarrow> v) # hex_pairs rest"
| "hex_pairs [a] = [0]"
| "hex_pairs [] = []"

definition ascii_whitespace :: "char \<Rightarrow> bool" where
  "ascii_whitespace c \<longleftrightarrow> c \<in> {CHR '' '', CHR 0x09, CHR 0x0A, CHR 0x0B, CHR 0x0C, CHR 0x0D}"

definition str_trim :: "string \<Rightarrow> string" where
  "str_trim s = rev (dropWhile ascii_whitespace (rev (dropWhile ascii_whitespace s)))"

definition hex_decode :: "string \<Rightarrow> bytes" where
  "hex_decode s = hex_pairs (str_trim s)"

section \<open>The files\<close>

definition pbap_request_hex :: string where
  "pbap_request_hex = concat
     [''060000000f350319112fffff35050a0000ffff00'',
      [CHR 0x0A]]"

definition pbap_response_hex :: string where
  "pbap_response_hex = concat
     [''07000000990096359435920900000a4f49112f090001350319112f0900020a0000000009000435113503'',
      ''1901003505190003080d35031900080900053503191002090006352409656e09006a0901000966720900'',
      ''6a09011009646509006a090120096a6109006a09013009000808ff090009350835061911300901020901'',
      ''00250950686f6e65626f6f6b09020009100309031408090903170a0000000f00'',
      [CHR 0x0A]]"

definition map_request_hex :: string where
  "map_request_hex = concat
     [''060000000f3503191132ffff35050a0000ffff00'',
      [CHR 0x0A]]"

definition map_response_hex :: string where
  "map_response_hex = concat
     [''07000000a0009d359b35990900000a4f49113209000135031911320900020a0000000009000435113503'',
      ''1901003505190003080235031900080900053503191002090006352409656e09006a0901000966720900'',
      ''6a09011009646509006a090120096a6109006a09013009000808ff090009350835061911340901040901'',
      ''00250b4d4150204d41532d694f53090200091007090315080009031608020903170a0006027f00'',
      [CHR 0x0A]]"

definition browse_page0_response_hex :: string where
  "browse_page0_response_hex = concat
     [''07000000fb00f636073d356f0900000a4f49180109000135031918010900020a00000000090004351335'',
      ''0619010009001f350919000709000109000e0900053503191002090006352409656e09006a0901000966'',
      ''7209006a09011009646509006a090120096a6109006a09013009000808ff090100250447415454359309'',
      ''00000a4f49ee8009000135111c1ff31936572e4b36a2bfb2409b1aa6f40900020a000000000900043508'',
      ''35061901000910090900053503191002090006352409656e09006a09010009667209006a090110096465'',
      ''09006a090120096a6109006a09013009000808ff090009351635141c4b6f7c7407f449deb0b9ab430472'',
      ''8f0200f3'',
      [CHR 0x0A]]"

definition browse_page1_response_hex :: string where
  "browse_page1_response_hex = concat
     [''07000100fb00f629090100090100250a41415020436c69656e7435990900000a4f491132090001350319'',
      ''11320900020a000000000900043511350319010035051900030802350319000809000535031910020900'',
      ''06352409656e09006a09010009667209006a09011009646509006a090120096a6109006a090130090008'',
      ''08ff09000935083506191134090104090100250b4d4150204d41532d694f530902000910070903150800'',
      ''09031608020903170a0006027f35ca0900000a4f49111609000135031911160900020a00000007090004'',
      ''351e350619010009000f351419000f090100350c0908000908060981000986dd09000535031910020900'',
      ''060201e9'',
      [CHR 0x0A]]"

definition browse_page2_response_hex :: string where
  "browse_page2_response_hex = concat
     [''07000200fb00f6352409656e09006a09010009667209006a09011009646509006a090120096a6109006a'',
      ''090130090008080009000935083506191116090100090100251a50414e204e6574776f726b2041636365'',
      ''73732050726f66696c6509010125144e6574776f726b2041636365737320506f696e7409030a09000109'',
      ''030b09000d09030c0a0003e800358e0900000a4f49525809000135111c020303021d19415f86f222a210'',
      ''6a0a770900020a00000000090004350c3503190100350519000308010900053503191002090006352409'',
      ''656e09006a09010009667209006a09011009646509006a090120096a6109006a09013009000808ff0900'',
      ''090202df'',
      [CHR 0x0A]]"

definition browse_page3_response_hex :: string where
  "browse_page3_response_hex = concat
     [''07000300fb00f635083506191101090102090100250f576972656c65737320694150207632358b090000'',
      ''0a4f49523809000135111c00000000decafadedecadeafdecacafe0900020a00000000090004350c3503'',
      ''190100350519000308010900053503191002090006352409656e09006a09010009667209006a09011009'',
      ''646509006a090120096a6109006a09013009000808ff09000935083506191101090102090100250c5769'',
      ''72656c6573732069415035a40900000a4f49110e090001350619110e19110f0900020a00000000090004'',
      ''3510350619010009001735061900170901040900053503191002090006352409656e09006a0901000966'',
      ''720203d5'',
      [CHR 0x0A]]"

definition browse_page4_response_hex :: string where
  "browse_page4_response_hex = concat
     [''07000400fb00f609006a09011009646509006a090120096a6109006a09013009000808ff090009350835'',
      ''0619110e090105090100250c415652435020446576696365090101251552656d6f746520436f6e74726f'',
      ''6c2044657669636509031109000235c70900000a4f49110c090001350319110c0900020a000000000900'',
      ''043510350619010009001735061900170901040900053503191002090006352409656e09006a09010009'',
      ''667209006a09011009646509006a090120096a6109006a09013009000808ff0900093508350619110e09'',
      ''010609000d35213510350619010009001b3506190017090104350d350619010009100535031900080901'',
      ''000204cb'',
      [CHR 0x0A]]"

definition browse_page5_response_hex :: string where
  "browse_page5_response_hex = concat
     [''07000500f900f4250c415652435020446576696365090101251552656d6f746520436f6e74726f6c2044'',
      ''65766963650903110901d135870900000a4f49110a090001350319110a0900020a000000000900043510'',
      ''350619010009001935061900190901030900053503191002090006352409656e09006a09010009667209'',
      ''006a09011009646509006a090120096a6109006a09013009000808ff0900093508350619110d09010309'',
      ''0100250c417564696f20536f7572636509031109000135920900000a4f49112f090001350319112f0900'',
      ''020a00000000090004351135031901003505190003080d35031900080900053503191002090006352402'',
      ''05bf'',
      [CHR 0x0A]]"

definition browse_page6_response_hex :: string where
  "browse_page6_response_hex = concat
     [''07000600fb00f609656e09006a09010009667209006a09011009646509006a090120096a6109006a0901'',
      ''3009000808ff09000935083506191130090102090100250950686f6e65626f6f6b090200091003090314'',
      ''08090903170a0000000f35900900000a4f49111f090001350619111f1912030900020a00000000090004'',
      ''350c3503190100350519000308080900053503191002090006352409656e09006a09010009667209006a'',
      ''09011009646509006a090120096a6109006a09013009000808ff0900093508350619111e090108090100'',
      ''251148616e6473667265652047617465776179090301080109031109002f35930900000a4f4912000900'',
      ''010206b5'',
      [CHR 0x0A]]"

definition browse_page7_response_hex :: string where
  "browse_page7_response_hex = concat
     [''070007008b008835031912000900020a000000000900053503191002090006352409656e09006a090100'',
      ''09667209006a09011009646509006a090120096a6109006a09013009000808ff090101250f506e502049'',
      ''6e666f726d6174696f6e09020009010209020109004c09020209761e0902030911600902042801090205'',
      ''09000109a0000a00a026c409afff09000100'',
      [CHR 0x0A]]"

definition browse_page0_request_hex :: string where
  "browse_page0_request_hex = concat
     [''060000000f3503191002ffff35050a0000ffff00'',
      [CHR 0x0A]]"

definition browse_page1_request_hex :: string where
  "browse_page1_request_hex = concat
     [''06000100113503191002ffff35050a0000ffff0200f3'',
      [CHR 0x0A]]"

section \<open>Their bytes\<close>

definition pbap_request :: bytes where
  "pbap_request =
     [6, 0, 0, 0, 15, 53, 3, 25, 17, 47, 255, 255, 53, 5, 10, 0, 0, 255, 255, 0]"

lemma pbap_request_read: "hex_decode pbap_request_hex = pbap_request"
  by code_simp

definition pbap_response :: bytes where
  "pbap_response =
     [7, 0, 0, 0, 153, 0, 150, 53, 148, 53, 146, 9, 0, 0, 10, 79, 73, 17, 47, 9, 0, 1,
      53, 3, 25, 17, 47, 9, 0, 2, 10, 0, 0, 0, 0, 9, 0, 4, 53, 17, 53, 3, 25, 1, 0, 53,
      5, 25, 0, 3, 8, 13, 53, 3, 25, 0, 8, 9, 0, 5, 53, 3, 25, 16, 2, 9, 0, 6, 53, 36, 9,
      101, 110, 9, 0, 106, 9, 1, 0, 9, 102, 114, 9, 0, 106, 9, 1, 16, 9, 100, 101, 9, 0,
      106, 9, 1, 32, 9, 106, 97, 9, 0, 106, 9, 1, 48, 9, 0, 8, 8, 255, 9, 0, 9, 53, 8,
      53, 6, 25, 17, 48, 9, 1, 2, 9, 1, 0, 37, 9, 80, 104, 111, 110, 101, 98, 111, 111,
      107, 9, 2, 0, 9, 16, 3, 9, 3, 20, 8, 9, 9, 3, 23, 10, 0, 0, 0, 15, 0]"

lemma pbap_response_read: "hex_decode pbap_response_hex = pbap_response"
  by code_simp

definition map_request :: bytes where
  "map_request =
     [6, 0, 0, 0, 15, 53, 3, 25, 17, 50, 255, 255, 53, 5, 10, 0, 0, 255, 255, 0]"

lemma map_request_read: "hex_decode map_request_hex = map_request"
  by code_simp

definition map_response :: bytes where
  "map_response =
     [7, 0, 0, 0, 160, 0, 157, 53, 155, 53, 153, 9, 0, 0, 10, 79, 73, 17, 50, 9, 0, 1,
      53, 3, 25, 17, 50, 9, 0, 2, 10, 0, 0, 0, 0, 9, 0, 4, 53, 17, 53, 3, 25, 1, 0, 53,
      5, 25, 0, 3, 8, 2, 53, 3, 25, 0, 8, 9, 0, 5, 53, 3, 25, 16, 2, 9, 0, 6, 53, 36, 9,
      101, 110, 9, 0, 106, 9, 1, 0, 9, 102, 114, 9, 0, 106, 9, 1, 16, 9, 100, 101, 9, 0,
      106, 9, 1, 32, 9, 106, 97, 9, 0, 106, 9, 1, 48, 9, 0, 8, 8, 255, 9, 0, 9, 53, 8,
      53, 6, 25, 17, 52, 9, 1, 4, 9, 1, 0, 37, 11, 77, 65, 80, 32, 77, 65, 83, 45, 105,
      79, 83, 9, 2, 0, 9, 16, 7, 9, 3, 21, 8, 0, 9, 3, 22, 8, 2, 9, 3, 23, 10, 0, 6, 2,
      127, 0]"

lemma map_response_read: "hex_decode map_response_hex = map_response"
  by code_simp

definition browse_page0_response :: bytes where
  "browse_page0_response =
     [7, 0, 0, 0, 251, 0, 246, 54, 7, 61, 53, 111, 9, 0, 0, 10, 79, 73, 24, 1, 9, 0, 1,
      53, 3, 25, 24, 1, 9, 0, 2, 10, 0, 0, 0, 0, 9, 0, 4, 53, 19, 53, 6, 25, 1, 0, 9, 0,
      31, 53, 9, 25, 0, 7, 9, 0, 1, 9, 0, 14, 9, 0, 5, 53, 3, 25, 16, 2, 9, 0, 6, 53, 36,
      9, 101, 110, 9, 0, 106, 9, 1, 0, 9, 102, 114, 9, 0, 106, 9, 1, 16, 9, 100, 101, 9,
      0, 106, 9, 1, 32, 9, 106, 97, 9, 0, 106, 9, 1, 48, 9, 0, 8, 8, 255, 9, 1, 0, 37, 4,
      71, 65, 84, 84, 53, 147, 9, 0, 0, 10, 79, 73, 238, 128, 9, 0, 1, 53, 17, 28, 31,
      243, 25, 54, 87, 46, 75, 54, 162, 191, 178, 64, 155, 26, 166, 244, 9, 0, 2, 10, 0,
      0, 0, 0, 9, 0, 4, 53, 8, 53, 6, 25, 1, 0, 9, 16, 9, 9, 0, 5, 53, 3, 25, 16, 2, 9,
      0, 6, 53, 36, 9, 101, 110, 9, 0, 106, 9, 1, 0, 9, 102, 114, 9, 0, 106, 9, 1, 16, 9,
      100, 101, 9, 0, 106, 9, 1, 32, 9, 106, 97, 9, 0, 106, 9, 1, 48, 9, 0, 8, 8, 255, 9,
      0, 9, 53, 22, 53, 20, 28, 75, 111, 124, 116, 7, 244, 73, 222, 176, 185, 171, 67, 4,
      114, 143, 2, 0, 243]"

lemma browse_page0_response_read: "hex_decode browse_page0_response_hex = browse_page0_response"
  by code_simp

definition browse_page1_response :: bytes where
  "browse_page1_response =
     [7, 0, 1, 0, 251, 0, 246, 41, 9, 1, 0, 9, 1, 0, 37, 10, 65, 65, 80, 32, 67, 108,
      105, 101, 110, 116, 53, 153, 9, 0, 0, 10, 79, 73, 17, 50, 9, 0, 1, 53, 3, 25, 17,
      50, 9, 0, 2, 10, 0, 0, 0, 0, 9, 0, 4, 53, 17, 53, 3, 25, 1, 0, 53, 5, 25, 0, 3, 8,
      2, 53, 3, 25, 0, 8, 9, 0, 5, 53, 3, 25, 16, 2, 9, 0, 6, 53, 36, 9, 101, 110, 9, 0,
      106, 9, 1, 0, 9, 102, 114, 9, 0, 106, 9, 1, 16, 9, 100, 101, 9, 0, 106, 9, 1, 32,
      9, 106, 97, 9, 0, 106, 9, 1, 48, 9, 0, 8, 8, 255, 9, 0, 9, 53, 8, 53, 6, 25, 17,
      52, 9, 1, 4, 9, 1, 0, 37, 11, 77, 65, 80, 32, 77, 65, 83, 45, 105, 79, 83, 9, 2, 0,
      9, 16, 7, 9, 3, 21, 8, 0, 9, 3, 22, 8, 2, 9, 3, 23, 10, 0, 6, 2, 127, 53, 202, 9,
      0, 0, 10, 79, 73, 17, 22, 9, 0, 1, 53, 3, 25, 17, 22, 9, 0, 2, 10, 0, 0, 0, 7, 9,
      0, 4, 53, 30, 53, 6, 25, 1, 0, 9, 0, 15, 53, 20, 25, 0, 15, 9, 1, 0, 53, 12, 9, 8,
      0, 9, 8, 6, 9, 129, 0, 9, 134, 221, 9, 0, 5, 53, 3, 25, 16, 2, 9, 0, 6, 2, 1, 233]"

lemma browse_page1_response_read: "hex_decode browse_page1_response_hex = browse_page1_response"
  by code_simp

definition browse_page2_response :: bytes where
  "browse_page2_response =
     [7, 0, 2, 0, 251, 0, 246, 53, 36, 9, 101, 110, 9, 0, 106, 9, 1, 0, 9, 102, 114, 9,
      0, 106, 9, 1, 16, 9, 100, 101, 9, 0, 106, 9, 1, 32, 9, 106, 97, 9, 0, 106, 9, 1,
      48, 9, 0, 8, 8, 0, 9, 0, 9, 53, 8, 53, 6, 25, 17, 22, 9, 1, 0, 9, 1, 0, 37, 26, 80,
      65, 78, 32, 78, 101, 116, 119, 111, 114, 107, 32, 65, 99, 99, 101, 115, 115, 32,
      80, 114, 111, 102, 105, 108, 101, 9, 1, 1, 37, 20, 78, 101, 116, 119, 111, 114,
      107, 32, 65, 99, 99, 101, 115, 115, 32, 80, 111, 105, 110, 116, 9, 3, 10, 9, 0, 1,
      9, 3, 11, 9, 0, 13, 9, 3, 12, 10, 0, 3, 232, 0, 53, 142, 9, 0, 0, 10, 79, 73, 82,
      88, 9, 0, 1, 53, 17, 28, 2, 3, 3, 2, 29, 25, 65, 95, 134, 242, 34, 162, 16, 106,
      10, 119, 9, 0, 2, 10, 0, 0, 0, 0, 9, 0, 4, 53, 12, 53, 3, 25, 1, 0, 53, 5, 25, 0,
      3, 8, 1, 9, 0, 5, 53, 3, 25, 16, 2, 9, 0, 6, 53, 36, 9, 101, 110, 9, 0, 106, 9, 1,
      0, 9, 102, 114, 9, 0, 106, 9, 1, 16, 9, 100, 101, 9, 0, 106, 9, 1, 32, 9, 106, 97,
      9, 0, 106, 9, 1, 48, 9, 0, 8, 8, 255, 9, 0, 9, 2, 2, 223]"

lemma browse_page2_response_read: "hex_decode browse_page2_response_hex = browse_page2_response"
  by code_simp

definition browse_page3_response :: bytes where
  "browse_page3_response =
     [7, 0, 3, 0, 251, 0, 246, 53, 8, 53, 6, 25, 17, 1, 9, 1, 2, 9, 1, 0, 37, 15, 87,
      105, 114, 101, 108, 101, 115, 115, 32, 105, 65, 80, 32, 118, 50, 53, 139, 9, 0, 0,
      10, 79, 73, 82, 56, 9, 0, 1, 53, 17, 28, 0, 0, 0, 0, 222, 202, 250, 222, 222, 202,
      222, 175, 222, 202, 202, 254, 9, 0, 2, 10, 0, 0, 0, 0, 9, 0, 4, 53, 12, 53, 3, 25,
      1, 0, 53, 5, 25, 0, 3, 8, 1, 9, 0, 5, 53, 3, 25, 16, 2, 9, 0, 6, 53, 36, 9, 101,
      110, 9, 0, 106, 9, 1, 0, 9, 102, 114, 9, 0, 106, 9, 1, 16, 9, 100, 101, 9, 0, 106,
      9, 1, 32, 9, 106, 97, 9, 0, 106, 9, 1, 48, 9, 0, 8, 8, 255, 9, 0, 9, 53, 8, 53, 6,
      25, 17, 1, 9, 1, 2, 9, 1, 0, 37, 12, 87, 105, 114, 101, 108, 101, 115, 115, 32,
      105, 65, 80, 53, 164, 9, 0, 0, 10, 79, 73, 17, 14, 9, 0, 1, 53, 6, 25, 17, 14, 25,
      17, 15, 9, 0, 2, 10, 0, 0, 0, 0, 9, 0, 4, 53, 16, 53, 6, 25, 1, 0, 9, 0, 23, 53, 6,
      25, 0, 23, 9, 1, 4, 9, 0, 5, 53, 3, 25, 16, 2, 9, 0, 6, 53, 36, 9, 101, 110, 9, 0,
      106, 9, 1, 0, 9, 102, 114, 2, 3, 213]"

lemma browse_page3_response_read: "hex_decode browse_page3_response_hex = browse_page3_response"
  by code_simp

definition browse_page4_response :: bytes where
  "browse_page4_response =
     [7, 0, 4, 0, 251, 0, 246, 9, 0, 106, 9, 1, 16, 9, 100, 101, 9, 0, 106, 9, 1, 32, 9,
      106, 97, 9, 0, 106, 9, 1, 48, 9, 0, 8, 8, 255, 9, 0, 9, 53, 8, 53, 6, 25, 17, 14,
      9, 1, 5, 9, 1, 0, 37, 12, 65, 86, 82, 67, 80, 32, 68, 101, 118, 105, 99, 101, 9, 1,
      1, 37, 21, 82, 101, 109, 111, 116, 101, 32, 67, 111, 110, 116, 114, 111, 108, 32,
      68, 101, 118, 105, 99, 101, 9, 3, 17, 9, 0, 2, 53, 199, 9, 0, 0, 10, 79, 73, 17,
      12, 9, 0, 1, 53, 3, 25, 17, 12, 9, 0, 2, 10, 0, 0, 0, 0, 9, 0, 4, 53, 16, 53, 6,
      25, 1, 0, 9, 0, 23, 53, 6, 25, 0, 23, 9, 1, 4, 9, 0, 5, 53, 3, 25, 16, 2, 9, 0, 6,
      53, 36, 9, 101, 110, 9, 0, 106, 9, 1, 0, 9, 102, 114, 9, 0, 106, 9, 1, 16, 9, 100,
      101, 9, 0, 106, 9, 1, 32, 9, 106, 97, 9, 0, 106, 9, 1, 48, 9, 0, 8, 8, 255, 9, 0,
      9, 53, 8, 53, 6, 25, 17, 14, 9, 1, 6, 9, 0, 13, 53, 33, 53, 16, 53, 6, 25, 1, 0, 9,
      0, 27, 53, 6, 25, 0, 23, 9, 1, 4, 53, 13, 53, 6, 25, 1, 0, 9, 16, 5, 53, 3, 25, 0,
      8, 9, 1, 0, 2, 4, 203]"

lemma browse_page4_response_read: "hex_decode browse_page4_response_hex = browse_page4_response"
  by code_simp

definition browse_page5_response :: bytes where
  "browse_page5_response =
     [7, 0, 5, 0, 249, 0, 244, 37, 12, 65, 86, 82, 67, 80, 32, 68, 101, 118, 105, 99,
      101, 9, 1, 1, 37, 21, 82, 101, 109, 111, 116, 101, 32, 67, 111, 110, 116, 114, 111,
      108, 32, 68, 101, 118, 105, 99, 101, 9, 3, 17, 9, 1, 209, 53, 135, 9, 0, 0, 10, 79,
      73, 17, 10, 9, 0, 1, 53, 3, 25, 17, 10, 9, 0, 2, 10, 0, 0, 0, 0, 9, 0, 4, 53, 16,
      53, 6, 25, 1, 0, 9, 0, 25, 53, 6, 25, 0, 25, 9, 1, 3, 9, 0, 5, 53, 3, 25, 16, 2, 9,
      0, 6, 53, 36, 9, 101, 110, 9, 0, 106, 9, 1, 0, 9, 102, 114, 9, 0, 106, 9, 1, 16, 9,
      100, 101, 9, 0, 106, 9, 1, 32, 9, 106, 97, 9, 0, 106, 9, 1, 48, 9, 0, 8, 8, 255, 9,
      0, 9, 53, 8, 53, 6, 25, 17, 13, 9, 1, 3, 9, 1, 0, 37, 12, 65, 117, 100, 105, 111,
      32, 83, 111, 117, 114, 99, 101, 9, 3, 17, 9, 0, 1, 53, 146, 9, 0, 0, 10, 79, 73,
      17, 47, 9, 0, 1, 53, 3, 25, 17, 47, 9, 0, 2, 10, 0, 0, 0, 0, 9, 0, 4, 53, 17, 53,
      3, 25, 1, 0, 53, 5, 25, 0, 3, 8, 13, 53, 3, 25, 0, 8, 9, 0, 5, 53, 3, 25, 16, 2, 9,
      0, 6, 53, 36, 2, 5, 191]"

lemma browse_page5_response_read: "hex_decode browse_page5_response_hex = browse_page5_response"
  by code_simp

definition browse_page6_response :: bytes where
  "browse_page6_response =
     [7, 0, 6, 0, 251, 0, 246, 9, 101, 110, 9, 0, 106, 9, 1, 0, 9, 102, 114, 9, 0, 106,
      9, 1, 16, 9, 100, 101, 9, 0, 106, 9, 1, 32, 9, 106, 97, 9, 0, 106, 9, 1, 48, 9, 0,
      8, 8, 255, 9, 0, 9, 53, 8, 53, 6, 25, 17, 48, 9, 1, 2, 9, 1, 0, 37, 9, 80, 104,
      111, 110, 101, 98, 111, 111, 107, 9, 2, 0, 9, 16, 3, 9, 3, 20, 8, 9, 9, 3, 23, 10,
      0, 0, 0, 15, 53, 144, 9, 0, 0, 10, 79, 73, 17, 31, 9, 0, 1, 53, 6, 25, 17, 31, 25,
      18, 3, 9, 0, 2, 10, 0, 0, 0, 0, 9, 0, 4, 53, 12, 53, 3, 25, 1, 0, 53, 5, 25, 0, 3,
      8, 8, 9, 0, 5, 53, 3, 25, 16, 2, 9, 0, 6, 53, 36, 9, 101, 110, 9, 0, 106, 9, 1, 0,
      9, 102, 114, 9, 0, 106, 9, 1, 16, 9, 100, 101, 9, 0, 106, 9, 1, 32, 9, 106, 97, 9,
      0, 106, 9, 1, 48, 9, 0, 8, 8, 255, 9, 0, 9, 53, 8, 53, 6, 25, 17, 30, 9, 1, 8, 9,
      1, 0, 37, 17, 72, 97, 110, 100, 115, 102, 114, 101, 101, 32, 71, 97, 116, 101, 119,
      97, 121, 9, 3, 1, 8, 1, 9, 3, 17, 9, 0, 47, 53, 147, 9, 0, 0, 10, 79, 73, 18, 0, 9,
      0, 1, 2, 6, 181]"

lemma browse_page6_response_read: "hex_decode browse_page6_response_hex = browse_page6_response"
  by code_simp

definition browse_page7_response :: bytes where
  "browse_page7_response =
     [7, 0, 7, 0, 139, 0, 136, 53, 3, 25, 18, 0, 9, 0, 2, 10, 0, 0, 0, 0, 9, 0, 5, 53, 3,
      25, 16, 2, 9, 0, 6, 53, 36, 9, 101, 110, 9, 0, 106, 9, 1, 0, 9, 102, 114, 9, 0,
      106, 9, 1, 16, 9, 100, 101, 9, 0, 106, 9, 1, 32, 9, 106, 97, 9, 0, 106, 9, 1, 48,
      9, 0, 8, 8, 255, 9, 1, 1, 37, 15, 80, 110, 80, 32, 73, 110, 102, 111, 114, 109, 97,
      116, 105, 111, 110, 9, 2, 0, 9, 1, 2, 9, 2, 1, 9, 0, 76, 9, 2, 2, 9, 118, 30, 9, 2,
      3, 9, 17, 96, 9, 2, 4, 40, 1, 9, 2, 5, 9, 0, 1, 9, 160, 0, 10, 0, 160, 38, 196, 9,
      175, 255, 9, 0, 1, 0]"

lemma browse_page7_response_read: "hex_decode browse_page7_response_hex = browse_page7_response"
  by code_simp

definition browse_page0_request :: bytes where
  "browse_page0_request =
     [6, 0, 0, 0, 15, 53, 3, 25, 16, 2, 255, 255, 53, 5, 10, 0, 0, 255, 255, 0]"

lemma browse_page0_request_read: "hex_decode browse_page0_request_hex = browse_page0_request"
  by code_simp

definition browse_page1_request :: bytes where
  "browse_page1_request =
     [6, 0, 1, 0, 17, 53, 3, 25, 16, 2, 255, 255, 53, 5, 10, 0, 0, 255, 255, 2, 0, 243]"

lemma browse_page1_request_read: "hex_decode browse_page1_request_hex = browse_page1_request"
  by code_simp

end
