(* ===== verification/Regression_Codec.thy ===== *)
theory Regression_Codec
  imports Fixtures Encode Extract
begin

text \<open>
  The codec's tests over the captured PDUs, transcribed as executable predicates with the names
  of the tests, and evaluated: the model gives the answers the code is tested for.
\<close>

section \<open>src/codec/encode.rs\<close>

definition encodes_to :: "ServiceSearchAttributeRequest \<Rightarrow> bytes \<Rightarrow> bool" where
  "encodes_to request expected \<longleftrightarrow>
     (case encode bytes_model request of Inr actual \<Rightarrow> actual = expected | _ \<Rightarrow> False)"

definition encodes_pbap_request_matching_fixture :: bool where
  "encodes_pbap_request_matching_fixture \<longleftrightarrow>
     encodes_to
       \<lparr>req_transaction_id = 0x0000, service_uuid16 = 0x112f,
        maximum_attribute_byte_count = 0xffff, attribute_id_range = 0x0000ffff,
        req_continuation_state = []\<rparr>
       pbap_request"

definition encodes_map_request_matching_fixture :: bool where
  "encodes_map_request_matching_fixture \<longleftrightarrow>
     encodes_to
       \<lparr>req_transaction_id = 0x0000, service_uuid16 = 0x1132,
        maximum_attribute_byte_count = 0xffff, attribute_id_range = 0x0000ffff,
        req_continuation_state = []\<rparr>
       map_request"

definition encodes_browse_first_page_request_matching_fixture :: bool where
  "encodes_browse_first_page_request_matching_fixture \<longleftrightarrow>
     encodes_to
       \<lparr>req_transaction_id = 0x0000, service_uuid16 = 0x1002,
        maximum_attribute_byte_count = 0xffff, attribute_id_range = 0x0000ffff,
        req_continuation_state = []\<rparr>
       browse_page0_request"

definition encodes_browse_continuation_page_request_matching_fixture :: bool where
  "encodes_browse_continuation_page_request_matching_fixture \<longleftrightarrow>
     encodes_to
       \<lparr>req_transaction_id = 0x0001, service_uuid16 = 0x1002,
        maximum_attribute_byte_count = 0xffff, attribute_id_range = 0x0000ffff,
        req_continuation_state = [0x00, 0xf3]\<rparr>
       browse_page1_request"

section \<open>src/codec/response.rs and src/codec/extract.rs\<close>

definition find_attr :: "AttributeList \<Rightarrow> u16 \<Rightarrow> DataElement option" where
  "find_attr list ident = map_option snd (find (\<lambda>(attr_id, _). attr_id = ident) list)"

text \<open>The framed response and its attribute lists, with nothing left over by either parser.\<close>

definition decoded :: "bytes \<Rightarrow> (RawServiceSearchAttributeResponse \<times> AttributeList list) option" where
  "decoded bytes =
     (case raw_response nom_model bytes of
        Inr ([], raw) \<Rightarrow>
          (case decode_attribute_lists nom_model (attribute_bytes raw) of
             Some (Inr ([], als)) \<Rightarrow> Some (raw, als)
           | _ \<Rightarrow> None)
      | _ \<Rightarrow> None)"

definition decodes_pbap_response_fixture :: bool where
  "decodes_pbap_response_fixture \<longleftrightarrow>
     (case decoded pbap_response of
        Some (raw, [record]) \<Rightarrow>
          pdu_id (header raw) = 0x07 \<and> transaction_id (header raw) = 0x0000 \<and>
          continuation_state raw = [] \<and>
          find_attr record 0x0000 = Some (UnsignedInt 0x4f49112f) \<and>
          find_attr record 0x0001 = Some (Sequence [Uuid16 0x112f]) \<and>
          find_attr record 0x0004 =
            Some (Sequence [Sequence [Uuid16 0x0100],
              Sequence [Uuid16 0x0003, UnsignedInt 0x0d],
              Sequence [Uuid16 0x0008]])
      | _ \<Rightarrow> False)"

definition decodes_map_response_fixture :: bool where
  "decodes_map_response_fixture \<longleftrightarrow>
     (case decoded map_response of
        Some (_, [record]) \<Rightarrow>
          find_attr record 0x0001 = Some (Sequence [Uuid16 0x1132]) \<and>
          find_attr record 0x0004 =
            Some (Sequence [Sequence [Uuid16 0x0100],
              Sequence [Uuid16 0x0003, UnsignedInt 0x02],
              Sequence [Uuid16 0x0008]])
      | _ \<Rightarrow> False)"

definition decode_attribute_lists_rejects_a_record_with_an_odd_element_count :: bool where
  "decode_attribute_lists_rejects_a_record_with_an_odd_element_count \<longleftrightarrow>
     (case decode_attribute_lists nom_model
        [0x35, 0x08, 0x35, 0x06, 0x08, 0x00, 0x08, 0x00, 0x08, 0xff] of
        Some (Inl _) \<Rightarrow> True | _ \<Rightarrow> False)"

definition raw_response_frames_a_continuation_fragment_without_decoding_it :: bool where
  "raw_response_frames_a_continuation_fragment_without_decoding_it \<longleftrightarrow>
     (case raw_response nom_model browse_page0_response of
        Inr ([], raw) \<Rightarrow>
          continuation_state raw = [0x00, 0xf3] \<and>
          (case decode_attribute_lists nom_model (attribute_bytes raw) of
             Some (Inl _) \<Rightarrow> True | _ \<Rightarrow> False)
      | _ \<Rightarrow> False)"

definition raw_response_reports_empty_continuation_state_on_final_page :: bool where
  "raw_response_reports_empty_continuation_state_on_final_page \<longleftrightarrow>
     (case raw_response nom_model browse_page7_response of
        Inr (_, raw) \<Rightarrow> continuation_state raw = []
      | _ \<Rightarrow> False)"

lemma encode_tests:
  encodes_pbap_request_matching_fixture
  encodes_map_request_matching_fixture
  encodes_browse_first_page_request_matching_fixture
  encodes_browse_continuation_page_request_matching_fixture
  by code_simp+

lemma response_tests:
  decodes_pbap_response_fixture
  decodes_map_response_fixture
  decode_attribute_lists_rejects_a_record_with_an_odd_element_count
  raw_response_frames_a_continuation_fragment_without_decoding_it
  raw_response_reports_empty_continuation_state_on_final_page
  by code_simp+

end
