(* ===== verification/Regression_Session.thy ===== *)
theory Regression_Session
  imports Regression_Codec Public
begin

text \<open>
  The tests of \<^verbatim>\<open>src/transport/session.rs\<close> over the captured PDUs, transcribed as executable
  predicates with the names of the tests. The server tasks are the scripted peer. The exchanges
  are discharged by the theorem on the scripted peer, the decoding is evaluated.
\<close>

section \<open>src/transport/session.rs\<close>

definition finds_channel_13_for_single_page_pbap_response :: bool where
  "finds_channel_13_for_single_page_pbap_response \<longleftrightarrow>
     (case find_rfcomm_channel nom_model bytes_model peer_tokio (peer_of [prompt pbap_response])
        0x112f of
        Some (Inr channel, _) \<Rightarrow> channel = Some 13
      | _ \<Rightarrow> False)"

definition finds_channel_2_for_single_page_map_response :: bool where
  "finds_channel_2_for_single_page_map_response \<longleftrightarrow>
     (case find_rfcomm_channel nom_model bytes_model peer_tokio (peer_of [prompt map_response])
        0x1132 of
        Some (Inr channel, _) \<Rightarrow> channel = Some 2
      | _ \<Rightarrow> False)"

definition browse_pages :: "bytes list" where
  "browse_pages =
     [browse_page0_response, browse_page1_response, browse_page2_response, browse_page3_response,
      browse_page4_response, browse_page5_response, browse_page6_response, browse_page7_response]"

text \<open>\<^verbatim>\<open>body.windows(3).position(|w| w == marker)\<close>\<close>

fun window_position :: "bytes \<Rightarrow> bytes \<Rightarrow> nat option" where
  "window_position marker [] = None"
| "window_position marker (b # bs) =
     (if take (length marker) (b # bs) = marker then Some 0
      else map_option Suc (window_position marker bs))"

definition continuation_state_from_request_body :: "bytes \<Rightarrow> bytes option" where
  "continuation_state_from_request_body body =
     (let attribute_id_list_marker = [0x35, 0x05, 0x0a] in
      case window_position attribute_id_list_marker body of
        None \<Rightarrow> None
      | Some marker_pos \<Rightarrow>
          (let after_attribute_id_list = marker_pos + length attribute_id_list_marker + 4 in
           if length body \<le> after_attribute_id_list then None
           else if body ! after_attribute_id_list = 0 then None
           else Some (drop (after_attribute_id_list + 1) body)))"

definition EXPECTED_CONTINUATION_REQUESTS :: "bytes list" where
  "EXPECTED_CONTINUATION_REQUESTS =
     [[0x00, 0xf3], [0x01, 0xe9], [0x02, 0xdf], [0x03, 0xd5], [0x04, 0xcb], [0x05, 0xbf],
      [0x06, 0xb5]]"

text \<open>What the server task of the test sees in the bytes of the requests for a number of pages.\<close>

fun seen_continuations :: "nat \<Rightarrow> bytes \<Rightarrow> bytes list" where
  "seen_continuations 0 log = []"
| "seen_continuations (Suc n) log =
     (case continuation_state_from_request_body (drop 5 (take (pdu_size log) log)) of
        None \<Rightarrow> seen_continuations n (drop (pdu_size log) log)
      | Some blob \<Rightarrow> blob # seen_continuations n (drop (pdu_size log) log))"

definition drives_all_eight_pages_and_requests_correct_continuation_each_time :: bool where
  "drives_all_eight_pages_and_requests_correct_continuation_each_time \<longleftrightarrow>
     (case find_rfcomm_channel nom_model bytes_model peer_tokio
        (peer_of (map prompt browse_pages)) 0x1002 of
        Some (Inr channel, client) \<Rightarrow>
          seen_continuations 8 (sent_log client) = EXPECTED_CONTINUATION_REQUESTS \<and>
          channel = Some 2
      | _ \<Rightarrow> False)"

section \<open>The captured responses\<close>

definition pbap_raw :: RawServiceSearchAttributeResponse where
  "pbap_raw =
     \<lparr>header = \<lparr>pdu_id = 0x07, transaction_id = 0, parameter_length = 153\<rparr>,
      attribute_bytes = take 150 (drop 7 pbap_response), continuation_state = []\<rparr>"

definition map_raw :: RawServiceSearchAttributeResponse where
  "map_raw =
     \<lparr>header = \<lparr>pdu_id = 0x07, transaction_id = 0, parameter_length = 160\<rparr>,
      attribute_bytes = take 157 (drop 7 map_response), continuation_state = []\<rparr>"

definition browse_page0_raw :: RawServiceSearchAttributeResponse where
  "browse_page0_raw =
     \<lparr>header = \<lparr>pdu_id = 0x07, transaction_id = 0, parameter_length = 251\<rparr>,
      attribute_bytes = take 246 (drop 7 browse_page0_response), continuation_state = [0, 243]\<rparr>"

definition browse_page1_raw :: RawServiceSearchAttributeResponse where
  "browse_page1_raw =
     \<lparr>header = \<lparr>pdu_id = 0x07, transaction_id = 1, parameter_length = 251\<rparr>,
      attribute_bytes = take 246 (drop 7 browse_page1_response), continuation_state = [1, 233]\<rparr>"

definition browse_page2_raw :: RawServiceSearchAttributeResponse where
  "browse_page2_raw =
     \<lparr>header = \<lparr>pdu_id = 0x07, transaction_id = 2, parameter_length = 251\<rparr>,
      attribute_bytes = take 246 (drop 7 browse_page2_response), continuation_state = [2, 223]\<rparr>"

definition browse_page3_raw :: RawServiceSearchAttributeResponse where
  "browse_page3_raw =
     \<lparr>header = \<lparr>pdu_id = 0x07, transaction_id = 3, parameter_length = 251\<rparr>,
      attribute_bytes = take 246 (drop 7 browse_page3_response), continuation_state = [3, 213]\<rparr>"

definition browse_page4_raw :: RawServiceSearchAttributeResponse where
  "browse_page4_raw =
     \<lparr>header = \<lparr>pdu_id = 0x07, transaction_id = 4, parameter_length = 251\<rparr>,
      attribute_bytes = take 246 (drop 7 browse_page4_response), continuation_state = [4, 203]\<rparr>"

definition browse_page5_raw :: RawServiceSearchAttributeResponse where
  "browse_page5_raw =
     \<lparr>header = \<lparr>pdu_id = 0x07, transaction_id = 5, parameter_length = 249\<rparr>,
      attribute_bytes = take 244 (drop 7 browse_page5_response), continuation_state = [5, 191]\<rparr>"

definition browse_page6_raw :: RawServiceSearchAttributeResponse where
  "browse_page6_raw =
     \<lparr>header = \<lparr>pdu_id = 0x07, transaction_id = 6, parameter_length = 251\<rparr>,
      attribute_bytes = take 246 (drop 7 browse_page6_response), continuation_state = [6, 181]\<rparr>"

definition browse_page7_raw :: RawServiceSearchAttributeResponse where
  "browse_page7_raw =
     \<lparr>header = \<lparr>pdu_id = 0x07, transaction_id = 7, parameter_length = 139\<rparr>,
      attribute_bytes = take 136 (drop 7 browse_page7_response), continuation_state = []\<rparr>"

lemma raw_bytes:
  "response_bytes pbap_raw = pbap_response"
  "response_bytes map_raw = map_response"
  "response_bytes browse_page0_raw = browse_page0_response"
  "response_bytes browse_page1_raw = browse_page1_response"
  "response_bytes browse_page2_raw = browse_page2_response"
  "response_bytes browse_page3_raw = browse_page3_response"
  "response_bytes browse_page4_raw = browse_page4_response"
  "response_bytes browse_page5_raw = browse_page5_response"
  "response_bytes browse_page6_raw = browse_page6_response"
  "response_bytes browse_page7_raw = browse_page7_response"
  by code_simp+

lemmas raw_defs =
  pbap_raw_def pbap_response_def
  map_raw_def map_response_def
  browse_page0_raw_def browse_page0_response_def
  browse_page1_raw_def browse_page1_response_def
  browse_page2_raw_def browse_page2_response_def
  browse_page3_raw_def browse_page3_response_def
  browse_page4_raw_def browse_page4_response_def
  browse_page5_raw_def browse_page5_response_def
  browse_page6_raw_def browse_page6_response_def
  browse_page7_raw_def browse_page7_response_def

lemma raw_well_formed:
  "well_formed_response pbap_raw"
  "well_formed_response map_raw"
  "well_formed_response browse_page0_raw"
  "well_formed_response browse_page1_raw"
  "well_formed_response browse_page2_raw"
  "well_formed_response browse_page3_raw"
  "well_formed_response browse_page4_raw"
  "well_formed_response browse_page5_raw"
  "well_formed_response browse_page6_raw"
  "well_formed_response browse_page7_raw"
  by (simp_all add: well_formed_response_def response_fits_def raw_defs)

lemma raw_continuation:
  "continuation_state pbap_raw = []"
  "continuation_state map_raw = []"
  "continuation_state browse_page0_raw = [0, 243]"
  "continuation_state browse_page1_raw = [1, 233]"
  "continuation_state browse_page2_raw = [2, 223]"
  "continuation_state browse_page3_raw = [3, 213]"
  "continuation_state browse_page4_raw = [4, 203]"
  "continuation_state browse_page5_raw = [5, 191]"
  "continuation_state browse_page6_raw = [6, 181]"
  "continuation_state browse_page7_raw = []"
  by (simp_all add: raw_defs)

definition browse_raws :: "RawServiceSearchAttributeResponse list" where
  "browse_raws =
     [browse_page0_raw, browse_page1_raw, browse_page2_raw, browse_page3_raw, browse_page4_raw,
      browse_page5_raw, browse_page6_raw, browse_page7_raw]"

text \<open>The channels of the records that some attribute bytes decode to.\<close>

definition decoded_channels :: "bytes \<Rightarrow> u8 option list option" where
  "decoded_channels attrs =
     (case decode_attribute_lists nom_model attrs of
        Some (Inr (_, als)) \<Rightarrow> Some (map rfcomm_channel als)
      | _ \<Rightarrow> None)"

lemma pbap_channels: "decoded_channels (attribute_bytes pbap_raw) = Some [Some 13]"
  by code_simp

lemma map_channels: "decoded_channels (attribute_bytes map_raw) = Some [Some 2]"
  by code_simp

text \<open>
  The browse response is one sequence of twelve records over eight pages. It is evaluated record
  by record, with a fuel that the records do not exhaust; the wire format puts them together.
\<close>

definition record_channel :: "bytes \<Rightarrow> u8 option option" where
  "record_channel bs =
     (case data_element_fuel nom_model 64 bs of
        Some (Inr ([], e)) \<Rightarrow>
          (case record_attributes nom_model e of
             Inr al \<Rightarrow> Some (rfcomm_channel al)
           | _ \<Rightarrow> None)
      | _ \<Rightarrow> None)"

definition browse_record0 :: bytes where
  "browse_record0 =
     [53, 111, 9, 0, 0, 10, 79, 73, 24, 1, 9, 0, 1, 53, 3, 25, 24, 1, 9, 0, 2, 10, 0, 0, 0,
      0, 9, 0, 4, 53, 19, 53, 6, 25, 1, 0, 9, 0, 31, 53, 9, 25, 0, 7, 9, 0, 1, 9, 0, 14, 9,
      0, 5, 53, 3, 25, 16, 2, 9, 0, 6, 53, 36, 9, 101, 110, 9, 0, 106, 9, 1, 0, 9, 102,
      114, 9, 0, 106, 9, 1, 16, 9, 100, 101, 9, 0, 106, 9, 1, 32, 9, 106, 97, 9, 0, 106, 9,
      1, 48, 9, 0, 8, 8, 255, 9, 1, 0, 37, 4, 71, 65, 84, 84]"

definition browse_record1 :: bytes where
  "browse_record1 =
     [53, 147, 9, 0, 0, 10, 79, 73, 238, 128, 9, 0, 1, 53, 17, 28, 31, 243, 25, 54, 87, 46,
      75, 54, 162, 191, 178, 64, 155, 26, 166, 244, 9, 0, 2, 10, 0, 0, 0, 0, 9, 0, 4, 53,
      8, 53, 6, 25, 1, 0, 9, 16, 9, 9, 0, 5, 53, 3, 25, 16, 2, 9, 0, 6, 53, 36, 9, 101,
      110, 9, 0, 106, 9, 1, 0, 9, 102, 114, 9, 0, 106, 9, 1, 16, 9, 100, 101, 9, 0, 106, 9,
      1, 32, 9, 106, 97, 9, 0, 106, 9, 1, 48, 9, 0, 8, 8, 255, 9, 0, 9, 53, 22, 53, 20, 28,
      75, 111, 124, 116, 7, 244, 73, 222, 176, 185, 171, 67, 4, 114, 143, 41, 9, 1, 0, 9,
      1, 0, 37, 10, 65, 65, 80, 32, 67, 108, 105, 101, 110, 116]"

definition browse_record2 :: bytes where
  "browse_record2 =
     [53, 153, 9, 0, 0, 10, 79, 73, 17, 50, 9, 0, 1, 53, 3, 25, 17, 50, 9, 0, 2, 10, 0, 0,
      0, 0, 9, 0, 4, 53, 17, 53, 3, 25, 1, 0, 53, 5, 25, 0, 3, 8, 2, 53, 3, 25, 0, 8, 9, 0,
      5, 53, 3, 25, 16, 2, 9, 0, 6, 53, 36, 9, 101, 110, 9, 0, 106, 9, 1, 0, 9, 102, 114,
      9, 0, 106, 9, 1, 16, 9, 100, 101, 9, 0, 106, 9, 1, 32, 9, 106, 97, 9, 0, 106, 9, 1,
      48, 9, 0, 8, 8, 255, 9, 0, 9, 53, 8, 53, 6, 25, 17, 52, 9, 1, 4, 9, 1, 0, 37, 11, 77,
      65, 80, 32, 77, 65, 83, 45, 105, 79, 83, 9, 2, 0, 9, 16, 7, 9, 3, 21, 8, 0, 9, 3, 22,
      8, 2, 9, 3, 23, 10, 0, 6, 2, 127]"

definition browse_record3 :: bytes where
  "browse_record3 =
     [53, 202, 9, 0, 0, 10, 79, 73, 17, 22, 9, 0, 1, 53, 3, 25, 17, 22, 9, 0, 2, 10, 0, 0,
      0, 7, 9, 0, 4, 53, 30, 53, 6, 25, 1, 0, 9, 0, 15, 53, 20, 25, 0, 15, 9, 1, 0, 53, 12,
      9, 8, 0, 9, 8, 6, 9, 129, 0, 9, 134, 221, 9, 0, 5, 53, 3, 25, 16, 2, 9, 0, 6, 53, 36,
      9, 101, 110, 9, 0, 106, 9, 1, 0, 9, 102, 114, 9, 0, 106, 9, 1, 16, 9, 100, 101, 9, 0,
      106, 9, 1, 32, 9, 106, 97, 9, 0, 106, 9, 1, 48, 9, 0, 8, 8, 0, 9, 0, 9, 53, 8, 53, 6,
      25, 17, 22, 9, 1, 0, 9, 1, 0, 37, 26, 80, 65, 78, 32, 78, 101, 116, 119, 111, 114,
      107, 32, 65, 99, 99, 101, 115, 115, 32, 80, 114, 111, 102, 105, 108, 101, 9, 1, 1,
      37, 20, 78, 101, 116, 119, 111, 114, 107, 32, 65, 99, 99, 101, 115, 115, 32, 80, 111,
      105, 110, 116, 9, 3, 10, 9, 0, 1, 9, 3, 11, 9, 0, 13, 9, 3, 12, 10, 0, 3, 232, 0]"

definition browse_record4 :: bytes where
  "browse_record4 =
     [53, 142, 9, 0, 0, 10, 79, 73, 82, 88, 9, 0, 1, 53, 17, 28, 2, 3, 3, 2, 29, 25, 65,
      95, 134, 242, 34, 162, 16, 106, 10, 119, 9, 0, 2, 10, 0, 0, 0, 0, 9, 0, 4, 53, 12,
      53, 3, 25, 1, 0, 53, 5, 25, 0, 3, 8, 1, 9, 0, 5, 53, 3, 25, 16, 2, 9, 0, 6, 53, 36,
      9, 101, 110, 9, 0, 106, 9, 1, 0, 9, 102, 114, 9, 0, 106, 9, 1, 16, 9, 100, 101, 9, 0,
      106, 9, 1, 32, 9, 106, 97, 9, 0, 106, 9, 1, 48, 9, 0, 8, 8, 255, 9, 0, 9, 53, 8, 53,
      6, 25, 17, 1, 9, 1, 2, 9, 1, 0, 37, 15, 87, 105, 114, 101, 108, 101, 115, 115, 32,
      105, 65, 80, 32, 118, 50]"

definition browse_record5 :: bytes where
  "browse_record5 =
     [53, 139, 9, 0, 0, 10, 79, 73, 82, 56, 9, 0, 1, 53, 17, 28, 0, 0, 0, 0, 222, 202, 250,
      222, 222, 202, 222, 175, 222, 202, 202, 254, 9, 0, 2, 10, 0, 0, 0, 0, 9, 0, 4, 53,
      12, 53, 3, 25, 1, 0, 53, 5, 25, 0, 3, 8, 1, 9, 0, 5, 53, 3, 25, 16, 2, 9, 0, 6, 53,
      36, 9, 101, 110, 9, 0, 106, 9, 1, 0, 9, 102, 114, 9, 0, 106, 9, 1, 16, 9, 100, 101,
      9, 0, 106, 9, 1, 32, 9, 106, 97, 9, 0, 106, 9, 1, 48, 9, 0, 8, 8, 255, 9, 0, 9, 53,
      8, 53, 6, 25, 17, 1, 9, 1, 2, 9, 1, 0, 37, 12, 87, 105, 114, 101, 108, 101, 115, 115,
      32, 105, 65, 80]"

definition browse_record6 :: bytes where
  "browse_record6 =
     [53, 164, 9, 0, 0, 10, 79, 73, 17, 14, 9, 0, 1, 53, 6, 25, 17, 14, 25, 17, 15, 9, 0,
      2, 10, 0, 0, 0, 0, 9, 0, 4, 53, 16, 53, 6, 25, 1, 0, 9, 0, 23, 53, 6, 25, 0, 23, 9,
      1, 4, 9, 0, 5, 53, 3, 25, 16, 2, 9, 0, 6, 53, 36, 9, 101, 110, 9, 0, 106, 9, 1, 0, 9,
      102, 114, 9, 0, 106, 9, 1, 16, 9, 100, 101, 9, 0, 106, 9, 1, 32, 9, 106, 97, 9, 0,
      106, 9, 1, 48, 9, 0, 8, 8, 255, 9, 0, 9, 53, 8, 53, 6, 25, 17, 14, 9, 1, 5, 9, 1, 0,
      37, 12, 65, 86, 82, 67, 80, 32, 68, 101, 118, 105, 99, 101, 9, 1, 1, 37, 21, 82, 101,
      109, 111, 116, 101, 32, 67, 111, 110, 116, 114, 111, 108, 32, 68, 101, 118, 105, 99,
      101, 9, 3, 17, 9, 0, 2]"

definition browse_record7 :: bytes where
  "browse_record7 =
     [53, 199, 9, 0, 0, 10, 79, 73, 17, 12, 9, 0, 1, 53, 3, 25, 17, 12, 9, 0, 2, 10, 0, 0,
      0, 0, 9, 0, 4, 53, 16, 53, 6, 25, 1, 0, 9, 0, 23, 53, 6, 25, 0, 23, 9, 1, 4, 9, 0, 5,
      53, 3, 25, 16, 2, 9, 0, 6, 53, 36, 9, 101, 110, 9, 0, 106, 9, 1, 0, 9, 102, 114, 9,
      0, 106, 9, 1, 16, 9, 100, 101, 9, 0, 106, 9, 1, 32, 9, 106, 97, 9, 0, 106, 9, 1, 48,
      9, 0, 8, 8, 255, 9, 0, 9, 53, 8, 53, 6, 25, 17, 14, 9, 1, 6, 9, 0, 13, 53, 33, 53,
      16, 53, 6, 25, 1, 0, 9, 0, 27, 53, 6, 25, 0, 23, 9, 1, 4, 53, 13, 53, 6, 25, 1, 0, 9,
      16, 5, 53, 3, 25, 0, 8, 9, 1, 0, 37, 12, 65, 86, 82, 67, 80, 32, 68, 101, 118, 105,
      99, 101, 9, 1, 1, 37, 21, 82, 101, 109, 111, 116, 101, 32, 67, 111, 110, 116, 114,
      111, 108, 32, 68, 101, 118, 105, 99, 101, 9, 3, 17, 9, 1, 209]"

definition browse_record8 :: bytes where
  "browse_record8 =
     [53, 135, 9, 0, 0, 10, 79, 73, 17, 10, 9, 0, 1, 53, 3, 25, 17, 10, 9, 0, 2, 10, 0, 0,
      0, 0, 9, 0, 4, 53, 16, 53, 6, 25, 1, 0, 9, 0, 25, 53, 6, 25, 0, 25, 9, 1, 3, 9, 0, 5,
      53, 3, 25, 16, 2, 9, 0, 6, 53, 36, 9, 101, 110, 9, 0, 106, 9, 1, 0, 9, 102, 114, 9,
      0, 106, 9, 1, 16, 9, 100, 101, 9, 0, 106, 9, 1, 32, 9, 106, 97, 9, 0, 106, 9, 1, 48,
      9, 0, 8, 8, 255, 9, 0, 9, 53, 8, 53, 6, 25, 17, 13, 9, 1, 3, 9, 1, 0, 37, 12, 65,
      117, 100, 105, 111, 32, 83, 111, 117, 114, 99, 101, 9, 3, 17, 9, 0, 1]"

definition browse_record9 :: bytes where
  "browse_record9 =
     [53, 146, 9, 0, 0, 10, 79, 73, 17, 47, 9, 0, 1, 53, 3, 25, 17, 47, 9, 0, 2, 10, 0, 0,
      0, 0, 9, 0, 4, 53, 17, 53, 3, 25, 1, 0, 53, 5, 25, 0, 3, 8, 13, 53, 3, 25, 0, 8, 9,
      0, 5, 53, 3, 25, 16, 2, 9, 0, 6, 53, 36, 9, 101, 110, 9, 0, 106, 9, 1, 0, 9, 102,
      114, 9, 0, 106, 9, 1, 16, 9, 100, 101, 9, 0, 106, 9, 1, 32, 9, 106, 97, 9, 0, 106, 9,
      1, 48, 9, 0, 8, 8, 255, 9, 0, 9, 53, 8, 53, 6, 25, 17, 48, 9, 1, 2, 9, 1, 0, 37, 9,
      80, 104, 111, 110, 101, 98, 111, 111, 107, 9, 2, 0, 9, 16, 3, 9, 3, 20, 8, 9, 9, 3,
      23, 10, 0, 0, 0, 15]"

definition browse_record10 :: bytes where
  "browse_record10 =
     [53, 144, 9, 0, 0, 10, 79, 73, 17, 31, 9, 0, 1, 53, 6, 25, 17, 31, 25, 18, 3, 9, 0, 2,
      10, 0, 0, 0, 0, 9, 0, 4, 53, 12, 53, 3, 25, 1, 0, 53, 5, 25, 0, 3, 8, 8, 9, 0, 5, 53,
      3, 25, 16, 2, 9, 0, 6, 53, 36, 9, 101, 110, 9, 0, 106, 9, 1, 0, 9, 102, 114, 9, 0,
      106, 9, 1, 16, 9, 100, 101, 9, 0, 106, 9, 1, 32, 9, 106, 97, 9, 0, 106, 9, 1, 48, 9,
      0, 8, 8, 255, 9, 0, 9, 53, 8, 53, 6, 25, 17, 30, 9, 1, 8, 9, 1, 0, 37, 17, 72, 97,
      110, 100, 115, 102, 114, 101, 101, 32, 71, 97, 116, 101, 119, 97, 121, 9, 3, 1, 8, 1,
      9, 3, 17, 9, 0, 47]"

definition browse_record11 :: bytes where
  "browse_record11 =
     [53, 147, 9, 0, 0, 10, 79, 73, 18, 0, 9, 0, 1, 53, 3, 25, 18, 0, 9, 0, 2, 10, 0, 0, 0,
      0, 9, 0, 5, 53, 3, 25, 16, 2, 9, 0, 6, 53, 36, 9, 101, 110, 9, 0, 106, 9, 1, 0, 9,
      102, 114, 9, 0, 106, 9, 1, 16, 9, 100, 101, 9, 0, 106, 9, 1, 32, 9, 106, 97, 9, 0,
      106, 9, 1, 48, 9, 0, 8, 8, 255, 9, 1, 1, 37, 15, 80, 110, 80, 32, 73, 110, 102, 111,
      114, 109, 97, 116, 105, 111, 110, 9, 2, 0, 9, 1, 2, 9, 2, 1, 9, 0, 76, 9, 2, 2, 9,
      118, 30, 9, 2, 3, 9, 17, 96, 9, 2, 4, 40, 1, 9, 2, 5, 9, 0, 1, 9, 160, 0, 10, 0, 160,
      38, 196, 9, 175, 255, 9, 0, 1]"

lemmas browse_record_defs =
  browse_record0_def browse_record1_def browse_record2_def browse_record3_def
  browse_record4_def browse_record5_def browse_record6_def browse_record7_def
  browse_record8_def browse_record9_def browse_record10_def browse_record11_def

definition browse_records :: "bytes list" where
  "browse_records =
     [browse_record0, browse_record1, browse_record2, browse_record3,
      browse_record4, browse_record5, browse_record6, browse_record7,
      browse_record8, browse_record9, browse_record10, browse_record11]"

lemma browse_record0_channel: "record_channel browse_record0 = Some None"
  by code_simp

lemma browse_record1_channel: "record_channel browse_record1 = Some None"
  by code_simp

lemma browse_record2_channel: "record_channel browse_record2 = Some (Some 2)"
  by code_simp

lemma browse_record3_channel: "record_channel browse_record3 = Some None"
  by code_simp

lemma browse_record4_channel: "record_channel browse_record4 = Some (Some 1)"
  by code_simp

lemma browse_record5_channel: "record_channel browse_record5 = Some (Some 1)"
  by code_simp

lemma browse_record6_channel: "record_channel browse_record6 = Some None"
  by code_simp

lemma browse_record7_channel: "record_channel browse_record7 = Some None"
  by code_simp

lemma browse_record8_channel: "record_channel browse_record8 = Some None"
  by code_simp

lemma browse_record9_channel: "record_channel browse_record9 = Some (Some 13)"
  by code_simp

lemma browse_record10_channel: "record_channel browse_record10 = Some (Some 8)"
  by code_simp

lemma browse_record11_channel: "record_channel browse_record11 = Some None"
  by code_simp

lemma browse_attributes:
  "concat (map attribute_bytes browse_raws) = [0x36, 0x07, 0x3d] @ concat browse_records"
  by code_simp

section \<open>The tests pass\<close>

lemma find_map_id: "find_map f xs = find_map (\<lambda>y. y) (map f xs)"
  by (induction xs) (auto split: option.splits)

lemma decoded_channels_value:
  assumes "decoded_channels attrs = Some xs"
  shows "query_value attrs (Inr (find_map (\<lambda>y. y) xs))"
proof -
  from assms obtain rest als where "decode_attribute_lists nom_model attrs = Some (Inr (rest, als))"
    "xs = map rfcomm_channel als"
    by (auto simp: decoded_channels_def split: option.splits sum.splits)
  then show ?thesis
    using nom_std.decode_attribute_lists_iff [of attrs rest als] find_map_id [of rfcomm_channel als]
    unfolding query_value_def attributes_say_def by metis
qed

lemma find_on_peer_channels:
  assumes "paged rs" "list_all well_formed_response rs"
    and "query_value (concat (map attribute_bytes rs)) v"
    and "ps = map response_bytes rs"
  shows "find_rfcomm_channel nom_model bytes_model peer_tokio (peer_of (map prompt ps)) uuid =
    Some (v, (peer_of [])\<lparr>sent_log := concat (requests uuid 0 [] rs), received_log := concat ps\<rparr>)"
proof -
  have "map prompt ps = responses rs"
    using assms(4) by (simp add: responses_def)
  with assms(4) codec_std.find_on_peer_value [OF assms(1-3), of uuid] show ?thesis
    by simp
qed

lemma record_channels_wire:
  "list_all2 (\<lambda>bs x. record_channel bs = Some x) rs xs \<Longrightarrow>
   \<exists>es als. elements_wire (concat rs) es \<and> list_all2 record_carries es als \<and>
     map rfcomm_channel als = xs"
proof (induction rule: list_all2_induct)
  case Nil
  then show ?case
    by (auto intro: nil_wire)
next
  case (Cons bs rs x xs)
  then obtain es als where rest: "elements_wire (concat rs) es" "list_all2 record_carries es als"
    "map rfcomm_channel als = xs"
    by blast
  from Cons.hyps obtain e al where fst: "data_element_fuel nom_model 64 bs = Some (Inr ([], e))"
    "record_attributes nom_model e = Inr al" "rfcomm_channel al = x"
    by (auto simp: record_channel_def split: option.splits sum.splits prod.splits list.splits)
  have "element_wire bs e"
    using nom_std.fuel_sound [of 64] fst(1) by fastforce
  moreover have "record_carries e al"
    using fst(2) by (simp add: nom_std.record_attributes_iff)
  ultimately have "elements_wire (concat (bs # rs)) (e # es) \<and>
      list_all2 record_carries (e # es) (al # als) \<and> map rfcomm_channel (al # als) = x # xs"
    using rest fst(3) by (simp add: cons_wire)
  then show ?case
    by (intro exI)
qed

lemma browse_value: "query_value (concat (map attribute_bytes browse_raws)) (Inr (Some 2))"
proof -
  let ?xs = "[None, None, Some 2, None, Some 1, Some 1, None, None, None, Some 13, Some 8, None]"
  have "list_all2 (\<lambda>bs x. record_channel bs = Some x) browse_records ?xs"
    by (simp add: browse_records_def browse_record0_channel browse_record1_channel
        browse_record2_channel browse_record3_channel browse_record4_channel
        browse_record5_channel browse_record6_channel browse_record7_channel
        browse_record8_channel browse_record9_channel browse_record10_channel
        browse_record11_channel)
  from record_channels_wire [OF this]
  obtain es als where es: "elements_wire (concat browse_records) es"
    "list_all2 record_carries es als" and als: "map rfcomm_channel als = ?xs"
    by (elim exE conjE)
  have "length (concat browse_records) = 1853"
    by (simp add: browse_records_def browse_record_defs)
  moreover have "header_wire 6 VarLen16 1853 [0x36, 0x07, 0x3d]"
    by (rule header_wireI [where i = 6])
      (simp_all add: descriptor_byte_def resolve_size_def be_value_def)
  ultimately have "element_wire ([0x36, 0x07, 0x3d] @ concat browse_records) (Sequence es)"
    using es(1) by (intro sequence_wire) simp_all
  with es(2) have "attributes_say (concat (map attribute_bytes browse_raws)) als"
    unfolding browse_attributes by (intro attributes_sayI [where outer = "Sequence es"]) simp_all
  moreover have "find_map rfcomm_channel als = Some 2"
    by (subst find_map_id) (simp add: als)
  ultimately show ?thesis
    unfolding query_value_def by metis
qed

lemma browse_run:
  "find_rfcomm_channel nom_model bytes_model peer_tokio (peer_of (map prompt browse_pages)) uuid =
     Some (Inr (Some 2), (peer_of [])\<lparr>sent_log := concat (requests uuid 0 [] browse_raws),
       received_log := concat browse_pages\<rparr>)"
proof (rule find_on_peer_channels)
  show "paged browse_raws"
    by (simp add: browse_raws_def raw_continuation)
  show "list_all well_formed_response browse_raws"
    by (simp add: browse_raws_def raw_well_formed)
  show "browse_pages = map response_bytes browse_raws"
    by (simp add: browse_pages_def browse_raws_def raw_bytes)
qed (rule browse_value)

lemma seen: "seen_continuations 8 (concat (requests 0x1002 0 [] browse_raws)) =
    EXPECTED_CONTINUATION_REQUESTS"
  by code_simp

lemma pbap_run:
  "find_rfcomm_channel nom_model bytes_model peer_tokio (peer_of [prompt pbap_response]) uuid =
     Some (Inr (Some 13), (peer_of [])\<lparr>sent_log := request_for uuid 0 [],
       received_log := pbap_response\<rparr>)"
  using find_on_peer_channels [of "[pbap_raw]" "Inr (Some 13)" "[pbap_response]" uuid]
    decoded_channels_value [OF pbap_channels]
  by (simp add: raw_well_formed raw_bytes raw_continuation)

lemma map_run:
  "find_rfcomm_channel nom_model bytes_model peer_tokio (peer_of [prompt map_response]) uuid =
     Some (Inr (Some 2), (peer_of [])\<lparr>sent_log := request_for uuid 0 [],
       received_log := map_response\<rparr>)"
  using find_on_peer_channels [of "[map_raw]" "Inr (Some 2)" "[map_response]" uuid]
    decoded_channels_value [OF map_channels]
  by (simp add: raw_well_formed raw_bytes raw_continuation)

lemma single_page_tests:
  finds_channel_13_for_single_page_pbap_response
  finds_channel_2_for_single_page_map_response
  by (simp_all add: finds_channel_13_for_single_page_pbap_response_def pbap_run
      finds_channel_2_for_single_page_map_response_def map_run)

definition drives_full_continuation_sequence_and_finds_all_12_records :: bool where
  "drives_full_continuation_sequence_and_finds_all_12_records \<longleftrightarrow>
     (case find_rfcomm_channel nom_model bytes_model peer_tokio
        (peer_of (map prompt browse_pages)) 0x1002 of
        Some (Inr channel, _) \<Rightarrow> channel = Some 2
      | _ \<Rightarrow> False)"

lemma full_sequence_test: drives_full_continuation_sequence_and_finds_all_12_records
  by (simp add: drives_full_continuation_sequence_and_finds_all_12_records_def browse_run)

text \<open>The number of requests is the number of complete PDUs the client has sent.\<close>

fun request_count :: "nat \<Rightarrow> bytes \<Rightarrow> nat" where
  "request_count 0 log = 0"
| "request_count (Suc n) log =
     (if has_pdu log then Suc (request_count n (drop (pdu_size log) log)) else 0)"

lemma request_count_Nil: "request_count n [] = 0"
  by (cases n) (simp_all add: has_pdu_def)

definition single_page_response_makes_exactly_one_request :: bool where
  "single_page_response_makes_exactly_one_request \<longleftrightarrow>
     (case find_rfcomm_channel nom_model bytes_model peer_tokio (peer_of [prompt pbap_response])
        0x112f of
        Some (Inr channel, client) \<Rightarrow>
          request_count (length (sent_log client)) (sent_log client) = 1 \<and> channel = Some 13
      | _ \<Rightarrow> False)"

lemma one_request: "request_count (length (request_for uuid 0 [])) (request_for uuid 0 []) = 1"
proof -
  note complete_pdu_size [OF request_for_complete [of "[]" uuid 0]]
  moreover have "length (request_for uuid 0 []) = Suc 19"
    by (simp add: length_request_for)
  ultimately show ?thesis
    by (simp only: request_count.simps if_True) (simp add: request_count_Nil)
qed

lemma single_request_test: single_page_response_makes_exactly_one_request
  using pbap_run [of "0x112f"]
  by (simp add: single_page_response_makes_exactly_one_request_def one_request)

text \<open>
  The captured browse of a phone, twelve records over eight pages, is driven to its end:
  the seven follow-up requests carry the continuation states that the pages ask for, and the
  channel found is 2, that of the third record.
\<close>

theorem browse_driven_to_its_end:
  drives_all_eight_pages_and_requests_correct_continuation_each_time
  by (simp add: drives_all_eight_pages_and_requests_correct_continuation_each_time_def browse_run
      seen)

end
