(* ===== verification/Regression_Units.thy ===== *)
theory Regression_Units
  imports Regression_Codec Public
begin

text \<open>
  The unit tests of the source on literal inputs, and those of its socket, retry policy and
  public types, transcribed as executable predicates with the names of the tests.
\<close>

section \<open>src/codec/descriptor.rs\<close>

definition descriptor_is :: "bytes \<Rightarrow> bytes \<Rightarrow> u8 \<Rightarrow> ElementSize \<Rightarrow> bool" where
  "descriptor_is input rest ty sz \<longleftrightarrow>
     descriptor nom_model input = Inr (rest, \<lparr>element_type = ty, element_size = sz\<rparr>)"

definition nil_has_fixed_zero_size :: bool where
  "nil_has_fixed_zero_size \<longleftrightarrow> descriptor_is [0x00] [] 0 (Fixed 0)"

definition uint_size_index_0_is_one_byte :: bool where
  "uint_size_index_0_is_one_byte \<longleftrightarrow> descriptor_is [0x08] [] 1 (Fixed 1)"

definition uint_size_index_2_is_four_bytes :: bool where
  "uint_size_index_2_is_four_bytes \<longleftrightarrow> descriptor_is [0x0a] [] 1 (Fixed 4)"

definition uuid_size_index_1_is_two_bytes :: bool where
  "uuid_size_index_1_is_two_bytes \<longleftrightarrow> descriptor_is [0x19] [] 3 (Fixed 2)"

definition uuid_size_index_4_is_sixteen_bytes :: bool where
  "uuid_size_index_4_is_sixteen_bytes \<longleftrightarrow> descriptor_is [0x1c] [] 3 (Fixed 16)"

definition sequence_size_index_5_reads_one_byte_length :: bool where
  "sequence_size_index_5_reads_one_byte_length \<longleftrightarrow> descriptor_is [0x35, 0x03] [0x03] 6 VarLen8"

definition sequence_size_index_6_reads_two_byte_length :: bool where
  "sequence_size_index_6_reads_two_byte_length \<longleftrightarrow>
     descriptor_is [0x36, 0x00, 0x10] [0x00, 0x10] 6 VarLen16"

definition text_string_size_index_7_reads_four_byte_length :: bool where
  "text_string_size_index_7_reads_four_byte_length \<longleftrightarrow>
     descriptor_is [0x27, 0x00, 0x00, 0x01, 0x00] [0x00, 0x00, 0x01, 0x00] 4 VarLen32"

definition empty_descriptor_is_an_error :: bool where
  "empty_descriptor_is_an_error \<longleftrightarrow> isl (descriptor nom_model [])"

lemma descriptor_tests:
  nil_has_fixed_zero_size
  uint_size_index_0_is_one_byte
  uint_size_index_2_is_four_bytes
  uuid_size_index_1_is_two_bytes
  uuid_size_index_4_is_sixteen_bytes
  sequence_size_index_5_reads_one_byte_length
  sequence_size_index_6_reads_two_byte_length
  text_string_size_index_7_reads_four_byte_length
  empty_descriptor_is_an_error
  by code_simp+

section \<open>src/codec/element.rs\<close>

definition element_is :: "bytes \<Rightarrow> DataElement \<Rightarrow> bool" where
  "element_is input el \<longleftrightarrow> data_element nom_model input = Some (Inr ([], el))"

definition decodes_a_bare_uint :: bool where
  "decodes_a_bare_uint \<longleftrightarrow> element_is [0x08, 0xff] (UnsignedInt 0xff)"

definition decodes_a_bare_uuid16 :: bool where
  "decodes_a_bare_uuid16 \<longleftrightarrow> element_is [0x19, 0x11, 0x2f] (DataElement.Uuid16 0x112f)"

definition decodes_flat_sequence_of_one_uuid :: bool where
  "decodes_flat_sequence_of_one_uuid \<longleftrightarrow>
     element_is [0x35, 0x03, 0x19, 0x01, 0x00] (Sequence [DataElement.Uuid16 0x0100])"

definition decodes_flat_sequence_of_uuid_and_uint :: bool where
  "decodes_flat_sequence_of_uuid_and_uint \<longleftrightarrow>
     element_is [0x35, 0x05, 0x19, 0x00, 0x03, 0x08, 0x0d]
       (Sequence [DataElement.Uuid16 0x0003, UnsignedInt 0x0d])"

definition decodes_nested_sequence_matching_protocol_descriptor_list_fixture :: bool where
  "decodes_nested_sequence_matching_protocol_descriptor_list_fixture \<longleftrightarrow>
     element_is (hex_pairs ''351135031901003505190003080d3503190008'')
       (Sequence
         [Sequence [DataElement.Uuid16 0x0100],
          Sequence [DataElement.Uuid16 0x0003, UnsignedInt 0x0d],
          Sequence [DataElement.Uuid16 0x0008]])"

definition skips_unknown_element_type_by_size_rule :: bool where
  "skips_unknown_element_type_by_size_rule \<longleftrightarrow> element_is [0x28, 0x01] Unknown"

definition skips_unknown_variable_length_element_type :: bool where
  "skips_unknown_variable_length_element_type \<longleftrightarrow> element_is [0x25, 0x02, 0x68, 0x69] Unknown"

definition sequence_containing_unknown_element_still_parses_siblings :: bool where
  "sequence_containing_unknown_element_still_parses_siblings \<longleftrightarrow>
     element_is [0x35, 0x04, 0x28, 0x01, 0x08, 0x2a] (Sequence [Unknown, UnsignedInt 0x2a])"

definition uuid16_value_reads_two_byte_value :: bool where
  "uuid16_value_reads_two_byte_value \<longleftrightarrow> uuid16_value nom_model [0x11, 0x2f] = Inr ([], 0x112f)"

definition uuid16_value_rejects_wrong_length_body :: bool where
  "uuid16_value_rejects_wrong_length_body \<longleftrightarrow> isl (uuid16_value nom_model [0x11])"

definition element_error :: "bytes \<Rightarrow> bool" where
  "element_error input \<longleftrightarrow>
     (case data_element nom_model input of Some (Inl _) \<Rightarrow> True | _ \<Rightarrow> False)"

definition empty_element_is_an_error :: bool where
  "empty_element_is_an_error \<longleftrightarrow> element_error []"

definition truncated_sequence_is_an_error :: bool where
  "truncated_sequence_is_an_error \<longleftrightarrow> element_error [0x35, 0x05, 0x19, 0x01]"

lemma element_tests:
  decodes_a_bare_uint
  decodes_a_bare_uuid16
  decodes_flat_sequence_of_one_uuid
  decodes_flat_sequence_of_uuid_and_uint
  decodes_nested_sequence_matching_protocol_descriptor_list_fixture
  skips_unknown_element_type_by_size_rule
  skips_unknown_variable_length_element_type
  sequence_containing_unknown_element_still_parses_siblings
  uuid16_value_reads_two_byte_value
  uuid16_value_rejects_wrong_length_body
  empty_element_is_an_error
  truncated_sequence_is_an_error
  by code_simp+

section \<open>src/codec/pdu_header.rs\<close>

definition header_is :: "bytes \<Rightarrow> bytes \<Rightarrow> PduHeader \<Rightarrow> bool" where
  "header_is input rest h \<longleftrightarrow> pdu_header nom_model input = Inr (rest, h)"

definition decodes_service_search_attribute_response_header :: bool where
  "decodes_service_search_attribute_response_header \<longleftrightarrow>
     header_is [0x07, 0x00, 0x00, 0x00, 0x99, 0xde, 0xad] [0xde, 0xad]
       \<lparr>pdu_id = 0x07, transaction_id = 0x0000, parameter_length = 0x0099\<rparr>"

definition decodes_service_search_attribute_request_header :: bool where
  "decodes_service_search_attribute_request_header \<longleftrightarrow>
     header_is [0x06, 0x00, 0x00, 0x00, 0x0f] []
       \<lparr>pdu_id = 0x06, transaction_id = 0x0000, parameter_length = 0x000f\<rparr>"

definition decodes_nonzero_transaction_id_from_continuation_page :: bool where
  "decodes_nonzero_transaction_id_from_continuation_page \<longleftrightarrow>
     header_is [0x06, 0x00, 0x01, 0x00, 0x11] []
       \<lparr>pdu_id = 0x06, transaction_id = 0x0001, parameter_length = 0x0011\<rparr>"

definition truncated_header_is_an_error :: bool where
  "truncated_header_is_an_error \<longleftrightarrow> isl (pdu_header nom_model [0x07, 0x00, 0x00])"

definition empty_header_is_an_error :: bool where
  "empty_header_is_an_error \<longleftrightarrow> isl (pdu_header nom_model [])"

lemma header_tests:
  decodes_service_search_attribute_response_header
  decodes_service_search_attribute_request_header
  decodes_nonzero_transaction_id_from_continuation_page
  truncated_header_is_an_error
  empty_header_is_an_error
  by code_simp+

section \<open>src/codec/extract.rs and src/codec/encode.rs\<close>

definition first_record_attributes :: "bytes \<Rightarrow> AttributeList option" where
  "first_record_attributes fixture =
     (case raw_response nom_model fixture of
        Inr (_, raw) \<Rightarrow>
          (case decode_attribute_lists nom_model (attribute_bytes raw) of
             Some (Inr (_, al # _)) \<Rightarrow> Some al
           | _ \<Rightarrow> None)
      | _ \<Rightarrow> None)"

definition finds_rfcomm_channel_13_in_pbap_fixture :: bool where
  "finds_rfcomm_channel_13_in_pbap_fixture \<longleftrightarrow>
     (case first_record_attributes pbap_response of
        Some attributes \<Rightarrow> rfcomm_channel attributes = Some 13
      | None \<Rightarrow> False)"

definition finds_rfcomm_channel_2_in_map_fixture :: bool where
  "finds_rfcomm_channel_2_in_map_fixture \<longleftrightarrow>
     (case first_record_attributes map_response of
        Some attributes \<Rightarrow> rfcomm_channel attributes = Some 2
      | None \<Rightarrow> False)"

definition returns_none_when_protocol_descriptor_list_is_absent :: bool where
  "returns_none_when_protocol_descriptor_list_is_absent \<longleftrightarrow>
     rfcomm_channel [(0x0000, UnsignedInt 0x1234)] = None"

definition returns_none_when_protocol_descriptor_list_has_no_rfcomm_entry :: bool where
  "returns_none_when_protocol_descriptor_list_has_no_rfcomm_entry \<longleftrightarrow>
     rfcomm_channel [(0x0004, Sequence [Sequence [DataElement.Uuid16 0x0100]])] = None"

definition returns_none_when_protocol_descriptor_list_is_wrong_shape :: bool where
  "returns_none_when_protocol_descriptor_list_is_wrong_shape \<longleftrightarrow>
     rfcomm_channel [(0x0004, UnsignedInt 0xff)] = None"

definition rejects_continuation_state_over_255_bytes :: bool where
  "rejects_continuation_state_over_255_bytes \<longleftrightarrow>
     encode bytes_model
       \<lparr>req_transaction_id = 0, service_uuid16 = 0x1002, maximum_attribute_byte_count = 0xffff,
        attribute_id_range = 0x0000ffff, req_continuation_state = replicate 256 0\<rparr> =
     Inl (ContinuationStateTooLong 256)"

lemma extract_tests:
  finds_rfcomm_channel_13_in_pbap_fixture
  finds_rfcomm_channel_2_in_map_fixture
  returns_none_when_protocol_descriptor_list_is_absent
  returns_none_when_protocol_descriptor_list_has_no_rfcomm_entry
  returns_none_when_protocol_descriptor_list_is_wrong_shape
  by code_simp+

lemma encode_limit_test: rejects_continuation_state_over_255_bytes
  by (simp add: rejects_continuation_state_over_255_bytes_def bytes_std.encode_eq)

section \<open>src/transport/socket.rs\<close>

definition sends_request_and_reads_back_a_single_page_response :: bool where
  "sends_request_and_reads_back_a_single_page_response \<longleftrightarrow>
     (case send_and_receive_pdu peer_tokio pbap_request (peer_of [prompt pbap_response]) of
        (Inr response, client) \<Rightarrow> sent_log client = pbap_request \<and> response = pbap_response
      | _ \<Rightarrow> False)"

definition reads_exactly_one_pdu_even_when_more_bytes_are_pending_in_the_stream :: bool where
  "reads_exactly_one_pdu_even_when_more_bytes_are_pending_in_the_stream \<longleftrightarrow>
     (case send_and_receive_pdu peer_tokio browse_page0_request
        (peer_of [prompt (browse_page0_response @ browse_page1_response)]) of
        (Inr page, client) \<Rightarrow>
          page = browse_page0_response \<and>
          (case send_and_receive_pdu peer_tokio [] client of
             (Inr second, _) \<Rightarrow> second = browse_page1_response
           | _ \<Rightarrow> False)
      | _ \<Rightarrow> False)"

lemma complete_pduI:
  assumes "5 \<le> length bs" "length bs = 5 + unat (u16_from_be_bytes (bs ! 3) (bs ! 4))"
  shows "complete_pdu bs"
proof -
  from assms(1) have "length (take 5 bs) = 5"
    by simp
  then obtain h where h: "take 5 bs = header_bytes h"
    "parameter_length h = u16_from_be_bytes (take 5 bs ! 3) (take 5 bs ! 4)"
    by (rule five_bytes_header)
  have "bs = header_bytes h @ drop 5 bs"
    using h(1) by (metis append_take_drop_id)
  moreover have "length (drop 5 bs) = unat (parameter_length h)"
    using h(2) assms(2) by simp
  ultimately show ?thesis
    unfolding complete_pdu_def by blast
qed

lemma captured_complete:
  "complete_pdu pbap_request" "complete_pdu pbap_response" "complete_pdu browse_page0_request"
  "complete_pdu browse_page0_response" "complete_pdu browse_page1_response"
  by (rule complete_pduI; simp add: pbap_request_def pbap_response_def browse_page0_request_def
        browse_page0_response_def browse_page1_response_def u16_from_be_bytes_def)+

lemma peer_of_fields: "script (peer_of ps) = ps" "unread (peer_of ps) = []"
  by (simp_all add: peer_of_def)

lemma served:
  assumes "complete_pdu req"
  shows "timeout_write_all peer_tokio RESPONSE_TIMEOUT req (peer_of [prompt bs]) =
    (Inr (Inr ()), (peer_of [])\<lparr>sent_log := req, inbox := prompt bs\<rparr>)"
  using complete_pdu_size [OF assms] by (simp add: peer_tokio_def peer_write_def peer_of_def)

lemma served_nothing:
  "script s = [] \<Longrightarrow> unread s = [] \<Longrightarrow>
   timeout_write_all peer_tokio RESPONSE_TIMEOUT [] s = (Inr (Inr ()), s)"
  by (simp add: peer_tokio_def peer_write_def)

lemma socket_tests:
  sends_request_and_reads_back_a_single_page_response
  reads_exactly_one_pdu_even_when_more_bytes_are_pending_in_the_stream
proof -
  note pending = peer_exchange_pending [where pending = "[]", simplified]
  show sends_request_and_reads_back_a_single_page_response
    by (simp add: sends_request_and_reads_back_a_single_page_response_def captured_complete
        pending [OF served])
  show reads_exactly_one_pdu_even_when_more_bytes_are_pending_in_the_stream
    by (simp add: reads_exactly_one_pdu_even_when_more_bytes_are_pending_in_the_stream_def
        captured_complete peer_exchange_pending [OF served] pending [OF served_nothing] peer_of_fields)
qed

section \<open>src/transport/connect.rs\<close>

definition succeeds_immediately_when_first_attempt_succeeds :: bool where
  "succeeds_immediately_when_first_attempt_succeeds \<longleftrightarrow>
     (let (result, world) =
        connect_with_retry adapter_sleep adapter_connect (adapter_of 0 (42 :: u32))
      in result = Inr 42 \<and> attempts world = 1)"

definition succeeds_after_transient_failures_within_the_attempt_budget :: bool where
  "succeeds_after_transient_failures_within_the_attempt_budget \<longleftrightarrow>
     (let (result, world) =
        connect_with_retry adapter_sleep adapter_connect (adapter_of 2 (7 :: u32))
      in result = Inr 7 \<and> attempts world = 3)"

definition gives_up_after_max_attempts :: bool where
  "gives_up_after_max_attempts \<longleftrightarrow>
     (let (result, world) =
        connect_with_retry adapter_sleep adapter_connect (adapter_of 1000 (0 :: u32))
      in result = Inl RetriesExhausted \<and> attempts world = unat MAX_CONNECT_ATTEMPTS)"

lemma connect_tests:
  succeeds_immediately_when_first_attempt_succeeds
  succeeds_after_transient_failures_within_the_attempt_budget
  gives_up_after_max_attempts
  by (simp_all add: succeeds_immediately_when_first_attempt_succeeds_def
      succeeds_after_transient_failures_within_the_attempt_budget_def
      gives_up_after_max_attempts_def connect_with_retry_def upt_rec adapter_connect_def
      adapter_sleep_def adapter_of_def)

section \<open>src/public.rs\<close>

fun str_contains :: "string \<Rightarrow> string \<Rightarrow> bool" where
  "str_contains s [] \<longleftrightarrow> s = []"
| "str_contains s (c # cs) \<longleftrightarrow> take (length s) (c # cs) = s \<or> str_contains s cs"

definition uuid16_constants :: bool where
  "uuid16_constants \<longleftrightarrow> PBAP = Uuid16 0x112f \<and> MAP = Uuid16 0x1132 \<and> PBAP \<noteq> MAP"

definition sdp_error_invalid_address_message_is_descriptive :: bool where
  "sdp_error_invalid_address_message_is_descriptive \<longleftrightarrow>
     str_contains ''invalid Bluetooth address'' (sdp_error_to_string (InvalidAddress ''bad''))"

definition sdp_error_connect_message_is_descriptive :: bool where
  "sdp_error_connect_message_is_descriptive \<longleftrightarrow>
     str_contains ''failed to connect'' (sdp_error_to_string (Connect ''no route''))"

definition sdp_error_decode_message_is_descriptive :: bool where
  "sdp_error_decode_message_is_descriptive \<longleftrightarrow>
     str_contains ''failed to decode'' (sdp_error_to_string (SdpError.Decode ''truncated''))"

lemma public_tests:
  uuid16_constants
  sdp_error_invalid_address_message_is_descriptive
  sdp_error_connect_message_is_descriptive
  sdp_error_decode_message_is_descriptive
  by (simp_all add: uuid16_constants_def PBAP_def MAP_def sdp_error_to_string_def
      sdp_error_invalid_address_message_is_descriptive_def
      sdp_error_connect_message_is_descriptive_def sdp_error_decode_message_is_descriptive_def)

end
