(* ===== verification/Regression_Live.thy ===== *)
theory Regression_Live
  imports Regression_Session Regression_Units
begin

text \<open>
  The tests of \<^verbatim>\<open>src/transport/live.rs\<close> and \<^verbatim>\<open>src/public.rs\<close> that need a Bluetooth device, and those
  of \<^verbatim>\<open>src/public.rs\<close> that feed an invalid address to the crate bluer. They are transcribed over
  any libraries and any environment, since what they need is outside the repository, and
  evaluated on the concrete adapter, whose device serves the captured responses. A test that
  returns a message has failed with it (\<open>Inl\<close>), otherwise its value is that of its assertion.
\<close>

section \<open>src/transport/live.rs\<close>

definition UUID_PBAP :: u16 where "UUID_PBAP = 0x112f"
definition UUID_MAP :: u16 where "UUID_MAP = 0x1132"

text \<open>The value of the environment variable \<^verbatim>\<open>BLUESDP_TEST_DEVICE_ADDR\<close>, if it is set.\<close>

definition test_device_addr :: "string option \<Rightarrow> string" where
  "test_device_addr var = (case var of Some addr \<Rightarrow> addr | None \<Rightarrow> ''AA:BB:CC:DD:EE:FF'')"

definition finds_pbap_channel_on_real_device ::
    "('e, 'b) nom_lib \<Rightarrow> 'm bytes_lib \<Rightarrow> ('s, 'io, 'el) tokio_lib \<Rightarrow> (duration \<Rightarrow> 'w \<Rightarrow> 'w)
     \<Rightarrow> ('addr, 'aty, 'sa, 'ierr, 'cerr, 's, 'w) bluer_lib \<Rightarrow> string option \<Rightarrow> 'w
     \<Rightarrow> (string + bool) option" where
  "finds_pbap_channel_on_real_device N B T sleep L var w =
     (case map_err (\<lambda>e. ''invalid test address: '' @ bluer_invalid_address_to_string L e)
             (bluer_parse L (test_device_addr var)) of
        Inl message \<Rightarrow> Some (Inl message)
      | Inr addr \<Rightarrow>
     (let (connected, w) = connect_sdp sleep L addr w in
      case map_err (\<lambda>e. ''connect_sdp failed: '' @ retries_exhausted_to_string e) connected of
        Inl message \<Rightarrow> Some (Inl message)
      | Inr stream \<Rightarrow>
          map_option (\<lambda>(found, _).
            case map_err (\<lambda>e. ''find_rfcomm_channel failed: '' @ query_error_to_string e) found of
              Inl message \<Rightarrow> Inl message
            | Inr channel \<Rightarrow> Inr (channel = Some 13))
            (find_rfcomm_channel N B T stream UUID_PBAP)))"

definition finds_map_channel_on_real_device ::
    "('e, 'b) nom_lib \<Rightarrow> 'm bytes_lib \<Rightarrow> ('s, 'io, 'el) tokio_lib \<Rightarrow> (duration \<Rightarrow> 'w \<Rightarrow> 'w)
     \<Rightarrow> ('addr, 'aty, 'sa, 'ierr, 'cerr, 's, 'w) bluer_lib \<Rightarrow> string option \<Rightarrow> 'w
     \<Rightarrow> (string + bool) option" where
  "finds_map_channel_on_real_device N B T sleep L var w =
     (case map_err (\<lambda>e. ''invalid test address: '' @ bluer_invalid_address_to_string L e)
             (bluer_parse L (test_device_addr var)) of
        Inl message \<Rightarrow> Some (Inl message)
      | Inr addr \<Rightarrow>
     (let (connected, w) = connect_sdp sleep L addr w in
      case map_err (\<lambda>e. ''connect_sdp failed: '' @ retries_exhausted_to_string e) connected of
        Inl message \<Rightarrow> Some (Inl message)
      | Inr stream \<Rightarrow>
          map_option (\<lambda>(found, _).
            case map_err (\<lambda>e. ''find_rfcomm_channel failed: '' @ query_error_to_string e) found of
              Inl message \<Rightarrow> Inl message
            | Inr channel \<Rightarrow> Inr (channel = Some 2))
            (find_rfcomm_channel N B T stream UUID_MAP)))"

lemma adapter_sdp:
  assumes "length addr = 17" "k < 5"
  shows "connect_sdp adapter_sleep adapter_bluer addr (adapter_of k a) =
    (Inr a, \<lparr>attempts = k + 1, slept = k * 200, refusals = k, answer = a\<rparr>)"
  using adapter_connects [OF assms, of a] assms(1)
  by (auto simp: connects_iff adapter_bluer_def)

text \<open>
  A device within reach that refuses at most four connections and then serves the captured PDU
  passes them.
\<close>

lemma live_tests:
  assumes "length (test_device_addr var) = 17" "k < 5"
  shows "finds_pbap_channel_on_real_device nom_model bytes_model peer_tokio adapter_sleep adapter_bluer
      var (adapter_of k (peer_of [prompt pbap_response])) = Some (Inr True)"
    "finds_map_channel_on_real_device nom_model bytes_model peer_tokio adapter_sleep adapter_bluer
      var (adapter_of k (peer_of [prompt map_response])) = Some (Inr True)"
proof -
  have parse: "bluer_parse adapter_bluer (test_device_addr var) = Inr (test_device_addr var)"
    using assms(1) by (simp add: adapter_bluer_def)
  show "finds_pbap_channel_on_real_device nom_model bytes_model peer_tokio adapter_sleep
      adapter_bluer var (adapter_of k (peer_of [prompt pbap_response])) = Some (Inr True)"
    by (simp add: finds_pbap_channel_on_real_device_def parse adapter_sdp [OF assms] pbap_run)
  show "finds_map_channel_on_real_device nom_model bytes_model peer_tokio adapter_sleep
      adapter_bluer var (adapter_of k (peer_of [prompt map_response])) = Some (Inr True)"
    by (simp add: finds_map_channel_on_real_device_def parse adapter_sdp [OF assms] map_run)
qed

section \<open>src/public.rs\<close>

definition query_rfcomm_channel_rejects_invalid_address ::
    "('e, 'b) nom_lib \<Rightarrow> 'm bytes_lib \<Rightarrow> ('s, 'io, 'el) tokio_lib \<Rightarrow> (duration \<Rightarrow> 'w \<Rightarrow> 'w)
     \<Rightarrow> ('addr, 'aty, 'sa, 'ierr, 'cerr, 's, 'w) bluer_lib \<Rightarrow> 'w \<Rightarrow> bool" where
  "query_rfcomm_channel_rejects_invalid_address N B T sleep L w \<longleftrightarrow>
     (case query_rfcomm_channel N B T sleep L ''not-a-bluetooth-address'' PBAP w of
        Some (Inl (InvalidAddress _), _) \<Rightarrow> True
      | _ \<Rightarrow> False)"

definition query_rfcomm_channel_rejects_empty_address ::
    "('e, 'b) nom_lib \<Rightarrow> 'm bytes_lib \<Rightarrow> ('s, 'io, 'el) tokio_lib \<Rightarrow> (duration \<Rightarrow> 'w \<Rightarrow> 'w)
     \<Rightarrow> ('addr, 'aty, 'sa, 'ierr, 'cerr, 's, 'w) bluer_lib \<Rightarrow> 'w \<Rightarrow> bool" where
  "query_rfcomm_channel_rejects_empty_address N B T sleep L w \<longleftrightarrow>
     (case query_rfcomm_channel N B T sleep L '''' MAP w of
        Some (Inl (InvalidAddress _), _) \<Rightarrow> True
      | _ \<Rightarrow> False)"

definition query_rfcomm_channel_finds_pbap_on_real_device ::
    "('e, 'b) nom_lib \<Rightarrow> 'm bytes_lib \<Rightarrow> ('s, 'io, 'el) tokio_lib \<Rightarrow> (duration \<Rightarrow> 'w \<Rightarrow> 'w)
     \<Rightarrow> ('addr, 'aty, 'sa, 'ierr, 'cerr, 's, 'w) bluer_lib \<Rightarrow> string option \<Rightarrow> 'w
     \<Rightarrow> (string + bool) option" where
  "query_rfcomm_channel_finds_pbap_on_real_device N B T sleep L var w =
     map_option (\<lambda>(found, _).
       case map_err (\<lambda>e. ''query_rfcomm_channel failed: '' @ sdp_error_to_string e) found of
         Inl message \<Rightarrow> Inl message
       | Inr channel \<Rightarrow> Inr (channel = Some 13))
       (query_rfcomm_channel N B T sleep L (test_device_addr var) PBAP w)"

definition query_rfcomm_channel_finds_map_on_real_device ::
    "('e, 'b) nom_lib \<Rightarrow> 'm bytes_lib \<Rightarrow> ('s, 'io, 'el) tokio_lib \<Rightarrow> (duration \<Rightarrow> 'w \<Rightarrow> 'w)
     \<Rightarrow> ('addr, 'aty, 'sa, 'ierr, 'cerr, 's, 'w) bluer_lib \<Rightarrow> string option \<Rightarrow> 'w
     \<Rightarrow> (string + bool) option" where
  "query_rfcomm_channel_finds_map_on_real_device N B T sleep L var w =
     map_option (\<lambda>(found, _).
       case map_err (\<lambda>e. ''query_rfcomm_channel failed: '' @ sdp_error_to_string e) found of
         Inl message \<Rightarrow> Inl message
       | Inr channel \<Rightarrow> Inr (channel = Some 2))
       (query_rfcomm_channel N B T sleep L (test_device_addr var) MAP w)"

text \<open>With any bluer that parses neither text the first two pass, whatever the other libraries do.\<close>

lemma invalid_address_tests:
  "isl (bluer_parse L ''not-a-bluetooth-address'') \<Longrightarrow>
   query_rfcomm_channel_rejects_invalid_address N B T sleep L w"
  "isl (bluer_parse L '''') \<Longrightarrow> query_rfcomm_channel_rejects_empty_address N B T sleep L w"
  by (auto simp: query_rfcomm_channel_rejects_invalid_address_def
      query_rfcomm_channel_rejects_empty_address_def isl_iff query_invalid)

lemma invalid_address_tests_pass:
  "query_rfcomm_channel_rejects_invalid_address N B T sleep adapter_bluer w"
  "query_rfcomm_channel_rejects_empty_address N B T sleep adapter_bluer w"
  by (rule invalid_address_tests; simp add: adapter_bluer_def)+

lemma public_device_tests:
  assumes "length (test_device_addr var) = 17" "k < 5"
  shows "query_rfcomm_channel_finds_pbap_on_real_device nom_model bytes_model peer_tokio adapter_sleep
      adapter_bluer var (adapter_of k (peer_of [prompt pbap_response])) = Some (Inr True)"
    "query_rfcomm_channel_finds_map_on_real_device nom_model bytes_model peer_tokio adapter_sleep
      adapter_bluer var (adapter_of k (peer_of [prompt map_response])) = Some (Inr True)"
  by (simp_all add: query_rfcomm_channel_finds_pbap_on_real_device_def
      query_rfcomm_channel_finds_map_on_real_device_def
      query_connected [OF adapter_connects [OF assms]] PBAP_def MAP_def pbap_run map_run)

text \<open>
  Without the variable they use the default address; a device that refuses five connections
  fails them, with the message of the retry policy.
\<close>

lemma device_tests_by_default:
  "query_rfcomm_channel_finds_pbap_on_real_device nom_model bytes_model peer_tokio adapter_sleep
     adapter_bluer None (adapter_of 4 (peer_of [prompt pbap_response])) = Some (Inr True)"
  "finds_map_channel_on_real_device nom_model bytes_model peer_tokio adapter_sleep
     adapter_bluer None (adapter_of 0 (peer_of [prompt map_response])) = Some (Inr True)"
  by (rule public_device_tests live_tests; simp add: test_device_addr_def)+

lemma device_test_out_of_reach:
  "finds_pbap_channel_on_real_device nom_model bytes_model peer_tokio adapter_sleep
     adapter_bluer None (adapter_of 5 (peer_of [prompt pbap_response])) =
   Some (Inl ''connect_sdp failed: connection failed after 5 attempts'')"
  by (simp add: finds_pbap_channel_on_real_device_def test_device_addr_def adapter_bluer_def
      connect_sdp_def connect_with_retry_def upt_rec adapter_connect_def adapter_sleep_def
      adapter_of_def SDP_PSM_def retries_message)

end
