(* ===== verification/Spec2Isabelle.thy ===== *)
theory Spec2Isabelle
  imports Properties_Codec Properties_Transport Properties_Public Regression_Live
begin

text \<open>
  \<^bold>\<open>A verification development for bluesdp\<close>

  bluesdp is a Rust client of the Bluetooth Service Discovery Protocol with one entry point: given
  a device address and a 16-bit service UUID, it connects to the device's SDP server, asks for the
  attributes of the matching service records, follows the server's continuation state from page
  to page, and returns the RFCOMM channel of the first record that has one. This development
  models every module of \<^verbatim>\<open>src/src\<close> that has code of its own.

  \<^bold>\<open>The parts and their theories\<close>

  The codec is pure. \<open>Descriptor\<close> (\<^verbatim>\<open>codec/descriptor.rs\<close>) splits a descriptor byte and applies
  the sizing rule. \<open>Element\<close> (\<^verbatim>\<open>codec/element.rs\<close>) is the recursive decoder \<open>data_element\<close> with
  the loop \<open>sequence_contents\<close>, and the wire format it is measured against, an inductive relation
  with a size table and type codes of its own, none of the crate's; \<open>Element_Correct\<close> proves the two
  equal and \<open>Element_Encoding\<close> adds a reference encoder (the crate has none) that the decoder inverts
  and that covers what it decodes, size and depth bounds, and errors inside sequences. \<open>Pdu_Header\<close> (\<^verbatim>\<open>codec/pdu_header.rs\<close>) and \<open>Response\<close>
  (\<^verbatim>\<open>codec/response.rs\<close>) frame a response and interpret the reassembled attribute bytes.
  \<open>Extract\<close> (\<^verbatim>\<open>codec/extract.rs\<close>) finds the channel in a record. \<open>Encode\<close>
  (\<^verbatim>\<open>codec/encode.rs\<close>) builds the one PDU the crate sends.

  The transport acts on state that is passed explicitly. \<open>Socket\<close> (\<^verbatim>\<open>transport/socket.rs\<close>)
  exchanges one request for one PDU over a stream state. \<open>Session\<close> (\<^verbatim>\<open>transport/session.rs\<close>)
  composes the codec with it into the pagination loop and the query, and \<open>Session_Machine\<close> is the
  same query as a small-step relation, one exchange per step, on the local variables that are
  live between exchanges. \<open>Connect\<close>
  (\<^verbatim>\<open>transport/connect.rs\<close>) is the retry policy over a world in which connections are attempted,
  \<open>Live\<close> (\<^verbatim>\<open>transport/live.rs\<close>) applies it to the SDP server's address, and \<open>Public\<close>
  (\<^verbatim>\<open>public.rs\<close>) is the entry point, which threads world and stream through all of them.

  \<open>Sdp_Prelude\<close> holds what they share: the integer types as words of their width, Rust's
  \<^verbatim>\<open>Result\<close> as a sum with \<^verbatim>\<open>?\<close> as \<open>propagate\<close>, the checked narrowings and byte conversions, and
  the iterator functions the source calls.

  \<^bold>\<open>Code that is not in the repository\<close>

  The crates nom, bytes, tokio and bluer are parameters. What the source calls of each is a record
  (\<open>nom_lib\<close>, \<open>bytes_lib\<close>, \<open>tokio_lib\<close>, \<open>bluer_lib\<close>), and what it relies on is a locale:
  \<open>nom_contract\<close> (the complete parsers and bit parsers), \<open>bytes_contract\<close> (a buffer appends),
  \<open>byte_stream\<close> and its extensions \<open>timed_byte_stream\<close> and \<open>finite_stream\<close> (what a completed, a
  failed and an abandoned read or write has moved, how long it took, how much is left to come). The
  clock of \<open>timed_byte_stream\<close> has a parameter \<open>lag\<close>: an operation under a timer may overrun it, as
  tokio documents, and time may pass before the next one begins, by at most that much together.
  \<open>sdp_codec\<close> joins the first two and \<open>sdp_client\<close> adds a stream to them, \<open>counted_world\<close> is the world of the retry policy. Nothing is
  assumed of bluer. Each contract has an instance in the theory that needs it: \<open>nom_model\<close>,
  \<open>bytes_model\<close>, the scripted peer of \<open>Scripted_Peer\<close>, which is the server task of the source's
  tests with a delay for every byte, a slow link on which every operation, a write too, takes a
  time of its own, the adapter that refuses a number of connections, the SDP
  server of \<open>Sdp_Server\<close>, which parses the requests it gets and pages its records by position, so
  that it answers rightly only a client that echoes its continuation state, and \<open>babbler\<close>, a peer
  that never stops.

  \<^bold>\<open>What the lemmas show\<close>

  \<open>Element_Correct\<close>: the decoder accepts exactly the wire format, always returns, and satisfies
  the equations of the source. \<open>Response\<close>: framing and interpretation as equivalences.
  \<open>Session_Correct\<close>: a query implements the big-step relation \<open>query_run\<close>, whose rules are the
  ways a page can go, and diverges exactly on the coinductive \<open>endless\<close>; what a run, complete or
  failed, sends and receives and how long it takes. \<open>Session_Peer\<close>: on a stream with a finite supply every query
  returns; against a device that encodes its records in any way the wire format has and splits them
  into pages in any way, it reports the first channel; \<open>Sdp_Server\<close> proves the same against a
  server that reads the requests, for any page size but 0, with the number of pages, and says which
  error responses pass for a page; the server holds back what would not fit a PDU, so a page has at
  most 65528 attribute bytes, and its positions are four bytes, so its database has fewer than 2 to
  the 32nd.
  \<open>Answer\<close> specifies an answer by the wire format alone, which record offers which channel, and
  proves that interpretation and search together compute it.
  \<open>Session_Machine\<close>: every state the machine reaches satisfies an invariant that ties the local
  variables to the bytes on the wire, and the machine and the recursive functions are equal, so that
  the invariant is one of the loop of the query.
  \<open>Connect\<close>: the first success of at most five attempts. \<open>Public\<close>: the causes of every
  outcome, and that every answer is the one the received bytes give. The properties proper are in \<open>Properties_Codec\<close>, \<open>Properties_Transport\<close> and
  \<open>Properties_Public\<close>, over any libraries that keep the contracts, each with an instance.

  \<open>Fixtures\<close>, \<open>Regression_Codec\<close>, \<open>Regression_Session\<close> and \<open>Regression_Units\<close> transcribe the
  tests of the source, with the captured PDUs they read, and evaluate them in the model.
  \<open>Regression_Live\<close> does so for the tests that need a device or the crate bluer: they are
  predicates over any libraries and any environment variable, evaluated on the adapter.

  \<^bold>\<open>Bounds and fuel\<close>

  \<open>data_element\<close> and \<open>sequence_contents\<close> run on fuel, twice the input's length plus one or two: each
  call and each turn of the loop consumes a byte or ends, which \<open>fuel_total\<close> turns into the proof
  that fuel never runs out, so their \<open>None\<close> does not occur. The pagination loop has no bound in
  the source and none here: \<open>fetch_pages\<close> is a \<open>partial_function\<close>, and a query's \<open>None\<close> is a query
  that never returns. The regression on the captured browse evaluates its records with a fuel
  of 64, which none of them exhausts. A \<^verbatim>\<open>usize\<close> is a natural number, since the values it holds
  are lengths of buffers in memory; a 32-bit length converts to it without loss, as on the
  64-bit targets of BlueZ.

  \<^bold>\<open>What is not modelled\<close>

  \<^verbatim>\<open>lib.rs\<close> and the \<^verbatim>\<open>mod.rs\<close> files only declare modules and re-export names. What
  a real Bluetooth adapter does is a parameter. Scheduling is not modelled: an \<^verbatim>\<open>await\<close> is the
  operation's effect on the stream, as the crate awaits each operation before the next and shares
  nothing between tasks. Allocation and the stack are unbounded in the model; how deep the
  decoder's recursion can be driven is a theorem.
\<close>

end
